(* ===== verification/Prelude.thy ===== *)
theory Prelude
  imports Main "HOL-Library.Word" "HOL-Library.Signed_Division" "HOL-Library.Char_ord"
    "HOL-Library.List_Lexorder" "HOL-Library.Code_Target_Numeral"
begin

text \<open>
  What every component shares: the machine integers of Go (\<open>int64\<close>, \<open>uint64\<close>, \<open>int32\<close>)
  as words with the signed reading \<open>sint\<close>, Go's truncating division on them, and the
  facts that let the component proofs move between words and mathematical integers.
\<close>

section \<open>Collections of facts\<close>

named_theorems kept \<open>invariants of structs kept by every field of their decoders\<close>
named_theorems zero_ok \<open>invariants of structs hold of their zero values\<close>

section \<open>Machine integers\<close>

type_synonym i64 = "64 word"
type_synonym u64 = "64 word"
type_synonym i32 = "32 word"

lemma i64_bounds:
  fixes m :: i64
  shows "- 9223372036854775808 \<le> sint m" and "sint m < 9223372036854775808"
  using sint_ge [of m] sint_lt [of m] by simp_all

lemma u64_bound:
  fixes u :: u64
  shows "uint u < 18446744073709551616" and "unat u < 18446744073709551616"
  using uint_bounded [of u] unsigned_less [of u, where 'a = nat] by simp_all

lemma sint_of_int_i64 [simp]:
  "- 9223372036854775808 \<le> k \<Longrightarrow> k < 9223372036854775808 \<Longrightarrow>
   sint (word_of_int k :: i64) = k"
  by (simp add: sint_sbintrunc' signed_take_bit_int_eq_self)

lemma i64_eqI: "sint (a :: i64) = sint b \<Longrightarrow> a = b"
  by (simp add: signed_word_eqI)

lemma i64_eq_iff: "(a :: i64) = b \<longleftrightarrow> sint a = sint b"
  by (auto intro: i64_eqI)

lemma sint_i64_0 [simp]: "sint (0 :: i64) = 0"
  by simp

lemma word_of_int_sint_i64 [simp]: "word_of_int (sint (m :: i64)) = m"
  by simp

lemma uint_of_int_u64: "0 \<le> k \<Longrightarrow> k < 18446744073709551616 \<Longrightarrow> uint (word_of_int k :: u64) = k"
  by (simp add: uint_word_of_int)

lemma unat_nonneg_i64:
  assumes "0 \<le> sint (m :: i64)"
  shows "uint m = sint m" and "unat m = nat (sint m)" and "int (unat m) = sint m"
proof -
  show u: "uint m = sint m"
    using uint_of_int_u64 [of "sint m"] assms i64_bounds [of m] by simp
  then show "unat m = nat (sint m)" by (simp add: unat_eq_nat_uint)
  with assms show "int (unat m) = sint m" by simp
qed

lemma sint_word_of_nat_i64: "i < 9223372036854775808 \<Longrightarrow> sint (word_of_nat i :: i64) = int i"
  using sint_of_int_i64 [of "int i"] by simp

text \<open>Sums and differences that stay in the signed range are the mathematical ones.\<close>

lemma sint_add_i64:
  fixes a b :: i64
  assumes "- 9223372036854775808 \<le> sint a + sint b" "sint a + sint b < 9223372036854775808"
  shows "sint (a + b) = sint a + sint b"
proof -
  have "a + b = word_of_int (sint a + sint b)" by simp
  with assms show ?thesis by (simp del: of_int_add)
qed

lemma sint_minus_i64:
  fixes a :: i64
  assumes "sint a \<noteq> - 9223372036854775808"
  shows "sint (- a) = - sint a"
proof -
  have "- a = word_of_int (- sint a)" by simp
  moreover have "- sint a < 9223372036854775808" using assms i64_bounds [of a] by linarith
  moreover have "- 9223372036854775808 \<le> - sint a" using i64_bounds [of a] by linarith
  ultimately show ?thesis by (simp del: of_int_minus)
qed

lemma sint_diff_i64:
  fixes a b :: i64
  assumes "- 9223372036854775808 \<le> sint a - sint b" "sint a - sint b < 9223372036854775808"
  shows "sint (a - b) = sint a - sint b"
proof -
  have "a - b = word_of_int (sint a - sint b)" by simp
  with assms show ?thesis by (simp del: of_int_diff)
qed

lemma word_of_int_sum_list:
  "(word_of_int (sum_list xs) :: i64) = sum_list (map word_of_int xs)"
  by (induction xs) simp_all

section \<open>Go's integer division\<close>

text \<open>
  Go's \<open>/\<close> and \<open>%\<close> truncate towards zero, and the most negative value divided by \<open>-1\<close> wraps.
  \<open>sdiv\<close> and \<open>smod\<close> on \<open>int\<close> are the truncating operations.
\<close>

definition go_quo :: "i64 \<Rightarrow> i64 \<Rightarrow> i64" where
  "go_quo a b = word_of_int (sint a sdiv sint b)"

definition go_rem :: "i64 \<Rightarrow> i64 \<Rightarrow> i64" where
  "go_rem a b = word_of_int (sint a smod sint b)"

lemma sdiv_smod_pos:
  fixes a b :: int
  assumes "0 < b"
  shows "a = b * (a sdiv b) + a smod b" and "\<bar>a smod b\<bar> < b" and "\<bar>a sdiv b\<bar> \<le> \<bar>a\<bar>"
    and "0 \<le> a \<Longrightarrow> 0 \<le> a smod b" and "a \<le> 0 \<Longrightarrow> a smod b \<le> 0"
    and "0 \<le> a \<Longrightarrow> 0 \<le> a sdiv b" and "a \<le> 0 \<Longrightarrow> a sdiv b \<le> 0"
proof -
  show "a = b * (a sdiv b) + a smod b" by (simp add: mult_sdiv_smod_eq)
  show "\<bar>a smod b\<bar> < b" using assms
    by (auto simp: smod_int_alt_def abs_mult sgn_if)
  have "\<bar>a\<bar> div b \<le> \<bar>a\<bar>" using assms by (simp add: zdiv_mono2 [of "\<bar>a\<bar>" 1 b, simplified])
  moreover have "\<bar>a sdiv b\<bar> \<le> \<bar>a\<bar> div b" using assms
    by (simp add: signed_divide_int_def abs_mult sgn_if pos_imp_zdiv_nonneg_iff)
  ultimately show "\<bar>a sdiv b\<bar> \<le> \<bar>a\<bar>" by linarith
  show "0 \<le> a smod b" if "0 \<le> a" using that assms by (simp add: smod_int_alt_def sgn_if)
  show "a smod b \<le> 0" if "a \<le> 0" using that assms by (simp add: smod_int_alt_def sgn_if)
  show "0 \<le> a sdiv b" if "0 \<le> a" using that assms
    by (simp add: signed_divide_int_def sgn_if pos_imp_zdiv_nonneg_iff)
  show "a sdiv b \<le> 0" if "a \<le> 0" using that assms
    by (simp add: signed_divide_int_def sgn_if pos_imp_zdiv_nonneg_iff)
qed

lemma sint_go_quo:
  assumes "0 < sint b"
  shows "sint (go_quo a b) = sint a sdiv sint b"
proof -
  have "\<bar>sint a sdiv sint b\<bar> \<le> \<bar>sint a\<bar>" by (rule sdiv_smod_pos(3) [OF assms])
  moreover have "sint a \<le> 0 \<Longrightarrow> sint a sdiv sint b \<le> 0" by (rule sdiv_smod_pos(7) [OF assms])
  ultimately have "- 9223372036854775808 \<le> sint a sdiv sint b"
    and "sint a sdiv sint b < 9223372036854775808"
    using i64_bounds [of a] by linarith+
  then show ?thesis by (simp add: go_quo_def)
qed

lemma sint_go_rem:
  assumes "0 < sint b"
  shows "sint (go_rem a b) = sint a smod sint b"
proof -
  have "\<bar>sint a smod sint b\<bar> < sint b" by (rule sdiv_smod_pos(2) [OF assms])
  then have "- 9223372036854775808 \<le> sint a smod sint b"
    and "sint a smod sint b < 9223372036854775808"
    using i64_bounds [of b] by linarith+
  then show ?thesis by (simp add: go_rem_def)
qed

end
