(* ===== verification/Go_Strings.thy ===== *)
theory Go_Strings
  imports Prelude
begin

text \<open>
  The string functions of Go's standard library that the client uses. A Go string is a
  sequence of bytes and so is an Isabelle \<open>string\<close> here: \<open>length\<close> counts bytes. Modelled are
  decimal rendering (\<open>strconv.FormatInt\<close>, \<open>FormatUint\<close>, \<open>Itoa\<close> and the \<open>%0nd\<close> verb), decimal
  parsing (\<open>strconv.ParseInt\<close>, \<open>Atoi\<close>), \<open>strings.Cut\<close>, \<open>Repeat\<close>, \<open>TrimPrefix\<close>,
  \<open>TrimSuffix\<close>, \<open>HasSuffix\<close>, \<open>Contains\<close>, \<open>Join\<close> and \<open>utf8.RuneCountInString\<close>.
\<close>

section \<open>Decimal digits\<close>

definition digit_char :: "nat \<Rightarrow> char" where
  "digit_char d = char_of (48 + d)"

definition is_digit :: "char \<Rightarrow> bool" where
  "is_digit c \<longleftrightarrow> 48 \<le> (of_char c :: nat) \<and> (of_char c :: nat) \<le> 57"

definition digit_val :: "char \<Rightarrow> nat" where
  "digit_val c = of_char c - 48"

lemma digit_char_props [simp]:
  assumes "d < 10"
  shows "is_digit (digit_char d)" and "digit_val (digit_char d) = d"
  using assms by (simp_all add: is_digit_def digit_val_def digit_char_def)

lemma digit_val_less [simp]: "is_digit c \<Longrightarrow> digit_val c < 10"
  by (auto simp: is_digit_def digit_val_def)

lemma digit_char_val [simp]: "is_digit c \<Longrightarrow> digit_char (digit_val c) = c"
  by (auto simp: is_digit_def digit_val_def digit_char_def)

lemma char_of_eq_iff: "n < 256 \<Longrightarrow> char_of n = c \<longleftrightarrow> n = (of_char c :: nat)"
  by (metis char_of_char of_char_of mod_less)

lemma digit_char_eval [simp]:
  "digit_char 0 = CHR ''0''" "digit_char 1 = CHR ''1''" "digit_char (Suc 0) = CHR ''1''"
  "digit_char 2 = CHR ''2''" "digit_char 3 = CHR ''3''" "digit_char 4 = CHR ''4''"
  "digit_char 5 = CHR ''5''" "digit_char 6 = CHR ''6''" "digit_char 7 = CHR ''7''"
  "digit_char 8 = CHR ''8''" "digit_char 9 = CHR ''9''"
  by (simp_all add: digit_char_def char_of_eq_iff)

lemma is_digit_neq [simp]:
  "is_digit c \<Longrightarrow> c \<noteq> CHR ''-''" "is_digit c \<Longrightarrow> c \<noteq> CHR ''+''" "is_digit c \<Longrightarrow> c \<noteq> CHR ''.''"
  "is_digit c \<Longrightarrow> c \<noteq> CHR 0x22" "is_digit c \<Longrightarrow> c \<noteq> CHR ''c''" "is_digit c \<Longrightarrow> c \<noteq> CHR ''n''"
  by (auto simp: is_digit_def)

lemma is_digit_0 [simp]: "is_digit CHR ''0''" and digit_val_0 [simp]: "digit_val CHR ''0'' = 0"
  by (simp_all add: is_digit_def digit_val_def)

lemma is_digit_dash [simp]: "\<not> is_digit CHR ''-''" and is_digit_dot [simp]: "\<not> is_digit CHR ''.''"
  and is_digit_plus [simp]: "\<not> is_digit CHR ''+''"
  by (simp_all add: is_digit_def)

section \<open>Rendering a natural number\<close>

fun dec_nat :: "nat \<Rightarrow> string" where
  "dec_nat n = (if n < 10 then [digit_char n] else dec_nat (n div 10) @ [digit_char (n mod 10)])"

declare dec_nat.simps [simp del]

definition digits_val :: "string \<Rightarrow> nat" where
  "digits_val s = foldl (\<lambda>a c. 10 * a + digit_val c) 0 s"

lemma digits_val_foldl: "foldl (\<lambda>a c. 10 * a + digit_val c) n s = n * 10 ^ length s + digits_val s"
proof (induction s arbitrary: n)
  case (Cons c s)
  show ?case
    using Cons.IH [of "10 * n + digit_val c"] Cons.IH [of "digit_val c"]
    by (simp add: digits_val_def algebra_simps del: foldl_append)
qed (simp add: digits_val_def)

lemma digits_val_Nil [simp]: "digits_val [] = 0"
  by (simp add: digits_val_def)

lemma digits_val_append [simp]: "digits_val (s @ t) = digits_val s * 10 ^ length t + digits_val t"
  using digits_val_foldl [of "digits_val s" t] by (simp add: digits_val_def)

lemma digits_val_Cons: "digits_val (c # s) = digit_val c * 10 ^ length s + digits_val s"
  using digits_val_append [of "[c]" s] by (simp add: digits_val_def)

lemma digits_val_single [simp]: "digits_val [c] = digit_val c"
  by (simp add: digits_val_def)

lemma digits_val_replicate_0 [simp]: "digits_val (replicate k CHR ''0'') = 0"
  by (induction k) (simp_all add: digits_val_Cons)

lemma digits_val_bound: "list_all is_digit s \<Longrightarrow> digits_val s < 10 ^ length s"
proof (induction s)
  case (Cons c s)
  then have "digit_val c * 10 ^ length s + digits_val s < (digit_val c + 1) * 10 ^ length s" by simp
  also have "\<dots> \<le> 10 * 10 ^ length s"
    using Cons.prems digit_val_less [of c] by (intro mult_right_mono) (auto simp del: digit_val_less)
  finally show ?case by (simp add: digits_val_Cons)
qed simp

lemma digits_val_dec_nat [simp]: "digits_val (dec_nat n) = n"
proof (induction n rule: dec_nat.induct)
  case (1 n)
  then show ?case by (subst dec_nat.simps) simp
qed

lemma dec_nat_digits [simp]: "list_all is_digit (dec_nat n)"
proof (induction n rule: dec_nat.induct)
  case (1 n)
  then show ?case by (subst dec_nat.simps) simp
qed

lemma dec_nat_set: "c \<in> set (dec_nat n) \<Longrightarrow> is_digit c"
  using dec_nat_digits [of n] by (auto simp: list_all_iff)

lemma dec_nat_nonempty [simp]: "dec_nat n \<noteq> []"
  by (subst dec_nat.simps) simp

lemma dec_nat_inj [simp]: "dec_nat m = dec_nat n \<longleftrightarrow> m = n"
  using digits_val_dec_nat by metis

lemma dec_nat_small: "n < 10 \<Longrightarrow> dec_nat n = [digit_char n]"
  by (simp add: dec_nat.simps)

lemma length_dec_nat_le: "n < 10 ^ k \<Longrightarrow> 0 < k \<Longrightarrow> length (dec_nat n) \<le> k"
proof (induction k arbitrary: n)
  case (Suc k)
  show ?case
  proof (cases "n < 10")
    case True
    then show ?thesis by (simp add: dec_nat_small)
  next
    case False
    with Suc.prems have "n div 10 < 10 ^ k" and "0 < k"
      by (auto simp: less_mult_imp_div_less mult.commute intro: Nat.gr0I)
    with Suc.IH have "length (dec_nat (n div 10)) \<le> k" by simp
    with False show ?thesis by (subst dec_nat.simps) simp
  qed
qed simp

lemma length_dec_nat_pos [simp]: "0 < length (dec_nat n)"
  by simp

lemma dec_nat_no_leading_zero: "0 < n \<Longrightarrow> hd (dec_nat n) \<noteq> CHR ''0''"
proof (induction n rule: dec_nat.induct)
  case (1 n)
  show ?case
  proof (cases "n < 10")
    case True
    with "1.prems" have "digit_val (digit_char n) \<noteq> 0" by simp
    then have "digit_char n \<noteq> CHR ''0''" by (metis digit_val_0)
    with True show ?thesis by (simp add: dec_nat_small)
  next
    case False
    with "1.IH" have "hd (dec_nat (n div 10)) \<noteq> CHR ''0''" by simp
    with False show ?thesis by (subst dec_nat.simps) simp
  qed
qed

text \<open>Left-padding with zeros to a width: \<open>strings.Repeat("0", w - len(s)) + s\<close>.\<close>

definition zero_pad :: "nat \<Rightarrow> string \<Rightarrow> string" where
  "zero_pad w s = replicate (w - length s) CHR ''0'' @ s"

lemma zero_pad_val [simp]: "digits_val (zero_pad w s) = digits_val s"
  by (simp add: zero_pad_def)

lemma zero_pad_digits [simp]: "list_all is_digit (zero_pad w s) \<longleftrightarrow> list_all is_digit s"
  by (auto simp: zero_pad_def list_all_iff)

lemma length_zero_pad: "length (zero_pad w s) = max w (length s)"
  by (simp add: zero_pad_def)

lemma zero_pad_length [simp]: "n < 10 ^ k \<Longrightarrow> 0 < k \<Longrightarrow> length (zero_pad k (dec_nat n)) = k"
  using length_dec_nat_le [of n k] by (simp add: length_zero_pad)

text \<open>
  A digit string is determined by its length and its value, so a zero-padded rendering is the
  only digit string of that width with that value.
\<close>

lemma digits_unique:
  "length s = length t \<Longrightarrow> list_all is_digit s \<Longrightarrow> list_all is_digit t \<Longrightarrow>
   digits_val s = digits_val t \<Longrightarrow> s = t"
proof (induction s t rule: list_induct2)
  case (Cons c s d t)
  have bounds: "digits_val s < 10 ^ length s" "digits_val t < 10 ^ length s"
    using Cons.prems Cons.hyps digits_val_bound [of s] digits_val_bound [of t] by auto
  have eq: "digit_val c * 10 ^ length s + digits_val s = digit_val d * 10 ^ length s + digits_val t"
    using Cons.prems Cons.hyps by (simp add: digits_val_Cons)
  have "digit_val c = digit_val d"
    using arg_cong [OF eq, of "\<lambda>n. n div 10 ^ length s"] bounds by simp
  moreover from this eq have "digits_val s = digits_val t" by simp
  ultimately show ?case using Cons
    by (metis digit_char_val list.pred_inject(2))
qed simp

lemma zero_pad_dec_nat_digits_val:
  assumes "list_all is_digit s" and "0 < length s"
  shows "zero_pad (length s) (dec_nat (digits_val s)) = s"
  using assms digits_val_bound [of s] by (intro digits_unique) simp_all

section \<open>Rendering an integer\<close>

text \<open>\<open>strconv.FormatInt(k, 10)\<close>.\<close>

definition dec_int :: "int \<Rightarrow> string" where
  "dec_int k = (if k < 0 then ''-'' @ dec_nat (nat (- k)) else dec_nat (nat k))"

text \<open>
  The verb \<open>%0wd\<close>: the sign is written first and counts towards the width.
\<close>

definition fmt_0d :: "nat \<Rightarrow> int \<Rightarrow> string" where
  "fmt_0d w k = (if k < 0 then ''-'' @ zero_pad (w - 1) (dec_nat (nat (- k)))
                 else zero_pad w (dec_nat (nat k)))"

lemma dec_int_inj [simp]: "dec_int a = dec_int b \<longleftrightarrow> a = b"
proof
  assume eq: "dec_int a = dec_int b"
  have "CHR ''-'' \<noteq> hd (dec_nat n)" for n
    using dec_nat_set [of "hd (dec_nat n)" n] by (metis is_digit_dash hd_in_set dec_nat_nonempty)
  then show "a = b" using eq
    by (auto simp: dec_int_def split: if_splits) (metis list.sel(1))+
qed simp

section \<open>Parsing an integer\<close>

datatype num_error = ErrSyntax | ErrRange

text \<open>
  \<open>strconv.ParseUint(s, 10, 64)\<close>: bytes left to right; the first byte that is no digit is a
  syntax error, the first digit that takes the value past \<open>2^64 - 1\<close> a range error, and the
  bytes after it are not looked at.
\<close>

fun parse_uint_loop :: "nat \<Rightarrow> string \<Rightarrow> num_error + nat" where
  "parse_uint_loop n [] = Inr n"
| "parse_uint_loop n (c # s) =
     (if \<not> is_digit c then Inl ErrSyntax
      else if 18446744073709551616 \<le> 10 * n + digit_val c then Inl ErrRange
      else parse_uint_loop (10 * n + digit_val c) s)"

definition ParseUint :: "string \<Rightarrow> num_error + nat" where
  "ParseUint s = (if s = [] then Inl ErrSyntax else parse_uint_loop 0 s)"

text \<open>\<open>strconv.ParseInt(s, 10, 64)\<close>, and \<open>strconv.Atoi\<close> on a 64-bit platform.\<close>

definition ParseInt :: "string \<Rightarrow> num_error + i64" where
  "ParseInt s =
     (case s of
        [] \<Rightarrow> Inl ErrSyntax
      | c # t \<Rightarrow>
          let neg = (c = CHR ''-'');
              body = (if c = CHR ''+'' \<or> c = CHR ''-'' then t else s)
          in (case ParseUint body of
                Inl ErrSyntax \<Rightarrow> Inl ErrSyntax
              | Inl ErrRange \<Rightarrow> Inl ErrRange
              | Inr un \<Rightarrow>
                  if \<not> neg \<and> 9223372036854775808 \<le> un then Inl ErrRange
                  else if neg \<and> 9223372036854775808 < un then Inl ErrRange
                  else Inr (if neg then - of_nat un else of_nat un)))"

lemma parse_uint_loop_Inr:
  "parse_uint_loop n s = Inr v \<longleftrightarrow>
   list_all is_digit s \<and> v = n * 10 ^ length s + digits_val s \<and> (s = [] \<or> v < 18446744073709551616)"
proof (induction s arbitrary: n)
  case (Cons c s)
  have mono: "10 * n + digit_val c \<le> (10 * n + digit_val c) * 10 ^ length s + digits_val s"
    by (rule trans_le_add1) simp
  have val: "(10 * n + digit_val c) * 10 ^ length s + digits_val s
           = n * 10 ^ length (c # s) + digits_val (c # s)"
    by (simp add: digits_val_Cons algebra_simps)
  show ?case
  proof (cases "is_digit c")
    case False
    then show ?thesis by simp
  next
    case True
    show ?thesis
    proof (cases "18446744073709551616 \<le> 10 * n + digit_val c")
      case big: True
      with mono val have "18446744073709551616 \<le> n * 10 ^ length (c # s) + digits_val (c # s)"
        by linarith
      with True big show ?thesis by auto
    next
      case False
      with True have step: "parse_uint_loop n (c # s) = parse_uint_loop (10 * n + digit_val c) s"
        by simp
      show ?thesis
        unfolding step Cons.IH val using True False mono val by auto
    qed
  qed
qed auto

lemma ParseUint_Inr:
  "ParseUint s = Inr v \<longleftrightarrow>
   s \<noteq> [] \<and> list_all is_digit s \<and> v = digits_val s \<and> v < 18446744073709551616"
  by (auto simp: ParseUint_def parse_uint_loop_Inr)

lemma list_all_Cons_digit: "list_all is_digit (c # s) \<Longrightarrow> c \<noteq> CHR ''-'' \<and> c \<noteq> CHR ''+''"
  by auto

text \<open>Unsigned text: the value, when it is below \<open>2^63\<close>.\<close>

lemma ParseInt_unsigned:
  assumes "s \<noteq> []" and "hd s \<noteq> CHR ''+''" and "hd s \<noteq> CHR ''-''"
  shows "ParseInt s = Inr v \<longleftrightarrow>
         list_all is_digit s \<and> digits_val s < 9223372036854775808 \<and> v = of_nat (digits_val s)"
proof -
  obtain c t where s: "s = c # t" using assms(1) by (cases s) auto
  have "ParseInt s = (case ParseUint s of Inl e \<Rightarrow> Inl e
    | Inr un \<Rightarrow> if 9223372036854775808 \<le> un then Inl ErrRange else Inr (of_nat un))"
    using assms s by (auto simp: ParseInt_def Let_def split: sum.splits num_error.splits)
  then show ?thesis
    using ParseUint_Inr [of s] assms(1) by (auto split: sum.splits) fastforce+
qed

lemma ParseInt_minus:
  "ParseInt (CHR ''-'' # s) = Inr v \<longleftrightarrow>
   s \<noteq> [] \<and> list_all is_digit s \<and> digits_val s \<le> 9223372036854775808 \<and> v = - of_nat (digits_val s)"
proof -
  have "ParseInt (CHR ''-'' # s) = (case ParseUint s of Inl e \<Rightarrow> Inl e
    | Inr un \<Rightarrow> if 9223372036854775808 < un then Inl ErrRange else Inr (- of_nat un))"
    by (auto simp: ParseInt_def Let_def split: sum.splits num_error.splits)
  then show ?thesis
    using ParseUint_Inr [of s] by (auto split: sum.splits) fastforce+
qed

lemma ParseInt_plus:
  "ParseInt (CHR ''+'' # s) = Inr v \<longleftrightarrow>
   s \<noteq> [] \<and> list_all is_digit s \<and> digits_val s < 9223372036854775808 \<and> v = of_nat (digits_val s)"
proof -
  have "ParseInt (CHR ''+'' # s) = (case ParseUint s of Inl e \<Rightarrow> Inl e
    | Inr un \<Rightarrow> if 9223372036854775808 \<le> un then Inl ErrRange else Inr (of_nat un))"
    by (auto simp: ParseInt_def Let_def split: sum.splits num_error.splits)
  then show ?thesis
    using ParseUint_Inr [of s] by (auto split: sum.splits) fastforce+
qed


section \<open>Cutting, trimming, joining\<close>

text \<open>\<open>strings.Cut(s, sep)\<close> for a one-byte separator: before, after, found.\<close>

fun Cut :: "char \<Rightarrow> string \<Rightarrow> string \<times> string \<times> bool" where
  "Cut sep [] = ([], [], False)"
| "Cut sep (c # s) =
     (if c = sep then ([], s, True)
      else (case Cut sep s of (before, after, found) \<Rightarrow> (c # before, after, found)))"

lemma Cut_cases:
  "Cut sep s = (before, after, found) \<Longrightarrow>
   sep \<notin> set before \<and> (if found then s = before @ sep # after else after = [] \<and> s = before)"
  by (induction s arbitrary: before) (auto split: if_splits prod.splits)

lemma Cut_found [simp]: "sep \<notin> set a \<Longrightarrow> Cut sep (a @ sep # b) = (a, b, True)"
  by (induction a) auto

lemma Cut_not_found [simp]: "sep \<notin> set a \<Longrightarrow> Cut sep a = (a, [], False)"
  by (induction a) auto

definition HasSuffix :: "string \<Rightarrow> string \<Rightarrow> bool" where
  "HasSuffix s suf \<longleftrightarrow> length suf \<le> length s \<and> drop (length s - length suf) s = suf"

definition HasPrefix :: "string \<Rightarrow> string \<Rightarrow> bool" where
  "HasPrefix s pre \<longleftrightarrow> take (length pre) s = pre"

definition TrimSuffix :: "string \<Rightarrow> string \<Rightarrow> string" where
  "TrimSuffix s suf = (if HasSuffix s suf then take (length s - length suf) s else s)"

definition TrimPrefix :: "string \<Rightarrow> string \<Rightarrow> string" where
  "TrimPrefix s pre = (if HasPrefix s pre then drop (length pre) s else s)"

fun Contains :: "string \<Rightarrow> string \<Rightarrow> bool" where
  "Contains [] sub \<longleftrightarrow> sub = []"
| "Contains (c # s) sub \<longleftrightarrow> HasPrefix (c # s) sub \<or> Contains s sub"

text \<open>\<open>strings.Join(ss, sep)\<close>.\<close>

fun Join :: "string \<Rightarrow> string list \<Rightarrow> string" where
  "Join sep [] = []"
| "Join sep [s] = s"
| "Join sep (s # t # ss) = s @ sep @ Join sep (t # ss)"

lemma HasSuffix_single: "HasSuffix s [c] \<longleftrightarrow> s \<noteq> [] \<and> last s = c"
proof (cases s rule: rev_cases)
  case (snoc t d)
  then show ?thesis by (auto simp: HasSuffix_def)
qed (simp add: HasSuffix_def)

lemma Join_Cons: "ss \<noteq> [] \<Longrightarrow> Join sep (s # ss) = s @ sep @ Join sep ss"
  by (cases ss) auto

section \<open>Counting runes\<close>

text \<open>
  \<open>utf8.RuneCountInString\<close>: the number of code points of a byte string. A byte that starts no
  well-formed sequence counts as one code point of width one. \<open>rune_width\<close> is the width of the
  first one; the second byte's range depends on the first byte, which is what excludes overlong
  forms, surrogates and values past \<open>10FFFF\<close>.
\<close>

definition byte_in :: "nat \<Rightarrow> nat \<Rightarrow> char \<Rightarrow> bool" where
  "byte_in lo hi c \<longleftrightarrow> lo \<le> (of_char c :: nat) \<and> (of_char c :: nat) \<le> hi"

definition second_ok :: "char \<Rightarrow> char \<Rightarrow> bool" where
  "second_ok c d =
     (if c = CHR 0xE0 then byte_in 160 191 d
      else if c = CHR 0xED then byte_in 128 159 d
      else if c = CHR 0xF0 then byte_in 144 191 d
      else if c = CHR 0xF4 then byte_in 128 143 d
      else byte_in 128 191 d)"

definition rune_width :: "string \<Rightarrow> nat" where
  "rune_width s =
     (case s of
        c1 # c2 # c3 # c4 # _ \<Rightarrow>
          if byte_in 194 223 c1 \<and> second_ok c1 c2 then 2
          else if byte_in 224 239 c1 \<and> second_ok c1 c2 \<and> byte_in 128 191 c3 then 3
          else if byte_in 240 244 c1 \<and> second_ok c1 c2 \<and> byte_in 128 191 c3 \<and> byte_in 128 191 c4
          then 4 else 1
      | [c1, c2, c3] \<Rightarrow>
          if byte_in 194 223 c1 \<and> second_ok c1 c2 then 2
          else if byte_in 224 239 c1 \<and> second_ok c1 c2 \<and> byte_in 128 191 c3 then 3 else 1
      | [c1, c2] \<Rightarrow> if byte_in 194 223 c1 \<and> second_ok c1 c2 then 2 else 1
      | _ \<Rightarrow> 1)"

function RuneCount :: "string \<Rightarrow> nat" where
  "RuneCount [] = 0"
| "RuneCount (c # s) = Suc (RuneCount (drop (rune_width (c # s)) (c # s)))"
  by pat_completeness auto

lemma rune_width_pos [simp]: "0 < rune_width s"
  by (auto simp: rune_width_def split: list.split)

termination RuneCount
  by (relation "measure length") (auto simp: rune_width_pos intro: diff_less)

lemma rune_width_le: "s \<noteq> [] \<Longrightarrow> rune_width s \<le> length s"
  by (auto simp: rune_width_def split: list.splits)

lemma RuneCount_le_length: "RuneCount s \<le> length s"
proof (induction s rule: RuneCount.induct)
  case (2 c s)
  have "RuneCount (c # s) \<le> Suc (length (c # s) - rune_width (c # s))" using "2" by simp
  also have "\<dots> \<le> length (c # s)" using rune_width_pos [of "c # s"] rune_width_le [of "c # s"]
    by (simp del: rune_width_pos)
  finally show ?case .
qed simp

lemma rune_width_ascii: "of_char c < (128 :: nat) \<Longrightarrow> rune_width (c # s) = 1"
  by (auto simp: rune_width_def byte_in_def split: list.split)

lemma RuneCount_ascii: "list_all (\<lambda>c. of_char c < (128 :: nat)) s \<Longrightarrow> RuneCount s = length s"
  by (induction s) (simp_all add: rune_width_ascii)

text \<open>The UTF-8 encoding of a code point, to say what \<open>RuneCount\<close> counts.\<close>

definition utf8_encode :: "nat \<Rightarrow> string" where
  "utf8_encode cp =
     (if cp < 128 then [char_of cp]
      else if cp < 2048 then [char_of (192 + cp div 64), char_of (128 + cp mod 64)]
      else if cp < 65536 then
        [char_of (224 + cp div 4096), char_of (128 + cp div 64 mod 64), char_of (128 + cp mod 64)]
      else [char_of (240 + cp div 262144), char_of (128 + cp div 4096 mod 64),
            char_of (128 + cp div 64 mod 64), char_of (128 + cp mod 64)])"

definition unicode_scalar :: "nat \<Rightarrow> bool" where
  "unicode_scalar cp \<longleftrightarrow> cp < 55296 \<or> 57344 \<le> cp \<and> cp < 1114112"

lemma of_char_of_small [simp]: "n < 256 \<Longrightarrow> of_char (char_of n) = (n :: nat)"
  by (simp add: of_char_of)

lemma rune_width_2: "byte_in 194 223 c1 \<Longrightarrow> second_ok c1 c2 \<Longrightarrow> rune_width (c1 # c2 # s) = 2"
  by (auto simp: rune_width_def split: list.split)

lemma rune_width_3:
  "byte_in 224 239 c1 \<Longrightarrow> second_ok c1 c2 \<Longrightarrow> byte_in 128 191 c3 \<Longrightarrow> rune_width (c1 # c2 # c3 # s) = 3"
  by (auto simp: rune_width_def byte_in_def split: list.split)

lemma rune_width_4:
  "byte_in 240 244 c1 \<Longrightarrow> second_ok c1 c2 \<Longrightarrow> byte_in 128 191 c3 \<Longrightarrow> byte_in 128 191 c4 \<Longrightarrow>
   rune_width (c1 # c2 # c3 # c4 # s) = 4"
  by (auto simp: rune_width_def byte_in_def)

lemma byte_in_char_of: "n < 256 \<Longrightarrow> byte_in lo hi (char_of n) \<longleftrightarrow> lo \<le> n \<and> n \<le> hi"
  by (simp add: byte_in_def)

lemma second_ok_char_of:
  fixes a b :: nat
  assumes "a < 256" and "b < 256"
  shows "second_ok (char_of a) (char_of b) \<longleftrightarrow>
    (if a = 224 then 160 \<le> b \<and> b \<le> 191 else if a = 237 then 128 \<le> b \<and> b \<le> 159
     else if a = 240 then 144 \<le> b \<and> b \<le> 191 else if a = 244 then 128 \<le> b \<and> b \<le> 143
     else 128 \<le> b \<and> b \<le> 191)"
proof -
  have eq: "char_of a = c \<longleftrightarrow> a = (of_char c :: nat)" for c
    using assms(1) by (rule char_of_eq_iff)
  show ?thesis unfolding second_ok_def eq byte_in_char_of [OF assms(2)] by simp
qed

lemma base64_digits:
  fixes x y z :: nat
  assumes "y < 64" and "z < 64"
  shows "(4096 * x + 64 * y + z) div 4096 = x" "(4096 * x + 64 * y + z) div 64 mod 64 = y"
    "(4096 * x + 64 * y + z) mod 64 = z"
proof -
  have q: "(4096 * x + 64 * y + z) div 64 = 64 * x + y" using assms by simp
  have "(4096 * x + 64 * y + z) div 4096 = (4096 * x + 64 * y + z) div 64 div 64"
    by (simp add: div_mult2_eq [symmetric])
  then show "(4096 * x + 64 * y + z) div 4096 = x" using q assms by simp
  show "(4096 * x + 64 * y + z) div 64 mod 64 = y" using q assms by simp
  show "(4096 * x + 64 * y + z) mod 64 = z" using assms by (simp add: mod_add_eq [symmetric])
qed

lemma base64_split:
  fixes cp :: nat
  shows "\<exists>x y z. cp = 4096 * x + 64 * y + z \<and> y < 64 \<and> z < 64"
proof -
  have "cp = 64 * (cp div 64) + cp mod 64" by simp
  moreover have "cp div 64 = 64 * (cp div 64 div 64) + cp div 64 mod 64" by simp
  ultimately have "cp = 4096 * (cp div 64 div 64) + 64 * (cp div 64 mod 64) + cp mod 64" by linarith
  then show ?thesis by (meson mod_less_divisor zero_less_numeral)
qed

lemma rune_width_utf8:
  assumes "unicode_scalar cp"
  shows "rune_width (utf8_encode cp @ s) = length (utf8_encode cp)"
proof -
  consider "cp < 128" | "128 \<le> cp" "cp < 2048" | "2048 \<le> cp" "cp < 65536"
    | "65536 \<le> cp" "cp < 1114112"
    using assms unfolding unicode_scalar_def by linarith
  then show ?thesis
  proof cases
    case 1
    then show ?thesis by (simp add: utf8_encode_def rune_width_ascii)
  next
    case 2
    define a where "a = 192 + cp div 64"
    define b where "b = 128 + cp mod 64"
    have "2 \<le> cp div 64" "cp div 64 < 32" using 2 by (simp_all add: less_eq_div_iff_mult_less_eq div_less_iff_less_mult)
    then have ab: "194 \<le> a" "a \<le> 223" "128 \<le> b" "b \<le> 191"
      using mod_less_divisor [of 64 cp] unfolding a_def b_def by linarith+
    have "utf8_encode cp = [char_of a, char_of b]" using 2 by (simp add: utf8_encode_def a_def b_def)
    with ab show ?thesis by (simp add: rune_width_2 byte_in_char_of second_ok_char_of)
  next
    case 3
    obtain x y z where cp: "cp = 4096 * x + 64 * y + z" and yz: "y < 64" "z < 64"
      using base64_split by blast
    from 3 yz have bounds: "x < 16" "x = 0 \<Longrightarrow> 32 \<le> y" unfolding cp by linarith+
    have surr: "x = 13 \<Longrightarrow> y \<le> 31" using assms yz unfolding cp unicode_scalar_def by linarith
    have "utf8_encode cp = [char_of (224 + x), char_of (128 + y), char_of (128 + z)]"
      using 3 yz base64_digits [OF yz, of x] unfolding cp by (simp add: utf8_encode_def)
    with bounds surr yz show ?thesis
      by (simp add: rune_width_3 byte_in_char_of second_ok_char_of)
  next
    case 4
    obtain x y z where cp: "cp = 4096 * x + 64 * y + z" and yz: "y < 64" "z < 64"
      using base64_split by blast
    obtain v w where x: "x = 64 * v + w" and w: "w < 64"
      by (metis mult_div_mod_eq mod_less_divisor zero_less_numeral)
    have lin: "65536 \<le> 262144 * v + 4096 * w + 64 * y + z" "262144 * v + 4096 * w + 64 * y + z < 1114112"
      using 4 unfolding cp x by simp_all
    from lin yz have bounds: "v < 5" "v = 0 \<Longrightarrow> 16 \<le> w" "v = 4 \<Longrightarrow> w \<le> 15"
      by linarith+
    have "cp div 262144 = v"
    proof -
      have "cp div 262144 = cp div 4096 div 64" by (simp add: div_mult2_eq [symmetric])
      also have "\<dots> = x div 64" using base64_digits(1) [OF yz, of x] by (simp add: cp)
      also have "\<dots> = v" using w by (simp add: x)
      finally show ?thesis .
    qed
    then have "utf8_encode cp = [char_of (240 + v), char_of (128 + w), char_of (128 + y), char_of (128 + z)]"
      using 4 base64_digits [OF yz, of x, folded cp] w by (simp add: utf8_encode_def x)
    with bounds yz w show ?thesis
      by (simp add: rune_width_4 byte_in_char_of second_ok_char_of)
  qed
qed

lemma utf8_encode_nonempty [simp]: "utf8_encode cp \<noteq> []"
  by (simp add: utf8_encode_def)

lemma RuneCount_utf8:
  "list_all unicode_scalar cps \<Longrightarrow> RuneCount (concat (map utf8_encode cps)) = length cps"
proof (induction cps)
  case (Cons cp cps)
  obtain c t where enc: "utf8_encode cp = c # t" by (cases "utf8_encode cp") auto
  let ?rest = "concat (map utf8_encode cps)"
  have "rune_width (c # t @ ?rest) = length (c # t)"
    using rune_width_utf8 [of cp ?rest] Cons.prems enc by simp
  then have "RuneCount (c # t @ ?rest) = Suc (RuneCount ?rest)" by simp
  with Cons enc show ?case by simp
qed simp

end
