(* ===== verification/Interfaces.thy ===== *)
theory Interfaces
  imports Prelude
begin

text \<open>
  The contracts several components share, as locales: a text codec (rendering and parsing of a
  wire value), its JSON form with \<open>null\<close> for a zero value, and a three-way comparison. Each is
  interpreted on the definitions of the component that provides it.
\<close>

section \<open>Text codecs\<close>

locale wire_codec =
  fixes enc :: "'a \<Rightarrow> string" and dec :: "string \<Rightarrow> 'e + 'a" and valid :: "'a \<Rightarrow> bool"
  assumes dec_enc: "valid x \<Longrightarrow> dec (enc x) = Inr x"
begin

lemma enc_inj: "valid x \<Longrightarrow> valid y \<Longrightarrow> enc x = enc y \<longleftrightarrow> x = y"
  by (metis dec_enc Inr_inject)

lemma enc_inj_on: "inj_on enc {x. valid x}"
  by (rule inj_onI) (simp add: enc_inj)

end

text \<open>A strict codec accepts nothing but what it renders.\<close>

locale strict_codec = wire_codec +
  assumes dec_canonical: "dec s = Inr x \<Longrightarrow> valid x \<and> enc x = s"
begin

lemma dec_iff: "dec s = Inr x \<longleftrightarrow> valid x \<and> s = enc x"
  using dec_enc dec_canonical by blast

lemma dec_inj: "dec s = Inr x \<Longrightarrow> dec t = Inr x \<Longrightarrow> s = t"
  by (simp add: dec_iff)

lemma accepts_iff: "(\<exists>x. dec s = Inr x) \<longleftrightarrow> s \<in> enc ` {x. valid x}"
  by (auto simp: dec_iff)

end

text \<open>
  The JSON form the wire types give themselves: \<open>null\<close> for the zero value, else the text between
  double quotes; decoding strips the quotes and hands the text to the strict parser.
\<close>

definition json_quote :: "string \<Rightarrow> string" where
  "json_quote s = CHR 0x22 # s @ [CHR 0x22]"

definition json_null :: string where
  "json_null = ''null''"

lemma json_quote_inj [simp]: "json_quote s = json_quote t \<longleftrightarrow> s = t"
  by (simp add: json_quote_def)

lemma json_quote_not_null [simp]: "json_quote s \<noteq> json_null" "json_null \<noteq> json_quote s"
  by (simp_all add: json_quote_def json_null_def)

definition is_quoted :: "string \<Rightarrow> bool" where
  "is_quoted s \<longleftrightarrow> 2 \<le> length s \<and> hd s = CHR 0x22 \<and> last s = CHR 0x22"

lemma is_quoted_iff: "is_quoted s \<longleftrightarrow> (\<exists>t. s = json_quote t)"
proof
  assume q: "is_quoted s"
  then obtain c t where s: "s = c # t" "t \<noteq> []"
    by (cases s; cases "tl s") (auto simp: is_quoted_def)
  with q have "s = json_quote (butlast t)"
    by (auto simp: is_quoted_def json_quote_def) (metis append_butlast_last_id)
  then show "\<exists>t. s = json_quote t" ..
qed (auto simp: is_quoted_def json_quote_def)

lemma is_quoted_quote [simp]: "is_quoted (json_quote s)"
  by (auto simp: is_quoted_iff)

lemma unquote_quote [simp]: "butlast (tl (json_quote s)) = s"
  by (simp add: json_quote_def)

locale nullable_json = strict_codec +
  fixes zero :: 'a and marshal :: "'a \<Rightarrow> string" and unmarshal :: "string \<Rightarrow> 'e + 'a"
  assumes zero_invalid: "\<not> valid zero"
    and marshal_eq: "marshal x = (if x = zero then json_null else json_quote (enc x))"
    and unmarshal_null: "unmarshal json_null = Inr zero"
    and unmarshal_quoted: "unmarshal (json_quote s) = dec s"
    and unmarshal_other: "s \<noteq> json_null \<Longrightarrow> \<not> is_quoted s \<Longrightarrow> unmarshal s \<noteq> Inr x"
begin

lemma unmarshal_marshal: "valid x \<or> x = zero \<Longrightarrow> unmarshal (marshal x) = Inr x"
  by (auto simp: marshal_eq unmarshal_null unmarshal_quoted dec_enc)

lemma unmarshal_iff: "unmarshal s = Inr x \<longleftrightarrow> (valid x \<or> x = zero) \<and> s = marshal x"
proof
  assume u: "unmarshal s = Inr x"
  then consider "s = json_null" | t where "s = json_quote t"
    using unmarshal_other [of s x] by (auto simp: is_quoted_iff)
  then show "(valid x \<or> x = zero) \<and> s = marshal x"
  proof cases
    case 1
    with u show ?thesis by (simp add: unmarshal_null marshal_eq)
  next
    case 2
    with u have "valid x \<and> enc x = t" by (simp add: unmarshal_quoted dec_iff)
    with 2 zero_invalid show ?thesis by (auto simp: marshal_eq)
  qed
qed (auto simp: unmarshal_marshal)

sublocale json: strict_codec marshal unmarshal "\<lambda>x. valid x \<or> x = zero"
  by unfold_locales (auto simp: unmarshal_iff)

end

section \<open>Three-way comparison\<close>

locale cmp_preorder =
  fixes cmp :: "'a \<Rightarrow> 'a \<Rightarrow> int"
  assumes cmp_values: "cmp x y = -1 \<or> cmp x y = 0 \<or> cmp x y = 1"
    and cmp_swap: "cmp y x = - cmp x y"
    and cmp_le_trans: "cmp x y \<le> 0 \<Longrightarrow> cmp y z \<le> 0 \<Longrightarrow> cmp x z \<le> 0"
begin

lemma cmp_self [simp]: "cmp x x = 0"
  using cmp_swap [of x x] by simp

lemma cmp_total: "cmp x y \<le> 0 \<or> cmp y x \<le> 0"
  using cmp_swap [of x y] by linarith

lemma cmp_less_trans: "cmp x y < 0 \<Longrightarrow> cmp y z < 0 \<Longrightarrow> cmp x z < 0"
proof -
  assume "cmp x y < 0" "cmp y z < 0"
  then have "cmp x z \<le> 0" by (meson cmp_le_trans less_imp_le)
  moreover have "cmp x z \<noteq> 0"
  proof
    assume "cmp x z = 0"
    then have "cmp z x \<le> 0" using cmp_swap [of x z] by simp
    with \<open>cmp x y < 0\<close> have "cmp z y \<le> 0" by (meson cmp_le_trans less_imp_le)
    with \<open>cmp y z < 0\<close> show False using cmp_swap [of y z] by simp
  qed
  ultimately show ?thesis by simp
qed

lemma cmp_equiv: "cmp x y = 0 \<Longrightarrow> cmp x z = cmp y z"
proof -
  assume e: "cmp x y = 0"
  have "cmp x z \<le> 0 \<longleftrightarrow> cmp y z \<le> 0"
    using e cmp_swap [of x y] cmp_le_trans [of x y z] cmp_le_trans [of y x z] by auto
  moreover have "cmp z x \<le> 0 \<longleftrightarrow> cmp z y \<le> 0"
    using e cmp_swap [of x y] cmp_le_trans [of z x y] cmp_le_trans [of z y x] by auto
  ultimately show ?thesis
    using cmp_values [of x z] cmp_values [of y z] cmp_swap [of x z] cmp_swap [of y z] by auto
qed

end

locale cmp_linear = cmp_preorder +
  assumes cmp_eq: "cmp x y = 0 \<Longrightarrow> x = y"
begin

lemma cmp_zero_iff: "cmp x y = 0 \<longleftrightarrow> x = y"
  using cmp_eq by auto

sublocale order: linorder "\<lambda>x y. cmp x y \<le> 0" "\<lambda>x y. cmp x y < 0"
proof
  fix x y z
  show "cmp x y < 0 \<longleftrightarrow> cmp x y \<le> 0 \<and> \<not> cmp y x \<le> 0" using cmp_swap [of x y] by auto
  show "cmp x x \<le> 0" by simp
  show "cmp x y \<le> 0 \<Longrightarrow> cmp y z \<le> 0 \<Longrightarrow> cmp x z \<le> 0" by (rule cmp_le_trans)
  show "cmp x y \<le> 0 \<Longrightarrow> cmp y x \<le> 0 \<Longrightarrow> x = y" using cmp_swap [of x y] by (auto intro: cmp_eq)
  show "cmp x y \<le> 0 \<or> cmp y x \<le> 0" by (rule cmp_total)
qed

end

end
