(* ===== verification/Milliunits.thy ===== *)
theory Milliunits
  imports Go_Strings Interfaces
begin

text \<open>
  \<open>milliunits.go\<close>: money as \<open>int64\<close> thousandths. The type is \<open>i64\<close>; arithmetic wraps as the
  code's does. Parsing, the three-decimal rendering, even splitting and the currency format are
  modelled operation by operation; \<open>Units\<close> (a float for display) is not.
\<close>

section \<open>Conversions and arithmetic\<close>

type_synonym Milliunits = i64

definition UnitsToMilliunits :: "i64 \<Rightarrow> Milliunits" where
  "UnitsToMilliunits units = units * 1000"

definition Add :: "Milliunits \<Rightarrow> Milliunits \<Rightarrow> Milliunits" where
  "Add m o' = m + o'"

definition Sub :: "Milliunits \<Rightarrow> Milliunits \<Rightarrow> Milliunits" where
  "Sub m o' = m - o'"

definition Neg :: "Milliunits \<Rightarrow> Milliunits" where
  "Neg m = - m"

definition Abs :: "Milliunits \<Rightarrow> Milliunits" where
  "Abs m = (if m <s 0 then - m else m)"

definition MulInt :: "Milliunits \<Rightarrow> i64 \<Rightarrow> Milliunits" where
  "MulInt m k = m * k"

text \<open>\<open>magnitude\<close>: the absolute value as an unsigned word, exact for \<open>math.MinInt64\<close> too.\<close>

definition MinInt64 :: i64 where
  "MinInt64 = - 9223372036854775808"

definition magnitude :: "Milliunits \<Rightarrow> u64" where
  "magnitude m = (if 0 \<le>s m then m else if m = MinInt64 then 9223372036854775808 else - m)"

section \<open>Parsing and rendering\<close>

datatype milliunits_error = BadForm string | BadNumber string num_error

definition ParseMilliunits :: "string \<Rightarrow> milliunits_error + Milliunits" where
  "ParseMilliunits s =
     (let (sign, num) =
            (case s of c # t \<Rightarrow> if c = CHR ''+'' \<or> c = CHR ''-'' then ([c], t) else ([], s) | [] \<Rightarrow> ([], s));
          (intPart, frac, hasFrac) = Cut CHR ''.'' num
      in if intPart = [] \<or> (hasFrac \<and> (frac = [] \<or> 3 < length frac)) then Inl (BadForm s)
         else (case ParseInt (sign @ intPart @ frac @ replicate (3 - length frac) CHR ''0'') of
                 Inl e \<Rightarrow> Inl (BadNumber s e)
               | Inr v \<Rightarrow> Inr v))"

text \<open>\<open>None\<close> is the panic.\<close>

definition MustParseMilliunits :: "string \<Rightarrow> Milliunits option" where
  "MustParseMilliunits s = (case ParseMilliunits s of Inl _ \<Rightarrow> None | Inr m \<Rightarrow> Some m)"

definition Milliunits_String :: "Milliunits \<Rightarrow> string" where
  "Milliunits_String m =
     (let u = magnitude m;
          s = dec_nat (unat (u div 1000)) @ ''.'' @ zero_pad 3 (dec_nat (unat (u mod 1000)))
      in if m <s 0 then ''-'' @ s else s)"

section \<open>Even splits\<close>

text \<open>The panic for \<open>n <= 0\<close> is \<open>Inl\<close> with its message.\<close>

definition SplitEven :: "Milliunits \<Rightarrow> i64 \<Rightarrow> string + Milliunits list" where
  "SplitEven m n =
     (if n \<le>s 0 then Inl (''ynab: SplitEven('' @ dec_int (sint n) @ ''): n must be positive'')
      else
        let quo = go_quo m n;
            rem = go_rem m n;
            extra = Abs rem;
            step = (if rem <s 0 then - 1 else 1)
        in Inr (map (\<lambda>i. if word_of_nat i <s extra then quo + step else quo) [0..<unat n]))"

section \<open>Currency format\<close>

record CurrencyFormat =
  ISOCode :: string
  ExampleFormat :: string
  DecimalDigits :: i32
  DecimalSeparator :: string
  SymbolFirst :: bool
  GroupSeparator :: string
  CurrencySymbol :: string
  DisplaySymbol :: bool

fun pow10 :: "nat \<Rightarrow> u64" where
  "pow10 0 = 1"
| "pow10 (Suc n) = pow10 n * 10"

text \<open>
  The loop of \<open>groupDigits\<close>: \<open>b\<close> is what the builder holds, \<open>s\<close> the digits from position \<open>i\<close>
  on. The length of \<open>s\<close> is a multiple of three whenever the loop runs.
\<close>

function groupDigits_loop :: "string \<Rightarrow> string \<Rightarrow> string \<Rightarrow> string" where
  "groupDigits_loop sep b [] = b"
| "groupDigits_loop sep b (c # s) =
     groupDigits_loop sep ((if b \<noteq> [] then b @ sep else b) @ take 3 (c # s)) (drop 3 (c # s))"
  by pat_completeness auto
termination
  by (relation "measure (\<lambda>(sep, b, s). length s)") auto

definition groupDigits :: "string \<Rightarrow> string \<Rightarrow> string" where
  "groupDigits s sep =
     (if sep = [] \<or> length s \<le> 3 then s
      else let lead = length s mod 3
           in groupDigits_loop sep (if 0 < lead then take lead s else []) (drop lead s))"

definition clamp_digits :: "i32 \<Rightarrow> nat" where
  "clamp_digits d = nat (min (max (sint d) 0) 10)"

definition rescale :: "u64 \<Rightarrow> nat \<Rightarrow> u64" where
  "rescale u digits =
     (if digits \<le> 3 then (let dv = pow10 (3 - digits) in (u + dv div 2) div dv)
      else u * pow10 (digits - 3))"

definition Format :: "Milliunits \<Rightarrow> CurrencyFormat \<Rightarrow> string" where
  "Format m f =
     (let digits = clamp_digits (DecimalDigits f);
          u = rescale (magnitude m) digits;
          scale = pow10 digits;
          whole = groupDigits (dec_nat (unat (u div scale))) (GroupSeparator f);
          frac = dec_nat (unat (u mod scale));
          number = (if 0 < digits
                    then whole @ DecimalSeparator f @ replicate (digits - length frac) CHR ''0'' @ frac
                    else whole)
      in (if m <s 0 then ''-'' else []) @
         (if DisplaySymbol f \<and> SymbolFirst f then CurrencySymbol f else []) @
         number @
         (if DisplaySymbol f \<and> \<not> SymbolFirst f then CurrencySymbol f else []))"

section \<open>Facts about the magnitude\<close>

lemma MinInt64_sint [simp]: "sint MinInt64 = - 9223372036854775808"
  by (simp add: MinInt64_def)

lemma word_eq_of_int: "(w :: i64) = word_of_int (sint w)"
  by simp

lemma unat_magnitude: "unat (magnitude m) = nat \<bar>sint m\<bar>"
proof -
  consider "0 \<le> sint m" | "m = MinInt64" | "sint m < 0" "m \<noteq> MinInt64" by linarith
  then show ?thesis
  proof cases
    case 1
    have "uint m = sint m"
      using uint_of_int_u64 [of "sint m"] 1 i64_bounds [of m] by simp
    with 1 show ?thesis by (simp add: magnitude_def word_sle_eq unat_eq_nat_uint)
  next
    case 2
    then show ?thesis by (simp add: magnitude_def word_sle_eq MinInt64_def)
  next
    case 3
    have "- m = word_of_int (- sint m)" by simp
    then have "uint (- m) = - sint m"
      using uint_of_int_u64 [of "- sint m"] 3 i64_bounds [of m] by simp
    with 3 show ?thesis by (simp add: magnitude_def word_sle_eq unat_eq_nat_uint)
  qed
qed

lemma unat_magnitude_le: "unat (magnitude m) \<le> 9223372036854775808"
  using i64_bounds [of m] by (simp add: unat_magnitude)

lemma Milliunits_String_eq:
  "Milliunits_String m =
     (if sint m < 0 then ''-'' else []) @ dec_nat (nat \<bar>sint m\<bar> div 1000) @ ''.'' @
     zero_pad 3 (dec_nat (nat \<bar>sint m\<bar> mod 1000))"
  by (simp add: Milliunits_String_def Let_def word_sless_alt unat_div unat_mod unat_magnitude)


section \<open>What the parser accepts\<close>

text \<open>
  \<open>decimal_body num ip fp\<close>: \<open>num\<close> is one or more integer digits \<open>ip\<close> and, after a point, one to
  three fraction digits \<open>fp\<close> (no point when \<open>fp\<close> is empty). \<open>decimal_amount s neg ip fp\<close>: the same
  behind an optional sign. \<open>thousandths\<close> is the amount the digits denote.
\<close>

definition decimal_body :: "string \<Rightarrow> string \<Rightarrow> string \<Rightarrow> bool" where
  "decimal_body num ip fp \<longleftrightarrow>
     ip \<noteq> [] \<and> list_all is_digit ip \<and> list_all is_digit fp \<and> length fp \<le> 3 \<and>
     num = ip @ (if fp = [] then [] else CHR ''.'' # fp)"

definition decimal_amount :: "string \<Rightarrow> bool \<Rightarrow> string \<Rightarrow> string \<Rightarrow> bool" where
  "decimal_amount s neg ip fp \<longleftrightarrow>
     (\<exists>num. decimal_body num ip fp \<and>
        (if neg then s = CHR ''-'' # num else s = num \<or> s = CHR ''+'' # num))"

definition thousandths :: "string \<Rightarrow> string \<Rightarrow> nat" where
  "thousandths ip fp = digits_val ip * 1000 + digits_val fp * 10 ^ (3 - length fp)"

lemma thousandths_digits:
  "length fp \<le> 3 \<Longrightarrow>
   digits_val (ip @ fp @ replicate (3 - length fp) CHR ''0'') = thousandths ip fp"
  by (simp add: thousandths_def power_add [symmetric] add_mult_distrib mult.assoc)

lemma list_all_replicate_0: "list_all is_digit (replicate k CHR ''0'')"
  by (auto simp: list_all_iff)

text \<open>The unsigned part, after the sign has been taken off.\<close>

definition unsigned_form :: "string \<Rightarrow> string \<Rightarrow> string \<Rightarrow> bool" where
  "unsigned_form num ip fp \<longleftrightarrow> Cut CHR ''.'' num = (ip, fp, fp \<noteq> []) \<and> ip \<noteq> [] \<and> length fp \<le> 3"

lemma unsigned_form_iff:
  assumes "list_all is_digit ip" and "ip \<noteq> []" and "length fp \<le> 3"
  shows "unsigned_form num ip fp \<longleftrightarrow> num = ip @ (if fp = [] then [] else CHR ''.'' # fp)"
proof
  assume "unsigned_form num ip fp"
  then show "num = ip @ (if fp = [] then [] else CHR ''.'' # fp)"
    using Cut_cases [of "CHR ''.''" num ip fp "fp \<noteq> []"] by (auto simp: unsigned_form_def)
next
  have "CHR ''.'' \<notin> set ip" using assms(1) by (auto simp: list_all_iff)
  moreover assume "num = ip @ (if fp = [] then [] else CHR ''.'' # fp)"
  ultimately show "unsigned_form num ip fp" using assms by (auto simp: unsigned_form_def)
qed

text \<open>
  The parser's body on a sign and the text behind it: the form check, then the number with the
  fraction padded to three digits.
\<close>

definition parse_body :: "string \<Rightarrow> string \<Rightarrow> Milliunits \<Rightarrow> bool" where
  "parse_body sign num v \<longleftrightarrow>
     (\<exists>ip fp. unsigned_form num ip fp \<and>
        ParseInt (sign @ ip @ fp @ replicate (3 - length fp) CHR ''0'') = Inr v)"

lemma parse_body_eq:
  "(case Cut CHR ''.'' num of (intPart, frac, hasFrac) \<Rightarrow>
      if intPart = [] \<or> (hasFrac \<and> (frac = [] \<or> 3 < length frac)) then Inl (BadForm s)
      else (case ParseInt (sign @ intPart @ frac @ replicate (3 - length frac) CHR ''0'') of
              Inl e \<Rightarrow> Inl (BadNumber s e) | Inr v \<Rightarrow> Inr v)) = Inr v
   \<longleftrightarrow> parse_body sign num v"
proof -
  obtain ip fp h where c: "Cut CHR ''.'' num = (ip, fp, h)" by (cases "Cut CHR ''.'' num") auto
  have nofrac: "\<not> h \<Longrightarrow> fp = []" using Cut_cases [OF c] by auto
  have form: "unsigned_form num ip' fp' \<longleftrightarrow>
      ip' = ip \<and> fp' = fp \<and> h = (fp \<noteq> []) \<and> ip \<noteq> [] \<and> length fp \<le> 3" for ip' fp'
    by (auto simp: unsigned_form_def c)
  show ?thesis
    unfolding parse_body_def form c using nofrac by (auto split: sum.splits)
qed

lemma ParseMilliunits_parse_body:
  "ParseMilliunits s = Inr v \<longleftrightarrow>
     (case s of c # t \<Rightarrow> if c = CHR ''+'' \<or> c = CHR ''-'' then parse_body [c] t v else parse_body [] s v
      | [] \<Rightarrow> False)"
proof (cases s)
  case Nil
  then show ?thesis by (simp add: ParseMilliunits_def)
next
  case (Cons c t)
  then show ?thesis
    by (cases "c = CHR ''+'' \<or> c = CHR ''-''")
      (simp_all add: ParseMilliunits_def parse_body_eq del: Cut.simps)
qed

lemma digits_padded:
  "length fp \<le> 3 \<Longrightarrow>
   list_all is_digit (ip @ fp @ replicate (3 - length fp) CHR ''0'') \<longleftrightarrow>
   list_all is_digit ip \<and> list_all is_digit fp"
  by (simp add: list_all_replicate_0)

lemma i64_of_nat_iff: "k < 9223372036854775808 \<Longrightarrow> (v :: i64) = of_nat k \<longleftrightarrow> sint v = int k"
  by (metis of_int_of_nat_eq sint_of_int_i64 i64_eqI of_nat_less_iff of_nat_numeral
      order_trans [OF _ of_nat_0_le_iff] neg_le_0_iff_le zero_le_numeral)

lemma i64_minus_of_nat_iff:
  assumes "k \<le> 9223372036854775808"
  shows "(v :: i64) = - of_nat k \<longleftrightarrow> sint v = - int k"
proof -
  have "(- of_nat k :: i64) = word_of_int (- int k)" by simp
  moreover have "sint (word_of_int (- int k) :: i64) = - int k"
    using assms by (intro sint_of_int_i64) auto
  ultimately show ?thesis by (metis i64_eqI)
qed

lemma ParseInt_minus_padded:
  assumes "ip \<noteq> []" and "length fp \<le> 3"
  shows "ParseInt (''-'' @ ip @ fp @ replicate (3 - length fp) CHR ''0'') = Inr v \<longleftrightarrow>
    list_all is_digit ip \<and> list_all is_digit fp \<and> thousandths ip fp \<le> 9223372036854775808 \<and>
    sint v = - int (thousandths ip fp)"
proof -
  have cons: "''-'' @ t = CHR ''-'' # t" for t by simp
  show ?thesis
    unfolding cons ParseInt_minus digits_padded [OF assms(2)] thousandths_digits [OF assms(2)]
    using i64_minus_of_nat_iff [of "thousandths ip fp" v] assms(1) by blast
qed

lemma ParseInt_plus_padded:
  assumes "ip \<noteq> []" and "length fp \<le> 3"
    and "sign = [] \<and> hd ip \<noteq> CHR ''+'' \<and> hd ip \<noteq> CHR ''-'' \<or> sign = ''+''"
  shows "ParseInt (sign @ ip @ fp @ replicate (3 - length fp) CHR ''0'') = Inr v \<longleftrightarrow>
    list_all is_digit ip \<and> list_all is_digit fp \<and> thousandths ip fp < 9223372036854775808 \<and>
    sint v = int (thousandths ip fp)"
proof -
  let ?t = "ip @ fp @ replicate (3 - length fp) CHR ''0''"
  have "?t \<noteq> []" "hd ?t = hd ip" using assms(1) by simp_all
  have "ParseInt (sign @ ?t) = Inr v \<longleftrightarrow>
      list_all is_digit ?t \<and> digits_val ?t < 9223372036854775808 \<and> v = of_nat (digits_val ?t)"
    using assms(3)
  proof (elim disjE)
    assume "sign = ''+''"
    then have "sign @ ?t = CHR ''+'' # ?t" by simp
    then show ?thesis using ParseInt_plus [of ?t v] \<open>?t \<noteq> []\<close> by (simp only: simp_thms)
  next
    assume h: "sign = [] \<and> hd ip \<noteq> CHR ''+'' \<and> hd ip \<noteq> CHR ''-''"
    then have "sign @ ?t = ?t" by simp
    then show ?thesis
      using h ParseInt_unsigned [of ?t v] \<open>?t \<noteq> []\<close> \<open>hd ?t = hd ip\<close> by (simp only: simp_thms)
  qed
  then show ?thesis
    unfolding digits_padded [OF assms(2)] thousandths_digits [OF assms(2)]
    using i64_of_nat_iff [of "thousandths ip fp" v] by blast
qed

text \<open>Both signs reduce to the digits of the two parts and the value they denote.\<close>

lemma parse_body_digits:
  assumes "\<And>ip fp. unsigned_form num ip fp \<Longrightarrow>
      ParseInt (sign @ ip @ fp @ replicate (3 - length fp) CHR ''0'') = Inr v \<longleftrightarrow>
      list_all is_digit ip \<and> list_all is_digit fp \<and> Q ip fp"
  shows "parse_body sign num v \<longleftrightarrow> (\<exists>ip fp. decimal_body num ip fp \<and> Q ip fp)" (is "_ \<longleftrightarrow> ?rhs")
proof
  assume "parse_body sign num v"
  then obtain ip fp where u: "unsigned_form num ip fp"
    and p: "ParseInt (sign @ ip @ fp @ replicate (3 - length fp) CHR ''0'') = Inr v"
    by (auto simp: parse_body_def)
  from p have d: "list_all is_digit ip" "list_all is_digit fp" "Q ip fp" by (simp_all add: assms [OF u])
  from u have s: "ip \<noteq> []" "length fp \<le> 3" by (simp_all add: unsigned_form_def)
  from u have "num = ip @ (if fp = [] then [] else CHR ''.'' # fp)"
    by (simp only: unsigned_form_iff [OF d(1) s])
  with d s show ?rhs unfolding decimal_body_def by blast
next
  assume ?rhs
  then obtain ip fp where d: "list_all is_digit ip" "list_all is_digit fp" "Q ip fp"
    and s: "ip \<noteq> []" "length fp \<le> 3" and n: "num = ip @ (if fp = [] then [] else CHR ''.'' # fp)"
    unfolding decimal_body_def by blast
  have u: "unsigned_form num ip fp" unfolding unsigned_form_iff [OF d(1) s] by (rule n)
  then show "parse_body sign num v"
    unfolding parse_body_def using assms [OF u] d by blast
qed

lemma unsigned_form_shape:
  "unsigned_form num ip fp \<Longrightarrow> ip \<noteq> [] \<and> length fp \<le> 3 \<and> hd num = hd ip"
  using Cut_cases [of "CHR ''.''" num ip fp "fp \<noteq> []"]
  by (cases ip) (auto simp: unsigned_form_def split: if_splits)

lemma decimal_body_hd: "decimal_body num ip fp \<Longrightarrow> num \<noteq> [] \<and> is_digit (hd num)"
  by (cases ip) (simp_all add: decimal_body_def)

text \<open>The amounts a signed text may denote: \<open>neg\<close> reaches one further down than up.\<close>

definition amount_value :: "bool \<Rightarrow> nat \<Rightarrow> Milliunits \<Rightarrow> bool" where
  "amount_value neg k v \<longleftrightarrow>
     (if neg then k \<le> 9223372036854775808 \<and> sint v = - int k
      else k < 9223372036854775808 \<and> sint v = int k)"

lemma parse_body_minus:
  "parse_body ''-'' num v \<longleftrightarrow>
   (\<exists>ip fp. decimal_body num ip fp \<and> amount_value True (thousandths ip fp) v)"
  unfolding amount_value_def if_True
  by (rule parse_body_digits, rule ParseInt_minus_padded) (simp_all add: unsigned_form_def)

lemma parse_body_plus:
  assumes "sign = [] \<and> hd num \<noteq> CHR ''+'' \<and> hd num \<noteq> CHR ''-'' \<or> sign = ''+''"
  shows "parse_body sign num v \<longleftrightarrow>
   (\<exists>ip fp. decimal_body num ip fp \<and> amount_value False (thousandths ip fp) v)"
  unfolding amount_value_def if_False
proof (rule parse_body_digits, rule ParseInt_plus_padded)
  fix ip fp
  assume "unsigned_form num ip fp"
  note sh = unsigned_form_shape [OF this]
  then show "ip \<noteq> []" "length fp \<le> 3" by simp_all
  from sh assms show "sign = [] \<and> hd ip \<noteq> CHR ''+'' \<and> hd ip \<noteq> CHR ''-'' \<or> sign = ''+''" by simp
qed

text \<open>Which sign a text carries is decided by its first byte.\<close>

lemma decimal_amount_Cons:
  "decimal_amount (c # t) neg ip fp \<longleftrightarrow>
     (if c = CHR ''-'' then neg \<and> decimal_body t ip fp
      else if c = CHR ''+'' then \<not> neg \<and> decimal_body t ip fp
      else \<not> neg \<and> decimal_body (c # t) ip fp)"
  using decimal_body_hd [of "c # t" ip fp] by (cases neg) (auto simp: decimal_amount_def)

lemma decimal_amount_Nil: "\<not> decimal_amount [] neg ip fp"
  using decimal_body_hd [of "[]" ip fp] by (cases neg) (auto simp: decimal_amount_def)


lemma ParseMilliunits_iff:
  "ParseMilliunits s = Inr v \<longleftrightarrow>
   (\<exists>neg ip fp. decimal_amount s neg ip fp \<and> amount_value neg (thousandths ip fp) v)"
proof (cases s)
  case Nil
  then show ?thesis by (simp add: ParseMilliunits_parse_body decimal_amount_Nil)
next
  case (Cons c t)
  consider "c = CHR ''-''" | "c = CHR ''+''" | "c \<noteq> CHR ''-''" "c \<noteq> CHR ''+''" by blast
  then show ?thesis
  proof cases
    case 1
    then show ?thesis
      by (simp add: Cons ParseMilliunits_parse_body decimal_amount_Cons parse_body_minus
          ex_bool_eq)
  next
    case 2
    then show ?thesis
      by (simp add: Cons ParseMilliunits_parse_body decimal_amount_Cons parse_body_plus
          ex_bool_eq)
  next
    case 3
    then show ?thesis
      by (simp add: Cons ParseMilliunits_parse_body decimal_amount_Cons parse_body_plus
          ex_bool_eq)
  qed
qed

lemma amount_value_self: "amount_value (sint m < 0) (nat \<bar>sint m\<bar>) m"
  using i64_bounds [of m] by (auto simp: amount_value_def)

lemma Milliunits_String_amount:
  "decimal_amount (Milliunits_String m) (sint m < 0)
     (dec_nat (nat \<bar>sint m\<bar> div 1000)) (zero_pad 3 (dec_nat (nat \<bar>sint m\<bar> mod 1000)))"
proof -
  let ?fp = "zero_pad 3 (dec_nat (nat \<bar>sint m\<bar> mod 1000))"
  have "length ?fp = 3" by (rule zero_pad_length) simp_all
  then have "?fp \<noteq> []" "length ?fp \<le> 3" by (metis list.size(3) zero_neq_numeral, simp)
  then show ?thesis
    by (simp add: decimal_amount_def decimal_body_def Milliunits_String_eq)
qed

lemma thousandths_String:
  "thousandths (dec_nat (k div 1000)) (zero_pad 3 (dec_nat (k mod 1000))) = k"
proof -
  have "length (zero_pad 3 (dec_nat (k mod 1000))) = 3" by (rule zero_pad_length) simp_all
  then show ?thesis by (simp add: thousandths_def)
qed

lemma Parse_String: "ParseMilliunits (Milliunits_String m) = Inr m"
  unfolding ParseMilliunits_iff
  using Milliunits_String_amount [of m] amount_value_self [of m]
  by (metis thousandths_String)

interpretation milliunits: wire_codec Milliunits_String ParseMilliunits "\<lambda>_. True"
  by unfold_locales (rule Parse_String)

section \<open>What an even split is\<close>

lemma sum_list_extra:
  fixes s :: int
  assumes "0 \<le> k"
  shows "sum_list (map (\<lambda>i. if int i < k then s else 0) [0..<N]) = min k (int N) * s"
proof (induction N)
  case (Suc N)
  have "min k (int (Suc N)) = min k (int N) + (if int N < k then 1 else 0)" by auto
  then show ?case using Suc by (simp add: algebra_simps)
qed (use assms in simp)

lemma sum_list_const_plus:
  fixes q :: int
  shows "sum_list (map (\<lambda>i. q + f i) [0..<N]) = int N * q + sum_list (map f [0..<N])"
  by (induction N) (simp_all add: algebra_simps)

text \<open>Entry \<open>i\<close> of the split, as an integer: the quotient, one further from zero for the first \<open>|r|\<close>.\<close>

definition even_part :: "int \<Rightarrow> int \<Rightarrow> nat \<Rightarrow> int" where
  "even_part m n i = m sdiv n + (if int i < \<bar>m smod n\<bar> then sgn (m smod n) else 0)"

lemma even_part_sum:
  assumes "0 < n"
  shows "sum_list (map (even_part m n) [0..<nat n]) = m"
proof -
  have r: "\<bar>m smod n\<bar> \<le> n" using sdiv_smod_pos(2) [OF assms, of m] by simp
  have "sum_list (map (even_part m n) [0..<nat n])
      = n * (m sdiv n) + \<bar>m smod n\<bar> * sgn (m smod n)"
    using r assms unfolding even_part_def
    by (simp add: sum_list_const_plus sum_list_extra)
  also have "\<dots> = m" using sdiv_smod_pos(1) [OF assms, of m] by (simp add: abs_mult_sgn)
  finally show ?thesis .
qed

lemma even_part_range:
  assumes "0 < n"
  shows "\<bar>even_part m n i\<bar> \<le> \<bar>m\<bar>"
proof (cases "int i < \<bar>m smod n\<bar>")
  case False
  then show ?thesis using sdiv_smod_pos(3) [OF assms, of m] by (simp add: even_part_def)
next
  case True
  note d = sdiv_smod_pos [OF assms, of m]
  let ?q = "m sdiv n" and ?r = "m smod n"
  have "2 \<le> n" and "?r \<noteq> 0" using True d(2) by linarith+
  have "\<bar>?q\<bar> * 2 \<le> \<bar>?q\<bar> * n" using \<open>2 \<le> n\<close> by (intro mult_left_mono) auto
  show ?thesis
  proof (cases "0 \<le> m")
    case True
    with d have "0 \<le> ?q" "0 < ?r" using \<open>?r \<noteq> 0\<close> by auto
    moreover from this \<open>\<bar>?q\<bar> * 2 \<le> \<bar>?q\<bar> * n\<close> d(1) have "2 * ?q + ?r \<le> m" by (simp add: mult.commute)
    ultimately show ?thesis using \<open>int i < \<bar>?r\<bar>\<close> True by (simp add: even_part_def)
  next
    case False
    with d have "?q \<le> 0" "?r < 0" using \<open>?r \<noteq> 0\<close> by auto
    moreover from this \<open>\<bar>?q\<bar> * 2 \<le> \<bar>?q\<bar> * n\<close> d(1) have "m \<le> 2 * ?q + ?r" by (simp add: mult.commute)
    ultimately show ?thesis using \<open>int i < \<bar>?r\<bar>\<close> False by (simp add: even_part_def)
  qed
qed

lemma even_part_near: "\<bar>even_part m n i - even_part m n j\<bar> \<le> 1"
  by (auto simp: even_part_def sgn_if)

lemma even_part_order:
  assumes "0 < n" and "i \<le> j"
  shows "\<bar>even_part m n j\<bar> \<le> \<bar>even_part m n i\<bar>"
  using sdiv_smod_pos(4-7) [OF assms(1), of m] assms(2)
  by (cases "0 \<le> m") (auto simp: even_part_def sgn_if)


lemma word_of_nat_less_extra:
  assumes "0 < sint (n :: i64)" and "i < unat n"
  shows "word_of_nat i <s (e :: i64) \<longleftrightarrow> int i < sint e"
proof -
  have "i < 9223372036854775808"
    using assms(2) unat_nonneg_i64(2) [of n] assms(1) i64_bounds(2) [of n] by auto
  then show ?thesis by (simp add: word_sless_alt sint_word_of_nat_i64)
qed

text \<open>The code's parts are the mathematical ones: no addition in the loop wraps.\<close>

lemma SplitEven_parts:
  assumes n: "0 < sint n"
  shows "\<exists>ps. SplitEven m n = Inr ps \<and>
    map sint ps = map (even_part (sint m) (sint n)) [0..<nat (sint n)]"
proof -
  let ?q = "go_quo m n" and ?r = "go_rem m n"
  let ?part = "\<lambda>i. if word_of_nat i <s Abs ?r then ?q + (if ?r <s 0 then - 1 else 1) else ?q"
  have q: "sint ?q = sint m sdiv sint n" and r: "sint ?r = sint m smod sint n"
    by (rule sint_go_quo [OF n], rule sint_go_rem [OF n])
  have "sint ?r \<noteq> - 9223372036854775808"
    using sdiv_smod_pos(2) [OF n, of "sint m"] i64_bounds(2) [of n] r by linarith
  then have e: "sint (Abs ?r) = \<bar>sint m smod sint n\<bar>"
    using r by (simp add: Abs_def word_sless_alt sint_minus_i64)
  have part: "sint (?part i) = even_part (sint m) (sint n) i" if "i < unat n" for i
  proof (cases "int i < sint (Abs ?r)")
    case False
    then show ?thesis
      using e q that by (simp add: word_of_nat_less_extra [OF n] even_part_def)
  next
    case True
    let ?s = "if ?r <s 0 then - 1 else 1 :: i64"
    have s: "sint ?s = sgn (sint m smod sint n)"
      using True e r by (auto simp: word_sless_alt sgn_if)
    have "\<bar>even_part (sint m) (sint n) i\<bar> \<le> \<bar>sint m\<bar>" by (rule even_part_range [OF n])
    moreover have ep: "even_part (sint m) (sint n) i = sint ?q + sint ?s"
      using True e q s by (simp add: even_part_def)
    moreover have "sint m = - 9223372036854775808 \<Longrightarrow> sint ?q + sint ?s \<le> 0"
      using s q True e sdiv_smod_pos(5,7) [OF n, of "sint m"] by (auto simp: sgn_if)
    ultimately have "sint (?q + ?s) = sint ?q + sint ?s"
      using i64_bounds [of m] by (intro sint_add_i64) linarith+
    with True e ep that show ?thesis by (simp add: word_of_nat_less_extra [OF n])
  qed
  have "SplitEven m n = Inr (map ?part [0..<unat n])"
    using n by (simp add: SplitEven_def Let_def word_sle_eq)
  moreover have "map sint (map ?part [0..<unat n]) = map (even_part (sint m) (sint n)) [0..<nat (sint n)]"
    using part n by (simp add: unat_nonneg_i64)
  ultimately show ?thesis by blast
qed


section \<open>What the digit grouping is\<close>

text \<open>The reference: split off the last three digits while more than three are left.\<close>

function group_ref :: "string \<Rightarrow> string \<Rightarrow> string" where
  "group_ref sep s =
     (if length s \<le> 3 then s
      else group_ref sep (take (length s - 3) s) @ sep @ drop (length s - 3) s)"
  by pat_completeness auto
termination
  by (relation "measure (\<lambda>(sep, s). length s)") auto

declare group_ref.simps [simp del]

function sep_chunks :: "string \<Rightarrow> string \<Rightarrow> string" where
  "sep_chunks sep [] = []"
| "sep_chunks sep (c # s) = sep @ take 3 (c # s) @ sep_chunks sep (drop 3 (c # s))"
  by pat_completeness auto
termination
  by (relation "measure (\<lambda>(sep, s). length s)") auto

lemma groupDigits_loop_chunks: "b \<noteq> [] \<Longrightarrow> groupDigits_loop sep b s = b @ sep_chunks sep s"
proof (induction sep b s rule: groupDigits_loop.induct)
  case (2 sep b c s)
  then have "(if b \<noteq> [] then b @ sep else b) @ take 3 (c # s) \<noteq> []" by simp
  with "2.IH" "2.prems" show ?case by simp
qed simp

lemma sep_chunks_append:
  "3 dvd length s \<Longrightarrow> sep_chunks sep (s @ t) = sep_chunks sep s @ sep_chunks sep t"
proof (induction sep s rule: sep_chunks.induct)
  case (2 sep c s)
  have len: "3 \<le> length (c # s)" using "2.prems" by (intro dvd_imp_le) auto
  have dv: "3 dvd length (drop 3 (c # s))" using "2.prems" len by (simp only: length_drop dvd_diff_nat dvd_refl)
  have cons: "(c # s) @ t = c # (s @ t)" by simp
  have "sep_chunks sep ((c # s) @ t) = sep @ take 3 ((c # s) @ t) @ sep_chunks sep (drop 3 ((c # s) @ t))"
    unfolding cons by (rule sep_chunks.simps(2))
  also have "take 3 ((c # s) @ t) = take 3 (c # s)" using len by (simp only: take_append) simp
  also have "drop 3 ((c # s) @ t) = drop 3 (c # s) @ t" using len by (simp only: drop_append) simp
  finally show ?case
    unfolding "2.IH" [OF dv] by (simp only: sep_chunks.simps append_assoc)
qed simp

lemma group_ref_chunks:
  "3 dvd length s \<Longrightarrow> p \<noteq> [] \<Longrightarrow> length p \<le> 3 \<Longrightarrow> group_ref sep (p @ s) = p @ sep_chunks sep s"
proof (induction "length s" arbitrary: s rule: less_induct)
  case less
  show ?case
  proof (cases "s = []")
    case True
    with less.prems show ?thesis by (simp add: group_ref.simps)
  next
    case False
    with less.prems have len: "3 \<le> length s" by (intro dvd_imp_le) auto
    define u where "u = take (length s - 3) s"
    define l where "l = drop (length s - 3) s"
    have s: "s = u @ l" and l: "length l = 3" and u: "3 dvd length u" "length u < length s"
      using len less.prems(1) by (simp_all add: u_def l_def dvd_diff_nat)
    have big: "\<not> length (p @ s) \<le> 3" using len less.prems(2) by (cases p) auto
    have "group_ref sep (p @ s) = group_ref sep (p @ u) @ sep @ l"
      using big l less.prems(2) by (subst group_ref.simps) (simp add: s)
    also have "\<dots> = p @ sep_chunks sep u @ sep @ l" using less.hyps [OF u(2,1)] less.prems by simp
    also have "sep_chunks sep l = sep @ l" using l by (cases l) simp_all
    then have "p @ sep_chunks sep u @ sep @ l = p @ sep_chunks sep s"
      by (simp add: s sep_chunks_append [OF u(1)])
    finally show ?thesis .
  qed
qed

lemma group_ref_no_sep: "group_ref [] s = s"
proof (induction "[] :: string" s rule: group_ref.induct)
  case (1 s)
  then show ?case by (subst group_ref.simps) simp
qed

lemma groupDigits_ref: "groupDigits s sep = group_ref sep s"
proof -
  consider "sep = []" | "length s \<le> 3" | "sep \<noteq> []" "3 < length s" by linarith
  then show ?thesis
  proof cases
    case 3
    let ?lead = "length s mod 3"
    have dv: "3 dvd length (drop ?lead s)" by (simp add: dvd_minus_mod)
    show ?thesis
    proof (cases "?lead = 0")
      case False
      then have "take ?lead s \<noteq> []" "length (take ?lead s) \<le> 3" using 3 by (auto intro: less_imp_le)
      with group_ref_chunks [OF dv this] 3 False show ?thesis
        by (simp add: groupDigits_def groupDigits_loop_chunks Let_def)
    next
      case True
      have p: "take 3 s \<noteq> []" "length (take 3 s) \<le> 3" using 3 by auto
      have "3 dvd length (drop 3 s)" using True by (simp add: dvd_diff_nat mod_eq_0_iff_dvd)
      from group_ref_chunks [OF this p] have "group_ref sep s = take 3 s @ sep_chunks sep (drop 3 s)" by simp
      moreover have "groupDigits_loop sep [] s = groupDigits_loop sep (take 3 s) (drop 3 s)"
        using 3 by (cases s) simp_all
      ultimately show ?thesis using 3 True p by (simp add: groupDigits_def groupDigits_loop_chunks)
    qed
  qed (simp_all add: groupDigits_def group_ref_no_sep group_ref.simps [of sep s])
qed

text \<open>Grouping only inserts separators: dropping them gives the digits back.\<close>

lemma group_ref_filter:
  "list_all is_digit s \<Longrightarrow> list_all (\<lambda>c. \<not> is_digit c) sep \<Longrightarrow> filter is_digit (group_ref sep s) = s"
proof (induction sep s rule: group_ref.induct)
  case (1 sep s)
  have sepf: "filter is_digit sep = []" using "1.prems" by (simp add: list_all_iff filter_empty_conv)
  have fid: "filter is_digit t = t" if "list_all is_digit t" for t
    using that by (simp add: list_all_iff filter_id_conv)
  show ?case
  proof (cases "length s \<le> 3")
    case True
    then show ?thesis using "1.prems" by (simp add: group_ref.simps [of sep s] fid)
  next
    case False
    have "list_all is_digit (take (length s - 3) s)" "list_all is_digit (drop (length s - 3) s)"
      using "1.prems"(1) by (auto simp: list_all_iff dest: in_set_takeD in_set_dropD)
    then show ?thesis
      using "1.IH" [OF False] "1.prems" False sepf by (subst group_ref.simps) (simp add: fid)
  qed
qed


section \<open>What the currency format rounds to\<close>

lemma unat_pow10: "n \<le> 10 \<Longrightarrow> unat (pow10 n) = 10 ^ n"
proof (induction n)
  case (Suc n)
  have "(10 :: nat) ^ n * 10 \<le> 10 ^ 9 * 10" using Suc.prems by (intro mult_right_mono power_increasing) auto
  with Suc show ?case by (simp add: unat_word_ariths)
qed simp

lemma clamp_digits_le: "clamp_digits d \<le> 10"
  by (simp add: clamp_digits_def)

lemma unat_rescale_up:
  assumes "d \<le> 3" and "unat u \<le> 9223372036854775808"
  shows "unat (rescale u d) = (unat u + 10 ^ (3 - d) div 2) div 10 ^ (3 - d)"
proof -
  have p: "unat (pow10 (3 - d)) = 10 ^ (3 - d)" by (rule unat_pow10) (use assms in simp)
  have "(10 :: nat) ^ (3 - d) \<le> 10 ^ 3" by (intro power_increasing) auto
  then have "unat u + 10 ^ (3 - d) div 2 < 18446744073709551616" using assms(2) by auto
  then show ?thesis using assms(1) p
    by (simp add: rescale_def Let_def unat_div unat_word_ariths)
qed

lemma unat_rescale_down:
  assumes "3 < d" and "d \<le> 10" and "unat u * 10 ^ (d - 3) < 18446744073709551616"
  shows "unat (rescale u d) = unat u * 10 ^ (d - 3)"
  using assms unat_pow10 [of "d - 3"] by (simp add: rescale_def unat_word_ariths)

text \<open>\<open>k\<close> is \<open>n / D\<close> rounded half up, on magnitudes: half away from zero.\<close>

definition rounds_to :: "nat \<Rightarrow> nat \<Rightarrow> nat \<Rightarrow> bool" where
  "rounds_to n D k \<longleftrightarrow> 2 * k * D \<le> 2 * n + D \<and> 2 * n + D < 2 * (k + 1) * D"

lemma rounds_to_div:
  assumes "0 < D" and "even D \<or> D = 1"
  shows "rounds_to n D ((n + D div 2) div D)"
proof -
  define k where "k = (n + D div 2) div D"
  have kr: "n + D div 2 = k * D + (n + D div 2) mod D" by (simp add: k_def)
  have lt: "(n + D div 2) mod D < D" using assms(1) by simp
  have d2: "2 * (D div 2) = D \<or> D = 1" using assms(2) by auto
  have "k * D \<le> n + D div 2" "n + D div 2 < k * D + D" using kr lt by linarith+
  then show ?thesis
    unfolding rounds_to_def k_def [symmetric] using d2 by (auto simp: algebra_simps)
qed

lemma rounds_to_unique: "rounds_to n D k \<Longrightarrow> rounds_to n D j \<Longrightarrow> k = j"
proof (rule ccontr)
  assume a: "rounds_to n D k" "rounds_to n D j" "k \<noteq> j"
  have "\<not> a < b" if "rounds_to n D a" "rounds_to n D b" for a b
  proof
    assume "a < b"
    then have "2 * (a + 1) * D \<le> 2 * b * D" by (intro mult_right_mono) auto
    with that show False by (simp add: rounds_to_def)
  qed
  with a show False by (meson linorder_neqE_nat)
qed

definition format_number :: "nat \<Rightarrow> nat \<Rightarrow> string \<Rightarrow> string \<Rightarrow> string" where
  "format_number k digits sep point =
     group_ref sep (dec_nat (k div 10 ^ digits)) @
     (if 0 < digits then point @ zero_pad digits (dec_nat (k mod 10 ^ digits)) else [])"

definition format_affixes :: "bool \<Rightarrow> CurrencyFormat \<Rightarrow> string \<Rightarrow> string" where
  "format_affixes neg f number =
     (if neg then ''-'' else []) @
     (if DisplaySymbol f \<and> SymbolFirst f then CurrencySymbol f else []) @ number @
     (if DisplaySymbol f \<and> \<not> SymbolFirst f then CurrencySymbol f else [])"

lemma Format_eq:
  "Format m f =
     (let d = clamp_digits (DecimalDigits f)
      in format_affixes (sint m < 0) f
           (format_number (unat (rescale (magnitude m) d)) d (GroupSeparator f) (DecimalSeparator f)))"
  using clamp_digits_le [of "DecimalDigits f"]
  by (simp add: Format_def Let_def format_affixes_def format_number_def groupDigits_ref unat_div
      unat_mod unat_pow10 word_sless_alt zero_pad_def)

lemma Format_rounds:
  assumes "clamp_digits (DecimalDigits f) = d" and "d \<le> 3" and "rounds_to (nat \<bar>sint m\<bar>) (10 ^ (3 - d)) k"
  shows "Format m f = format_affixes (sint m < 0) f
    (format_number k d (GroupSeparator f) (DecimalSeparator f))"
proof -
  have "even ((10::nat) ^ (3 - d)) \<or> (10::nat) ^ (3 - d) = 1" by (cases "3 - d") auto
  then have "rounds_to (nat \<bar>sint m\<bar>) (10 ^ (3 - d)) (unat (rescale (magnitude m) d))"
    using rounds_to_div [of "10 ^ (3 - d)" "nat \<bar>sint m\<bar>"] unat_magnitude_le [of m] assms(2)
    by (simp add: unat_rescale_up unat_magnitude)
  then have "unat (rescale (magnitude m) d) = k" using assms(3) by (rule rounds_to_unique)
  then show ?thesis by (simp add: Format_eq assms(1))
qed


lemma unat_rescale_wraps:
  assumes "3 < d" and "d \<le> 10"
  shows "unat (rescale u d) = unat u * 10 ^ (d - 3) mod 18446744073709551616"
  using assms unat_pow10 [of "d - 3"] by (simp add: rescale_def unat_word_ariths)

section \<open>Properties\<close>

text \<open>
  C23: \<open>ParseMilliunits\<close> undoes \<open>String\<close> on every \<open>int64\<close>, the most negative included: the
  three-decimal form always round-trips, as the doc comment of \<open>ParseMilliunits\<close> promises.
\<close>

theorem Milliunits_roundtrip: "ParseMilliunits (Milliunits_String m) = Inr m"
  by (rule milliunits.dec_enc) simp

text \<open>
  C24: exactly what \<open>ParseMilliunits\<close> accepts and what it returns: an optional sign, one or more
  digits, at most three fraction digits after a point, and nothing else; the value is the exact
  number of thousandths, accepted when it fits \<open>int64\<close> (one further on the negative side).
\<close>

theorem ParseMilliunits_accepts:
  "ParseMilliunits s = Inr v \<longleftrightarrow>
   (\<exists>neg ip fp. decimal_amount s neg ip fp \<and> amount_value neg (thousandths ip fp) v)"
  by (rule ParseMilliunits_iff)

text \<open>
  C19: \<open>SplitEven\<close> with a positive count returns that many parts; their sum, computed without
  wrap-around, is exactly the amount; two parts differ by at most one milliunit; and the parts
  further from zero come first.
\<close>

theorem SplitEven_exact:
  assumes "0 <s n"
  shows "\<exists>ps. SplitEven m n = Inr ps \<and> length ps = unat n \<and>
    sum_list (map sint ps) = sint m \<and>
    (\<forall>i j. i < length ps \<longrightarrow> j < length ps \<longrightarrow> \<bar>sint (ps ! i) - sint (ps ! j)\<bar> \<le> 1) \<and>
    (\<forall>i j. i \<le> j \<longrightarrow> j < length ps \<longrightarrow> \<bar>sint (ps ! j)\<bar> \<le> \<bar>sint (ps ! i)\<bar>)"
proof -
  have n: "0 < sint n" using assms by (simp add: word_sless_alt)
  obtain ps where ps: "SplitEven m n = Inr ps"
    and eq: "map sint ps = map (even_part (sint m) (sint n)) [0..<nat (sint n)]"
    using SplitEven_parts [OF n] by blast
  have len: "length ps = nat (sint n)" using arg_cong [OF eq, of length] by simp
  have nth: "sint (ps ! i) = even_part (sint m) (sint n) i" if "i < length ps" for i
    using arg_cong [OF eq, of "\<lambda>xs. xs ! i"] that len by simp
  show ?thesis
    using ps len nth eq even_part_sum [OF n] even_part_near even_part_order [OF n]
    by (simp add: unat_nonneg_i64(2) n less_imp_le)
qed

theorem SplitEven_exact_witness:
  "0 <s (3 :: i64) \<and> (\<exists>ps. SplitEven (- 100000) 3 = Inr ps \<and> length ps = 3 \<and>
     sum_list (map sint ps) = - 100000)"
proof -
  have h: "0 <s (3 :: i64)" by (simp add: word_sless_alt)
  show ?thesis using h SplitEven_exact [OF h, of "- 100000"] by auto
qed

text \<open>
  C25: \<open>Format\<close> at zero to three decimals rounds half away from zero: when \<open>k\<close> is the amount's
  magnitude over \<open>10^(3 - digits)\<close> rounded half up, the output is the sign, the symbol on its side
  and \<open>k\<close> with its last \<open>digits\<close> digits behind the decimal separator and the rest in groups of
  three. The sign is kept when \<open>k\<close> is zero.
\<close>

theorem Format_rounds_half_away:
  assumes "clamp_digits (DecimalDigits f) = d" and "d \<le> 3"
    and "rounds_to (nat \<bar>sint m\<bar>) (10 ^ (3 - d)) k"
  shows "Format m f = format_affixes (sint m < 0) f
    (format_number k d (GroupSeparator f) (DecimalSeparator f))"
  using assms by (rule Format_rounds)

definition dollar_format :: CurrencyFormat where
  "dollar_format = \<lparr>ISOCode = ''USD'', ExampleFormat = ''123,456.78'', DecimalDigits = 2,
     DecimalSeparator = ''.'', SymbolFirst = True, GroupSeparator = '','', CurrencySymbol = ''$'',
     DisplaySymbol = True\<rparr>"

theorem Format_rounds_half_away_witness:
  "Format (- 1282225) dollar_format = ''-$1,282.23''"
proof -
  have d: "clamp_digits (DecimalDigits dollar_format) = 2" by (simp add: clamp_digits_def dollar_format_def)
  have r: "rounds_to (nat \<bar>sint (- 1282225 :: i64)\<bar>) (10 ^ (3 - 2)) 128223" by (simp add: rounds_to_def)
  show ?thesis
    by (subst Format_rounds_half_away [OF d _ r], simp)
      (simp add: format_affixes_def format_number_def dollar_format_def group_ref.simps dec_nat.simps
        zero_pad_def)
qed

text \<open>
  C26: Past three decimals \<open>Format\<close> scales the magnitude up in \<open>uint64\<close>, so what is printed is the
  scaled amount modulo \<open>2^64\<close>: exact below that bound, a different amount above it.
\<close>

theorem Format_scales_modulo:
  assumes "clamp_digits (DecimalDigits f) = d" and "3 < d"
  shows "Format m f = format_affixes (sint m < 0) f
    (format_number (nat \<bar>sint m\<bar> * 10 ^ (d - 3) mod 18446744073709551616) d
      (GroupSeparator f) (DecimalSeparator f))"
  using assms clamp_digits_le [of "DecimalDigits f"]
  by (auto simp: Format_eq Let_def unat_rescale_wraps unat_magnitude)

theorem Format_scales_modulo_witness:
  "Format 2000000000000 (dollar_format\<lparr>DecimalDigits := 10, DisplaySymbol := False\<rparr>) =
   ''155,325,592.6290448384''"
proof -
  let ?f = "dollar_format\<lparr>DecimalDigits := 10, DisplaySymbol := False\<rparr>"
  have d: "clamp_digits (DecimalDigits ?f) = 10" by (simp add: clamp_digits_def)
  show ?thesis
    by (subst Format_scales_modulo [OF d], simp)
      (simp add: format_affixes_def format_number_def dollar_format_def group_ref.simps dec_nat.simps
        zero_pad_def)
qed

end
