(* ===== verification/Calendar.thy ===== *)
theory Calendar
  imports Prelude
begin

text \<open>
  The part of Go's \<open>time\<close> package that \<open>date.go\<close> and \<open>month.go\<close> use: \<open>time.Date\<close> at midnight UTC,
  \<open>Time.Date\<close>, \<open>Time.AddDate\<close> and \<open>daysIn\<close>. A midnight-UTC \<open>time.Time\<close> is its day number (days since
  0001-01-01 in the proleptic Gregorian calendar), an \<open>int\<close>: the wrap-around of \<open>time.Date\<close> for years
  beyond about 292 billion is not modelled. The lemmas show that day numbers and calendar dates
  determine each other.
\<close>

section \<open>The Gregorian calendar\<close>

definition is_leap :: "int \<Rightarrow> bool" where
  "is_leap y \<longleftrightarrow> y mod 4 = 0 \<and> (y mod 100 \<noteq> 0 \<or> y mod 400 = 0)"

definition daysIn :: "int \<Rightarrow> int \<Rightarrow> int" where
  "daysIn m y =
     (if m = 2 then (if is_leap y then 29 else 28)
      else if m = 4 \<or> m = 6 \<or> m = 9 \<or> m = 11 then 30 else 31)"

definition valid_ymd :: "int \<Rightarrow> int \<Rightarrow> int \<Rightarrow> bool" where
  "valid_ymd y m d \<longleftrightarrow> 1 \<le> m \<and> m \<le> 12 \<and> 1 \<le> d \<and> d \<le> daysIn m y"

definition year_start :: "int \<Rightarrow> int" where
  "year_start y = 365 * (y - 1) + (y - 1) div 4 - (y - 1) div 100 + (y - 1) div 400"

definition month_start :: "int \<Rightarrow> int \<Rightarrow> int" where
  "month_start y m =
     (if m \<le> 1 then 0 else if m = 2 then 31
      else (if m = 3 then 59 else if m = 4 then 90 else if m = 5 then 120 else if m = 6 then 151
            else if m = 7 then 181 else if m = 8 then 212 else if m = 9 then 243
            else if m = 10 then 273 else if m = 11 then 304 else 334) + (if is_leap y then 1 else 0))"

definition day_number :: "int \<Rightarrow> int \<Rightarrow> int \<Rightarrow> int" where
  "day_number y m d = year_start y + month_start y m + (d - 1)"

text \<open>\<open>time.Date(y, m, d, 0, 0, 0, 0, time.UTC)\<close>: the month is carried into the year, the day is not checked.\<close>

definition time_Date :: "int \<Rightarrow> int \<Rightarrow> int \<Rightarrow> int" where
  "time_Date y m d = day_number (y + (m - 1) div 12) ((m - 1) mod 12 + 1) d"

text \<open>\<open>Time.Date\<close>: the year from 400-, 100-, 4- and 1-year cycles, then the month in the year.\<close>

definition year_of :: "int \<Rightarrow> int" where
  "year_of n =
     (let a = n div 146097; r = n mod 146097;
          b = min 3 (r div 36524); r1 = r - 36524 * b;
          c = r1 div 1461; r2 = r1 mod 1461;
          d = min 3 (r2 div 365)
      in 400 * a + 100 * b + 4 * c + d + 1)"

definition month_of :: "int \<Rightarrow> int \<Rightarrow> int" where
  "month_of y yday =
     (let l = (if is_leap y then 1 else 0)
      in if yday < 31 then 1 else if yday < 59 + l then 2 else if yday < 90 + l then 3
         else if yday < 120 + l then 4 else if yday < 151 + l then 5 else if yday < 181 + l then 6
         else if yday < 212 + l then 7 else if yday < 243 + l then 8 else if yday < 273 + l then 9
         else if yday < 304 + l then 10 else if yday < 334 + l then 11 else 12)"

definition civil_of :: "int \<Rightarrow> int \<times> int \<times> int" where
  "civil_of n =
     (let y = year_of n; yday = n - year_start y; m = month_of y yday
      in (y, m, yday - month_start y m + 1))"

text \<open>\<open>Time.AddDate(years, months, days)\<close> on a midnight-UTC time.\<close>

definition time_AddDate :: "int \<Rightarrow> int \<Rightarrow> int \<Rightarrow> int \<Rightarrow> int" where
  "time_AddDate n years months days =
     (case civil_of n of (y, m, d) \<Rightarrow> time_Date (y + years) (m + months) (d + days))"

section \<open>Years\<close>

lemma div_step:
  fixes y k :: int
  assumes "0 < k"
  shows "y div k = (y - 1) div k + (if y mod k = 0 then 1 else 0)"
proof -
  define q where "q = (y - 1) div k"
  define r where "r = (y - 1) mod k"
  have y: "y = k * q + (r + 1)" by (simp add: q_def r_def)
  have r: "0 \<le> r" "r < k" using assms by (simp_all add: r_def)
  show ?thesis
  proof (cases "r + 1 = k")
    case True
    then have "y = k * (q + 1) + 0" using y by (simp add: algebra_simps)
    then have "y div k = q + 1" "y mod k = 0" using assms by simp_all
    then show ?thesis by (simp add: q_def)
  next
    case False
    with r have "y div k = q" "y mod k = r + 1"
      using int_div_pos_eq [OF y] int_mod_pos_eq [OF y] by auto
    then show ?thesis using r by (simp add: q_def)
  qed
qed

lemma mod_dvd_mono:
  fixes y k j :: int
  assumes "j dvd k" and "y mod k = 0"
  shows "y mod j = 0"
  using assms by (meson dvd_trans mod_eq_0_iff_dvd)

lemma year_start_step: "year_start (y + 1) = year_start y + (if is_leap y then 366 else 365)"
proof -
  define P4 P100 P400 where "P4 \<longleftrightarrow> y mod 4 = 0" and "P100 \<longleftrightarrow> y mod 100 = 0" and "P400 \<longleftrightarrow> y mod 400 = 0"
  have incl: "P400 \<Longrightarrow> P100" "P100 \<Longrightarrow> P4"
    unfolding P4_def P100_def P400_def
    using mod_dvd_mono [of 100 400 y] mod_dvd_mono [of 4 100 y] by fastforce+
  have step: "y div 4 = (y - 1) div 4 + (if P4 then 1 else 0)"
    "y div 100 = (y - 1) div 100 + (if P100 then 1 else 0)"
    "y div 400 = (y - 1) div 400 + (if P400 then 1 else 0)"
    unfolding P4_def P100_def P400_def by (rule div_step, simp)+
  have leap: "is_leap y \<longleftrightarrow> P4 \<and> (\<not> P100 \<or> P400)"
    by (simp add: is_leap_def P4_def P100_def P400_def)
  show ?thesis
    unfolding year_start_def leap add_diff_cancel_right' step
    using incl by (cases P4; cases P100; cases P400) simp_all
qed

lemma year_start_less:
  assumes "y < z"
  shows "year_start (y + 1) \<le> year_start z"
proof -
  have "year_start (y + 1) \<le> year_start (y + 1 + int k)" for k
  proof (induction k)
    case (Suc k)
    have "year_start (y + 1 + int k) \<le> year_start (y + 1 + int k + 1)"
      unfolding year_start_step by simp
    with Suc show ?case by (simp add: add.assoc add.commute)
  qed simp
  from this [of "nat (z - y - 1)"] assms show ?thesis by simp
qed

lemma year_unique:
  assumes "year_start y \<le> n" "n < year_start (y + 1)" "year_start z \<le> n" "n < year_start (z + 1)"
  shows "y = z"
  using assms year_start_less [of y z] year_start_less [of z y] by linarith

lemma cycles_year_start:
  assumes "0 \<le> b" "b \<le> 3" "0 \<le> c" "c \<le> 24" "0 \<le> d" "d \<le> 3"
  shows "year_start (400 * a + 100 * b + 4 * c + d + 1) = 146097 * a + 36524 * b + 1461 * c + 365 * d"
proof -
  let ?k = "400 * a + 100 * b + 4 * c + d"
  have "?k = 4 * (100 * a + 25 * b + c) + d" by simp
  from int_div_pos_eq [OF this] assms have "?k div 4 = 100 * a + 25 * b + c" by linarith
  moreover have "?k = 100 * (4 * a + b) + (4 * c + d)" by simp
  from int_div_pos_eq [OF this] assms have "?k div 100 = 4 * a + b" by linarith
  moreover have "?k = 400 * a + (100 * b + 4 * c + d)" by simp
  from int_div_pos_eq [OF this] assms have "?k div 400 = a" by linarith
  ultimately show ?thesis by (simp add: year_start_def)
qed

text \<open>A year ending a 4-year cycle is a leap year unless it ends a century that ends no 400 years.\<close>

lemma cycles_leap:
  assumes "0 \<le> b" "b \<le> 3" "0 \<le> c" "c \<le> 24" "c = 24 \<Longrightarrow> b = 3"
  shows "is_leap (400 * a + 100 * b + 4 * c + 4)"
proof (cases "c = 24")
  case True
  with assms(5) have y: "400 * a + 100 * b + 4 * c + 4 = 400 * (a + 1)" by simp
  show ?thesis unfolding y is_leap_def using mod_dvd_mono [of 4 400 "400 * (a + 1)"] by simp
next
  case False
  let ?y = "400 * a + 100 * b + 4 * c + 4"
  have "?y = 4 * (100 * a + 25 * b + c + 1) + 0" by simp
  from int_mod_pos_eq [OF this] have "?y mod 4 = 0" by simp
  moreover have "?y = 100 * (4 * a + b) + (4 * c + 4)" by simp
  from int_mod_pos_eq [OF this] have "?y mod 100 = 4 * c + 4" using False assms by simp
  ultimately show ?thesis using assms by (simp add: is_leap_def)
qed

lemma year_of_bounds: "year_start (year_of n) \<le> n \<and> n < year_start (year_of n + 1)"
proof -
  define a where "a = n div 146097"
  define r where "r = n mod 146097"
  define b where "b = min 3 (r div 36524)"
  define r1 where "r1 = r - 36524 * b"
  define c where "c = r1 div 1461"
  define r2 where "r2 = r1 mod 1461"
  define d where "d = min 3 (r2 div 365)"
  have y: "year_of n = 400 * a + 100 * b + 4 * c + d + 1"
    by (simp only: year_of_def Let_def a_def b_def c_def d_def r_def r1_def r2_def)
  have n: "n = 146097 * a + r" and r: "0 \<le> r" "r < 146097" by (simp_all add: a_def r_def)
  have rb: "r = 36524 * (r div 36524) + r mod 36524" "0 \<le> r mod 36524" "r mod 36524 < 36524" by simp_all
  have r0: "0 \<le> r div 36524" using rb r by linarith
  have b_cases: "r div 36524 \<le> 3 \<and> b = r div 36524 \<or> 4 \<le> r div 36524 \<and> b = 3"
    unfolding b_def by linarith
  have b: "0 \<le> b" "b \<le> 3" using b_cases r0 by linarith+
  have r1: "0 \<le> r1" "r1 < 36524 \<or> b = 3 \<and> r1 \<le> 36524"
    using rb r b_cases unfolding r1_def by linarith+
  have c12: "r1 = 1461 * c + r2" "0 \<le> r2" "r2 < 1461" by (simp_all add: c_def r2_def)
  have c: "0 \<le> c" "c \<le> 24" using c12 r1 by linarith+
  have rd: "r2 = 365 * (r2 div 365) + r2 mod 365" "0 \<le> r2 mod 365" "r2 mod 365 < 365" by simp_all
  have d_cases: "r2 div 365 \<le> 3 \<and> d = r2 div 365 \<or> 4 \<le> r2 div 365 \<and> d = 3"
    unfolding d_def by linarith
  have d: "0 \<le> d" "d \<le> 3" "365 * d \<le> r2" "r2 < 365 * d + 365 \<or> d = 3 \<and> r2 = 1460"
    using rd c12 d_cases by linarith+
  have start: "year_start (year_of n) = 146097 * a + 36524 * b + 1461 * c + 365 * d"
    unfolding y by (rule cycles_year_start [OF b c d(1,2)])
  have n': "n = 146097 * a + 36524 * b + 1461 * c + r2" using n c12 unfolding r1_def by linarith
  have "n < year_start (year_of n + 1)"
  proof (cases "r2 < 365 * d + 365")
    case True
    then show ?thesis using start n' unfolding year_start_step by auto
  next
    case False
    with d have d3: "d = 3" "r2 = 1460" by auto
    have "is_leap (400 * a + 100 * b + 4 * c + 4)"
      by (rule cycles_leap [OF b c]) (use c12 d3 r1 in linarith)
    moreover have "400 * a + 100 * b + 4 * c + 4 = year_of n" using y d3 by simp
    ultimately have "is_leap (year_of n)" by (simp only:)
    then show ?thesis using start n' d3 unfolding year_start_step by simp
  qed
  moreover have "year_start (year_of n) \<le> n" using start n' d by linarith
  ultimately show ?thesis by simp
qed

section \<open>Days in the year\<close>

lemma month_start_next:
  "1 \<le> m \<Longrightarrow> m < 12 \<Longrightarrow> month_start y (m + 1) = month_start y m + daysIn m y"
proof -
  assume "1 \<le> m" "m < 12"
  then have "m = 1 \<or> m = 2 \<or> m = 3 \<or> m = 4 \<or> m = 5 \<or> m = 6 \<or> m = 7 \<or> m = 8 \<or> m = 9 \<or> m = 10 \<or> m = 11"
    by presburger
  then show ?thesis by (elim disjE) (simp_all add: month_start_def daysIn_def)
qed

lemma month_range: "1 \<le> m \<Longrightarrow> m \<le> (12 :: int) \<Longrightarrow>
  m = 1 \<or> m = 2 \<or> m = 3 \<or> m = 4 \<or> m = 5 \<or> m = 6 \<or> m = 7 \<or> m = 8 \<or> m = 9 \<or> m = 10 \<or> m = 11 \<or> m = 12"
  by presburger

lemma month_of_interval:
  assumes "1 \<le> m" "m \<le> 12" "month_start y m \<le> t" "t < month_start y m + daysIn m y"
  shows "month_of y t = m"
proof (cases "is_leap y")
  case True
  from month_range [OF assms(1,2)] show ?thesis
  proof (elim disjE)
    assume "m = 1"
    with assms(3,4) True show ?thesis by (simp add: month_of_def month_start_def daysIn_def)
  next
    assume "m = 2"
    with assms(3,4) True show ?thesis by (simp add: month_of_def month_start_def daysIn_def)
  next
    assume "m = 3"
    with assms(3,4) True show ?thesis by (simp add: month_of_def month_start_def daysIn_def)
  next
    assume "m = 4"
    with assms(3,4) True show ?thesis by (simp add: month_of_def month_start_def daysIn_def)
  next
    assume "m = 5"
    with assms(3,4) True show ?thesis by (simp add: month_of_def month_start_def daysIn_def)
  next
    assume "m = 6"
    with assms(3,4) True show ?thesis by (simp add: month_of_def month_start_def daysIn_def)
  next
    assume "m = 7"
    with assms(3,4) True show ?thesis by (simp add: month_of_def month_start_def daysIn_def)
  next
    assume "m = 8"
    with assms(3,4) True show ?thesis by (simp add: month_of_def month_start_def daysIn_def)
  next
    assume "m = 9"
    with assms(3,4) True show ?thesis by (simp add: month_of_def month_start_def daysIn_def)
  next
    assume "m = 10"
    with assms(3,4) True show ?thesis by (simp add: month_of_def month_start_def daysIn_def)
  next
    assume "m = 11"
    with assms(3,4) True show ?thesis by (simp add: month_of_def month_start_def daysIn_def)
  next
    assume "m = 12"
    with assms(3,4) True show ?thesis by (simp add: month_of_def month_start_def daysIn_def)
  qed
next
  case False
  from month_range [OF assms(1,2)] show ?thesis
  proof (elim disjE)
    assume "m = 1"
    with assms(3,4) False show ?thesis by (simp add: month_of_def month_start_def daysIn_def)
  next
    assume "m = 2"
    with assms(3,4) False show ?thesis by (simp add: month_of_def month_start_def daysIn_def)
  next
    assume "m = 3"
    with assms(3,4) False show ?thesis by (simp add: month_of_def month_start_def daysIn_def)
  next
    assume "m = 4"
    with assms(3,4) False show ?thesis by (simp add: month_of_def month_start_def daysIn_def)
  next
    assume "m = 5"
    with assms(3,4) False show ?thesis by (simp add: month_of_def month_start_def daysIn_def)
  next
    assume "m = 6"
    with assms(3,4) False show ?thesis by (simp add: month_of_def month_start_def daysIn_def)
  next
    assume "m = 7"
    with assms(3,4) False show ?thesis by (simp add: month_of_def month_start_def daysIn_def)
  next
    assume "m = 8"
    with assms(3,4) False show ?thesis by (simp add: month_of_def month_start_def daysIn_def)
  next
    assume "m = 9"
    with assms(3,4) False show ?thesis by (simp add: month_of_def month_start_def daysIn_def)
  next
    assume "m = 10"
    with assms(3,4) False show ?thesis by (simp add: month_of_def month_start_def daysIn_def)
  next
    assume "m = 11"
    with assms(3,4) False show ?thesis by (simp add: month_of_def month_start_def daysIn_def)
  next
    assume "m = 12"
    with assms(3,4) False show ?thesis by (simp add: month_of_def month_start_def daysIn_def)
  qed
qed

lemma month_end: "1 \<le> m \<Longrightarrow> m \<le> 12 \<Longrightarrow>
  0 \<le> month_start y m \<and> month_start y m + daysIn m y \<le> (if is_leap y then 366 else 365)"
  by (drule (1) month_range) (elim disjE; simp add: month_start_def daysIn_def)

lemma valid_yday:
  assumes "valid_ymd y m d"
  shows "0 \<le> month_start y m + (d - 1)" "month_start y m + (d - 1) < (if is_leap y then 366 else 365)"
    "month_of y (month_start y m + (d - 1)) = m"
proof -
  have v: "1 \<le> m" "m \<le> 12" "1 \<le> d" "d \<le> daysIn m y" using assms by (simp_all add: valid_ymd_def)
  show "0 \<le> month_start y m + (d - 1)" "month_start y m + (d - 1) < (if is_leap y then 366 else 365)"
    using month_end [OF v(1,2), of y] v by linarith+
  show "month_of y (month_start y m + (d - 1)) = m"
    using v by (intro month_of_interval) auto
qed

lemma month_exists:
  assumes "0 \<le> t"
  shows "k < 12 \<Longrightarrow> t < month_start y (int k + 1) + daysIn (int k + 1) y \<Longrightarrow>
    \<exists>m. 1 \<le> m \<and> m \<le> 12 \<and> month_start y m \<le> t \<and> t < month_start y m + daysIn m y"
proof (induction k)
  case 0
  then show ?case using assms by (intro exI [of _ 1]) (simp add: month_start_def)
next
  case (Suc k)
  show ?case
  proof (cases "t < month_start y (int k + 1) + daysIn (int k + 1) y")
    case True
    with Suc show ?thesis by simp
  next
    case False
    moreover have "month_start y (int k + 1 + 1) = month_start y (int k + 1) + daysIn (int k + 1) y"
      by (rule month_start_next) (use Suc.prems in auto)
    ultimately show ?thesis using Suc.prems
      by (intro exI [of _ "int k + 1 + 1"]) (auto simp: add.commute)
  qed
qed

lemma month_of_valid:
  assumes "0 \<le> yday" "yday < (if is_leap y then 366 else 365)"
  shows "valid_ymd y (month_of y yday) (yday - month_start y (month_of y yday) + 1)"
proof -
  have "month_start y (int 11 + 1) + daysIn (int 11 + 1) y = (if is_leap y then 366 else 365)"
    by (simp add: month_start_def daysIn_def)
  with assms(2) obtain m where m: "1 \<le> m" "m \<le> 12" "month_start y m \<le> yday"
    "yday < month_start y m + daysIn m y"
    using month_exists [OF assms(1), of 11 y] by auto
  from month_of_interval [OF m] have "month_of y yday = m" .
  with m show ?thesis by (simp add: valid_ymd_def)
qed

section \<open>Dates and day numbers determine each other\<close>

lemma civil_of_day_number:
  assumes "valid_ymd y m d"
  shows "civil_of (day_number y m d) = (y, m, d)"
proof -
  note v = valid_yday [OF assms]
  let ?n = "day_number y m d"
  have n: "year_start y \<le> ?n" "?n < year_start (y + 1)"
    using v unfolding day_number_def year_start_step by linarith+
  have "year_of ?n = y" using n year_of_bounds [of ?n] by (metis year_unique)
  then show ?thesis using v by (simp add: civil_of_def Let_def day_number_def add.assoc)
qed

lemma day_number_civil_of:
  assumes "civil_of n = (y, m, d)"
  shows "valid_ymd y m d" "day_number y m d = n"
proof -
  from assms have y: "y = year_of n" and m: "m = month_of y (n - year_start y)"
    and d: "d = n - year_start y - month_start y m + 1"
    by (auto simp: civil_of_def Let_def)
  have "0 \<le> n - year_start y" "n - year_start y < (if is_leap y then 366 else 365)"
    using year_of_bounds [of n] unfolding y year_start_step by linarith+
  then show "valid_ymd y m d" unfolding d m by (rule month_of_valid)
  show "day_number y m d = n" by (simp add: day_number_def d)
qed

lemma time_Date_valid: "1 \<le> m \<Longrightarrow> m \<le> 12 \<Longrightarrow> time_Date y m d = day_number y m d"
  by (simp add: time_Date_def)

lemma day_number_add: "day_number y m (d + k) = day_number y m d + k"
  by (simp add: day_number_def)

lemma time_Date_add: "time_Date y m (d + k) = time_Date y m d + k"
  by (simp add: time_Date_def day_number_add Let_def)

lemma time_AddDate_days: "time_AddDate n 0 0 k = n + k"
proof -
  obtain y m d where c: "civil_of n = (y, m, d)" by (cases "civil_of n") auto
  note v = day_number_civil_of [OF c]
  then have "1 \<le> m" "m \<le> 12" by (simp_all add: valid_ymd_def)
  with c v(2) show ?thesis by (simp add: time_AddDate_def time_Date_valid day_number_add)
qed

text \<open>Day numbers order dates as their components do.\<close>

lemma month_start_mono:
  assumes "valid_ymd y m d" "valid_ymd y m' d'" "m < m'"
  shows "month_start y m + d \<le> month_start y m'"
proof -
  have "m = 1 \<or> m = 2 \<or> m = 3 \<or> m = 4 \<or> m = 5 \<or> m = 6 \<or> m = 7 \<or> m = 8 \<or> m = 9 \<or> m = 10 \<or> m = 11 \<or> m = 12"
    using assms unfolding valid_ymd_def by presburger
  then show ?thesis using assms
    by (elim disjE) (auto simp: valid_ymd_def month_start_def daysIn_def split: if_splits)
qed

lemma day_number_less:
  assumes "valid_ymd y m d" "valid_ymd y' m' d'"
    and "y < y' \<or> y = y' \<and> (m < m' \<or> m = m' \<and> d < d')"
  shows "day_number y m d < day_number y' m' d'"
proof (cases "y < y'")
  case True
  then have "year_start (y + 1) \<le> year_start y'" by (rule year_start_less)
  then show ?thesis
    using valid_yday(2) [OF assms(1)] valid_yday(1) [OF assms(2)]
    unfolding day_number_def year_start_step by linarith
next
  case False
  with assms(3) have y: "y = y'" and md: "m < m' \<or> m = m' \<and> d < d'" by auto
  then show ?thesis
    using month_start_mono [of y m d m' d'] assms(1,2) by (auto simp: day_number_def valid_ymd_def)
qed

end
