(* ===== verification/Dates.thy ===== *)
theory Dates
  imports Calendar Go_Strings Interfaces
begin

text \<open>
  \<open>date.go\<close>: a calendar day in the wire form YYYY-MM-DD, with the zero value for "no date". The
  model covers construction, strict parsing, rendering, the JSON form, comparison and the day and
  month arithmetic, all in UTC; \<open>Today\<close> and \<open>In\<close>, which meet a time zone, are in \<open>Clock\<close>.
\<close>

section \<open>The type and its operations\<close>

record Date =
  d_year :: int
  d_month :: int
  d_day :: int

definition zero_Date :: Date where
  "zero_Date = \<lparr>d_year = 0, d_month = 0, d_day = 0\<rparr>"

definition Date_IsZero :: "Date \<Rightarrow> bool" where
  "Date_IsZero d \<longleftrightarrow> d = zero_Date"

definition DateOf :: "int \<Rightarrow> Date" where
  "DateOf t = (case civil_of t of (y, m, d) \<Rightarrow> \<lparr>d_year = y, d_month = m, d_day = d\<rparr>)"

definition NewDate :: "int \<Rightarrow> int \<Rightarrow> int \<Rightarrow> Date" where
  "NewDate year month day = DateOf (time_Date year month day)"

definition Date_Time :: "Date \<Rightarrow> int" where
  "Date_Time d = time_Date (d_year d) (d_month d) (d_day d)"

definition AddDays :: "Date \<Rightarrow> int \<Rightarrow> Date" where
  "AddDays d n = (if Date_IsZero d then d else DateOf (time_AddDate (Date_Time d) 0 0 n))"

definition Date_AddMonths :: "Date \<Rightarrow> int \<Rightarrow> Date" where
  "Date_AddMonths d n = (if Date_IsZero d then d else DateOf (time_AddDate (Date_Time d) 0 n 0))"

text \<open>\<open>cmp.Compare\<close> on integers.\<close>

definition cmp_Compare :: "int \<Rightarrow> int \<Rightarrow> int" where
  "cmp_Compare a b = (if a < b then -1 else if b < a then 1 else 0)"

definition Date_Compare :: "Date \<Rightarrow> Date \<Rightarrow> int" where
  "Date_Compare d o' =
     (if d = o' then 0
      else if d_year d \<noteq> d_year o' then cmp_Compare (d_year d) (d_year o')
      else if d_month d \<noteq> d_month o' then cmp_Compare (d_month d) (d_month o')
      else cmp_Compare (d_day d) (d_day o'))"

definition Date_Before :: "Date \<Rightarrow> Date \<Rightarrow> bool" where
  "Date_Before d o' \<longleftrightarrow> Date_Compare d o' < 0"

definition Date_After :: "Date \<Rightarrow> Date \<Rightarrow> bool" where
  "Date_After d o' \<longleftrightarrow> Date_Compare d o' > 0"

definition Date_String :: "Date \<Rightarrow> string" where
  "Date_String d =
     (if Date_IsZero d then []
      else fmt_0d 4 (d_year d) @ ''-'' @ fmt_0d 2 (d_month d) @ ''-'' @ fmt_0d 2 (d_day d))"

section \<open>Parsing\<close>

text \<open>
  \<open>time.Parse("2006-01-02", s)\<close>: four year digits, a dash, two month digits checked against 1 to 12,
  a dash, two day digits, nothing after them, and then the day checked against the month's length.
\<close>

datatype time_error = TimeBad | TimeMonthRange | TimeExtraText | TimeDayRange

definition getnum :: "nat \<Rightarrow> string \<Rightarrow> (nat \<times> string) option" where
  "getnum n s =
     (if length s < n \<or> \<not> list_all is_digit (take n s) then None
      else Some (digits_val (take n s), drop n s))"

definition skip_dash :: "string \<Rightarrow> string option" where
  "skip_dash s = (case s of c # r \<Rightarrow> if c = CHR ''-'' then Some r else None | [] \<Rightarrow> None)"

definition time_Parse :: "string \<Rightarrow> time_error + int" where
  "time_Parse s =
     (case getnum 4 s of None \<Rightarrow> Inl TimeBad | Some (y, s1) \<Rightarrow>
      case skip_dash s1 of None \<Rightarrow> Inl TimeBad | Some s2 \<Rightarrow>
      case getnum 2 s2 of None \<Rightarrow> Inl TimeBad | Some (m, s3) \<Rightarrow>
      if m = 0 \<or> 12 < m then Inl TimeMonthRange else
      case skip_dash s3 of None \<Rightarrow> Inl TimeBad | Some s4 \<Rightarrow>
      case getnum 2 s4 of None \<Rightarrow> Inl TimeBad | Some (d, s5) \<Rightarrow>
      if s5 \<noteq> [] then Inl TimeExtraText
      else if d < 1 \<or> daysIn (int m) (int y) < int d then Inl TimeDayRange
      else Inr (time_Date (int y) (int m) (int d)))"

datatype date_error = DateParse string time_error | DateNotStrict string | DateNotString string

definition ParseDate :: "string \<Rightarrow> date_error + Date" where
  "ParseDate s =
     (case time_Parse s of
        Inl e \<Rightarrow> Inl (DateParse s e)
      | Inr t \<Rightarrow> let d = DateOf t in if Date_String d \<noteq> s then Inl (DateNotStrict s) else Inr d)"

section \<open>JSON\<close>

definition Date_MarshalJSON :: "Date \<Rightarrow> string" where
  "Date_MarshalJSON d = (if Date_IsZero d then ''null'' else CHR 0x22 # Date_String d @ [CHR 0x22])"

definition Date_UnmarshalJSON :: "string \<Rightarrow> date_error + Date" where
  "Date_UnmarshalJSON s =
     (if s = ''null'' then Inr zero_Date
      else if length s < 2 \<or> hd s \<noteq> CHR 0x22 \<or> last s \<noteq> CHR 0x22 then Inl (DateNotString s)
      else ParseDate (butlast (tl s)))"

section \<open>Calendar dates\<close>

text \<open>A real calendar day, and one whose year the wire form can carry.\<close>

definition real_date :: "Date \<Rightarrow> bool" where
  "real_date d \<longleftrightarrow> valid_ymd (d_year d) (d_month d) (d_day d)"

definition wire_date :: "Date \<Rightarrow> bool" where
  "wire_date d \<longleftrightarrow> real_date d \<and> 0 \<le> d_year d \<and> d_year d \<le> 9999"

lemma real_date_not_zero: "real_date d \<Longrightarrow> \<not> Date_IsZero d"
  by (auto simp: real_date_def Date_IsZero_def zero_Date_def valid_ymd_def)

lemma wire_date_real: "wire_date d \<Longrightarrow> real_date d"
  by (simp add: wire_date_def)

lemma DateOf_real [simp]: "real_date (DateOf t)"
proof -
  obtain y m d where c: "civil_of t = (y, m, d)" by (cases "civil_of t") auto
  with day_number_civil_of(1) [OF c] show ?thesis by (simp add: DateOf_def real_date_def)
qed

lemma DateOf_day_number: "valid_ymd y m d \<Longrightarrow> DateOf (day_number y m d) = \<lparr>d_year = y, d_month = m, d_day = d\<rparr>"
  by (simp add: DateOf_def civil_of_day_number)

lemma Date_Time_real: "real_date d \<Longrightarrow> Date_Time d = day_number (d_year d) (d_month d) (d_day d)"
  by (simp add: Date_Time_def real_date_def valid_ymd_def time_Date_valid)

lemma DateOf_Date_Time [simp]: "real_date d \<Longrightarrow> DateOf (Date_Time d) = d"
  by (simp add: Date_Time_real DateOf_day_number real_date_def)

lemma Date_Time_DateOf [simp]: "Date_Time (DateOf t) = t"
proof -
  obtain y m d where c: "civil_of t = (y, m, d)" by (cases "civil_of t") auto
  with day_number_civil_of(2) [OF c] show ?thesis
    using Date_Time_real [OF DateOf_real, of t] by (simp add: DateOf_def)
qed

lemma DateOf_inj [simp]: "DateOf s = DateOf t \<longleftrightarrow> s = t"
  by (metis Date_Time_DateOf)

lemma NewDate_valid: "valid_ymd y m d \<Longrightarrow> NewDate y m d = \<lparr>d_year = y, d_month = m, d_day = d\<rparr>"
  using DateOf_day_number [of y m d] by (simp add: NewDate_def time_Date_valid valid_ymd_def)

lemma AddDays_real: "real_date d \<Longrightarrow> AddDays d n = DateOf (Date_Time d + n)"
  by (simp add: AddDays_def real_date_not_zero time_AddDate_days)


section \<open>Rendering and parsing undo each other\<close>

lemma getnum_Some:
  "getnum n s = Some (v, r) \<longleftrightarrow>
   (\<exists>ds. s = ds @ r \<and> length ds = n \<and> list_all is_digit ds \<and> v = digits_val ds)"
proof
  assume "getnum n s = Some (v, r)"
  then have "s = take n s @ r \<and> length (take n s) = n \<and> list_all is_digit (take n s) \<and> v = digits_val (take n s)"
    by (auto simp: getnum_def split: if_splits)
  then show "\<exists>ds. s = ds @ r \<and> length ds = n \<and> list_all is_digit ds \<and> v = digits_val ds" ..
qed (auto simp: getnum_def)

lemma getnum_append: "length ds = n \<Longrightarrow> list_all is_digit ds \<Longrightarrow> getnum n (ds @ r) = Some (digits_val ds, r)"
  by (simp add: getnum_def)

lemma skip_dash_Some: "skip_dash s = Some r \<longleftrightarrow> s = CHR ''-'' # r"
  by (cases s) (auto simp: skip_dash_def)

definition date_text :: "nat \<Rightarrow> nat \<Rightarrow> nat \<Rightarrow> string" where
  "date_text y m d =
     zero_pad 4 (dec_nat y) @ ''-'' @ zero_pad 2 (dec_nat m) @ ''-'' @ zero_pad 2 (dec_nat d)"

lemma daysIn_le: "daysIn m y \<le> 31"
  by (simp add: daysIn_def)

lemma time_Parse_text:
  assumes "valid_ymd (int y) (int m) (int d)" and "y < 10000"
  shows "time_Parse (date_text y m d) = Inr (time_Date (int y) (int m) (int d))"
proof -
  have b: "y < 10 ^ 4" "m < 10 ^ 2" "d < 10 ^ 2"
    using assms daysIn_le [of "int m" "int y"] by (auto simp: valid_ymd_def)
  have m: "\<not> (m = 0 \<or> 12 < m)" and d: "\<not> (d < 1 \<or> daysIn (int m) (int y) < int d)"
    using assms(1) by (auto simp: valid_ymd_def)
  have g4: "getnum 4 (zero_pad 4 (dec_nat y) @ r) = Some (y, r)" for r
    using getnum_append [of "zero_pad 4 (dec_nat y)" 4 r] b by simp
  have g2: "getnum 2 (zero_pad 2 (dec_nat k) @ r) = Some (k, r)" if "k < 10 ^ 2" for k r
    using getnum_append [of "zero_pad 2 (dec_nat k)" 2 r] that by simp
  from g2 [OF b(3), of "[]"] have g2': "getnum 2 (zero_pad 2 (dec_nat d)) = Some (d, [])" by simp
  show ?thesis
    using m d by (simp add: time_Parse_def date_text_def g4 g2 [OF b(2)] g2' skip_dash_def)
qed

lemma time_Parse_Inr:
  assumes "time_Parse s = Inr t"
  shows "\<exists>y m d. s = date_text y m d \<and> valid_ymd (int y) (int m) (int d) \<and> y < 10000 \<and>
    t = time_Date (int y) (int m) (int d)"
proof -
  from assms obtain y s1 s2 m s3 s4 d where
    p: "getnum 4 s = Some (y, s1)" "skip_dash s1 = Some s2" "getnum 2 s2 = Some (m, s3)"
      "skip_dash s3 = Some s4" "getnum 2 s4 = Some (d, [])"
    and c: "\<not> (m = 0 \<or> 12 < m)" "\<not> (d < 1 \<or> daysIn (int m) (int y) < int d)"
    and t: "t = time_Date (int y) (int m) (int d)"
    by (auto simp: time_Parse_def split: option.splits if_splits prod.splits)
  from p(1) obtain ys where ys: "s = ys @ s1" "length ys = 4" "list_all is_digit ys" "y = digits_val ys"
    unfolding getnum_Some by blast
  from p(3) obtain ms where ms: "s2 = ms @ s3" "length ms = 2" "list_all is_digit ms" "m = digits_val ms"
    unfolding getnum_Some by blast
  from p(5) obtain ds where ds: "s4 = ds" "length ds = 2" "list_all is_digit ds" "d = digits_val ds"
    unfolding getnum_Some by auto
  have "zero_pad 4 (dec_nat y) = ys" "zero_pad 2 (dec_nat m) = ms" "zero_pad 2 (dec_nat d) = ds"
    using zero_pad_dec_nat_digits_val [of ys] zero_pad_dec_nat_digits_val [of ms]
      zero_pad_dec_nat_digits_val [of ds] ys ms ds by simp_all
  then have "s = date_text y m d"
    using p(2,4) ys ms ds by (simp add: skip_dash_Some date_text_def)
  moreover have "valid_ymd (int y) (int m) (int d)" using c by (auto simp: valid_ymd_def)
  moreover have "y < 10000" using digits_val_bound [of ys] ys by simp
  ultimately show ?thesis using t by blast
qed

lemma Date_String_text:
  assumes "real_date d" and "0 \<le> d_year d"
  shows "Date_String d = date_text (nat (d_year d)) (nat (d_month d)) (nat (d_day d))"
  using assms real_date_not_zero [OF assms(1)]
  by (simp add: Date_String_def fmt_0d_def date_text_def real_date_def valid_ymd_def)

lemma Date_String_ymd:
  assumes "valid_ymd (int y) (int m) (int d)"
  shows "Date_String (DateOf (time_Date (int y) (int m) (int d))) = date_text y m d"
proof -
  have "DateOf (time_Date (int y) (int m) (int d)) = \<lparr>d_year = int y, d_month = int m, d_day = int d\<rparr>"
    using NewDate_valid [OF assms] by (simp add: NewDate_def)
  then show ?thesis
    using Date_String_text [of "\<lparr>d_year = int y, d_month = int m, d_day = int d\<rparr>"] assms
    by (simp add: real_date_def)
qed

text \<open>The re-rendering check in \<open>ParseDate\<close> never rejects what \<open>time.Parse\<close> let through.\<close>

lemma strict_check_redundant: "time_Parse s = Inr t \<Longrightarrow> Date_String (DateOf t) = s"
  using time_Parse_Inr [of s t] Date_String_ymd by blast

lemma ParseDate_eq:
  "ParseDate s = (case time_Parse s of Inl e \<Rightarrow> Inl (DateParse s e) | Inr t \<Rightarrow> Inr (DateOf t))"
  by (simp add: ParseDate_def Let_def strict_check_redundant split: sum.split)

lemma ParseDate_String: "wire_date d \<Longrightarrow> ParseDate (Date_String d) = Inr d"
proof -
  assume w: "wire_date d"
  let ?y = "nat (d_year d)" and ?m = "nat (d_month d)" and ?d = "nat (d_day d)"
  from w have v: "valid_ymd (int ?y) (int ?m) (int ?d)" "?y < 10000"
    by (auto simp: wire_date_def real_date_def valid_ymd_def)
  have "time_Parse (Date_String d) = Inr (time_Date (int ?y) (int ?m) (int ?d))"
    using time_Parse_text [OF v] w by (simp add: Date_String_text wire_date_def)
  moreover have "DateOf (time_Date (int ?y) (int ?m) (int ?d)) = d"
    using NewDate_valid [OF v(1)] w
    by (simp add: NewDate_def wire_date_def real_date_def valid_ymd_def)
  ultimately show ?thesis by (simp add: ParseDate_eq)
qed

lemma ParseDate_canonical: "ParseDate s = Inr d \<Longrightarrow> wire_date d \<and> Date_String d = s"
proof -
  assume "ParseDate s = Inr d"
  then obtain t where t: "time_Parse s = Inr t" and d: "d = DateOf t"
    by (auto simp: ParseDate_eq split: sum.splits)
  from time_Parse_Inr [OF t] obtain y m e where
    v: "valid_ymd (int y) (int m) (int e)" "y < 10000" "t = time_Date (int y) (int m) (int e)" by blast
  have "d_year d = int y" using NewDate_valid [OF v(1)] by (simp add: NewDate_def d v(3))
  with v d strict_check_redundant [OF t] show ?thesis by (simp add: wire_date_def)
qed

interpretation date_codec: strict_codec Date_String ParseDate wire_date
  by unfold_locales (rule ParseDate_String, assumption, rule ParseDate_canonical)

lemma wire_date_nonzero: "wire_date d \<Longrightarrow> d \<noteq> zero_Date"
  using real_date_not_zero [OF wire_date_real] by (auto simp: Date_IsZero_def)

interpretation date_json: nullable_json Date_String ParseDate wire_date zero_Date
  Date_MarshalJSON Date_UnmarshalJSON
proof unfold_locales
  show "\<not> wire_date zero_Date" using wire_date_nonzero by blast
  show "Date_MarshalJSON x = (if x = zero_Date then json_null else json_quote (Date_String x))" for x
    by (simp add: Date_MarshalJSON_def Date_IsZero_def json_null_def json_quote_def)
  show "Date_UnmarshalJSON json_null = Inr zero_Date"
    by (simp add: Date_UnmarshalJSON_def json_null_def)
  show "Date_UnmarshalJSON (json_quote s) = ParseDate s" for s
    by (simp add: Date_UnmarshalJSON_def json_quote_def)
  show "Date_UnmarshalJSON s \<noteq> Inr x" if "s \<noteq> json_null" "\<not> is_quoted s" for s x
    using that by (auto simp: Date_UnmarshalJSON_def is_quoted_def json_null_def)
qed

section \<open>The order of dates\<close>

lemma cmp_Compare_facts:
  "cmp_Compare a b \<in> {-1, 0, 1}" "cmp_Compare b a = - cmp_Compare a b"
  "cmp_Compare a b < 0 \<longleftrightarrow> a < b" "cmp_Compare a b \<le> 0 \<longleftrightarrow> a \<le> b" "cmp_Compare a b = 0 \<longleftrightarrow> a = b"
  by (auto simp: cmp_Compare_def)

interpretation date_cmp: cmp_linear Date_Compare
proof
  fix x y z :: Date
  show "Date_Compare x y = - 1 \<or> Date_Compare x y = 0 \<or> Date_Compare x y = 1"
    by (simp add: Date_Compare_def cmp_Compare_def)
  show "Date_Compare y x = - Date_Compare x y"
    by (auto simp: Date_Compare_def cmp_Compare_def)
  show "Date_Compare x y \<le> 0 \<Longrightarrow> Date_Compare y z \<le> 0 \<Longrightarrow> Date_Compare x z \<le> 0"
    by (auto simp: Date_Compare_def cmp_Compare_def split: if_splits)
  show "Date_Compare x y = 0 \<Longrightarrow> x = y"
    by (auto simp: Date_Compare_def cmp_Compare_def split: if_splits)
qed

lemma Date_Compare_Date_Time:
  assumes d: "real_date d" and e: "real_date e"
  shows "Date_Compare d e = cmp_Compare (Date_Time d) (Date_Time e)"
proof -
  have less: "Date_Compare x y < 0 \<Longrightarrow> Date_Time x < Date_Time y" if "real_date x" "real_date y" for x y
    using that by (auto simp: Date_Compare_def cmp_Compare_def Date_Time_real real_date_def
        intro!: day_number_less split: if_splits)
  show ?thesis
    using less [OF d e] less [OF e d] date_cmp.cmp_values [of d e] date_cmp.cmp_swap [of d e]
      date_cmp.cmp_zero_iff [of d e] by (auto simp: cmp_Compare_def)
qed

section \<open>Properties\<close>

text \<open>
  C31: the JSON form of a date is strict in both directions. Decoding succeeds with a value exactly
  when the value is the zero date or a real calendar day of the years 0 to 9999 and the text is
  the very bytes encoding that value produces: \<open>null\<close>, or the quoted zero-padded YYYY-MM-DD.
\<close>

theorem Date_json_strict:
  "Date_UnmarshalJSON s = Inr d \<longleftrightarrow> (wire_date d \<or> d = zero_Date) \<and> s = Date_MarshalJSON d"
  by (rule date_json.unmarshal_iff)

text \<open>
  Day arithmetic is translation of the calendar. On a real day, \<open>AddDays\<close> yields a real day
  exactly n days later, successive shifts add up, and shifting back returns the original day, over
  month ends, leap days and century years; \<open>NewDate\<close> with an out-of-range day is the same
  normalisation.
\<close>

theorem AddDays_translation:
  assumes "real_date d"
  shows "real_date (AddDays d n) \<and> Date_Time (AddDays d n) = Date_Time d + n \<and>
    AddDays (AddDays d n) k = AddDays d (n + k) \<and> AddDays (AddDays d n) (- n) = d \<and>
    AddDays d n = NewDate (d_year d) (d_month d) (d_day d + n)"
proof -
  have "NewDate (d_year d) (d_month d) (d_day d + n) = AddDays d n"
    using assms by (simp add: AddDays_def real_date_not_zero NewDate_def Date_Time_def
        time_AddDate_days time_Date_add)
  then show ?thesis using assms by (simp add: AddDays_real add.assoc)
qed

theorem AddDays_translation_witness:
  "real_date \<lparr>d_year = 2024, d_month = 2, d_day = 28\<rparr> \<and>
   AddDays (AddDays \<lparr>d_year = 2024, d_month = 2, d_day = 28\<rparr> 2) (- 2) = \<lparr>d_year = 2024, d_month = 2, d_day = 28\<rparr>"
proof -
  have r: "real_date \<lparr>d_year = 2024, d_month = 2, d_day = 28\<rparr>" by code_simp
  with AddDays_translation [OF r, of 2 0] show ?thesis by blast
qed

text \<open>
  The order of dates is the order of time. For real days, \<open>Compare\<close> is the comparison of
  the day numbers the two dates stand for, so \<open>Before\<close> and \<open>After\<close> agree with the
  calendar, and the result is 0 for equal dates only.
\<close>

theorem Date_Compare_chronological:
  assumes "real_date d" and "real_date e"
  shows "Date_Compare d e = cmp_Compare (Date_Time d) (Date_Time e) \<and>
    (Date_Before d e \<longleftrightarrow> Date_Time d < Date_Time e) \<and>
    (Date_After d e \<longleftrightarrow> Date_Time e < Date_Time d) \<and> (Date_Compare d e = 0 \<longleftrightarrow> d = e)"
  using Date_Compare_Date_Time [OF assms] date_cmp.cmp_zero_iff [of d e]
  by (simp add: Date_Before_def Date_After_def cmp_Compare_def)

theorem Date_Compare_chronological_witness:
  "Date_Compare \<lparr>d_year = 2024, d_month = 12, d_day = 31\<rparr> \<lparr>d_year = 2025, d_month = 1, d_day = 1\<rparr> = - 1 \<and>
   Date_Time \<lparr>d_year = 2024, d_month = 12, d_day = 31\<rparr> < Date_Time \<lparr>d_year = 2025, d_month = 1, d_day = 1\<rparr>"
proof -
  have r: "real_date \<lparr>d_year = 2024, d_month = 12, d_day = 31\<rparr>"
    and s: "real_date \<lparr>d_year = 2025, d_month = 1, d_day = 1\<rparr>" by code_simp+
  show ?thesis using Date_Compare_chronological [OF r s]
    by (simp add: Date_Before_def Date_Compare_def cmp_Compare_def)
qed

end
