(* ===== verification/Plan_Months.thy ===== *)
theory Plan_Months
  imports Dates
begin

text \<open>
  \<open>month.go\<close>: a plan month in the wire form YYYY-MM-01, with two sentinels: the zero value and the
  literal \<open>current\<close>. The model covers every operation; \<open>MonthOf\<close> is here for a UTC time; of a local one it is in \<open>Clock\<close>.
\<close>

section \<open>The type and its operations\<close>

record Month =
  m_year :: int
  m_month :: int
  m_current :: bool

definition zero_Month :: Month where
  "zero_Month = \<lparr>m_year = 0, m_month = 0, m_current = False\<rparr>"

definition Month_IsZero :: "Month \<Rightarrow> bool" where
  "Month_IsZero m \<longleftrightarrow> m = zero_Month"

definition CurrentMonth :: Month where
  "CurrentMonth = \<lparr>m_year = 0, m_month = 0, m_current = True\<rparr>"

definition MonthOf :: "int \<Rightarrow> Month" where
  "MonthOf t = (case civil_of t of (y, m, _) \<Rightarrow> \<lparr>m_year = y, m_month = m, m_current = False\<rparr>)"

definition NewMonth :: "int \<Rightarrow> int \<Rightarrow> Month" where
  "NewMonth year month = MonthOf (time_Date year month 1)"

datatype month_error = MonthForm string | MonthDay string | MonthNotString string

definition ParseMonth :: "string \<Rightarrow> month_error + Month" where
  "ParseMonth s =
     (if s = ''current'' then Inr CurrentMonth
      else case ParseDate s of
        Inl _ \<Rightarrow> Inl (MonthForm s)
      | Inr d \<Rightarrow> if d_day d \<noteq> 1 then Inl (MonthDay s)
                else Inr \<lparr>m_year = d_year d, m_month = d_month d, m_current = False\<rparr>)"

definition AddMonths :: "Month \<Rightarrow> int \<Rightarrow> Month" where
  "AddMonths m n =
     (if Month_IsZero m \<or> m_current m then m else NewMonth (m_year m) (m_month m + n))"

definition Next_Month :: "Month \<Rightarrow> Month" where
  "Next_Month m = AddMonths m 1"

definition Prev_Month :: "Month \<Rightarrow> Month" where
  "Prev_Month m = AddMonths m (- 1)"

definition Month_Compare :: "Month \<Rightarrow> Month \<Rightarrow> int" where
  "Month_Compare m o' =
     (if m_year m \<noteq> m_year o' then cmp_Compare (m_year m) (m_year o')
      else cmp_Compare (m_month m) (m_month o'))"

definition FirstDay :: "Month \<Rightarrow> Date" where
  "FirstDay m =
     (if Month_IsZero m \<or> m_current m then zero_Date
      else \<lparr>d_year = m_year m, d_month = m_month m, d_day = 1\<rparr>)"

definition Month_String :: "Month \<Rightarrow> string" where
  "Month_String m =
     (if m_current m then ''current''
      else if Month_IsZero m then []
      else fmt_0d 4 (m_year m) @ ''-'' @ fmt_0d 2 (m_month m) @ ''-01'')"

definition Month_MarshalJSON :: "Month \<Rightarrow> string" where
  "Month_MarshalJSON m =
     (if Month_IsZero m then ''null'' else CHR 0x22 # Month_String m @ [CHR 0x22])"

definition Month_UnmarshalJSON :: "string \<Rightarrow> month_error + Month" where
  "Month_UnmarshalJSON s =
     (if s = ''null'' then Inr zero_Month
      else if length s < 2 \<or> hd s \<noteq> CHR 0x22 \<or> last s \<noteq> CHR 0x22 then Inl (MonthNotString s)
      else ParseMonth (butlast (tl s)))"

section \<open>Concrete months\<close>

text \<open>A concrete month, one the wire form can carry, and the number of months since year 0.\<close>

definition concrete_month :: "Month \<Rightarrow> bool" where
  "concrete_month m \<longleftrightarrow> \<not> m_current m \<and> 1 \<le> m_month m \<and> m_month m \<le> 12"

definition wire_month :: "Month \<Rightarrow> bool" where
  "wire_month m \<longleftrightarrow>
     m = CurrentMonth \<or> concrete_month m \<and> 0 \<le> m_year m \<and> m_year m \<le> 9999"

definition month_index :: "Month \<Rightarrow> int" where
  "month_index m = 12 * m_year m + (m_month m - 1)"

lemma concrete_not_zero: "concrete_month m \<Longrightarrow> \<not> Month_IsZero m"
  by (auto simp: concrete_month_def Month_IsZero_def zero_Month_def)

lemma concrete_not_current: "concrete_month m \<Longrightarrow> \<not> m_current m"
  by (simp add: concrete_month_def)

lemma concrete_month_eqI:
  "concrete_month a \<Longrightarrow> concrete_month b \<Longrightarrow> month_index a = month_index b \<Longrightarrow> a = b"
proof -
  assume c: "concrete_month a" "concrete_month b" and i: "month_index a = month_index b"
  have "12 * y + (m - 1) = 12 * y' + (m' - 1) \<Longrightarrow> y = y' \<and> m = m'"
    if "1 \<le> m" "m \<le> 12" "1 \<le> m'" "m' \<le> 12" for y m y' m' :: int
    using that by presburger
  from this [of "m_month a" "m_month b" "m_year a" "m_year b"] c i show "a = b"
    by (simp add: concrete_month_def month_index_def)
qed

lemma month_first_valid: "1 \<le> m \<Longrightarrow> m \<le> 12 \<Longrightarrow> valid_ymd y m 1"
  by (simp add: valid_ymd_def daysIn_def)

lemma NewMonth_eq:
  "NewMonth y m = \<lparr>m_year = y + (m - 1) div 12, m_month = (m - 1) mod 12 + 1, m_current = False\<rparr>"
proof -
  have "valid_ymd (y + (m - 1) div 12) ((m - 1) mod 12 + 1) 1"
    by (rule month_first_valid) (simp_all add: add1_zle_eq)
  then show ?thesis by (simp add: NewMonth_def MonthOf_def time_Date_def civil_of_day_number)
qed

lemma NewMonth_concrete [simp]: "concrete_month (NewMonth y m)"
  by (simp add: NewMonth_eq concrete_month_def add1_zle_eq)

lemma NewMonth_index [simp]: "month_index (NewMonth y m) = 12 * y + (m - 1)"
  using div_mult_mod_eq [of "m - 1" 12] by (simp add: NewMonth_eq month_index_def algebra_simps)

lemma AddMonths_concrete:
  assumes "concrete_month m"
  shows "concrete_month (AddMonths m n)" and "month_index (AddMonths m n) = month_index m + n"
  using assms by (simp_all add: AddMonths_def concrete_not_zero concrete_not_current month_index_def
      [of m])

lemma FirstDay_real: "concrete_month m \<Longrightarrow> real_date (FirstDay m)"
  using concrete_not_zero [of m]
  by (simp add: FirstDay_def real_date_def concrete_month_def month_first_valid)

lemma Date_String_FirstDay:
  "concrete_month m \<Longrightarrow> Month_String m = Date_String (FirstDay m)"
  using concrete_not_zero [of m] real_date_not_zero [OF FirstDay_real [of m]]
  by (simp add: Month_String_def Date_String_def FirstDay_def concrete_month_def fmt_0d_def
      zero_pad_def dec_nat.simps)

section \<open>Rendering and parsing\<close>

lemma current_not_date: "ParseDate ''current'' \<noteq> Inr d"
proof
  assume "ParseDate ''current'' = Inr d"
  moreover have "time_Parse ''current'' = Inl TimeBad" by code_simp
  ultimately show False by (simp add: ParseDate_def)
qed

lemma Date_String_first_not_current: "wire_date d \<Longrightarrow> Date_String d \<noteq> ''current''"
  using ParseDate_String [of d] current_not_date [of d] by auto

lemma FirstDay_wire: "concrete_month m \<Longrightarrow> wire_month m \<Longrightarrow> wire_date (FirstDay m)"
  using concrete_not_zero [of m]
  by (auto simp: wire_date_def FirstDay_real wire_month_def CurrentMonth_def)
    (auto simp: FirstDay_def concrete_month_def)

lemma ParseMonth_String:
  assumes "wire_month m"
  shows "ParseMonth (Month_String m) = Inr m"
proof (cases "m = CurrentMonth")
  case True
  then show ?thesis by (simp add: Month_String_def ParseMonth_def CurrentMonth_def)
next
  case False
  with assms have c: "concrete_month m" by (simp add: wire_month_def)
  have w: "wire_date (FirstDay m)" by (rule FirstDay_wire [OF c assms])
  have "FirstDay m = \<lparr>d_year = m_year m, d_month = m_month m, d_day = 1\<rparr>"
    using c concrete_not_zero [OF c] by (simp add: FirstDay_def concrete_month_def)
  then show ?thesis
    using c ParseDate_String [OF w] Date_String_first_not_current [OF w]
    by (simp add: ParseMonth_def Date_String_FirstDay concrete_month_def)
qed

lemma ParseMonth_canonical:
  assumes "ParseMonth s = Inr m"
  shows "wire_month m \<and> Month_String m = s"
proof (cases "s = ''current''")
  case True
  with assms show ?thesis
    by (simp add: ParseMonth_def wire_month_def Month_String_def)
      (auto simp: CurrentMonth_def)
next
  case False
  with assms obtain d where d: "ParseDate s = Inr d" "d_day d = 1"
    and m: "m = \<lparr>m_year = d_year d, m_month = d_month d, m_current = False\<rparr>"
    by (auto simp: ParseMonth_def split: sum.splits if_splits)
  from ParseDate_canonical [OF d(1)] have w: "wire_date d" "Date_String d = s" by simp_all
  then have c: "concrete_month m"
    by (simp add: m concrete_month_def wire_date_def real_date_def valid_ymd_def)
  have "FirstDay m = d"
    using concrete_not_zero [OF c] d(2) by (simp add: FirstDay_def m)
  with w c show ?thesis
    by (auto simp: Date_String_FirstDay wire_month_def wire_date_def m)
qed

interpretation month_codec: strict_codec Month_String ParseMonth wire_month
  by unfold_locales (rule ParseMonth_String, assumption, rule ParseMonth_canonical)

interpretation month_json: nullable_json Month_String ParseMonth wire_month zero_Month
  Month_MarshalJSON Month_UnmarshalJSON
proof unfold_locales
  show "\<not> wire_month zero_Month"
    by (simp add: wire_month_def concrete_month_def zero_Month_def CurrentMonth_def)
  show "Month_MarshalJSON x = (if x = zero_Month then json_null else json_quote (Month_String x))" for x
    by (simp add: Month_MarshalJSON_def Month_IsZero_def json_null_def json_quote_def)
  show "Month_UnmarshalJSON json_null = Inr zero_Month"
    by (simp add: Month_UnmarshalJSON_def json_null_def)
  show "Month_UnmarshalJSON (json_quote s) = ParseMonth s" for s
    by (simp add: Month_UnmarshalJSON_def json_quote_def)
  show "Month_UnmarshalJSON s \<noteq> Inr x" if "s \<noteq> json_null" "\<not> is_quoted s" for s x
    using that by (auto simp: Month_UnmarshalJSON_def is_quoted_def json_null_def)
qed

section \<open>The order of months\<close>

text \<open>A preorder only: the two sentinels are equal to each other for \<open>Compare\<close>.\<close>

interpretation month_cmp: cmp_preorder Month_Compare
proof
  fix x y z :: Month
  show "Month_Compare x y = - 1 \<or> Month_Compare x y = 0 \<or> Month_Compare x y = 1"
    by (simp add: Month_Compare_def cmp_Compare_def)
  show "Month_Compare y x = - Month_Compare x y"
    by (auto simp: Month_Compare_def cmp_Compare_def)
  show "Month_Compare x y \<le> 0 \<Longrightarrow> Month_Compare y z \<le> 0 \<Longrightarrow> Month_Compare x z \<le> 0"
    by (auto simp: Month_Compare_def cmp_Compare_def split: if_splits)
qed

lemma Month_Compare_index:
  assumes "concrete_month a" and "concrete_month b"
  shows "Month_Compare a b = cmp_Compare (month_index a) (month_index b)"
proof -
  have "(if y \<noteq> y' then cmp_Compare y y' else cmp_Compare m m') =
      cmp_Compare (12 * y + (m - 1)) (12 * y' + (m' - 1))"
    if "1 \<le> m" "m \<le> 12" "1 \<le> m'" "m' \<le> 12" for y m y' m'
  proof (cases y y' rule: linorder_cases)
    case equal
    then show ?thesis by (simp add: cmp_Compare_def)
  next
    case less
    with that have "12 * y + (m - 1) < 12 * y' + (m' - 1)" by linarith
    with less show ?thesis by (simp add: cmp_Compare_def)
  next
    case greater
    with that have "12 * y' + (m' - 1) < 12 * y + (m - 1)" by linarith
    with greater show ?thesis by (simp add: cmp_Compare_def)
  qed
  from this [of "m_month a" "m_month b" "m_year a" "m_year b"] assms show ?thesis
    unfolding Month_Compare_def concrete_month_def month_index_def by blast
qed

section \<open>Properties\<close>

text \<open>
  The JSON form of a month is strict in both directions: it decodes to a value exactly when
  the value is the zero month, the \<open>current\<close> sentinel or a concrete month of the years 0 to 9999,
  and the bytes are the ones encoding that value produces, so any day other than 01 is refused.
\<close>

theorem Month_json_strict:
  "Month_UnmarshalJSON s = Inr m \<longleftrightarrow> (wire_month m \<or> m = zero_Month) \<and> s = Month_MarshalJSON m"
  by (rule month_json.unmarshal_iff)

text \<open>
  Month arithmetic is translation on the count of months: on a concrete month the result is
  concrete and exactly n months away, successive shifts add up, \<open>Next\<close> and \<open>Prev\<close> undo each
  other, the order of months is the order of that count, and so a later month compares as later;
  the sentinels pass through unchanged.
\<close>

theorem AddMonths_translation:
  assumes "concrete_month m"
  shows "concrete_month (AddMonths m n) \<and> month_index (AddMonths m n) = month_index m + n \<and>
    AddMonths (AddMonths m n) k = AddMonths m (n + k) \<and>
    Prev_Month (Next_Month m) = m \<and> Next_Month (Prev_Month m) = m \<and>
    Month_Compare m (AddMonths m n) = cmp_Compare 0 n \<and>
    AddMonths zero_Month n = zero_Month \<and> AddMonths CurrentMonth n = CurrentMonth"
proof -
  note c = AddMonths_concrete(1) and i = AddMonths_concrete(2)
  have "AddMonths (AddMonths m n) k = AddMonths m (n + k)" for n k
    by (rule concrete_month_eqI) (simp_all add: assms c i)
  moreover have "AddMonths m 0 = m"
    by (rule concrete_month_eqI) (simp_all add: assms c i)
  ultimately show ?thesis
    using assms by (simp add: c i Next_Month_def Prev_Month_def Month_Compare_index cmp_Compare_def)
      (simp add: AddMonths_def Month_IsZero_def CurrentMonth_def)
qed

theorem AddMonths_translation_witness:
  "concrete_month \<lparr>m_year = 2025, m_month = 12, m_current = False\<rparr> \<and>
   AddMonths (AddMonths \<lparr>m_year = 2025, m_month = 12, m_current = False\<rparr> 1) (- 13) =
     AddMonths \<lparr>m_year = 2025, m_month = 12, m_current = False\<rparr> (- 12)"
proof -
  have c: "concrete_month \<lparr>m_year = 2025, m_month = 12, m_current = False\<rparr>" by code_simp
  with AddMonths_translation [OF c, of 1 "- 13"] show ?thesis by simp
qed

end
