(* ===== verification/Json.thy ===== *)
theory Json
  imports Milliunits Plan_Months
begin

text \<open>
  JSON values as \<open>encoding/json\<close> sees them (a number is its literal, an object its members in order),
  the encoders the write payloads use, and \<open>optional.go\<close>: the tri-state field of the write models
  (unset, null, value) with the \<open>omitzero\<close> rule that drops exactly the unset ones.
\<close>

section \<open>Values\<close>

text \<open>
  A string literal is \<open>JStr s\<close> when it is written as \<open>s\<close> between quotes and \<open>JEsc s\<close> when it is written with
  escapes and denotes \<open>s\<close>: most decoders read the string, those with their own \<open>UnmarshalJSON\<close> get
  the literal. \<open>plain\<close> forgets how the strings were written.
\<close>

datatype json = JNull | JBool bool | JNum string | JStr string | JEsc string | JArr "json list"
  | JObj "(string \<times> json) list"

fun plain :: "json \<Rightarrow> json" where
  "plain (JEsc s) = JStr s"
| "plain (JArr vs) = JArr (map plain vs)"
| "plain (JObj ms) = JObj (map (map_prod id plain) ms)"
| "plain v = v"

lemma plain_JNull [simp]: "plain v = JNull \<longleftrightarrow> v = JNull"
  by (cases v) simp_all

lemma plain_JObj: "plain v = JObj ms \<longleftrightarrow> (\<exists>ms'. v = JObj ms' \<and> ms = map (map_prod id plain) ms')"
  by (cases v) auto

definition json_int :: "i64 \<Rightarrow> json" where
  "json_int m = JNum (dec_int (sint m))"

definition json_date :: "Date \<Rightarrow> json" where
  "json_date d = (if Date_IsZero d then JNull else JStr (Date_String d))"

definition json_month :: "Month \<Rightarrow> json" where
  "json_month m = (if Month_IsZero m then JNull else JStr (Month_String m))"

text \<open>The member of an object: its first value under the key.\<close>

definition member_of :: "string \<Rightarrow> json \<Rightarrow> json option" where
  "member_of k v = (case v of JObj ms \<Rightarrow> map_of ms k | _ \<Rightarrow> None)"

lemma member_of_JObj [simp]: "member_of k (JObj ms) = map_of ms k"
  by (simp add: member_of_def)

definition keys_of :: "json \<Rightarrow> string list" where
  "keys_of v = (case v of JObj ms \<Rightarrow> map fst ms | _ \<Rightarrow> [])"

section \<open>The tri-state field\<close>

datatype optionalState = optionalUnset | optionalNull | optionalValue

record 'a Optional =
  o_value :: 'a
  o_state :: optionalState

text \<open>Go's zero value of the element type is an argument where the code leaves \<open>value\<close> at it.\<close>

definition unset :: "'a \<Rightarrow> 'a Optional" where
  "unset z = \<lparr>o_value = z, o_state = optionalUnset\<rparr>"

definition Set_Optional :: "'a \<Rightarrow> 'a Optional" where
  "Set_Optional v = \<lparr>o_value = v, o_state = optionalValue\<rparr>"

definition SetNull :: "'a \<Rightarrow> 'a Optional" where
  "SetNull z = \<lparr>o_value = z, o_state = optionalNull\<rparr>"

definition Optional_Get :: "'a Optional \<Rightarrow> 'a \<times> bool" where
  "Optional_Get x = (o_value x, o_state x = optionalValue)"

definition Optional_IsNull :: "'a Optional \<Rightarrow> bool" where
  "Optional_IsNull x \<longleftrightarrow> o_state x = optionalNull"

definition Optional_IsZero :: "'a Optional \<Rightarrow> bool" where
  "Optional_IsZero x \<longleftrightarrow> o_state x = optionalUnset"

definition Optional_MarshalJSON :: "('a \<Rightarrow> json) \<Rightarrow> 'a Optional \<Rightarrow> json" where
  "Optional_MarshalJSON enc x = (if o_state x \<noteq> optionalValue then JNull else enc (o_value x))"

section \<open>Struct encoding\<close>

text \<open>
  A struct is the concatenation of its fields in declaration order; a field tagged \<open>omitzero\<close>
  contributes nothing when its \<open>IsZero\<close> (or its zero value) says so.
\<close>

definition plain_field :: "string \<Rightarrow> json \<Rightarrow> (string \<times> json) list" where
  "plain_field k v = [(k, v)]"

definition opt_field :: "string \<Rightarrow> ('a \<Rightarrow> json) \<Rightarrow> 'a Optional \<Rightarrow> (string \<times> json) list" where
  "opt_field k enc x = (if Optional_IsZero x then [] else [(k, Optional_MarshalJSON enc x)])"

definition str_field :: "string \<Rightarrow> string \<Rightarrow> (string \<times> json) list" where
  "str_field k s = (if s = [] then [] else [(k, JStr s)])"

text \<open>What the server reads off an object for a tri-state field.\<close>

datatype 'a change = Keep | Clear | Put 'a

definition change_of :: "'a Optional \<Rightarrow> 'a change" where
  "change_of x = (case o_state x of optionalUnset \<Rightarrow> Keep | optionalNull \<Rightarrow> Clear
     | optionalValue \<Rightarrow> Put (o_value x))"

definition read_change :: "(json \<Rightarrow> 'a option) \<Rightarrow> string \<Rightarrow> json \<Rightarrow> 'a change option" where
  "read_change dec k v =
     (case member_of k v of None \<Rightarrow> Some Keep
      | Some JNull \<Rightarrow> Some Clear
      | Some w \<Rightarrow> map_option Put (dec w))"

lemma change_of_simps [simp]:
  "change_of (unset z) = Keep" "change_of (SetNull z) = Clear" "change_of (Set_Optional v) = Put v"
  by (simp_all add: change_of_def unset_def SetNull_def Set_Optional_def)

lemma Optional_Get_iff: "Optional_Get x = (v, True) \<longleftrightarrow> x = Set_Optional v"
  by (cases x) (auto simp: Optional_Get_def Set_Optional_def)

definition field_ok :: "('a \<Rightarrow> bool) \<Rightarrow> 'a Optional \<Rightarrow> bool" where
  "field_ok ok x \<longleftrightarrow> (o_state x = optionalValue \<longrightarrow> ok (o_value x))"

text \<open>
  The laws of an element encoding: decoding undoes it and it never yields \<open>null\<close>. Under them the
  three states stay apart on the wire.
\<close>

locale field_codec =
  fixes enc :: "'a \<Rightarrow> json" and dec :: "json \<Rightarrow> 'a option" and ok :: "'a \<Rightarrow> bool"
  assumes dec_enc: "ok v \<Longrightarrow> dec (enc v) = Some v"
    and enc_not_null: "ok v \<Longrightarrow> enc v \<noteq> JNull"
begin

lemma read_opt_field:
  assumes "field_ok ok x" and "k \<notin> set (map fst before)" and "k \<notin> set (map fst after)"
  shows "read_change dec k (JObj (before @ opt_field k enc x @ after)) = Some (change_of x)"
proof -
  have b: "map_of before k = None" and a: "map_of after k = None"
    using assms(2,3) by (simp_all add: map_of_eq_None_iff)
  show ?thesis
  proof (cases "o_state x")
    case optionalUnset
    then show ?thesis using a b
      by (simp add: read_change_def opt_field_def Optional_IsZero_def change_of_def map_add_def)
  next
    case optionalNull
    then show ?thesis using a b
      by (simp add: read_change_def opt_field_def Optional_IsZero_def change_of_def map_add_def
          Optional_MarshalJSON_def)
  next
    case optionalValue
    then have "enc (o_value x) \<noteq> JNull" "dec (enc (o_value x)) = Some (o_value x)"
      using assms(1) by (simp_all add: field_ok_def enc_not_null dec_enc)
    with optionalValue a b show ?thesis
      by (simp add: read_change_def opt_field_def Optional_IsZero_def change_of_def map_add_def
          Optional_MarshalJSON_def) (auto split: json.split)
  qed
qed

end

definition dec_str :: "json \<Rightarrow> string option" where
  "dec_str v = (case v of JStr s \<Rightarrow> Some s | _ \<Rightarrow> None)"

definition dec_bool :: "json \<Rightarrow> bool option" where
  "dec_bool v = (case v of JBool b \<Rightarrow> Some b | _ \<Rightarrow> None)"

definition dec_i64 :: "json \<Rightarrow> i64 option" where
  "dec_i64 v = (case v of JNum s \<Rightarrow>
     (case ParseInt s of Inr k \<Rightarrow> Some k | Inl _ \<Rightarrow> None) | _ \<Rightarrow> None)"

definition dec_date :: "json \<Rightarrow> Date option" where
  "dec_date v = (case v of JNull \<Rightarrow> Some zero_Date
     | JStr s \<Rightarrow> (case ParseDate s of Inr d \<Rightarrow> Some d | Inl _ \<Rightarrow> None) | _ \<Rightarrow> None)"

lemma ParseInt_dec_int: "ParseInt (dec_int (sint m)) = Inr m"
proof (cases "sint m < 0")
  case True
  let ?n = "nat (- sint m)"
  have b: "digits_val (dec_nat ?n) \<le> 9223372036854775808"
    using i64_bounds [of m] by simp
  have "- of_nat ?n = (word_of_int (sint m) :: i64)"
    using True by (simp add: of_nat_nat)
  then show ?thesis
    using True b ParseInt_minus [of "dec_nat ?n" m] by (simp add: dec_int_def)
next
  case False
  let ?n = "nat (sint m)"
  have h: "is_digit (hd (dec_nat ?n))"
    using dec_nat_set [of "hd (dec_nat ?n)" ?n] by simp
  then have "hd (dec_nat ?n) \<noteq> CHR ''+''" "hd (dec_nat ?n) \<noteq> CHR ''-''" by auto
  moreover have "of_nat ?n = m" using False
    by (metis of_int_of_nat_eq int_nat_eq word_of_int_sint_i64 not_less)
  moreover have "?n < 9223372036854775808" using i64_bounds [of m] by simp
  ultimately show ?thesis
    using False ParseInt_unsigned [of "dec_nat ?n" m] by (simp add: dec_int_def)
qed

interpretation json_str_codec: field_codec JStr dec_str "\<lambda>_. True"
  by unfold_locales (simp_all add: dec_str_def)

interpretation json_bool_codec: field_codec JBool dec_bool "\<lambda>_. True"
  by unfold_locales (simp_all add: dec_bool_def)

interpretation json_amount_codec: field_codec json_int dec_i64 "\<lambda>_. True"
  by unfold_locales (simp_all add: dec_i64_def json_int_def ParseInt_dec_int)

interpretation json_date_codec: field_codec json_date dec_date wire_date
proof
  fix d assume w: "wire_date d"
  then have "\<not> Date_IsZero d" by (rule real_date_not_zero [OF wire_date_real])
  then show "dec_date (json_date d) = Some d" and "json_date d \<noteq> JNull"
    using w by (simp_all add: dec_date_def json_date_def ParseDate_String)
qed

section \<open>Properties\<close>

text \<open>
  The three states of a write field are told apart on the wire, wherever the field stands in
  its object: an unset field adds no member at all, a nulled field adds an explicit \<open>null\<close>, and a
  set string is sent and read back as itself, the empty string included.
\<close>

theorem Optional_tristate:
  assumes "k \<notin> set (map fst before)" and "k \<notin> set (map fst after)"
  shows "read_change dec_str k (JObj (before @ opt_field k JStr x @ after)) = Some (change_of x) \<and>
    (member_of k (JObj (before @ opt_field k JStr x @ after)) = None \<longleftrightarrow> Optional_IsZero x) \<and>
    (member_of k (JObj (before @ opt_field k JStr x @ after)) = Some JNull \<longleftrightarrow> Optional_IsNull x) \<and>
    (member_of k (JObj (before @ opt_field k JStr x @ after)) = Some (JStr v) \<longleftrightarrow> Optional_Get x = (v, True))"
proof -
  have "map_of before k = None" and "map_of after k = None"
    using assms by (simp_all add: map_of_eq_None_iff)
  then have "member_of k (JObj (before @ opt_field k JStr x @ after)) =
      (if Optional_IsZero x then None else Some (Optional_MarshalJSON JStr x))"
    by (simp add: opt_field_def map_add_def)
  moreover have "field_ok (\<lambda>_. True) x" by (simp add: field_ok_def)
  ultimately show ?thesis
    using json_str_codec.read_opt_field [OF _ assms, of x]
    by (cases "o_state x") (simp_all add: Optional_IsZero_def Optional_IsNull_def Optional_Get_def
        Optional_MarshalJSON_def del: member_of_JObj)
qed

theorem Optional_tristate_witness:
  "''memo'' \<notin> set (map fst [(''amount'', JNull)]) \<and>
   read_change dec_str ''memo'' (JObj ([(''amount'', JNull)] @ opt_field ''memo'' JStr (Set_Optional []) @ [])) = Some (Put [])"
  using Optional_tristate [of "''memo''" "[(''amount'', JNull)]" "[]" "Set_Optional []" "[]"] by simp

end
