(* ===== verification/Errors.thy ===== *)
theory Errors
  imports Json
begin

text \<open>
  \<open>errors.go\<close>: the API error with its sentinels, the pre-flight argument error, and \<open>IsRetryable\<close>.
  A Go error value is a tree: \<open>gerr\<close> has a constructor for each kind of error the package meets,
  with \<open>fmt.Errorf("...%w")\<close>, \<open>net.Error\<close> wrappers and \<open>errors.Join\<close> as the inner nodes, and
  \<open>errors.Is\<close>/\<open>errors.As\<close> search its nodes in depth-first preorder. A nil pointer or nil error is
  \<open>None\<close>.
\<close>

section \<open>Error values\<close>

record Error =
  e_StatusCode :: int
  e_ID :: string
  e_Name :: string
  e_Detail :: string
  e_RetryAfter :: i64

record ArgumentError =
  ae_Op :: string
  ae_Field :: string
  ae_Reason :: string

datatype sentinel =
    ErrBadRequest | ErrNotAuthorized
  | ErrForbidden | ErrSubscriptionLapsed | ErrTrialExpired | ErrUnauthorizedScope | ErrDataLimitReached
  | ErrNotFound | ErrRouteNotFound | ErrResourceNotFound
  | ErrConflict | ErrRateLimited | ErrServerError | ErrServiceUnavailable

definition sentinel_text :: "sentinel \<Rightarrow> string" where
  "sentinel_text s = (case s of
     ErrBadRequest \<Rightarrow> ''ynab: bad request (400)''
   | ErrNotAuthorized \<Rightarrow> ''ynab: not authorized (401)''
   | ErrForbidden \<Rightarrow> ''ynab: forbidden (403)''
   | ErrSubscriptionLapsed \<Rightarrow> ''ynab: subscription lapsed (403.1)''
   | ErrTrialExpired \<Rightarrow> ''ynab: trial expired (403.2)''
   | ErrUnauthorizedScope \<Rightarrow> ''ynab: unauthorized scope (403.3)''
   | ErrDataLimitReached \<Rightarrow> ''ynab: data limit reached (403.4)''
   | ErrNotFound \<Rightarrow> ''ynab: not found (404)''
   | ErrRouteNotFound \<Rightarrow> ''ynab: route not found (404.1)''
   | ErrResourceNotFound \<Rightarrow> ''ynab: resource not found (404.2)''
   | ErrConflict \<Rightarrow> ''ynab: conflict (409)''
   | ErrRateLimited \<Rightarrow> ''ynab: rate limited (429)''
   | ErrServerError \<Rightarrow> ''ynab: internal server error (500)''
   | ErrServiceUnavailable \<Rightarrow> ''ynab: service unavailable (503)'')"

text \<open>
  \<open>ENet\<close> is an error implementing \<open>net.Error\<close> (\<open>url.Error\<close>, \<open>net.OpError\<close>, a timeout): its text,
  whether its own \<open>Is\<close> method matches \<open>context.DeadlineExceeded\<close>, and what it unwraps to.
  \<open>EPlain\<close> is any leaf error that none of the package's checks recognises.
\<close>

datatype gerr =
    EArg ArgumentError
  | EApi Error
  | ESentinel sentinel
  | ECanceled
  | EDeadline
  | EPlain string
  | EWrap string gerr
  | ENet string bool "gerr option"
  | EHook gerr
  | EJoin "gerr list"

datatype err_target = TSentinel sentinel | TCanceled | TDeadline

section \<open>Rendering\<close>

definition Error_Error :: "Error option \<Rightarrow> string" where
  "Error_Error e = (case e of None \<Rightarrow> ''ynab: <nil>''
   | Some e \<Rightarrow> ''ynab: HTTP '' @ dec_int (e_StatusCode e)
       @ (if e_ID e \<noteq> [] then '' '' @ e_ID e else [])
       @ (if e_Name e \<noteq> [] then '' '' @ e_Name e else [])
       @ (if e_Detail e \<noteq> [] then '': '' @ e_Detail e else []))"

definition ArgumentError_Error :: "ArgumentError option \<Rightarrow> string" where
  "ArgumentError_Error e = (case e of None \<Rightarrow> ''ynab: <nil>''
   | Some e \<Rightarrow>
       if ae_Field e = [] then ''ynab: '' @ ae_Op e @ '': '' @ ae_Reason e
       else ''ynab: '' @ ae_Op e @ '': '' @ ae_Field e @ '': '' @ ae_Reason e)"

section \<open>Matching\<close>

definition sentinelByID :: "string \<Rightarrow> sentinel option" where
  "sentinelByID = map_of
    [(''400'', ErrBadRequest), (''401'', ErrNotAuthorized),
     (''403.1'', ErrSubscriptionLapsed), (''403.2'', ErrTrialExpired),
     (''403.3'', ErrUnauthorizedScope), (''403.4'', ErrDataLimitReached),
     (''404.1'', ErrRouteNotFound), (''404.2'', ErrResourceNotFound),
     (''409'', ErrConflict), (''429'', ErrRateLimited),
     (''500'', ErrServerError), (''503'', ErrServiceUnavailable)]"

definition sentinelByStatus :: "int \<Rightarrow> sentinel option" where
  "sentinelByStatus = map_of
    [(400, ErrBadRequest), (401, ErrNotAuthorized), (403, ErrForbidden), (404, ErrNotFound),
     (409, ErrConflict), (429, ErrRateLimited), (500, ErrServerError), (503, ErrServiceUnavailable)]"

definition Error_Is :: "Error option \<Rightarrow> err_target option \<Rightarrow> bool" where
  "Error_Is e target = (case (e, target) of
     (Some e, Some t) \<Rightarrow>
       (case sentinelByID (e_ID e) of Some s \<Rightarrow> t = TSentinel s | None \<Rightarrow> False)
       \<or> (case sentinelByStatus (e_StatusCode e) of Some s \<Rightarrow> t = TSentinel s | None \<Rightarrow> False)
   | _ \<Rightarrow> False)"

text \<open>The nodes \<open>errors.Is\<close> and \<open>errors.As\<close> visit, in their order.\<close>

fun error_chain :: "gerr \<Rightarrow> gerr list" where
  "error_chain (EWrap s e) = EWrap s e # error_chain e"
| "error_chain (EHook e) = EHook e # error_chain e"
| "error_chain (ENet s d (Some e)) = ENet s d (Some e) # error_chain e"
| "error_chain (EJoin es) = EJoin es # concat (map error_chain es)"
| "error_chain e = [e]"

definition error_matches :: "err_target \<Rightarrow> gerr \<Rightarrow> bool" where
  "error_matches t e = (case e of
     EApi a \<Rightarrow> Error_Is (Some a) (Some t)
   | ESentinel s \<Rightarrow> t = TSentinel s
   | ECanceled \<Rightarrow> t = TCanceled
   | EDeadline \<Rightarrow> t = TDeadline
   | ENet _ d _ \<Rightarrow> d \<and> t = TDeadline
   | _ \<Rightarrow> False)"

definition errors_Is :: "gerr \<Rightarrow> err_target \<Rightarrow> bool" where
  "errors_Is e t = list_ex (error_matches t) (error_chain e)"

definition is_EArg :: "gerr \<Rightarrow> bool" where "is_EArg e = (case e of EArg _ \<Rightarrow> True | _ \<Rightarrow> False)"
definition is_EApi :: "gerr \<Rightarrow> bool" where "is_EApi e = (case e of EApi _ \<Rightarrow> True | _ \<Rightarrow> False)"

definition is_net_error :: "gerr \<Rightarrow> bool" where
  "is_net_error e = (case e of ENet _ _ _ \<Rightarrow> True | EDeadline \<Rightarrow> True | _ \<Rightarrow> False)"

definition errors_As :: "(gerr \<Rightarrow> bool) \<Rightarrow> gerr \<Rightarrow> gerr option" where
  "errors_As p e = find p (error_chain e)"

definition errors_Unwrap :: "gerr \<Rightarrow> gerr option" where
  "errors_Unwrap e = (case e of EWrap _ i \<Rightarrow> Some i | EHook i \<Rightarrow> Some i | ENet _ _ i \<Rightarrow> i | _ \<Rightarrow> None)"

definition IsRetryable :: "gerr option \<Rightarrow> bool" where
  "IsRetryable err = (case err of None \<Rightarrow> False
   | Some e \<Rightarrow>
       if errors_As is_EArg e \<noteq> None then False
       else if errors_Is e (TSentinel ErrRateLimited) \<or> errors_Is e (TSentinel ErrServerError)
         \<or> errors_Is e (TSentinel ErrServiceUnavailable) then True
       else if errors_As is_EApi e \<noteq> None then False
       else if errors_Is e TCanceled then False
       else (case errors_As is_net_error e of
          None \<Rightarrow> False
        | Some n \<Rightarrow> \<not> (errors_Unwrap n = None \<and> errors_Is n TDeadline)))"

section \<open>Argument checks\<close>

definition maxLenError :: "string \<Rightarrow> string \<Rightarrow> nat \<Rightarrow> ArgumentError" where
  "maxLenError op field limit =
     \<lparr>ae_Op = op, ae_Field = field, ae_Reason = ''must be at most '' @ dec_nat limit @ '' characters''\<rparr>"

fun errFirst :: "'e option list \<Rightarrow> 'e option" where
  "errFirst [] = None"
| "errFirst (e # es) = (case e of Some x \<Rightarrow> Some x | None \<Rightarrow> errFirst es)"

definition checkRuneMax :: "string \<Rightarrow> string \<Rightarrow> string \<Rightarrow> nat \<Rightarrow> ArgumentError option" where
  "checkRuneMax op field v limit =
     (if limit < RuneCount v then Some (maxLenError op field limit) else None)"

definition checkOptRuneMax :: "string \<Rightarrow> string \<Rightarrow> string Optional \<Rightarrow> nat \<Rightarrow> ArgumentError option" where
  "checkOptRuneMax op field x limit =
     (case Optional_Get x of (v, ok) \<Rightarrow> if ok then checkRuneMax op field v limit else None)"

definition zeroMonthError :: "string \<Rightarrow> ArgumentError" where
  "zeroMonthError op = \<lparr>ae_Op = op, ae_Field = ''month'', ae_Reason = ''month must not be zero''\<rparr>"

lemma errFirst_None: "errFirst es = None \<longleftrightarrow> (\<forall>e\<in>set es. e = None)"
  by (induction es) (auto split: option.split)

lemma errFirst_Some: "errFirst es = Some x \<Longrightarrow> Some x \<in> set es"
  by (induction es) (auto split: option.splits)

lemma checkRuneMax_None: "checkRuneMax op field v limit = None \<longleftrightarrow> RuneCount v \<le> limit"
  by (auto simp: checkRuneMax_def)

definition opt_max :: "nat \<Rightarrow> string Optional \<Rightarrow> bool" where
  "opt_max limit x \<longleftrightarrow> (o_state x = optionalValue \<longrightarrow> RuneCount (o_value x) \<le> limit)"

lemma checkOptRuneMax_None: "checkOptRuneMax op field x limit = None \<longleftrightarrow> opt_max limit x"
  by (auto simp: checkOptRuneMax_def Optional_Get_def checkRuneMax_None opt_max_def)

lemma checkOptRuneMax_Some:
  "checkOptRuneMax op field x limit = Some e \<Longrightarrow> \<not> opt_max limit x \<and> e = maxLenError op field limit"
  by (auto simp: checkOptRuneMax_def checkRuneMax_def opt_max_def Optional_Get_def split: if_splits)

section \<open>Searching the tree\<close>

lemma errors_Is_EWrap [simp]: "errors_Is (EWrap s e) t = errors_Is e t"
  by (simp add: errors_Is_def error_matches_def)

lemma errors_Is_EHook [simp]: "errors_Is (EHook e) t = errors_Is e t"
  by (simp add: errors_Is_def error_matches_def)

lemma errors_As_EWrap [simp]: "\<not> p (EWrap s e) \<Longrightarrow> errors_As p (EWrap s e) = errors_As p e"
  by (simp add: errors_As_def)

lemma is_kind_EWrap [simp]:
  "\<not> is_EArg (EWrap s e)" "\<not> is_EApi (EWrap s e)" "\<not> is_net_error (EWrap s e)"
  by (simp_all add: is_EArg_def is_EApi_def is_net_error_def)

lemma IsRetryable_EWrap [simp]: "IsRetryable (Some (EWrap s e)) = IsRetryable (Some e)"
  by (simp add: IsRetryable_def)

definition wrapped :: "string list \<Rightarrow> gerr \<Rightarrow> gerr" where
  "wrapped ws e = foldr EWrap ws e"

lemma wrapped_simps [simp]: "wrapped [] e = e" "wrapped (w # ws) e = EWrap w (wrapped ws e)"
  by (simp_all add: wrapped_def)

lemma IsRetryable_wrapped [simp]: "IsRetryable (Some (wrapped ws e)) = IsRetryable (Some e)"
  by (induction ws) simp_all

lemma errors_Is_wrapped [simp]: "errors_Is (wrapped ws e) t = errors_Is e t"
  by (induction ws) simp_all

lemma errors_Is_EApi:
  "errors_Is (EApi e) (TSentinel s) \<longleftrightarrow>
   sentinelByID (e_ID e) = Some s \<or> sentinelByStatus (e_StatusCode e) = Some s"
  by (auto simp: errors_Is_def error_matches_def Error_Is_def split: option.splits)

lemma IsRetryable_EApi:
  "IsRetryable (Some (EApi e)) \<longleftrightarrow>
   (\<exists>s \<in> {ErrRateLimited, ErrServerError, ErrServiceUnavailable}. errors_Is (EApi e) (TSentinel s))"
  by (simp add: IsRetryable_def errors_As_def is_EArg_def is_EApi_def)

lemma sentinelByStatus_retryable:
  "sentinelByStatus n = Some ErrRateLimited \<longleftrightarrow> n = 429"
  "sentinelByStatus n = Some ErrServerError \<longleftrightarrow> n = 500"
  "sentinelByStatus n = Some ErrServiceUnavailable \<longleftrightarrow> n = 503"
  by (simp_all add: sentinelByStatus_def)

lemma sentinelByID_retryable:
  "sentinelByID i = Some ErrRateLimited \<longleftrightarrow> i = ''429''"
  "sentinelByID i = Some ErrServerError \<longleftrightarrow> i = ''500''"
  "sentinelByID i = Some ErrServiceUnavailable \<longleftrightarrow> i = ''503''"
  by (simp_all add: sentinelByID_def del: list.inject)

text \<open>
  An answer of the documented taxonomy: the id is the status, or the status with a dotted sub-code.
\<close>

definition wire_error :: "Error \<Rightarrow> bool" where
  "wire_error e \<longleftrightarrow> (\<exists>sub. e_ID e = dec_int (e_StatusCode e) @ sub \<and> (sub = [] \<or> hd sub = CHR ''.''))"

lemma wire_error_id:
  assumes "wire_error e" and "CHR ''.'' \<notin> set i" and "dec_int n = i"
  shows "e_ID e = i \<Longrightarrow> e_StatusCode e = n"
proof -
  assume i: "e_ID e = i"
  from assms(1) obtain sub where s: "e_ID e = dec_int (e_StatusCode e) @ sub"
    "sub = [] \<or> hd sub = CHR ''.''" by (auto simp: wire_error_def)
  have "sub = []" using s i assms(2) by (cases sub) auto
  with s i assms(3) show "e_StatusCode e = n" by (metis append_Nil2 dec_int_inj)
qed

section \<open>Properties\<close>

text \<open>
  C28: retrying an API error is decided by its status alone, as long as the error's id belongs to
  the status as the API's taxonomy says: \<open>IsRetryable\<close> holds for 429, 500 and 503 and for no other
  status, however many times the error has been wrapped.
\<close>

theorem IsRetryable_by_status:
  assumes "wire_error e"
  shows "IsRetryable (Some (wrapped ws (EApi e))) \<longleftrightarrow> e_StatusCode e \<in> {429, 500, 503}"
proof -
  have "dec_int 429 = ''429''" "dec_int 500 = ''500''" "dec_int 503 = ''503''" by code_simp+
  then have "e_ID e = ''429'' \<Longrightarrow> e_StatusCode e = 429" "e_ID e = ''500'' \<Longrightarrow> e_StatusCode e = 500"
    "e_ID e = ''503'' \<Longrightarrow> e_StatusCode e = 503"
    by (auto intro!: wire_error_id [OF assms])
  then show ?thesis
    by (auto simp: IsRetryable_EApi errors_Is_EApi sentinelByStatus_retryable sentinelByID_retryable)
qed

theorem IsRetryable_by_status_witness:
  "wire_error \<lparr>e_StatusCode = 403, e_ID = ''403.1'', e_Name = [], e_Detail = [], e_RetryAfter = 0\<rparr> \<and>
   \<not> IsRetryable (Some (wrapped [''a''] (EApi
      \<lparr>e_StatusCode = 403, e_ID = ''403.1'', e_Name = [], e_Detail = [], e_RetryAfter = 0\<rparr>)))"
proof -
  have "dec_int 403 = ''403''" by code_simp
  then have w: "wire_error \<lparr>e_StatusCode = 403, e_ID = ''403.1'', e_Name = [], e_Detail = [], e_RetryAfter = 0\<rparr>"
    by (auto simp: wire_error_def)
  with IsRetryable_by_status [OF w, of "[''a'']"] show ?thesis by simp
qed

text \<open>
  What else \<open>IsRetryable\<close> says, through any wrapping: never for an argument error, a
  cancellation or a bare caller deadline, wherever a cancellation hides behind a transport error;
  always for a transport error that wraps a deadline or an unknown cause; for a leaf transport
  error exactly when it is not itself the deadline.
\<close>

theorem IsRetryable_transport:
  "\<not> IsRetryable (Some (wrapped ws (EArg a))) \<and>
   \<not> IsRetryable (Some (wrapped ws ECanceled)) \<and>
   \<not> IsRetryable (Some (wrapped ws EDeadline)) \<and>
   \<not> IsRetryable (Some (wrapped ws (EPlain m))) \<and>
   \<not> IsRetryable (Some (wrapped ws (ENet m d (Some (wrapped vs ECanceled))))) \<and>
   IsRetryable (Some (wrapped ws (ENet m d (Some (wrapped vs EDeadline))))) \<and>
   IsRetryable (Some (wrapped ws (ENet m d (Some (wrapped vs (EPlain m')))))) \<and>
   (IsRetryable (Some (wrapped ws (ENet m d None))) \<longleftrightarrow> \<not> d)"
proof -
  have find: "find p (error_chain (wrapped vs e)) = find p (error_chain e)"
    if "\<And>s x. \<not> p (EWrap s x)" for p vs e
    using that by (induction vs) simp_all
  have ex: "list_ex (error_matches t) (error_chain (wrapped vs e)) \<longleftrightarrow> list_ex (error_matches t) (error_chain e)" for t vs e
    using errors_Is_wrapped [of vs e t] by (simp add: errors_Is_def)
  note defs = IsRetryable_def errors_As_def errors_Is_def errors_Unwrap_def
  show ?thesis
    by (simp add: IsRetryable_wrapped)
      (simp add: defs find ex is_EArg_def is_EApi_def is_net_error_def error_matches_def)
qed

end
