(* ===== verification/Go_Url.thy ===== *)
theory Go_Url
  imports Go_Strings "HOL-Library.AList"
begin

text \<open>
  The parts of Go's \<open>net/url\<close> that build request targets: \<open>url.PathEscape\<close>,
  \<open>url.QueryEscape\<close> and \<open>url.Values\<close> with \<open>Set\<close> and \<open>Encode\<close>. The lemmas show that escaping
  is injective (percent-decoding undoes it) and that an escaped segment holds none of the
  bytes that structure a URL.
\<close>

section \<open>Percent-escaping\<close>

definition hex_char :: "nat \<Rightarrow> char" where
  "hex_char n = (if n < 10 then char_of (48 + n) else char_of (55 + n))"

definition hex_val :: "char \<Rightarrow> nat" where
  "hex_val c = (let n = of_char c in if n \<le> 57 then n - 48 else n - 55)"

definition is_alnum :: "char \<Rightarrow> bool" where
  "is_alnum c \<longleftrightarrow> byte_in 48 57 c \<or> byte_in 65 90 c \<or> byte_in 97 122 c"

text \<open>
  \<open>shouldEscape\<close> for the two modes in use. Letters, digits and \<open>-_.~\<close> stay; of the reserved
  bytes a path segment escapes only \<open>/;,?\<close> and a query component escapes all; every other byte
  is escaped.
\<close>

definition shouldEscapeSegment :: "char \<Rightarrow> bool" where
  "shouldEscapeSegment c \<longleftrightarrow> \<not> is_alnum c \<and> c \<notin> set ''-_.~$&+:=@''"

definition shouldEscapeQuery :: "char \<Rightarrow> bool" where
  "shouldEscapeQuery c \<longleftrightarrow> \<not> is_alnum c \<and> c \<notin> set ''-_.~''"

definition percent :: "char \<Rightarrow> string" where
  "percent c = [CHR ''%'', hex_char (of_char c div 16), hex_char (of_char c mod 16)]"

definition escape_segment_byte :: "char \<Rightarrow> string" where
  "escape_segment_byte c = (if shouldEscapeSegment c then percent c else [c])"

definition escape_query_byte :: "char \<Rightarrow> string" where
  "escape_query_byte c =
     (if c = CHR '' '' then ''+'' else if shouldEscapeQuery c then percent c else [c])"

definition PathEscape :: "string \<Rightarrow> string" where
  "PathEscape s = concat (map escape_segment_byte s)"

definition QueryEscape :: "string \<Rightarrow> string" where
  "QueryEscape s = concat (map escape_query_byte s)"

text \<open>Percent-decoding, what a server does with a segment after it has split the path.\<close>

fun percent_decode :: "string \<Rightarrow> string" where
  "percent_decode [] = []"
| "percent_decode (c # s) =
     (if c = CHR ''%'' then
        (case s of h # l # t \<Rightarrow> char_of (16 * hex_val h + hex_val l) # percent_decode t | _ \<Rightarrow> c # s)
      else c # percent_decode s)"

lemma hex_val_char [simp]: "n < 16 \<Longrightarrow> hex_val (hex_char n) = n"
  by (auto simp: hex_val_def hex_char_def Let_def)

lemma hex_char_props:
  assumes "n < 16"
  shows "is_alnum (hex_char n)"
  using assms by (auto simp: hex_char_def is_alnum_def byte_in_def)

lemma is_alnum_neq:
  "is_alnum c \<Longrightarrow> c \<noteq> CHR ''/''" "is_alnum c \<Longrightarrow> c \<noteq> CHR ''?''" "is_alnum c \<Longrightarrow> c \<noteq> CHR ''#''"
  "is_alnum c \<Longrightarrow> c \<noteq> CHR ''.''" "is_alnum c \<Longrightarrow> c \<noteq> CHR ''%''" "is_alnum c \<Longrightarrow> c \<noteq> CHR '' ''"
  "is_alnum c \<Longrightarrow> c \<noteq> CHR ''&''" "is_alnum c \<Longrightarrow> c \<noteq> CHR ''=''" "is_alnum c \<Longrightarrow> c \<noteq> CHR ''+''"
  by (auto simp: is_alnum_def byte_in_def)

lemma of_char_less_256: "of_char c < (256 :: nat)"
  by (metis of_char_mod_256 mod_less_divisor zero_less_numeral)

lemma hex_nibbles: "of_char c div 16 < (16 :: nat)" "of_char c mod 16 < (16 :: nat)"
  using of_char_less_256 [of c] by (simp_all add: less_mult_imp_div_less)

lemma percent_decode_percent [simp]: "percent_decode (percent c @ s) = c # percent_decode s"
  using hex_nibbles [of c] by (simp add: percent_def)

lemma escape_segment_percent [simp]: "escape_segment_byte CHR ''%'' = percent CHR ''%''"
  by (simp add: escape_segment_byte_def shouldEscapeSegment_def is_alnum_def byte_in_def)

lemma percent_decode_segment_byte [simp]:
  "percent_decode (escape_segment_byte c @ s) = c # percent_decode s"
proof (cases "c = CHR ''%''")
  case False
  then show ?thesis by (simp add: escape_segment_byte_def)
qed simp

lemma percent_decode_PathEscape [simp]: "percent_decode (PathEscape s) = s"
  by (induction s) (simp_all add: PathEscape_def)

lemma PathEscape_inj [simp]: "PathEscape s = PathEscape t \<longleftrightarrow> s = t"
  by (metis percent_decode_PathEscape)

lemma PathEscape_Nil_iff [simp]: "PathEscape s = [] \<longleftrightarrow> s = []"
  by (metis PathEscape_inj concat.simps(1) list.simps(8) PathEscape_def)

lemma percent_set: "d \<in> set (percent c) \<Longrightarrow> d = CHR ''%'' \<or> is_alnum d"
  using hex_nibbles [of c] hex_char_props by (auto simp: percent_def)

text \<open>An escaped segment has only unreserved bytes, sub-delimiters allowed in a segment, and \<open>%\<close>.\<close>

lemma PathEscape_set: "d \<in> set (PathEscape s) \<Longrightarrow> is_alnum d \<or> d \<in> set ''-_.~$&+:=@%''"
proof -
  assume "d \<in> set (PathEscape s)"
  then obtain c where "d \<in> set (escape_segment_byte c)" by (auto simp: PathEscape_def)
  then show ?thesis
    using percent_set [of d c]
    by (cases "shouldEscapeSegment c") (auto simp: escape_segment_byte_def shouldEscapeSegment_def)
qed

lemma PathEscape_no_delims:
  shows "CHR ''/'' \<notin> set (PathEscape s)" "CHR ''?'' \<notin> set (PathEscape s)"
    "CHR ''#'' \<notin> set (PathEscape s)"
  using PathEscape_set [of "CHR ''/''" s] PathEscape_set [of "CHR ''?''" s]
    PathEscape_set [of "CHR ''#''" s]
  by (auto simp: is_alnum_def byte_in_def)

lemma escape_segment_dot [simp]: "escape_segment_byte CHR ''.'' = ''.''"
  by (simp add: escape_segment_byte_def shouldEscapeSegment_def)

lemma PathEscape_dots [simp]: "PathEscape ''.'' = ''.''" "PathEscape ''..'' = ''..''"
  by (simp_all add: PathEscape_def)

section \<open>Query values\<close>

text \<open>
  \<open>url.Values\<close> as an association list with one entry per key. A nil map and an empty one
  render alike, so both are the empty list. \<open>Set\<close> replaces the values of a key; \<open>Encode\<close> sorts
  by key and joins \<open>key=value\<close> pairs with \<open>&\<close>.
\<close>

type_synonym url_values = "(string \<times> string list) list"

definition Values_Set :: "string \<Rightarrow> string \<Rightarrow> url_values \<Rightarrow> url_values" where
  "Values_Set k v q = AList.update k [v] q"

definition Values_Get :: "url_values \<Rightarrow> string \<Rightarrow> string" where
  "Values_Get q k = (case map_of q k of Some (v # _) \<Rightarrow> v | _ \<Rightarrow> [])"

definition Values_pairs :: "url_values \<Rightarrow> (string \<times> string) list" where
  "Values_pairs q = concat (map (\<lambda>k. map (Pair k) (the (map_of q k))) (sort (remdups (map fst q))))"

definition Values_Encode :: "url_values \<Rightarrow> string" where
  "Values_Encode q =
     Join ''&'' (map (\<lambda>(k, v). QueryEscape k @ ''='' @ QueryEscape v) (Values_pairs q))"

lemma Values_Get_Set [simp]:
  "Values_Get (Values_Set k v q) k' = (if k' = k then v else Values_Get q k')"
  by (simp add: Values_Get_def Values_Set_def update_conv')

lemma Values_Set_keys: "set (map fst (Values_Set k v q)) = insert k (set (map fst q))"
  by (auto simp only: Values_Set_def update_keys split: if_splits) auto

lemma Values_Encode_Nil [simp]: "Values_Encode [] = []"
  by (simp add: Values_Encode_def Values_pairs_def)

text \<open>Query escaping is injective too: the plus sign stands for a space and nothing else.\<close>

fun query_decode :: "string \<Rightarrow> string" where
  "query_decode [] = []"
| "query_decode (c # s) =
     (if c = CHR ''%'' then
        (case s of h # l # t \<Rightarrow> char_of (16 * hex_val h + hex_val l) # query_decode t | _ \<Rightarrow> c # s)
      else if c = CHR ''+'' then CHR '' '' # query_decode s
      else c # query_decode s)"

lemma query_decode_percent [simp]: "query_decode (percent c @ s) = c # query_decode s"
  using hex_nibbles [of c] by (simp add: percent_def)

lemma query_decode_byte [simp]: "query_decode (escape_query_byte c @ s) = c # query_decode s"
proof -
  have "shouldEscapeQuery CHR ''%''" "shouldEscapeQuery CHR ''+''"
    by (simp_all add: shouldEscapeQuery_def is_alnum_def byte_in_def)
  then show ?thesis by (auto simp: escape_query_byte_def)
qed

lemma query_decode_QueryEscape [simp]: "query_decode (QueryEscape s) = s"
  by (induction s) (simp_all add: QueryEscape_def)

lemma QueryEscape_inj [simp]: "QueryEscape s = QueryEscape t \<longleftrightarrow> s = t"
  by (metis query_decode_QueryEscape)

lemma QueryEscape_set: "d \<in> set (QueryEscape s) \<Longrightarrow> is_alnum d \<or> d \<in> set ''-_.~+%''"
proof -
  assume "d \<in> set (QueryEscape s)"
  then obtain c where "d \<in> set (escape_query_byte c)" by (auto simp: QueryEscape_def)
  then show ?thesis
    using percent_set [of d c]
    by (cases "shouldEscapeQuery c") (auto simp: escape_query_byte_def shouldEscapeQuery_def split: if_splits)
qed

end
