(* ===== verification/Backoff.thy ===== *)
theory Backoff
  imports Go_Strings
begin

text \<open>
  The waits of the retry pipeline (\<open>internal/transport/retry.go\<close>): the configuration, the reading of
  \<open>Retry-After\<close>, its cap, the doubling upper bound and the full jitter, with the rounding of its
  \<open>float64\<close> product written out. The two readings the code takes from outside, an HTTP date and the
  clock, are arguments.
\<close>

section \<open>Configuration\<close>

record RetryConfig =
  rc_MaxAttempts :: int
  rc_MinBackoff :: i64
  rc_MaxBackoff :: i64
  rc_RetryWrites :: bool
  rc_Disabled :: bool

section \<open>Durations and Retry-After\<close>

definition second_ns :: i64 where "second_ns = 1000000000"
definition minute_ns :: i64 where "minute_ns = 60000000000"
definition MaxInt64 :: i64 where "MaxInt64 = 9223372036854775807"

definition max_i64 :: "i64 \<Rightarrow> i64 \<Rightarrow> i64" where
  "max_i64 a b = (if sint a < sint b then b else a)"

definition min_i64 :: "i64 \<Rightarrow> i64 \<Rightarrow> i64" where
  "min_i64 a b = (if sint b < sint a then b else a)"

text \<open>\<open>time.Until\<close>: the difference of two instants in nanoseconds, saturating at \<open>int64\<close>.\<close>

definition time_Until :: "int \<Rightarrow> int \<Rightarrow> i64" where
  "time_Until now t = word_of_int (max (- 9223372036854775808) (min 9223372036854775807 (t - now)))"

definition RetryAfterDelay :: "(string \<Rightarrow> int option) \<Rightarrow> int \<Rightarrow> string \<Rightarrow> i64" where
  "RetryAfterDelay parse now v =
     (if v = [] then 0
      else
        let date = (case parse v of None \<Rightarrow> 0
          | Some t \<Rightarrow> let d = time_Until now t in if 0 < sint d then d else 0)
        in case ParseInt v of
             Inr secs \<Rightarrow>
               if 0 \<le> sint secs then
                 if sint (go_quo MaxInt64 second_ns) < sint secs then MaxInt64 else secs * second_ns
               else date
           | Inl _ \<Rightarrow> date)"

definition retryAfterCap :: "RetryConfig \<Rightarrow> i64" where
  "retryAfterCap rc = max_i64 (rc_MaxBackoff rc) minute_ns"

definition retryVerb :: "RetryConfig \<Rightarrow> string \<Rightarrow> bool" where
  "retryVerb rc verb \<longleftrightarrow> rc_RetryWrites rc \<or> verb = ''GET'' \<or> verb = ''DELETE''"

text \<open>
  \<open>float64\<close>: a natural number rounded to 53 significant bits, to the nearest, ties to even. The
  random factor is a multiple of \<open>2^(-53)\<close> (the low 53 bits of a \<open>Uint64\<close>), so the product is
  rounded in units of \<open>2^(-53)\<close>, and the conversion to \<open>time.Duration\<close> truncates.
\<close>

fun bit_len :: "nat \<Rightarrow> nat" where
  "bit_len n = (if n = 0 then 0 else Suc (bit_len (n div 2)))"

declare bit_len.simps [simp del]

definition round53 :: "nat \<Rightarrow> nat" where
  "round53 x =
     (if x < 2 ^ 53 then x
      else let e = bit_len x - 53; q = x div 2 ^ e; r = x mod 2 ^ e; half = 2 ^ (e - 1)
           in (if half < r \<or> r = half \<and> odd q then q + 1 else q) * 2 ^ e)"

definition jitter :: "nat \<Rightarrow> nat \<Rightarrow> nat" where
  "jitter k n = round53 (k * round53 n) div 2 ^ 53"

definition jitter_int :: "nat \<Rightarrow> int \<Rightarrow> int" where
  "jitter_int k n = (if 0 \<le> n then int (jitter k (nat n)) else - int (jitter k (nat (- n))))"

definition backoff_upper :: "RetryConfig \<Rightarrow> nat \<Rightarrow> i64" where
  "backoff_upper rc i =
     (if i < 63 \<and> sint (rc_MinBackoff rc) \<le> sint (signed_drop_bit i (rc_MaxBackoff rc))
      then push_bit i (rc_MinBackoff rc) else rc_MaxBackoff rc)"

definition jittered :: "RetryConfig \<Rightarrow> nat \<Rightarrow> u64 \<Rightarrow> i64" where
  "jittered rc i u =
     rc_MinBackoff rc +
       word_of_int (jitter_int (unat u mod 2 ^ 53) (sint (backoff_upper rc i - rc_MinBackoff rc)))"

section \<open>Delays are bounded\<close>

lemma bit_len_bounds: "n \<noteq> 0 \<Longrightarrow> 2 ^ (bit_len n - 1) \<le> n \<and> n < 2 ^ bit_len n \<and> 0 < bit_len n"
proof (induction n rule: bit_len.induct)
  case (1 n)
  show ?case
  proof (cases "n div 2 = 0")
    case True
    with 1(2) show ?thesis by (simp add: bit_len.simps [of n] bit_len.simps [of 0])
  next
    case False
    let ?l = "bit_len (n div 2)"
    from 1(1) [OF 1(2) False] have ih: "2 ^ (?l - 1) \<le> n div 2" "n div 2 < 2 ^ ?l" "0 < ?l" by simp_all
    have l: "bit_len n = Suc ?l" using 1(2) by (simp add: bit_len.simps [of n])
    have "(2::nat) ^ ?l = 2 * 2 ^ (?l - 1)" using ih(3) by (cases ?l) simp_all
    with ih have "2 ^ ?l \<le> n" "n < 2 * 2 ^ ?l" by linarith+
    with l show ?thesis by simp
  qed
qed

text \<open>Rounding to 53 bits is exact below \<open>2^53\<close> and off by at most one part in \<open>2^53\<close> above.\<close>

lemma round53_small: "x < 2 ^ 53 \<Longrightarrow> round53 x = x"
  by (simp add: round53_def)

lemma round53_near:
  assumes "\<not> x < 2 ^ 53"
  shows "0 < bit_len x - 53" and "2 ^ 53 * 2 ^ (bit_len x - 53 - 1) \<le> x"
    and "round53 x \<le> x + 2 ^ (bit_len x - 53 - 1)"
    and "2 ^ (bit_len x - 53) dvd round53 x"
proof -
  let ?l = "bit_len x" and ?e = "bit_len x - 53"
  let ?q = "x div 2 ^ ?e" and ?r = "x mod 2 ^ ?e"
  from assms have "x \<noteq> 0" by (cases x) simp_all
  note b = bit_len_bounds [OF this]
  show e: "0 < ?e"
  proof (rule ccontr)
    assume "\<not> 0 < ?e"
    then have "?l \<le> 53" by simp
    then have "(2::nat) ^ ?l \<le> 2 ^ 53" by (rule power_increasing) simp
    with b assms show False by linarith
  qed
  define h where "h = (2::nat) ^ (?e - 1)"
  have h2: "2 ^ ?e = 2 * h" using e unfolding h_def by (cases ?e) simp_all
  have "(2::nat) ^ (?l - 1) = 2 ^ 53 * h"
    using e unfolding h_def power_add [symmetric] by (intro arg_cong [where f = "power 2"]) simp
  with b show "2 ^ 53 * 2 ^ (?e - 1) \<le> x" by (simp add: h_def)
  have x: "x = ?q * (2 * h) + ?r" using h2 div_mult_mod_eq [of x "2 ^ ?e"] by simp
  have "round53 x \<le> x + h"
  proof (cases "h < ?r \<or> ?r = h \<and> odd ?q")
    case True
    then have "round53 x = (?q + 1) * (2 * h)"
      using assms h2 by (simp add: round53_def Let_def h_def)
    moreover have "h \<le> ?r" using True by auto
    ultimately show ?thesis using x by (simp add: algebra_simps)
  next
    case F: False
    then have "round53 x = ?q * (2 * h)"
      using assms h2 by (simp add: round53_def Let_def h_def)
    then show ?thesis using x by linarith
  qed
  then show "round53 x \<le> x + 2 ^ (?e - 1)" by (simp add: h_def)
  show "2 ^ ?e dvd round53 x" using assms by (simp add: round53_def Let_def)
qed

lemma round53_le: "round53 x * 2 ^ 53 \<le> x * (2 ^ 53 + 1)"
proof (cases "x < 2 ^ 53")
  case True
  then show ?thesis by (simp add: round53_small)
next
  case False
  define h where "h = (2::nat) ^ (bit_len x - 53 - 1)"
  have "2 ^ 53 * h \<le> x" and "round53 x \<le> x + h"
    using round53_near [OF False] by (simp_all add: h_def)
  then have "round53 x * 2 ^ 53 \<le> x * 2 ^ 53 + 2 ^ 53 * h"
    by (metis add_mult_distrib mult.commute mult_le_mono1)
  with \<open>2 ^ 53 * h \<le> x\<close> show ?thesis by (simp add: algebra_simps)
qed

lemma round53_le_power:
  assumes "x < 2 ^ l" and "53 \<le> l"
  shows "round53 x \<le> 2 ^ l"
proof (cases "x < 2 ^ 53")
  case True
  with assms(1) show ?thesis by (simp add: round53_small)
next
  case False
  let ?e = "bit_len x - 53"
  have e: "0 < ?e" by (rule round53_near(1) [OF False])
  from False have "x \<noteq> 0" by (cases x) simp_all
  note b = bit_len_bounds [OF this]
  have "(2::nat) ^ (bit_len x - 1) < 2 ^ l" using b assms(1) by linarith
  then have l: "bit_len x \<le> l" using b by (simp add: power_strict_increasing_iff)
  have be: "(2::nat) ^ 53 * 2 ^ ?e = 2 ^ bit_len x"
    using e unfolding power_add [symmetric] by (intro arg_cong [where f = "power 2"]) simp
  have "x div 2 ^ ?e < 2 ^ 53"
    using b be by (intro less_mult_imp_div_less) (simp add: mult.commute)
  then have "(x div 2 ^ ?e + 1) * 2 ^ ?e \<le> 2 ^ 53 * 2 ^ ?e" by (intro mult_le_mono1) simp
  moreover have "round53 x \<le> (x div 2 ^ ?e + 1) * 2 ^ ?e"
    using False by (simp add: round53_def Let_def)
  moreover have "(2::nat) ^ bit_len x \<le> 2 ^ l" using l by (intro power_increasing) simp_all
  ultimately show ?thesis using be by linarith
qed

lemma jitter_less_rounded:
  assumes "k < 2 ^ 53" and "0 < round53 n"
  shows "jitter k n < round53 n"
proof -
  let ?N = "round53 n"
  have "k * ?N \<le> (2 ^ 53 - 1) * ?N" using assms(1) by (intro mult_le_mono1) simp
  then have "k * ?N * (2 ^ 53 + 1) \<le> (2 ^ 53 - 1) * ?N * (2 ^ 53 + 1)" by (rule mult_le_mono1)
  also have "\<dots> < 2 ^ 106 * ?N" using assms(2) by simp
  finally have "round53 (k * ?N) * 2 ^ 53 < 2 ^ 106 * ?N"
    using round53_le [of "k * ?N"] by linarith
  then have "round53 (k * ?N) < ?N * 2 ^ 53" by simp
  then show ?thesis unfolding jitter_def by (rule less_mult_imp_div_less)
qed

text \<open>
  The jitter stays below the width it is scaled by, whatever the rounding of the width and of the
  product: where the width is rounded up, the product is at most one unit of it below.
\<close>

lemma jitter_less:
  assumes k: "k < 2 ^ 53" and n: "0 < n"
  shows "jitter k n < n"
proof (cases "round53 n \<le> n")
  case True
  have "0 < round53 n"
  proof (cases "n < 2 ^ 53")
    case False
    let ?e = "bit_len n - 53"
    have "2 ^ 52 * 2 ^ ?e \<le> n"
      using round53_near(1,2) [OF False] by (cases ?e) simp_all
    then have "2 ^ ?e \<le> n" by (metis le_trans mult_le_mono1 nat_mult_1 one_le_power one_le_numeral)
    then show ?thesis using False by (auto simp: round53_def Let_def div_greater_zero_iff)
  qed (use n in \<open>simp add: round53_small\<close>)
  with jitter_less_rounded [OF k this] True show ?thesis by linarith
next
  case up: False
  then have big: "\<not> n < 2 ^ 53" using round53_small [of n] by auto
  define N x where "N = round53 n" and "x = k * N"
  define E where "E = (2::nat) ^ (bit_len n - 53)"
  have E: "E = 2 * 2 ^ (bit_len n - 53 - 1)"
    using round53_near(1) [OF big] unfolding E_def by (cases "bit_len n - 53") simp_all
  have Nn: "2 * N \<le> 2 * n + E" and Edvd: "E dvd N" and nE: "2 ^ 52 * E \<le> n"
    using round53_near(2-4) [OF big] by (simp_all add: E N_def E_def [symmetric])
  have nE': "2 ^ 52 * E < n"
  proof (rule ccontr)
    assume "\<not> 2 ^ 52 * E < n"
    with nE have "n = 2 ^ 52 * E" by simp
    then have m: "E dvd n" by simp
    then have "n mod E = 0" and "n div E * E = n" by (simp_all add: dvd_imp_mod_0)
    moreover have "(0::nat) < 2 ^ (bit_len n - 53 - 1)" by simp
    ultimately have "round53 n = n"
      using big unfolding round53_def Let_def E_def [symmetric] by (simp only: if_False) simp
    with up show False by simp
  qed
  have j: "jitter k n = round53 x div 2 ^ 53" by (simp add: jitter_def x_def N_def)
  have Npos: "0 < N" using up by (simp add: N_def)
  have jN: "round53 x < N * 2 ^ 53"
    using jitter_less_rounded [OF k, of n] Npos unfolding j N_def [symmetric]
    by (simp add: div_less_iff_less_mult)
  show ?thesis
  proof (cases "2 ^ 105 * E \<le> x")
    case True
    have "1 \<le> E" by (simp add: E_def)
    with True have xbig: "\<not> x < 2 ^ 53" and "x \<noteq> 0" by simp_all
    have "2 ^ (105 + (bit_len n - 53)) \<le> x" using True by (simp add: E_def power_add)
    then have "(2::nat) ^ (105 + (bit_len n - 53)) < 2 ^ bit_len x"
      using bit_len_bounds [OF \<open>x \<noteq> 0\<close>] by linarith
    then have "105 + (bit_len n - 53) < bit_len x" by (simp add: power_strict_increasing_iff)
    then have "53 + (bit_len n - 53) \<le> bit_len x - 53" by simp
    then have "2 ^ (53 + (bit_len n - 53)) dvd (2 :: nat) ^ (bit_len x - 53)"
      by (rule le_imp_power_dvd)
    then have "2 ^ 53 * E dvd round53 x"
      using round53_near(4) [OF xbig] by (simp add: E_def power_add dvd_trans)
    moreover have "2 ^ 53 * E dvd N * 2 ^ 53" using Edvd by (simp add: mult.commute mult_dvd_mono)
    ultimately have "2 ^ 53 * E dvd N * 2 ^ 53 - round53 x" by (simp add: dvd_diff_nat)
    then have "2 ^ 53 * E \<le> N * 2 ^ 53 - round53 x" using jN by (simp add: dvd_imp_le)
    then have "round53 x + 2 ^ 53 * E \<le> N * 2 ^ 53" using jN by linarith
    moreover have "N < n + E" using Nn \<open>1 \<le> E\<close> by linarith
    then have "N * 2 ^ 53 < (n + E) * 2 ^ 53" by (rule mult_strict_right_mono) simp
    then have "N * 2 ^ 53 < n * 2 ^ 53 + 2 ^ 53 * E" by (simp add: algebra_simps)
    ultimately have "round53 x < n * 2 ^ 53" by linarith
    then show ?thesis unfolding j by (rule less_mult_imp_div_less)
  next
    case False
    then have "round53 x \<le> 2 ^ (105 + (bit_len n - 53))"
      by (intro round53_le_power) (simp_all add: E_def power_add)
    then have "round53 x \<le> 2 ^ 105 * E" by (simp add: E_def power_add)
    with nE' have "round53 x < n * 2 ^ 53" by simp
    then show ?thesis unfolding j by (rule less_mult_imp_div_less)
  qed
qed

text \<open>The policies \<open>WithRetryPolicy\<close> lets through: at least one attempt, \<open>0 < MinBackoff \<le> MaxBackoff\<close>.\<close>

definition valid_policy :: "RetryConfig \<Rightarrow> bool" where
  "valid_policy rc \<longleftrightarrow>
     1 \<le> rc_MaxAttempts rc \<and> 0 < sint (rc_MinBackoff rc) \<and> sint (rc_MinBackoff rc) \<le> sint (rc_MaxBackoff rc)"

lemma sint_shift_left:
  assumes "0 \<le> sint m * 2 ^ i" and "sint m * 2 ^ i < 9223372036854775808"
  shows "sint (push_bit i m :: i64) = sint m * 2 ^ i"
proof -
  have "push_bit i m = (word_of_int (sint m * 2 ^ i) :: i64)"
    by (simp add: push_bit_eq_mult)
  moreover have "sint (word_of_int (sint m * 2 ^ i) :: i64) = sint m * 2 ^ i"
    using assms by (intro sint_of_int_i64) simp_all
  ultimately show ?thesis by (simp del: of_int_mult)
qed

lemma backoff_upper_eq:
  assumes "valid_policy rc"
  shows "sint (backoff_upper rc i) = min (sint (rc_MaxBackoff rc)) (sint (rc_MinBackoff rc) * 2 ^ i)"
proof -
  let ?a = "sint (rc_MinBackoff rc)" and ?b = "sint (rc_MaxBackoff rc)"
  have a: "0 < ?a" "?a \<le> ?b" and b: "?b < 9223372036854775808"
    using assms i64_bounds [of "rc_MaxBackoff rc"] by (simp_all add: valid_policy_def)
  have shift: "sint (signed_drop_bit i (rc_MaxBackoff rc)) = ?b div 2 ^ i"
    by (simp add: sint_signed_drop_bit_eq drop_bit_eq_div)
  have le: "?a \<le> ?b div 2 ^ i \<longleftrightarrow> ?a * 2 ^ i \<le> ?b"
  proof
    assume "?a \<le> ?b div 2 ^ i"
    then have "?a * 2 ^ i \<le> ?b div 2 ^ i * 2 ^ i" by (rule mult_right_mono) simp
    also have "\<dots> \<le> ?b" by (simp add: minus_mod_eq_div_mult [symmetric])
    finally show "?a * 2 ^ i \<le> ?b" .
  next
    assume "?a * 2 ^ i \<le> ?b"
    then have "?a * 2 ^ i div 2 ^ i \<le> ?b div 2 ^ i" by (rule zdiv_mono1) simp
    then show "?a \<le> ?b div 2 ^ i" by simp
  qed
  show ?thesis
  proof (cases "i < 63")
    case True
    show ?thesis
    proof (cases "?a * 2 ^ i \<le> ?b")
      case T: True
      then have "sint (push_bit i (rc_MinBackoff rc) :: i64) = ?a * 2 ^ i"
        using a b by (intro sint_shift_left) simp_all
      with T True show ?thesis by (simp add: backoff_upper_def shift le)
    next
      case False
      then show ?thesis by (simp add: backoff_upper_def shift le)
    qed
  next
    case False
    then have "(2::int) ^ 63 \<le> 2 ^ i" by (intro power_increasing) simp_all
    then have "?b \<le> 2 ^ i" using b by simp
    moreover have "1 * 2 ^ i \<le> ?a * 2 ^ i" using a by (intro mult_right_mono) simp_all
    then have "2 ^ i \<le> ?a * 2 ^ i" by (simp only: mult_1_left)
    ultimately have "?b \<le> ?a * 2 ^ i" by (rule order_trans)
    with False show ?thesis by (simp add: backoff_upper_def)
  qed
qed

lemma jittered_bounds:
  assumes v: "valid_policy rc" and up: "sint (rc_MinBackoff rc) < sint (backoff_upper rc i)"
  shows "sint (rc_MinBackoff rc) \<le> sint (jittered rc i u)"
    and "sint (jittered rc i u) < sint (backoff_upper rc i)"
proof -
  let ?m = "rc_MinBackoff rc" and ?u = "backoff_upper rc i"
  let ?n = "sint (?u - ?m)" and ?k = "unat u mod 2 ^ 53"
  have m: "0 < sint ?m" using v by (simp add: valid_policy_def)
  have n: "?n = sint ?u - sint ?m"
    using m up i64_bounds [of ?u] by (intro sint_diff_i64) linarith+
  have "jitter ?k (nat ?n) < nat ?n"
    using n up by (intro jitter_less) simp_all
  then have j: "0 \<le> jitter_int ?k ?n" "jitter_int ?k ?n < ?n"
    using n up by (simp_all add: jitter_int_def)
  then have s: "sint (word_of_int (jitter_int ?k ?n) :: i64) = jitter_int ?k ?n"
    using n m i64_bounds [of ?u] by (intro sint_of_int_i64) linarith+
  have "sint (jittered rc i u) = sint ?m + jitter_int ?k ?n"
    unfolding jittered_def using s j n m i64_bounds [of ?u]
    by (subst sint_add_i64) (simp_all del: word_of_int_sint_i64)
  with j n show "sint ?m \<le> sint (jittered rc i u)" "sint (jittered rc i u) < sint ?u" by linarith+
qed

lemma RetryAfterDelay_nonneg: "0 \<le> sint (RetryAfterDelay parse now v)"
proof -
  have "0 \<le> sint (secs * second_ns)"
    if "0 \<le> sint secs" "\<not> sint (go_quo MaxInt64 second_ns) < sint secs" for secs
  proof -
    have "go_quo MaxInt64 second_ns = 9223372036" by code_simp
    then have s: "sint secs \<le> 9223372036" using that(2) by simp
    have "secs * second_ns = word_of_int (sint secs * 1000000000)"
      by (simp add: second_ns_def)
    moreover have "sint (word_of_int (sint secs * 1000000000) :: i64) = sint secs * 1000000000"
      using s that(1) by (intro sint_of_int_i64) linarith+
    ultimately show ?thesis using that(1) by (simp del: of_int_mult)
  qed
  then show ?thesis
    by (auto simp: RetryAfterDelay_def Let_def MaxInt64_def split: sum.split option.split)
qed

section \<open>Properties\<close>

text \<open>
  C27: the backoff before retry \<open>i\<close> lies in the half-open interval the documentation promises,
  \<open>[MinBackoff, min(MaxBackoff, MinBackoff * 2^i))\<close>, for every valid policy on \<open>int64\<close>, every
  \<open>i\<close> and every random draw: the doubling never overflows, and the rounding of the \<open>float64\<close>
  product never reaches the upper end, even where the width itself is rounded up.
\<close>

theorem backoff_half_open:
  assumes "valid_policy rc" and "sint (rc_MinBackoff rc) < sint (backoff_upper rc i)"
  shows "sint (rc_MinBackoff rc) \<le> sint (jittered rc i u) \<and>
    sint (jittered rc i u) < min (sint (rc_MaxBackoff rc)) (sint (rc_MinBackoff rc) * 2 ^ i)"
  using jittered_bounds [OF assms] backoff_upper_eq [OF assms(1)] by simp

theorem backoff_half_open_witness:
  "sint (jittered \<lparr>rc_MaxAttempts = 3, rc_MinBackoff = 1, rc_MaxBackoff = 9223372036854775807,
      rc_RetryWrites = False, rc_Disabled = False\<rparr> 70 18446744073709551615) < 9223372036854775807"
proof -
  let ?rc = "\<lparr>rc_MaxAttempts = 3, rc_MinBackoff = 1, rc_MaxBackoff = 9223372036854775807,
      rc_RetryWrites = False, rc_Disabled = False\<rparr>"
  have v: "valid_policy ?rc" by (simp add: valid_policy_def)
  have u: "sint (rc_MinBackoff ?rc) < sint (backoff_upper ?rc 70)" by (simp add: backoff_upper_def)
  from backoff_half_open [OF v u, of 18446744073709551615] show ?thesis by simp
qed

text \<open>
  \<open>Retry-After\<close> in seconds is read exactly, to the nanosecond, as long as the product fits
  \<open>int64\<close>, and clamps to its largest value above; no header value of any form yields a negative
  delay.
\<close>

theorem RetryAfterDelay_seconds:
  assumes "n < 9223372036854775808"
  shows "sint (RetryAfterDelay parse now (dec_nat n)) =
      (if n \<le> 9223372036 then int n * 1000000000 else 9223372036854775807) \<and>
    0 \<le> sint (RetryAfterDelay parse now v)"
proof -
  have s: "sint (word_of_nat n :: i64) = int n" using assms by (rule sint_word_of_nat_i64)
  have h: "is_digit (hd (dec_nat n))" using dec_nat_set [of "hd (dec_nat n)" n] by simp
  then have "hd (dec_nat n) \<noteq> CHR ''+''" "hd (dec_nat n) \<noteq> CHR ''-''" by auto
  then have p: "ParseInt (dec_nat n) = Inr (word_of_nat n)"
    using assms ParseInt_unsigned [of "dec_nat n" "word_of_nat n"] by simp
  have q: "go_quo MaxInt64 second_ns = 9223372036" by code_simp
  have "sint (word_of_nat n * second_ns :: i64) = int n * 1000000000" if "n \<le> 9223372036"
  proof -
    have "word_of_nat n * second_ns = (word_of_int (int n * 1000000000) :: i64)"
      by (simp add: second_ns_def)
    moreover have "sint (word_of_int (int n * 1000000000) :: i64) = int n * 1000000000"
      using that by (intro sint_of_int_i64) linarith+
    ultimately show ?thesis by (simp del: of_int_mult)
  qed
  then have "sint (RetryAfterDelay parse now (dec_nat n)) =
      (if n \<le> 9223372036 then int n * 1000000000 else 9223372036854775807)"
    by (simp add: RetryAfterDelay_def p q s) (simp add: MaxInt64_def)
  then show ?thesis by (simp add: RetryAfterDelay_nonneg)
qed

theorem RetryAfterDelay_seconds_witness:
  "sint (RetryAfterDelay (\<lambda>_. None) 0 (dec_nat 120)) = 120000000000"
  using RetryAfterDelay_seconds [of 120 "\<lambda>_. None" 0 "[]"] by simp

end
