(* ===== verification/Transport.thy ===== *)
theory Transport
  imports Errors Go_Url Backoff
begin

text \<open>
  \<open>internal/transport\<close>: building a request, one attempt on the wire, and the retry pipeline
  (\<open>transport.go\<close>, \<open>retry.go\<close>). The world the pipeline runs in (the limiter and token hooks, the
  HTTP client, the caller's context, the timer, the clock, the random source) is the record \<open>env\<close>
  over an arbitrary world type, so every theorem holds for every behaviour of it; the text form of
  JSON values, the parsing of an HTTP date and of an RFC 3339 time (as an instant) and whether a
  number literal fits a \<open>float64\<close> are functions of the record too. Each hook call,
  send and sleep is also recorded in a trace, which the code does not have and nothing reads.
\<close>

section \<open>Configuration and the world\<close>

record Core =
  c_BaseURL :: string
  c_UserAgent :: string
  c_Timeout :: i64
  c_Retry :: RetryConfig
  c_MaxResponseBytes :: i64

type_synonym header = "(string \<times> string list) list"

definition header_Get :: "header \<Rightarrow> string \<Rightarrow> string" where
  "header_Get h k = (case map_of h k of Some (v # _) \<Rightarrow> v | _ \<Rightarrow> [])"

record request =
  rq_method :: string
  rq_url :: string
  rq_header :: header
  rq_payload :: "string option"

text \<open>
  A response as the HTTP client hands it over: the bytes its body yields before it ends, and the
  error it ends with instead of EOF, if any.
\<close>

record response =
  rp_status :: int
  rp_header :: header
  rp_body :: string
  rp_failure :: "gerr option"

text \<open>One attempt's raw outcome; the zero value when there is none.\<close>

record result =
  r_status :: int
  r_body :: string
  r_header :: header

definition zero_result :: result where
  "zero_result = \<lparr>r_status = 0, r_body = [], r_header = []\<rparr>"

record 'w env =
  env_wait :: "(i64 \<Rightarrow> 'w \<Rightarrow> gerr option \<times> 'w) option"
  env_token :: "i64 \<Rightarrow> 'w \<Rightarrow> (gerr + string) \<times> 'w"
  env_new_request :: "string \<Rightarrow> string \<Rightarrow> gerr option"
  env_do :: "i64 \<Rightarrow> request \<Rightarrow> 'w \<Rightarrow> (gerr + response) \<times> 'w"
  env_ctx_err :: "'w \<Rightarrow> gerr option"
  env_timer :: "i64 \<Rightarrow> 'w \<Rightarrow> bool \<times> 'w"
  env_uint64 :: "'w \<Rightarrow> u64 \<times> 'w"
  env_ParseTime :: "string \<Rightarrow> int option"
  env_now :: "'w \<Rightarrow> int"
  env_json_text :: "json \<Rightarrow> string"
  env_json_value :: "string \<Rightarrow> json option"
  env_rfc3339 :: "string \<Rightarrow> int option"
  env_float64 :: "string \<Rightarrow> bool"

datatype event =
    EvSleep i64
  | EvWait "gerr option"
  | EvToken "gerr option"
  | EvSend request "gerr + result"

record 'w state =
  st_world :: 'w
  st_trace :: "event list"

definition record_event :: "event \<Rightarrow> 'w \<Rightarrow> 'w state \<Rightarrow> 'w state" where
  "record_event ev w st = \<lparr>st_world = w, st_trace = st_trace st @ [ev]\<rparr>"

section \<open>Requests\<close>

definition JoinPath_segment :: "string \<Rightarrow> string" where
  "JoinPath_segment s =
     (if s = ''.'' then ''%2E'' else if s = ''..'' then ''%2E%2E'' else PathEscape s)"

definition JoinPath :: "string list \<Rightarrow> string" where
  "JoinPath segments = Join ''/'' (map JoinPath_segment segments)"

definition requestURL :: "Core \<Rightarrow> string \<Rightarrow> url_values \<Rightarrow> string" where
  "requestURL c path query =
     (let s = TrimSuffix (c_BaseURL c) ''/'' @ ''/'' @ TrimPrefix path ''/'';
          enc = Values_Encode query
      in if enc \<noteq> [] then s @ ''?'' @ enc else s)"

definition op_text :: "string \<Rightarrow> string \<Rightarrow> string" where
  "op_text verb path = ''ynab: '' @ verb @ '' '' @ path @ '': ''"

definition build_request :: "Core \<Rightarrow> string \<Rightarrow> string \<Rightarrow> string \<Rightarrow> string option \<Rightarrow> request" where
  "build_request c verb u token payload =
     \<lparr>rq_method = verb, rq_url = u,
      rq_header =
        [(''Authorization'', [''Bearer '' @ token]), (''User-Agent'', [c_UserAgent c]),
         (''Accept'', [''application/json''])]
        @ (if payload \<noteq> None then [(''Content-Type'', [''application/json''])] else []),
      rq_payload = payload\<rparr>"

section \<open>One attempt\<close>

definition defaultMaxResponseBytes :: i64 where
  "defaultMaxResponseBytes = push_bit 20 128"

definition read_limit :: "Core \<Rightarrow> i64" where
  "read_limit c =
     (if sint (c_MaxResponseBytes c) \<le> 0 then defaultMaxResponseBytes else c_MaxResponseBytes c)"

text \<open>\<open>io.ReadAll(io.LimitReader(body, n))\<close>: at most \<open>n\<close> bytes, and no error once they are read.\<close>

definition ReadAll_limited :: "i64 \<Rightarrow> response \<Rightarrow> string \<times> gerr option" where
  "ReadAll_limited n rp =
     (if sint n \<le> 0 then ([], None)
      else if sint n \<le> int (length (rp_body rp)) then (take (nat (sint n)) (rp_body rp), None)
      else (rp_body rp, rp_failure rp))"

definition read_response :: "Core \<Rightarrow> string \<Rightarrow> response \<Rightarrow> gerr + result" where
  "read_response c pre rp =
     (let limit = read_limit c in
      case ReadAll_limited (limit + 1) rp of
        (_, Some e) \<Rightarrow> Inl (EWrap (pre @ ''read response: '') e)
      | (body, None) \<Rightarrow>
          if sint limit < int (length body)
          then Inl (EPlain (pre @ ''response body exceeds '' @ dec_int (sint limit) @ '' bytes''))
          else Inr \<lparr>r_status = rp_status rp, r_body = body, r_header = rp_header rp\<rparr>)"

definition run_wait :: "'w env \<Rightarrow> Core \<Rightarrow> 'w state \<Rightarrow> gerr option \<times> 'w state" where
  "run_wait env c st =
     (case env_wait env of
        None \<Rightarrow> (None, st)
      | Some f \<Rightarrow> (case f (c_Timeout c) (st_world st) of (e, w) \<Rightarrow> (e, record_event (EvWait e) w st)))"

definition run_token :: "'w env \<Rightarrow> Core \<Rightarrow> 'w state \<Rightarrow> (gerr + string) \<times> 'w state" where
  "run_token env c st =
     (case env_token env (c_Timeout c) (st_world st) of
        (Inl e, w) \<Rightarrow> (Inl e, record_event (EvToken (Some e)) w st)
      | (Inr t, w) \<Rightarrow> (Inr t, record_event (EvToken None) w st))"

definition run_send :: "'w env \<Rightarrow> Core \<Rightarrow> string \<Rightarrow> request \<Rightarrow> 'w state \<Rightarrow> (gerr + result) \<times> 'w state" where
  "run_send env c pre req st =
     (case env_do env (c_Timeout c) req (st_world st) of (r, w) \<Rightarrow>
        let out = (case r of Inl e \<Rightarrow> Inl (EWrap pre e) | Inr rp \<Rightarrow> read_response c pre rp)
        in (out, record_event (EvSend req out) w st))"

definition attempt ::
  "'w env \<Rightarrow> Core \<Rightarrow> string \<Rightarrow> string \<Rightarrow> url_values \<Rightarrow> string option \<Rightarrow> 'w state \<Rightarrow> (gerr + result) \<times> 'w state"
where
  "attempt env c verb path query payload st =
     (case run_wait env c st of
        (Some e, st1) \<Rightarrow> (Inl (EHook (EWrap (op_text verb path @ ''limiter: '') e)), st1)
      | (None, st1) \<Rightarrow>
     (case run_token env c st1 of
        (Inl e, st2) \<Rightarrow> (Inl (EHook (EWrap (op_text verb path @ ''token source: '') e)), st2)
      | (Inr token, st2) \<Rightarrow>
        let u = requestURL c path query in
     (case env_new_request env verb u of
        Some e \<Rightarrow> (Inl (EWrap (op_text verb path @ ''build request: '') e), st2)
      | None \<Rightarrow> run_send env c (op_text verb path) (build_request c verb u token payload) st2)))"

section \<open>Delays\<close>

definition header_delay :: "'w env \<Rightarrow> 'w \<Rightarrow> result \<Rightarrow> i64" where
  "header_delay env w res =
     RetryAfterDelay (env_ParseTime env) (env_now env w) (header_Get (r_header res) ''Retry-After'')"

definition retryDelay :: "'w env \<Rightarrow> RetryConfig \<Rightarrow> nat \<Rightarrow> result \<Rightarrow> 'w \<Rightarrow> i64 \<times> 'w" where
  "retryDelay env rc i res w =
     (if r_status res = 429 \<and> 0 < sint (header_delay env w res)
      then (min_i64 (header_delay env w res) (retryAfterCap rc), w)
      else
        if sint (backoff_upper rc i) \<le> sint (rc_MinBackoff rc) then (rc_MinBackoff rc, w)
        else case env_uint64 env w of (u, w') \<Rightarrow> (jittered rc i u, w'))"

definition sleeper_sleep :: "'w env \<Rightarrow> i64 \<Rightarrow> 'w state \<Rightarrow> gerr option \<times> 'w state" where
  "sleeper_sleep env d st =
     (if sint d \<le> 0 then (env_ctx_err env (st_world st), st)
      else case env_timer env d (st_world st) of (canceled, w) \<Rightarrow>
        (if canceled then env_ctx_err env w else None, record_event (EvSleep d) w st))"

section \<open>The pipeline\<close>

definition is_EHook :: "gerr \<Rightarrow> bool" where
  "is_EHook e = (case e of EHook _ \<Rightarrow> True | _ \<Rightarrow> False)"

definition classify ::
  "'w env \<Rightarrow> RetryConfig \<Rightarrow> 'w \<Rightarrow> string \<Rightarrow> gerr + result \<Rightarrow> bool \<times> gerr option"
where
  "classify env rc w verb out =
     (case out of
        Inl e \<Rightarrow>
          (case errors_As is_EHook e of
             Some (EHook h) \<Rightarrow> (False, Some h)
           | _ \<Rightarrow>
               if env_ctx_err env w \<noteq> None then (False, Some e)
               else if \<not> retryVerb rc verb then (False, Some e)
               else (True, None))
      | Inr res \<Rightarrow>
          if r_status res = 429 then
            (\<not> sint (retryAfterCap rc) < sint (header_delay env w res), None)
          else if r_status res = 500 \<or> r_status res = 503 then (retryVerb rc verb, None)
          else (False, None))"

definition attempts_of :: "RetryConfig \<Rightarrow> nat" where
  "attempts_of rc = (if rc_Disabled rc \<or> rc_MaxAttempts rc < 1 then 1 else nat (rc_MaxAttempts rc))"

text \<open>
  The loop: \<open>n\<close> attempts remain, \<open>i\<close> is the index of the next, \<open>out\<close> the last outcome (\<open>res\<close> and
  \<open>sendErr\<close> of the code, which hold the zero result and nil before the first attempt).
\<close>

definition last_result :: "gerr + result \<Rightarrow> result" where
  "last_result out = (case out of Inl _ \<Rightarrow> zero_result | Inr r \<Rightarrow> r)"

definition backoff ::
  "'w env \<Rightarrow> Core \<Rightarrow> nat \<Rightarrow> gerr + result \<Rightarrow> 'w state \<Rightarrow> gerr option \<times> 'w state"
where
  "backoff env c i out st =
     (if i = 0 then (None, st)
      else case retryDelay env (c_Retry c) i (last_result out) (st_world st) of (d, w) \<Rightarrow>
        sleeper_sleep env d (st\<lparr>st_world := w\<rparr>))"

fun exec_loop ::
  "'w env \<Rightarrow> Core \<Rightarrow> string \<Rightarrow> string \<Rightarrow> url_values \<Rightarrow> string option \<Rightarrow>
   nat \<Rightarrow> nat \<Rightarrow> gerr + result \<Rightarrow> 'w state \<Rightarrow> (gerr + result) \<times> 'w state"
where
  "exec_loop env c verb path query payload 0 i out st = (out, st)"
| "exec_loop env c verb path query payload (Suc n) i out st =
     (case backoff env c i out st of
        (Some e, st1) \<Rightarrow> (Inl (EWrap (op_text verb path @ ''canceled during backoff: '') e), st1)
      | (None, st1) \<Rightarrow>
     (case attempt env c verb path query payload st1 of (out', st2) \<Rightarrow>
     (case classify env (c_Retry c) (st_world st2) verb out' of
        (_, Some e) \<Rightarrow> (Inl e, st2)
      | (retry, None) \<Rightarrow>
          if \<not> retry then (out', st2)
          else exec_loop env c verb path query payload n (Suc i) out' st2)))"

definition execute ::
  "'w env \<Rightarrow> Core \<Rightarrow> string \<Rightarrow> string \<Rightarrow> url_values \<Rightarrow> string option \<Rightarrow> 'w state \<Rightarrow> (gerr + result) \<times> 'w state"
where
  "execute env c verb path query payload st =
     exec_loop env c verb path query payload (attempts_of (c_Retry c)) 0 (Inr zero_result) st"

end
