(* ===== verification/Pipeline.thy ===== *)
theory Pipeline
  imports Transport
begin

text \<open>
  What the retry pipeline promises, as a state machine over its observable events (limiter and token
  calls, sends, sleeps), and the proof that \<open>execute\<close> only ever produces runs of that machine. The
  guarantees (attempt bound, hook order, no repeated write) are invariants of the machine, proved
  once by induction on its runs.
\<close>

section \<open>The machine\<close>

text \<open>
  \<open>Ready\<close>: about to call the limiter. \<open>Waited\<close>: it let the attempt through. \<open>Tokened\<close>: a token is
  there. \<open>Answered\<close>: the request was sent, with that outcome. \<open>Dead\<close>: a hook failed.
\<close>

datatype phase = Ready | Waited | Tokened | Answered "gerr + result" | Dead

definition may_retry :: "RetryConfig \<Rightarrow> string \<Rightarrow> gerr + result \<Rightarrow> bool" where
  "may_retry rc verb out = (case out of
     Inl _ \<Rightarrow> retryVerb rc verb
   | Inr r \<Rightarrow> r_status r = 429 \<or> (r_status r = 500 \<or> r_status r = 503) \<and> retryVerb rc verb)"

text \<open>The wait is positive and never longer than the larger of \<open>MaxBackoff\<close> and one minute.\<close>

definition delay_ok :: "RetryConfig \<Rightarrow> i64 \<Rightarrow> bool" where
  "delay_ok rc d \<longleftrightarrow> 0 < sint d \<and> sint d \<le> sint (retryAfterCap rc)"

text \<open>
  One step: the policy, the method, whether a limiter is installed; a phase with the index of the
  current attempt, the event, the next phase and index.
\<close>

inductive pstep ::
  "RetryConfig \<Rightarrow> string \<Rightarrow> bool \<Rightarrow> phase \<times> nat \<Rightarrow> event \<Rightarrow> phase \<times> nat \<Rightarrow> bool"
  for rc :: RetryConfig and verb :: string and lim :: bool
where
  wait_ok: "lim \<Longrightarrow> pstep rc verb lim (Ready, i) (EvWait None) (Waited, i)"
| wait_fail: "lim \<Longrightarrow> pstep rc verb lim (Ready, i) (EvWait (Some e)) (Dead, i)"
| token_ok: "p = (if lim then Waited else Ready) \<Longrightarrow> pstep rc verb lim (p, i) (EvToken None) (Tokened, i)"
| token_fail: "p = (if lim then Waited else Ready) \<Longrightarrow> pstep rc verb lim (p, i) (EvToken (Some e)) (Dead, i)"
| send: "rq_method req = verb \<Longrightarrow> pstep rc verb lim (Tokened, i) (EvSend req out) (Answered out, i)"
| again: "may_retry rc verb out \<Longrightarrow> Suc i < attempts_of rc \<Longrightarrow> delay_ok rc d \<Longrightarrow>
    pstep rc verb lim (Answered out, i) (EvSleep d) (Ready, Suc i)"
| rebuild: "retryVerb rc verb \<Longrightarrow> Suc i < attempts_of rc \<Longrightarrow> delay_ok rc d \<Longrightarrow>
    pstep rc verb lim (Tokened, i) (EvSleep d) (Ready, Suc i)"

inductive prun ::
  "RetryConfig \<Rightarrow> string \<Rightarrow> bool \<Rightarrow> phase \<times> nat \<Rightarrow> event list \<Rightarrow> phase \<times> nat \<Rightarrow> bool"
  for rc :: RetryConfig and verb :: string and lim :: bool
where
  prun_Nil: "prun rc verb lim c [] c"
| prun_snoc: "prun rc verb lim c es c' \<Longrightarrow> pstep rc verb lim c' e c'' \<Longrightarrow>
    prun rc verb lim c (es @ [e]) c''"

lemmas pstep_intros = wait_ok wait_fail token_ok token_fail send again rebuild

inductive_cases pstep_SendE [elim!]: "pstep rc verb lim c (EvSend req out) c'"
inductive_cases pstep_TokenE [elim!]: "pstep rc verb lim c (EvToken e) c'"
inductive_cases pstep_WaitE [elim!]: "pstep rc verb lim c (EvWait e) c'"
inductive_cases pstep_SleepE [elim!]: "pstep rc verb lim c (EvSleep d) c'"

lemma prun_trans:
  "prun rc verb lim b fs c \<Longrightarrow> prun rc verb lim a es b \<Longrightarrow> prun rc verb lim a (es @ fs) c"
proof (induction rule: prun.induct)
  case (prun_snoc c es' c' e c'')
  then have "prun rc verb lim a ((es @ es') @ [e]) c''" by (blast intro: prun.prun_snoc)
  then show ?case by simp
qed simp

lemma prun_one: "pstep rc verb lim c e c' \<Longrightarrow> prun rc verb lim c [e] c'"
  using prun_snoc [OF prun_Nil, of rc verb lim c e c'] by simp

section \<open>Invariants of the machine\<close>

fun is_send :: "event \<Rightarrow> bool" where
  "is_send (EvSend _ _) = True"
| "is_send _ = False"

definition sends :: "event list \<Rightarrow> nat" where
  "sends es = length (filter is_send es)"

lemma sends_simps [simp]: "sends [] = 0" "sends (es @ fs) = sends es + sends fs"
  "sends (e # es) = (if is_send e then Suc (sends es) else sends es)"
  by (simp_all add: sends_def)

definition begun :: "phase \<times> nat \<Rightarrow> nat" where
  "begun c = (case c of (Answered _, i) \<Rightarrow> Suc i | (_, i) \<Rightarrow> i)"

lemma prun_sends:
  assumes "prun rc verb lim (Ready, 0) es c"
  shows "sends es \<le> begun c \<and> snd c < attempts_of rc"
proof -
  have pos: "0 < attempts_of rc" by (simp add: attempts_of_def)
  have "prun rc verb lim a es c \<Longrightarrow> a = (Ready, 0) \<Longrightarrow> sends es \<le> begun c \<and> snd c < attempts_of rc" for a
  proof (induction rule: prun.induct)
    case (prun_snoc c es c' e c'')
    from prun_snoc.hyps(2) prun_snoc.IH [OF prun_snoc.prems] show ?case
      by (cases rule: pstep.cases) (auto simp: begun_def split: phase.splits if_splits)
  qed (simp add: pos begun_def)
  with assms show ?thesis by blast
qed

lemma begun_le: "snd c < n \<Longrightarrow> begun c \<le> n"
  by (cases c) (auto simp: begun_def split: phase.split)

text \<open>The event behind a phase, and what a run looks like around each of its events.\<close>

definition phase_of_last :: "bool \<Rightarrow> event list \<Rightarrow> phase \<Rightarrow> bool" where
  "phase_of_last lim es p = (case p of
     Ready \<Rightarrow> es = [] \<or> (\<exists>d. last es = EvSleep d)
   | Waited \<Rightarrow> lim \<and> es \<noteq> [] \<and> last es = EvWait None
   | Tokened \<Rightarrow> es \<noteq> [] \<and> last es = EvToken None
   | Answered out \<Rightarrow> es \<noteq> [] \<and> (\<exists>r. last es = EvSend r out)
   | Dead \<Rightarrow> es \<noteq> [] \<and> (\<exists>e. last es = EvWait (Some e) \<or> last es = EvToken (Some e)))"

lemma prun_last:
  assumes "prun rc verb lim (Ready, 0) es c"
  shows "phase_of_last lim es (fst c)"
proof -
  have "prun rc verb lim a es c \<Longrightarrow> a = (Ready, 0) \<Longrightarrow> phase_of_last lim es (fst c)" for a
  proof (induction rule: prun.induct)
    case (prun_snoc c es c' e c'')
    from prun_snoc.hyps(2) show ?case
      by (cases rule: pstep.cases) (auto simp: phase_of_last_def)
  qed (simp add: phase_of_last_def)
  with assms show ?thesis by blast
qed

lemma prun_snocE:
  assumes "prun rc verb lim a (es @ [e]) c"
  obtains c' where "prun rc verb lim a es c'" "pstep rc verb lim c' e c"
  using assms by (cases rule: prun.cases) auto

lemma prun_split:
  "prun rc verb lim a (es @ fs) c \<Longrightarrow> \<exists>b. prun rc verb lim a es b \<and> prun rc verb lim b fs c"
proof (induction fs arbitrary: c rule: rev_induct)
  case Nil
  then show ?case using prun_Nil [of rc verb lim c] by (metis append_Nil2)
next
  case (snoc f fs)
  from snoc.prems have "prun rc verb lim a ((es @ fs) @ [f]) c" by simp
  then obtain c' where c': "prun rc verb lim a (es @ fs) c'" "pstep rc verb lim c' f c"
    by (rule prun_snocE)
  from snoc.IH [OF c'(1)] obtain b where "prun rc verb lim a es b" "prun rc verb lim b fs c'" by blast
  with c'(2) show ?case by (blast intro: prun_snoc)
qed

lemma prun_ConsE:
  assumes "prun rc verb lim a (e # fs) c"
  obtains b where "pstep rc verb lim a e b" "prun rc verb lim b fs c"
proof -
  from assms have "prun rc verb lim a ([] @ [e] @ fs) c" by simp
  then obtain b where b: "prun rc verb lim a ([] @ [e]) b" "prun rc verb lim b fs c"
    using prun_split [of rc verb lim a "[] @ [e]" fs c] by auto
  from b(1) obtain c' where "prun rc verb lim a [] c'" "pstep rc verb lim c' e b"
    by (rule prun_snocE)
  then have "pstep rc verb lim a e b" by (auto elim: prun.cases)
  with b(2) that show ?thesis by blast
qed

text \<open>Before a send comes its token, and before the token the limiter when there is one.\<close>

lemma prun_send_prefix:
  assumes "prun rc verb lim (Ready, 0) (xs @ EvSend req out # ys) c"
  shows "\<exists>xs'. xs = xs' @ (if lim then [EvWait None, EvToken None] else [EvToken None])"
    and "rq_method req = verb"
proof -
  from assms obtain b where b: "prun rc verb lim (Ready, 0) xs b"
    "prun rc verb lim b (EvSend req out # ys) c" using prun_split by blast
  from b(2) obtain b' where "pstep rc verb lim b (EvSend req out) b'" by (rule prun_ConsE)
  then have bt: "fst b = Tokened" and "rq_method req = verb" by auto
  then show "rq_method req = verb" by simp
  from prun_last [OF b(1)] bt obtain xs1 where x1: "xs = xs1 @ [EvToken None]"
    by (auto simp: phase_of_last_def) (metis append_butlast_last_id)
  from b(1) [unfolded x1] obtain b1 where b1: "prun rc verb lim (Ready, 0) xs1 b1"
    "pstep rc verb lim b1 (EvToken None) b" by (rule prun_snocE)
  show "\<exists>xs'. xs = xs' @ (if lim then [EvWait None, EvToken None] else [EvToken None])"
  proof (cases lim)
    case True
    with b1(2) have "fst b1 = Waited" by auto
    with prun_last [OF b1(1)] have "xs1 \<noteq> [] \<and> last xs1 = EvWait None"
      by (simp add: phase_of_last_def)
    then have "xs1 = butlast xs1 @ [EvWait None]" by (metis append_butlast_last_id)
    with x1 have "xs = butlast xs1 @ [EvWait None, EvToken None]" by simp
    with True show ?thesis by auto
  qed (use x1 in simp)
qed

text \<open>After a send, either the run is over or it sleeps, and then the answer allowed a retry.\<close>

lemma prun_send_suffix:
  assumes "prun rc verb lim (Ready, 0) (xs @ EvSend req out # y # ys) c"
  shows "may_retry rc verb out \<and> (\<exists>d. y = EvSleep d \<and> delay_ok rc d)"
proof -
  from assms obtain b where "prun rc verb lim b (EvSend req out # y # ys) c"
    using prun_split by blast
  then obtain b' where b': "pstep rc verb lim b (EvSend req out) b'" "prun rc verb lim b' (y # ys) c"
    by (rule prun_ConsE)
  from b'(2) obtain b'' where "pstep rc verb lim b' y b''" by (rule prun_ConsE)
  moreover obtain i where "b' = (Answered out, i)" using b'(1) by auto
  ultimately have "pstep rc verb lim (Answered out, i) y b''" by simp
  then show ?thesis by (cases rule: pstep.cases) (simp_all split: if_splits)
qed

lemma prun_hook_failure:
  assumes "prun rc verb lim (Ready, 0) (xs @ EvWait (Some e) # ys) c \<or>
    prun rc verb lim (Ready, 0) (xs @ EvToken (Some e) # ys) c"
  shows "ys = []"
proof -
  from assms obtain f where f: "f = EvWait (Some e) \<or> f = EvToken (Some e)"
    and r: "prun rc verb lim (Ready, 0) (xs @ f # ys) c" by blast
  from r obtain b where "prun rc verb lim b (f # ys) c" using prun_split by blast
  then obtain b' where b': "pstep rc verb lim b f b'" "prun rc verb lim b' ys c" by (rule prun_ConsE)
  from b'(1) f obtain i where "b' = (Dead, i)" by auto
  show ?thesis
  proof (cases ys)
    case (Cons y ys')
    with b'(2) obtain b'' where "pstep rc verb lim (Dead, i) y b''"
      unfolding \<open>b' = (Dead, i)\<close> by (auto elim: prun_ConsE)
    then show ?thesis by (cases rule: pstep.cases) (simp_all split: if_splits)
  qed simp
qed

section \<open>The code is a run of the machine\<close>

lemma retryAfterCap_ge:
  "sint (rc_MaxBackoff rc) \<le> sint (retryAfterCap rc)" "60000000000 \<le> sint (retryAfterCap rc)"
  by (auto simp: retryAfterCap_def max_i64_def minute_ns_def)

lemma min_i64_le: "sint (min_i64 a b) \<le> sint a" "sint (min_i64 a b) \<le> sint b"
  "0 < sint a \<Longrightarrow> 0 < sint b \<Longrightarrow> 0 < sint (min_i64 a b)"
  by (auto simp: min_i64_def)

lemma retryDelay_ok:
  assumes v: "valid_policy rc" and r: "retryDelay env rc i res w = (d, w')"
  shows "delay_ok rc d"
proof -
  let ?m = "rc_MinBackoff rc" and ?h = "header_delay env w res"
  note cap = retryAfterCap_ge [of rc]
  have m: "0 < sint ?m" "sint ?m \<le> sint (rc_MaxBackoff rc)" using v by (simp_all add: valid_policy_def)
  have up: "sint (backoff_upper rc i) \<le> sint (rc_MaxBackoff rc)" using backoff_upper_eq [OF v] by simp
  from r consider "d = min_i64 ?h (retryAfterCap rc)" "0 < sint ?h"
    | "d = ?m" | u where "d = jittered rc i u" "sint ?m < sint (backoff_upper rc i)"
    by (auto simp: retryDelay_def split: if_splits prod.splits)
  then show ?thesis
  proof cases
    case 1
    then show ?thesis using cap min_i64_le [of ?h "retryAfterCap rc"] by (simp add: delay_ok_def)
  next
    case 2
    then show ?thesis using cap m by (simp add: delay_ok_def)
  next
    case 3
    then show ?thesis using cap m up jittered_bounds [OF v 3(2), of u] by (simp add: delay_ok_def)
  qed
qed

lemma backoff_trace:
  assumes "valid_policy (c_Retry c)" and "backoff env c (Suc i) out st = (e, st')"
  obtains d where "delay_ok (c_Retry c) d" "st_trace st' = st_trace st @ [EvSleep d]"
proof -
  obtain d w where r: "retryDelay env (c_Retry c) (Suc i) (last_result out) (st_world st) = (d, w)"
    by fastforce
  have ok: "delay_ok (c_Retry c) d" by (rule retryDelay_ok [OF assms(1) r])
  with assms(2) r have "st_trace st' = st_trace st @ [EvSleep d]"
    by (auto simp: backoff_def sleeper_sleep_def delay_ok_def record_event_def split: prod.splits)
  with ok that show ?thesis by blast
qed

definition has_limiter :: "'w env \<Rightarrow> bool" where
  "has_limiter env \<longleftrightarrow> env_wait env \<noteq> None"

definition hook_failed :: "gerr + result \<Rightarrow> bool" where
  "hook_failed out \<longleftrightarrow> (\<exists>e. out = Inl (EHook e))"

lemma attempt_run:
  assumes "attempt env c verb path query payload st = (out, st')"
  obtains es p where "st_trace st' = st_trace st @ es"
    "prun rc verb (has_limiter env) (Ready, i) es (p, i)"
    "p = Dead \<and> hook_failed out \<or> p = Tokened \<and> (\<exists>s e. out = Inl (EWrap s e)) \<or> p = Answered out"
proof -
  let ?lim = "has_limiter env" and ?run = "prun rc verb (has_limiter env) (Ready, i)"
  obtain we st1 where w: "run_wait env c st = (we, st1)" by fastforce
  show ?thesis
  proof (cases we)
    case (Some e)
    with w have ?lim "st_trace st1 = st_trace st @ [EvWait (Some e)]"
      by (auto simp: run_wait_def has_limiter_def record_event_def split: option.splits prod.splits)
    moreover from this have "?run [EvWait (Some e)] (Dead, i)"
      by (intro prun_one wait_fail)
    ultimately show ?thesis using that assms Some w by (auto simp: attempt_def hook_failed_def)
  next
    case None
    obtain es1 where t1: "st_trace st1 = st_trace st @ es1"
      and r1: "?run es1 (if ?lim then Waited else Ready, i)"
    proof (cases ?lim)
      case True
      with w None have "st_trace st1 = st_trace st @ [EvWait None]"
        by (auto simp: run_wait_def has_limiter_def record_event_def split: prod.splits)
      moreover have "?run [EvWait None] (Waited, i)" using True by (intro prun_one wait_ok)
      ultimately show ?thesis using that True by simp
    next
      case False
      with w None have "st_trace st1 = st_trace st @ []"
        by (auto simp: run_wait_def has_limiter_def)
      with that [OF this] False show ?thesis by (simp add: prun_Nil)
    qed
    obtain tk st2 where t: "run_token env c st1 = (tk, st2)" by fastforce
    show ?thesis
    proof (cases tk)
      case (Inl e)
      with t have "st_trace st2 = st_trace st @ es1 @ [EvToken (Some e)]"
        by (auto simp: run_token_def record_event_def t1 split: prod.splits sum.splits)
      moreover have "?run (es1 @ [EvToken (Some e)]) (Dead, i)"
        by (rule prun_snoc [OF r1]) (rule token_fail, rule refl)
      ultimately show ?thesis using that assms None Inl w t by (auto simp: attempt_def hook_failed_def)
    next
      case (Inr token)
      with t have t2: "st_trace st2 = st_trace st @ es1 @ [EvToken None]"
        by (auto simp: run_token_def record_event_def t1 split: prod.splits sum.splits)
      have r2: "?run (es1 @ [EvToken None]) (Tokened, i)"
        by (rule prun_snoc [OF r1]) (rule token_ok, rule refl)
      show ?thesis
      proof (cases "env_new_request env verb (requestURL c path query)")
        case (Some e)
        with assms None Inr w t have "st' = st2" "\<exists>s e. out = Inl (EWrap s e)"
          by (auto simp: attempt_def Let_def)
        with that [of "es1 @ [EvToken None]" Tokened] t2 r2 show ?thesis by simp
      next
        case N: None
        let ?req = "build_request c verb (requestURL c path query) token payload"
        from assms None Inr w t N have s: "run_send env c (op_text verb path) ?req st2 = (out, st')"
          by (simp add: attempt_def Let_def)
        then have "st_trace st' = st_trace st @ (es1 @ [EvToken None]) @ [EvSend ?req out]"
          by (auto simp: run_send_def record_event_def t2 Let_def split: prod.splits)
        moreover have "?run ((es1 @ [EvToken None]) @ [EvSend ?req out]) (Answered out, i)"
          by (rule prun_snoc [OF r2]) (rule send, simp add: build_request_def)
        ultimately show ?thesis using that by blast
      qed
    qed
  qed
qed

lemma classify_retry:
  assumes "classify env rc w verb out = (True, None)"
  shows "may_retry rc verb out"
  using assms by (auto simp: classify_def may_retry_def split: sum.splits option.splits gerr.splits if_splits)

lemma classify_hook:
  assumes "hook_failed out"
  shows "\<exists>e. classify env rc w verb out = (False, Some e)"
  using assms by (auto simp: hook_failed_def classify_def errors_As_def is_EHook_def)

lemma classify_done:
  assumes "classify env rc w verb out = (False, None)"
  shows "\<exists>res. out = Inr res \<and> (may_retry rc verb (Inr res) \<longrightarrow>
    r_status res = 429 \<and> sint (retryAfterCap rc) < sint (header_delay env w res))"
  using assms by (auto simp: classify_def may_retry_def split: sum.splits option.splits gerr.splits if_splits)

text \<open>
  What a call's answer says about the run: a response is the outcome of the last send, and it was
  only given up with attempts left when it is no candidate for a retry, or the server asked for a
  wait beyond the cap.
\<close>

definition final_ok :: "'w env \<Rightarrow> RetryConfig \<Rightarrow> string \<Rightarrow> 'w \<Rightarrow> gerr + result \<Rightarrow> phase \<times> nat \<Rightarrow> bool" where
  "final_ok env rc verb w r c = (case r of Inl _ \<Rightarrow> True
   | Inr res \<Rightarrow> fst c = Answered (Inr res) \<and>
       (may_retry rc verb (Inr res) \<longrightarrow> Suc (snd c) = attempts_of rc \<or>
          r_status res = 429 \<and> sint (retryAfterCap rc) < sint (header_delay env w res)))"

definition loop_conf :: "RetryConfig \<Rightarrow> string \<Rightarrow> nat \<Rightarrow> gerr + result \<Rightarrow> phase \<times> nat \<Rightarrow> bool" where
  "loop_conf rc verb i out c = (case i of 0 \<Rightarrow> c = (Ready, 0)
   | Suc j \<Rightarrow> c = (Answered out, j) \<and> may_retry rc verb out \<or>
       c = (Tokened, j) \<and> (\<exists>e. out = Inl e) \<and> retryVerb rc verb)"

lemma backoff_run:
  assumes v: "valid_policy (c_Retry c)" and b: "backoff env c i out st = (e, st')"
    and l: "loop_conf (c_Retry c) verb i out c0" and i: "i < attempts_of (c_Retry c)"
  obtains es where "st_trace st' = st_trace st @ es" "prun (c_Retry c) verb lim c0 es (Ready, i)"
proof (cases i)
  case 0
  with b l have "st_trace st' = st_trace st @ []" "c0 = (Ready, i)"
    by (simp_all add: backoff_def loop_conf_def)
  with that show ?thesis by (metis prun_Nil)
next
  case (Suc j)
  from backoff_trace [OF v b [unfolded Suc]] obtain d where d: "delay_ok (c_Retry c) d"
    "st_trace st' = st_trace st @ [EvSleep d]" by blast
  have "pstep (c_Retry c) verb lim c0 (EvSleep d) (Ready, Suc j)"
    using l d(1) i by (auto simp: loop_conf_def Suc intro: again rebuild)
  then have "prun (c_Retry c) verb lim c0 [EvSleep d] (Ready, i)" unfolding Suc by (rule prun_one)
  with d that show ?thesis by blast
qed

lemma exec_loop_run:
  assumes v: "valid_policy (c_Retry c)"
  shows "exec_loop env c verb path query payload n i out st = (r, st') \<Longrightarrow>
    i + n = attempts_of (c_Retry c) \<Longrightarrow> 0 < i + n \<Longrightarrow> loop_conf (c_Retry c) verb i out c0 \<Longrightarrow>
    \<exists>es c'. st_trace st' = st_trace st @ es \<and>
      prun (c_Retry c) verb (has_limiter env) c0 es c' \<and>
      final_ok env (c_Retry c) verb (st_world st') r c'"
proof (induction n arbitrary: i out st c0)
  case 0
  then obtain j where j: "i = Suc j" "r = out" "st' = st" "Suc j = attempts_of (c_Retry c)"
    by (cases i) auto
  from 0 have "loop_conf (c_Retry c) verb (Suc j) out c0" using j(1) by simp
  then have "final_ok env (c_Retry c) verb (st_world st') r c0"
    using j(2) j(4) [symmetric] by (auto simp: final_ok_def loop_conf_def split: sum.split)
  with j show ?case by (metis append_Nil2 prun_Nil)
next
  case (Suc n)
  let ?rc = "c_Retry c" and ?lim = "has_limiter env"
  obtain e st1 where b: "backoff env c i out st = (e, st1)" by fastforce
  from Suc.prems(2) have "i < attempts_of ?rc" by simp
  from backoff_run [OF v b Suc.prems(4) this, of ?lim] obtain es1 where
    t1: "st_trace st1 = st_trace st @ es1" and r1: "prun ?rc verb ?lim c0 es1 (Ready, i)" by blast
  show ?case
  proof (cases e)
    case (Some e')
    with Suc.prems(1) b have "st' = st1" "\<exists>x. r = Inl x" by auto
    then have "final_ok env ?rc verb (st_world st') r (Ready, i)" by (auto simp: final_ok_def)
    with t1 r1 \<open>st' = st1\<close> show ?thesis by blast
  next
    case None
    obtain out' st2 where a: "attempt env c verb path query payload st1 = (out', st2)" by fastforce
    obtain es2 p where t2: "st_trace st2 = st_trace st1 @ es2"
      and r2: "prun ?rc verb ?lim (Ready, i) es2 (p, i)"
      and p: "p = Dead \<and> hook_failed out' \<or> p = Tokened \<and> (\<exists>s e. out' = Inl (EWrap s e)) \<or> p = Answered out'"
      by (rule attempt_run [OF a])
    have run: "prun ?rc verb ?lim c0 (es1 @ es2) (p, i)" by (rule prun_trans [OF r2 r1])
    obtain retry ab where c: "classify env ?rc (st_world st2) verb out' = (retry, ab)" by fastforce
    show ?thesis
    proof (cases "ab = None \<and> retry")
      case False
      then have "st' = st2 \<and> final_ok env ?rc verb (st_world st') r (p, i)"
        using Suc.prems(1) b None a c p classify_done [of env ?rc "st_world st2" verb out']
        by (auto simp: final_ok_def hook_failed_def split: option.splits)
      with run t1 t2 show ?thesis by (metis append.assoc)
    next
      case True
      with c have m: "may_retry ?rc verb out'" by (intro classify_retry) simp
      have "p \<noteq> Dead" using p c True classify_hook [of out' env ?rc "st_world st2" verb] by auto
      with p m have l: "loop_conf ?rc verb (Suc i) out' (p, i)"
        by (auto simp: loop_conf_def may_retry_def)
      have "exec_loop env c verb path query payload n (Suc i) out' st2 = (r, st')"
        using Suc.prems(1) b None a c True by simp
      from Suc.IH [OF this _ _ l] Suc.prems(2) obtain es3 c' where
        "st_trace st' = st_trace st2 @ es3" "prun ?rc verb ?lim (p, i) es3 c'"
        "final_ok env ?rc verb (st_world st') r c'" by auto
      moreover from this have "prun ?rc verb ?lim c0 ((es1 @ es2) @ es3) c'"
        using prun_trans [OF _ run] by blast
      ultimately show ?thesis using t1 t2 by (metis append.assoc)
    qed
  qed
qed

lemma execute_is_run:
  assumes "valid_policy (c_Retry c)" and "execute env c verb path query payload st = (r, st')"
  obtains es c' where "st_trace st' = st_trace st @ es"
    "prun (c_Retry c) verb (has_limiter env) (Ready, 0) es c'"
    "final_ok env (c_Retry c) verb (st_world st') r c'"
proof -
  have "0 < attempts_of (c_Retry c)" by (simp add: attempts_of_def)
  with exec_loop_run [OF assms(1) assms(2) [unfolded execute_def], of "(Ready, 0)"] that
  show ?thesis by (auto simp: loop_conf_def)
qed

section \<open>A scripted world\<close>

text \<open>
  A world in which the server answers from a script, the hooks succeed and nothing is canceled: the
  concrete input of the examples below.
\<close>

definition script_env :: "(gerr + response) list env" where
  "script_env =
     \<lparr>env_wait = None, env_token = (\<lambda>_ w. (Inr ''t'', w)), env_new_request = (\<lambda>_ _. None),
      env_do = (\<lambda>_ _ w. case w of [] \<Rightarrow> (Inl (ENet ''eof'' False None), []) | r # rs \<Rightarrow> (r, rs)),
      env_ctx_err = (\<lambda>_. None), env_timer = (\<lambda>_ w. (False, w)), env_uint64 = (\<lambda>w. (0, w)),
      env_ParseTime = (\<lambda>_. None), env_now = (\<lambda>_. 0),
      env_json_text = (\<lambda>_. ''{}''), env_json_value = (\<lambda>_. Some (JObj [(''data'', JObj [])])),
      env_rfc3339 = (\<lambda>_. None), env_float64 = (\<lambda>_. True)\<rparr>"

definition script_core :: Core where
  "script_core =
     \<lparr>c_BaseURL = ''http://h/v1'', c_UserAgent = ''ua'', c_Timeout = 30000000000,
      c_Retry = \<lparr>rc_MaxAttempts = 3, rc_MinBackoff = 300000000, rc_MaxBackoff = 30000000000,
        rc_RetryWrites = False, rc_Disabled = False\<rparr>, c_MaxResponseBytes = 0\<rparr>"

definition script_answer :: "int \<Rightarrow> gerr + response" where
  "script_answer n = Inr \<lparr>rp_status = n, rp_header = [], rp_body = ''{}'', rp_failure = None\<rparr>"

definition script_run :: "string \<Rightarrow> int list \<Rightarrow> (gerr + result) \<times> (gerr + response) list state" where
  "script_run verb answers =
     execute script_env script_core verb ''user'' [] None \<lparr>st_world = map script_answer answers, st_trace = []\<rparr>"

lemma script_valid: "valid_policy (c_Retry script_core)"
  by (simp add: script_core_def valid_policy_def)

lemma script_run_execute:
  "execute script_env script_core verb ''user'' [] None \<lparr>st_world = map script_answer answers, st_trace = []\<rparr> =
   (fst (script_run verb answers), snd (script_run verb answers))"
  by (simp add: script_run_def)

section \<open>Properties\<close>

text \<open>
  C1: a call is a run of the pipeline machine. Whatever the hooks, the server, the clock and the
  caller's context do, the events of \<open>execute\<close> under a valid policy are, in order: for each attempt
  the limiter when installed, the token, the send, and between two attempts one positive sleep no
  longer than the cap. The answer returned is the last send's, and one that could be retried is
  only returned when the attempts are used up or the server asked for a longer wait than the cap.
\<close>

theorem execute_refines_pipeline:
  assumes "valid_policy (c_Retry c)" and "execute env c verb path query payload st = (r, st')"
  shows "\<exists>es fin. st_trace st' = st_trace st @ es \<and>
    prun (c_Retry c) verb (has_limiter env) (Ready, 0) es fin \<and>
    final_ok env (c_Retry c) verb (st_world st') r fin"
  using execute_is_run [OF assms] by blast

theorem execute_refines_pipeline_witness:
  "\<exists>es fin. st_trace (snd (script_run ''GET'' [500, 200])) = es \<and>
    prun (c_Retry script_core) ''GET'' (has_limiter script_env) (Ready, 0) es fin"
  using execute_refines_pipeline [OF script_valid script_run_execute [of "''GET''" "[500, 200]"]] by auto

text \<open>
  C5: a call sends at most \<open>MaxAttempts\<close> requests, and exactly one at most when retries are
  disabled.
\<close>

theorem execute_bounded_sends:
  assumes "valid_policy (c_Retry c)" and "execute env c verb path query payload st = (r, st')"
  shows "sends (st_trace st') \<le> sends (st_trace st) +
    (if rc_Disabled (c_Retry c) then 1 else nat (rc_MaxAttempts (c_Retry c)))"
proof -
  obtain es fin where t: "st_trace st' = st_trace st @ es"
    and p: "prun (c_Retry c) verb (has_limiter env) (Ready, 0) es fin"
    by (rule execute_is_run [OF assms])
  from prun_sends [OF p] have "sends es \<le> attempts_of (c_Retry c)"
    using begun_le [of fin "attempts_of (c_Retry c)"] by linarith
  with t assms(1) show ?thesis by (auto simp: attempts_of_def valid_policy_def)
qed

theorem execute_bounded_sends_witness:
  "sends (st_trace (snd (script_run ''GET'' [500, 500, 500, 500, 500]))) \<le> 3"
  using execute_bounded_sends [OF script_valid script_run_execute [of "''GET''" "[500, 500, 500, 500, 500]"]]
  by (simp add: script_core_def)

text \<open>
  C2: a write is never repeated on an answer that may mean it was applied. When the policy does not
  retry writes, a request that is neither GET nor DELETE is followed by anything at all in its call
  only if the server answered 429, which rejects before processing; after a transport failure, a
  500, a 503 or any other answer the pipeline stops.
\<close>

theorem writes_not_repeated:
  assumes "valid_policy (c_Retry c)" and "execute env c verb path query payload st = (r, st')"
    and "st_trace st = []" and "\<not> retryVerb (c_Retry c) verb"
    and "st_trace st' = xs @ EvSend req out # y # ys"
  shows "\<exists>res. out = Inr res \<and> r_status res = 429"
proof -
  obtain es fin where t: "st_trace st' = st_trace st @ es"
    and p: "prun (c_Retry c) verb (has_limiter env) (Ready, 0) es fin"
    by (rule execute_is_run [OF assms(1,2)])
  with assms(3,5) have "es = xs @ EvSend req out # y # ys" by simp
  with p prun_send_suffix have "may_retry (c_Retry c) verb out" by blast
  with assms(4) show ?thesis by (auto simp: may_retry_def split: sum.splits)
qed

lemma script_patch_trace:
  "st_trace (snd (script_run ''PATCH'' [429, 503, 200])) =
     (let req = build_request script_core ''PATCH'' ''http://h/v1/user'' ''t'' None;
          res = (\<lambda>n. \<lparr>r_status = n, r_body = ''{}'', r_header = []\<rparr>)
      in [EvToken None] @ EvSend req (Inr (res 429)) # EvSleep 300000000 #
         [EvToken None, EvSend req (Inr (res 503))])"
  by code_simp

theorem writes_not_repeated_witness:
  "\<not> retryVerb (c_Retry script_core) ''PATCH'' \<and>
   (\<exists>xs req out y ys. st_trace (snd (script_run ''PATCH'' [429, 503, 200])) = xs @ EvSend req out # y # ys \<and>
      (\<exists>res. out = Inr res \<and> r_status res = 429))"
proof -
  have w: "\<not> retryVerb (c_Retry script_core) ''PATCH''" by (simp add: retryVerb_def script_core_def)
  note writes_not_repeated [OF script_valid script_run_execute [of "''PATCH''" "[429, 503, 200]"] _ w]
  with w script_patch_trace [unfolded Let_def] show ?thesis by (metis (no_types, lifting) state.select_convs(2))
qed

text \<open>
  C6: the hooks gate every request. Each send is immediately preceded by a successful token call,
  and that by a successful limiter wait when a limiter is installed, in the same attempt; it goes
  out with the call's own method; and when a hook fails, nothing happens after it in the call.
\<close>

theorem hooks_gate_sends:
  assumes "valid_policy (c_Retry c)" and "execute env c verb path query payload st = (r, st')"
    and "st_trace st = []"
  shows "(\<forall>xs req out ys. st_trace st' = xs @ EvSend req out # ys \<longrightarrow> rq_method req = verb \<and>
      (\<exists>xs'. xs = xs' @ (if has_limiter env then [EvWait None, EvToken None] else [EvToken None]))) \<and>
    (\<forall>xs e ys. st_trace st' = xs @ EvWait (Some e) # ys \<or> st_trace st' = xs @ EvToken (Some e) # ys \<longrightarrow>
      ys = [])"
proof -
  obtain fin where p: "prun (c_Retry c) verb (has_limiter env) (Ready, 0) (st_trace st') fin"
    by (rule execute_is_run [OF assms(1,2)]) (simp add: assms(3))
  show ?thesis
  proof (intro conjI allI impI)
    fix xs req out ys assume "st_trace st' = xs @ EvSend req out # ys"
    with p have q: "prun (c_Retry c) verb (has_limiter env) (Ready, 0) (xs @ EvSend req out # ys) fin"
      by simp
    show "rq_method req = verb"
      and "\<exists>xs'. xs = xs' @ (if has_limiter env then [EvWait None, EvToken None] else [EvToken None])"
      by (rule prun_send_prefix [OF q])+
  next
    fix xs e ys
    assume "st_trace st' = xs @ EvWait (Some e) # ys \<or> st_trace st' = xs @ EvToken (Some e) # ys"
    with p show "ys = []" using prun_hook_failure [of "c_Retry c" verb "has_limiter env" xs e ys fin]
      by metis
  qed
qed

theorem hooks_gate_sends_witness:
  "\<not> (\<exists>xs e ys. st_trace (snd (script_run ''PUT'' [200])) = xs @ EvToken (Some e) # ys \<and> ys \<noteq> [])"
proof -
  have "st_trace \<lparr>st_world = map script_answer [200], st_trace = []\<rparr> = []" by simp
  from hooks_gate_sends [OF script_valid script_run_execute [of "''PUT''" "[200]"] this]
  show ?thesis by blast
qed

end
