(* ===== verification/Wire.thy ===== *)
theory Wire
  imports Pipeline
begin

text \<open>
  The envelope split around the pipeline: \<open>envelope.go\<close> (the success envelope), \<open>Do\<close> and \<open>DoRaw\<close> of
  \<open>transport.go\<close>, and \<open>decodeWireError\<close> of \<open>errors.go\<close>, the decoder of every other answer. JSON text
  is handled by the two functions of \<open>env\<close>; what \<open>encoding/json\<close> does with a value and a struct
  (keys matched without regard to case, a repeated key decoded over the first, \<open>null\<close>) is modelled;
  a repeated array is decoded afresh.
\<close>

section \<open>Decoding into structs\<close>

text \<open>
  A decoder takes a value and the variable's current content, and is \<open>None\<close> when the types do not
  fit. Keys are compared after folding case, under which the long s and the Kelvin sign are letters.
\<close>

type_synonym 'a decoder = "json \<Rightarrow> 'a \<Rightarrow> 'a option"

definition lower_char :: "char \<Rightarrow> char" where
  "lower_char c = (if CHR ''A'' \<le> c \<and> c \<le> CHR ''Z'' then char_of (of_char c + 32 :: nat) else c)"

fun fold_key :: "string \<Rightarrow> string" where
  "fold_key [] = []"
| "fold_key (c # r) =
     (if c = CHR 0xC5 \<and> r \<noteq> [] \<and> hd r = CHR 0xBF then CHR ''s'' # fold_key (tl r)
      else if c = CHR 0xE2 \<and> take 2 r = [CHR 0x84, CHR 0xAA] then CHR ''k'' # fold_key (drop 2 r)
      else lower_char c # fold_key r)"

declare fold_key.simps [simp del]

definition field :: "string \<Rightarrow> ('s \<Rightarrow> 'a) \<Rightarrow> ('a \<Rightarrow> 's \<Rightarrow> 's) \<Rightarrow> 'a decoder \<Rightarrow> string \<times> 's decoder" where
  "field name get put dec = (name, \<lambda>v x. map_option (\<lambda>a. put a x) (dec v (get x)))"

definition decode_member :: "(string \<times> 's decoder) list \<Rightarrow> 's option \<Rightarrow> string \<times> json \<Rightarrow> 's option" where
  "decode_member fs acc kv = (case acc of None \<Rightarrow> None
     | Some x \<Rightarrow> (case map_of fs (fold_key (fst kv)) of None \<Rightarrow> Some x | Some f \<Rightarrow> f (snd kv) x))"

definition decode_struct :: "(string \<times> 's decoder) list \<Rightarrow> 's decoder" where
  "decode_struct fs v x = (case v of
     JNull \<Rightarrow> Some x
   | JObj ms \<Rightarrow> foldl (decode_member fs) (Some x) ms
   | _ \<Rightarrow> None)"

definition decode_string :: "string decoder" where
  "decode_string v x = (case v of JNull \<Rightarrow> Some x | JStr s \<Rightarrow> Some s | JEsc s \<Rightarrow> Some s | _ \<Rightarrow> None)"

definition decode_int64 :: "i64 decoder" where
  "decode_int64 v x = (case v of JNull \<Rightarrow> Some x
     | JNum s \<Rightarrow> (case ParseInt s of Inr k \<Rightarrow> Some k | Inl _ \<Rightarrow> None) | _ \<Rightarrow> None)"

text \<open>A pointer is nil (\<open>None\<close>) or holds a value; a nil slice is \<open>None\<close>.\<close>

definition decode_pointer :: "'a \<Rightarrow> 'a decoder \<Rightarrow> 'a option decoder" where
  "decode_pointer zero dec v p =
     (if v = JNull then Some None
      else map_option Some (dec v (case p of None \<Rightarrow> zero | Some x \<Rightarrow> x)))"

definition decode_slice :: "'a \<Rightarrow> 'a decoder \<Rightarrow> 'a list option decoder" where
  "decode_slice zero dec v xs = (case v of
     JNull \<Rightarrow> Some None
   | JArr vs \<Rightarrow> map_option Some (those (map (\<lambda>w. dec w zero) vs))
   | _ \<Rightarrow> None)"

text \<open>
  A decoder that does not see how the strings of a value were written. Structs, pointers and slices of
  such are such.
\<close>

definition blind :: "'a decoder \<Rightarrow> bool" where
  "blind dec \<longleftrightarrow> (\<forall>v x. dec (plain v) x = dec v x)"

lemma blind_scalars [simp]: "blind decode_string" "blind decode_int64"
proof -
  show "blind decode_string" unfolding blind_def
  proof (intro allI)
    fix v x show "decode_string (plain v) x = decode_string v x" by (cases v) (simp_all add: decode_string_def)
  qed
  show "blind decode_int64" unfolding blind_def
  proof (intro allI)
    fix v x show "decode_int64 (plain v) x = decode_int64 v x" by (cases v) (simp_all add: decode_int64_def)
  qed
qed

lemma blind_field [simp]: "blind dec \<Longrightarrow> blind (snd (field k get put dec))"
  by (simp add: blind_def field_def)

lemma blind_pointer [simp]: "blind dec \<Longrightarrow> blind (decode_pointer zero dec)"
  by (simp add: blind_def decode_pointer_def)

lemma blind_struct:
  assumes "list_all (\<lambda>f. blind (snd f)) fs"
  shows "blind (decode_struct fs)"
proof -
  have member: "decode_member fs acc (map_prod id plain kv) = decode_member fs acc kv" for acc kv
  proof (cases "map_of fs (fold_key (fst kv))")
    case (Some f)
    then have "(fold_key (fst kv), f) \<in> set fs" by (rule map_of_SomeD)
    with assms have "blind f" by (force simp: list_all_iff)
    with Some show ?thesis by (simp add: decode_member_def blind_def split: option.split)
  qed (simp add: decode_member_def split: option.split)
  have "foldl (decode_member fs) acc (map (map_prod id plain) ms) = foldl (decode_member fs) acc ms" for acc ms
    by (induction ms arbitrary: acc) (simp_all add: member)
  then have "decode_struct fs (plain v) x = decode_struct fs v x" for v x
    by (cases v) (simp_all add: decode_struct_def)
  then show ?thesis by (simp add: blind_def)
qed

definition decodeData :: "'a \<Rightarrow> 'a decoder \<Rightarrow> json option \<Rightarrow> gerr + 'a" where
  "decodeData zero dec parsed = (case parsed of None \<Rightarrow> Inl (EPlain ''json'')
   | Some v \<Rightarrow>
      (case decode_struct [field ''data'' id (\<lambda>p _. p) (decode_pointer zero dec)] v None of
         None \<Rightarrow> Inl (EPlain ''json'')
       | Some None \<Rightarrow> Inl (EPlain ''transport: success envelope has no data key'')
       | Some (Some x) \<Rightarrow> Inr x))"

section \<open>The error envelope\<close>

record wire_err =
  we_ID :: string
  we_Name :: string
  we_Detail :: string

definition zero_wire_err :: wire_err where
  "zero_wire_err = \<lparr>we_ID = [], we_Name = [], we_Detail = []\<rparr>"

definition wire_err_fields :: "(string \<times> wire_err decoder) list" where
  "wire_err_fields =
     [field ''id'' we_ID (\<lambda>s e. e\<lparr>we_ID := s\<rparr>) decode_string,
      field ''name'' we_Name (\<lambda>s e. e\<lparr>we_Name := s\<rparr>) decode_string,
      field ''detail'' we_Detail (\<lambda>s e. e\<lparr>we_Detail := s\<rparr>) decode_string]"

definition decode_error_envelope :: "json option \<Rightarrow> wire_err option" where
  "decode_error_envelope parsed = (case parsed of None \<Rightarrow> None
   | Some v \<Rightarrow>
      (case decode_struct [field ''error'' id (\<lambda>p _. p)
               (decode_pointer zero_wire_err (decode_struct wire_err_fields))] v None of
         None \<Rightarrow> None | Some p \<Rightarrow> p))"

definition decodeWireError ::
  "(string \<Rightarrow> int option) \<Rightarrow> int \<Rightarrow> json option \<Rightarrow> int \<Rightarrow> header \<Rightarrow> Error"
where
  "decodeWireError parse_time now parsed status hdr =
     (let w = (case decode_error_envelope parsed of Some w \<Rightarrow> w | None \<Rightarrow> zero_wire_err)
      in \<lparr>e_StatusCode = status, e_ID = we_ID w, e_Name = we_Name w, e_Detail = we_Detail w,
          e_RetryAfter =
            (if status = 429 then RetryAfterDelay parse_time now (header_Get hdr ''Retry-After'') else 0)\<rparr>)"

definition decode_error :: "'w env \<Rightarrow> 'w \<Rightarrow> result \<Rightarrow> gerr" where
  "decode_error env w res =
     EApi (decodeWireError (env_ParseTime env) (env_now env w) (env_json_value env (r_body res))
       (r_status res) (r_header res))"

section \<open>Operations\<close>

text \<open>
  A request body: absent, or a value to encode, which fails for a value whose \<open>MarshalJSON\<close> does.
\<close>

type_synonym payload = "(gerr + json) option"

definition marshalBody :: "'w env \<Rightarrow> payload \<Rightarrow> gerr + string option" where
  "marshalBody env body = (case body of None \<Rightarrow> Inr None
     | Some (Inl e) \<Rightarrow> Inl e | Some (Inr v) \<Rightarrow> Inr (Some (env_json_text env v)))"

definition Do ::
  "'w env \<Rightarrow> Core \<Rightarrow> 'a \<Rightarrow> 'a decoder \<Rightarrow> string \<Rightarrow> string \<Rightarrow> url_values \<Rightarrow> payload \<Rightarrow>
   'w state \<Rightarrow> (gerr + 'a) \<times> 'w state"
where
  "Do env c zero dec verb path query body st =
     (case marshalBody env body of
        Inl e \<Rightarrow> (Inl (EWrap (op_text verb path @ ''encode request body: '') e), st)
      | Inr pl \<Rightarrow>
     (case execute env c verb path query pl st of
        (Inl e, st') \<Rightarrow> (Inl e, st')
      | (Inr res, st') \<Rightarrow>
          if r_status res < 200 \<or> 299 < r_status res
          then (Inl (decode_error env (st_world st') res), st')
          else (case decodeData zero dec (env_json_value env (r_body res)) of
                  Inl e \<Rightarrow> (Inl (EWrap (op_text verb path @ ''decode response: '') e), st')
                | Inr v \<Rightarrow> (Inr v, st'))))"

definition DoRaw ::
  "'w env \<Rightarrow> Core \<Rightarrow> string \<Rightarrow> string \<Rightarrow> url_values \<Rightarrow> string option \<Rightarrow> 'w state \<Rightarrow> (gerr + string) \<times> 'w state"
where
  "DoRaw env c verb path query payload st =
     (case execute env c verb path query payload st of
        (Inl e, st') \<Rightarrow> (Inl e, st')
      | (Inr res, st') \<Rightarrow>
          if r_status res < 200 \<or> 299 < r_status res
          then (Inl (decode_error env (st_world st') res), st')
          else (Inr (r_body res), st'))"

section \<open>Facts\<close>

lemma decodeWireError_status [simp]: "e_StatusCode (decodeWireError pt now parsed status hdr) = status"
  by (simp add: decodeWireError_def Let_def)

lemma decode_error_Is:
  "sentinelByStatus (r_status res) = Some s \<Longrightarrow> errors_Is (decode_error env w res) (TSentinel s)"
  by (simp add: decode_error_def errors_Is_EApi)

lemma Do_encode_failure:
  "Do env c zero dec verb path query (Some (Inl e)) st =
     (Inl (EWrap (op_text verb path @ ''encode request body: '') e), st)"
  by (simp add: Do_def marshalBody_def)

lemma Do_cases:
  assumes "Do env c zero dec verb path query body st = (out, st')"
  obtains (encode) e where "marshalBody env body = Inl e" "st' = st"
      "out = Inl (EWrap (op_text verb path @ ''encode request body: '') e)"
    | (failed) pl e where "marshalBody env body = Inr pl"
      "execute env c verb path query pl st = (Inl e, st')" "out = Inl e"
    | (refused) pl res where "marshalBody env body = Inr pl"
      "execute env c verb path query pl st = (Inr res, st')"
      "r_status res < 200 \<or> 299 < r_status res" "out = Inl (decode_error env (st_world st') res)"
    | (garbled) pl res e where "marshalBody env body = Inr pl"
      "execute env c verb path query pl st = (Inr res, st')"
      "200 \<le> r_status res \<and> r_status res \<le> 299"
      "decodeData zero dec (env_json_value env (r_body res)) = Inl e"
      "out = Inl (EWrap (op_text verb path @ ''decode response: '') e)"
    | (answered) pl res v where "marshalBody env body = Inr pl"
      "execute env c verb path query pl st = (Inr res, st')"
      "200 \<le> r_status res \<and> r_status res \<le> 299"
      "decodeData zero dec (env_json_value env (r_body res)) = Inr v" "out = Inr v"
proof (cases "marshalBody env body")
  case (Inl e)
  with assms encode show ?thesis by (simp add: Do_def)
next
  case (Inr pl)
  obtain r st2 where x: "execute env c verb path query pl st = (r, st2)" by fastforce
  show ?thesis
  proof (cases r)
    case (Inl e)
    with assms Inr x failed show ?thesis by (simp add: Do_def)
  next
    case R: (Inr res)
    show ?thesis
    proof (cases "r_status res < 200 \<or> 299 < r_status res")
      case True
      with assms Inr x R refused show ?thesis by (auto simp: Do_def)
    next
      case False
      then have ok: "200 \<le> r_status res \<and> r_status res \<le> 299" by auto
      show ?thesis
      proof (cases "decodeData zero dec (env_json_value env (r_body res))")
        case (Inl e)
        with assms Inr x R False garbled [OF Inr _ ok Inl] show ?thesis by (simp add: Do_def)
      next
        case d: (Inr v)
        with assms Inr x R False answered [OF Inr _ ok d] show ?thesis by (simp add: Do_def)
      qed
    qed
  qed
qed

lemma lower_char_id: "CHR ''a'' \<le> c \<or> c < CHR ''A'' \<Longrightarrow> lower_char c = c"
  by (auto simp: lower_char_def less_eq_char_def less_char_def)

lemma decode_struct_single:
  assumes "fold_key name = name"
  shows "decode_struct [field name id (\<lambda>p _. p) dec] (JObj [(name, v)]) x = dec v x"
  using assms by (simp add: decode_struct_def decode_member_def field_def option.map_ident split: option.split)

lemma decode_member_None: "foldl (decode_member fs) None ms = None"
  by (induction ms) (simp_all add: decode_member_def)

text \<open>An object without the key, or with \<open>null\<close> under it, leaves a pointer field nil.\<close>

lemma decode_pointer_absent:
  assumes "\<And>k v. (k, v) \<in> set ms \<Longrightarrow> fold_key k = name \<Longrightarrow> v = JNull"
  shows "decode_struct [field name id (\<lambda>p _. p) (decode_pointer zero dec)] (JObj ms) None = Some None"
proof -
  have "foldl (decode_member [field name id (\<lambda>p _. p) (decode_pointer zero dec)]) (Some None) ms = Some None"
    using assms
  proof (induction ms)
    case (Cons kv ms)
    obtain k v where kv: "kv = (k, v)" by fastforce
    have "fold_key k = name \<Longrightarrow> v = JNull" using Cons.prems [of k v] by (simp add: kv)
    then have "decode_member [field name id (\<lambda>p _. p) (decode_pointer zero dec)] (Some None) kv = Some None"
      by (simp add: decode_member_def field_def decode_pointer_def kv)
    moreover have "v = JNull" if "(k, v) \<in> set ms" "fold_key k = name" for k v
      using Cons.prems [of k v] that by simp
    ultimately show ?case unfolding foldl_Cons using Cons.IH by (simp only:)
  qed simp
  then show ?thesis by (simp add: decode_struct_def)
qed

text \<open>The envelope's texts are read however they were written.\<close>

lemma decode_error_envelope_blind:
  "decode_error_envelope (map_option plain parsed) = decode_error_envelope parsed"
proof -
  have "blind (decode_struct wire_err_fields)" by (rule blind_struct) (simp add: wire_err_fields_def)
  then have "blind (decode_struct [field ''error'' id (\<lambda>p _. p) (decode_pointer zero_wire_err (decode_struct wire_err_fields))])"
    by (intro blind_struct) simp
  then show ?thesis by (cases parsed) (simp_all add: decode_error_envelope_def blind_def)
qed

lemma decode_error_envelope_plain:
  "decode_error_envelope (Some (JObj [(''error'', JObj [(''id'', JStr i), (''name'', JStr n), (''detail'', JStr d)])])) =
     Some \<lparr>we_ID = i, we_Name = n, we_Detail = d\<rparr>"
proof -
  have k: "fold_key ''error'' = ''error''" "fold_key ''id'' = ''id''" "fold_key ''name'' = ''name''"
    "fold_key ''detail'' = ''detail''" by code_simp+
  show ?thesis
    by (simp add: decode_error_envelope_def decode_struct_single [OF k(1)] decode_pointer_def
        decode_struct_def decode_member_def wire_err_fields_def field_def k decode_string_def zero_wire_err_def)
qed

lemma Do_executed:
  assumes "marshalBody env body = Inr pl" and "execute env c verb path query pl st = (Inr res, st')"
  shows "Do env c zero dec verb path query body st =
    (if r_status res < 200 \<or> 299 < r_status res then Inl (decode_error env (st_world st') res)
     else (case decodeData zero dec (env_json_value env (r_body res)) of
        Inl e \<Rightarrow> Inl (EWrap (op_text verb path @ ''decode response: '') e) | Inr v \<Rightarrow> Inr v), st')"
  using assms by (simp add: Do_def split: sum.split)

lemma script_once:
  assumes "n \<notin> {429, 500, 503}"
  shows "execute (script_env\<lparr>env_json_value := f\<rparr>) script_core verb ''user'' [] None
      \<lparr>st_world = [script_answer n], st_trace = []\<rparr> =
    (Inr \<lparr>r_status = n, r_body = ''{}'', r_header = []\<rparr>,
     snd (execute (script_env\<lparr>env_json_value := f\<rparr>) script_core verb ''user'' [] None
      \<lparr>st_world = [script_answer n], st_trace = []\<rparr>))"
proof -
  have "sint (defaultMaxResponseBytes + 1) = 134217729" "sint defaultMaxResponseBytes = 134217728" by code_simp+
  with assms show ?thesis
    by (simp add: execute_def script_core_def attempts_of_def backoff_def attempt_def run_wait_def
        run_token_def run_send_def script_env_def script_answer_def read_response_def read_limit_def
        ReadAll_limited_def classify_def numeral_3_eq_3 Let_def record_event_def)
qed

section \<open>Properties\<close>

text \<open>
  C9: every answer outside 200 to 299 becomes an API error with that very status, which matches the
  sentinel of its status class; its id, name and detail are those of the error envelope, and empty
  when the body is no JSON or carries no error object.
\<close>

theorem non_2xx_is_api_error:
  assumes "marshalBody env body = Inr pl" and "execute env c verb path query pl st = (Inr res, st')"
    and "r_status res < 200 \<or> 299 < r_status res"
  shows "\<exists>e. fst (Do env c zero dec verb path query body st) = Inl (EApi e) \<and>
    e_StatusCode e = r_status res \<and>
    (\<forall>s. sentinelByStatus (r_status res) = Some s \<longrightarrow> errors_Is (EApi e) (TSentinel s)) \<and>
    (env_json_value env (r_body res) = None \<longrightarrow> e_ID e = [] \<and> e_Name e = [] \<and> e_Detail e = []) \<and>
    (\<forall>i n d. map_option plain (env_json_value env (r_body res)) =
        Some (JObj [(''error'', JObj [(''id'', JStr i), (''name'', JStr n), (''detail'', JStr d)])]) \<longrightarrow>
      e_ID e = i \<and> e_Name e = n \<and> e_Detail e = d)"
proof -
  let ?e = "decodeWireError (env_ParseTime env) (env_now env (st_world st'))
    (env_json_value env (r_body res)) (r_status res) (r_header res)"
  have "fst (Do env c zero dec verb path query body st) = Inl (EApi ?e)"
    using assms(3) by (simp add: Do_executed [OF assms(1,2)] decode_error_def)
  moreover have "errors_Is (EApi ?e) (TSentinel s)" if "sentinelByStatus (r_status res) = Some s" for s
    using decode_error_Is [OF that] by (simp add: decode_error_def)
  moreover have "e_ID ?e = [] \<and> e_Name ?e = [] \<and> e_Detail ?e = []" if "env_json_value env (r_body res) = None"
    by (simp add: that decodeWireError_def decode_error_envelope_def zero_wire_err_def)
  moreover have "e_ID ?e = i \<and> e_Name ?e = n \<and> e_Detail ?e = d"
    if p: "map_option plain (env_json_value env (r_body res)) =
      Some (JObj [(''error'', JObj [(''id'', JStr i), (''name'', JStr n), (''detail'', JStr d)])])" for i n d
  proof -
    have "decode_error_envelope (env_json_value env (r_body res)) = Some \<lparr>we_ID = i, we_Name = n, we_Detail = d\<rparr>"
      using decode_error_envelope_blind [of "env_json_value env (r_body res)"] decode_error_envelope_plain [of i n d]
      unfolding p by simp
    then show ?thesis by (simp add: decodeWireError_def)
  qed
  ultimately show ?thesis by (intro exI [of _ ?e]) simp
qed

theorem non_2xx_is_api_error_witness:
  "\<exists>e. fst (Do (script_env\<lparr>env_json_value := \<lambda>_. None\<rparr>) script_core () (\<lambda>_ _. None) ''POST'' ''user'' [] None
      \<lparr>st_world = [script_answer 404], st_trace = []\<rparr>) = Inl (EApi e) \<and>
    e_StatusCode e = 404 \<and> errors_Is (EApi e) (TSentinel ErrNotFound)"
proof -
  let ?env = "script_env\<lparr>env_json_value := \<lambda>_. None\<rparr>"
  have m: "marshalBody ?env None = Inr None" by (simp add: marshalBody_def)
  show ?thesis
    using non_2xx_is_api_error [OF m script_once [of 404], of "()" "\<lambda>_ _. None"]
    by (auto simp: sentinelByStatus_def)
qed

text \<open>
  C10: a 2xx answer yields a result only from a data payload. When the body is not JSON, or its
  object has no data member or only null ones, the call fails with a decode error; a result is what
  decoding the data member produced.
\<close>

theorem success_needs_data:
  assumes "marshalBody env body = Inr pl" and "execute env c verb path query pl st = (Inr res, st')"
    and "200 \<le> r_status res" and "r_status res \<le> 299"
  shows "(env_json_value env (r_body res) = None \<longrightarrow>
      isl (fst (Do env c zero dec verb path query body st))) \<and>
    (\<forall>ms. env_json_value env (r_body res) = Some (JObj ms) \<and>
        (\<forall>k v. (k, v) \<in> set ms \<longrightarrow> fold_key k = ''data'' \<longrightarrow> v = JNull) \<longrightarrow>
      isl (fst (Do env c zero dec verb path query body st))) \<and>
    (\<forall>v x. env_json_value env (r_body res) = Some (JObj [(''data'', v)]) \<and> v \<noteq> JNull \<longrightarrow>
      (fst (Do env c zero dec verb path query body st) = Inr x \<longleftrightarrow> dec v zero = Some x))"
proof -
  have f: "fst (Do env c zero dec verb path query body st) =
      (case decodeData zero dec (env_json_value env (r_body res)) of
        Inl e \<Rightarrow> Inl (EWrap (op_text verb path @ ''decode response: '') e) | Inr v \<Rightarrow> Inr v)"
    using assms(3,4) by (simp add: Do_executed [OF assms(1,2)])
  have k: "fold_key ''data'' = ''data''" by code_simp
  show ?thesis
  proof (intro conjI allI impI)
    fix ms assume "env_json_value env (r_body res) = Some (JObj ms) \<and>
        (\<forall>k v. (k, v) \<in> set ms \<longrightarrow> fold_key k = ''data'' \<longrightarrow> v = JNull)"
    then show "isl (fst (Do env c zero dec verb path query body st))"
      using decode_pointer_absent [of ms "''data''" zero dec] by (simp add: f decodeData_def)
  next
    fix v x assume v: "env_json_value env (r_body res) = Some (JObj [(''data'', v)]) \<and> v \<noteq> JNull"
    then have "decodeData zero dec (env_json_value env (r_body res)) =
        (case dec v zero of None \<Rightarrow> Inl (EPlain ''json'') | Some x \<Rightarrow> Inr x)"
      by (simp add: decodeData_def decode_struct_single [OF k] decode_pointer_def split: option.split)
    then show "fst (Do env c zero dec verb path query body st) = Inr x \<longleftrightarrow> dec v zero = Some x"
      by (simp add: f split: option.split)
  qed (simp add: f decodeData_def)
qed

theorem success_needs_data_witness:
  "isl (fst (Do (script_env\<lparr>env_json_value := \<lambda>_. Some (JObj [(''error'', JNull)])\<rparr>) script_core () (\<lambda>_ _. Some ())
      ''POST'' ''user'' [] None \<lparr>st_world = [script_answer 200], st_trace = []\<rparr>))"
proof -
  let ?env = "script_env\<lparr>env_json_value := \<lambda>_. Some (JObj [(''error'', JNull)])\<rparr>"
  have m: "marshalBody ?env None = Inr None" by (simp add: marshalBody_def)
  show ?thesis
    using success_needs_data [OF m script_once [of 200], of "()" "\<lambda>_ _. Some ()"] by simp
qed

end
