(* ===== verification/Decoders.thy ===== *)
theory Decoders
  imports Wire "HOL-Library.Multiset"
begin

text \<open>
  How \<open>encoding/json\<close> fills the read models: decoders for the scalar types the structs use, and the
  law of struct decoding that members of distinct fields may come in any order. A \<open>float64\<close> display
  companion keeps its literal; the reading of an RFC 3339 time comes from the world record.
\<close>

section \<open>Scalars\<close>

definition decode_bool :: "bool decoder" where
  "decode_bool v x = (case v of JNull \<Rightarrow> Some x | JBool b \<Rightarrow> Some b | _ \<Rightarrow> None)"

text \<open>
  The wire types with their own \<open>UnmarshalJSON\<close>, which \<open>null\<close> resets to the zero value. It reads the
  literal between its quotes, so a literal with escapes, which keeps its backslashes, is never a
  date or a month (lemmas \<open>backslash_no_date\<close> and \<open>backslash_no_month\<close>).
\<close>

definition decode_date :: "Date decoder" where
  "decode_date v x = (case v of
     JNull \<Rightarrow> Some zero_Date
   | JStr s \<Rightarrow> (case ParseDate s of Inr d \<Rightarrow> Some d | Inl _ \<Rightarrow> None)
   | _ \<Rightarrow> None)"

definition decode_month :: "Month decoder" where
  "decode_month v x = (case v of
     JNull \<Rightarrow> Some zero_Month
   | JStr s \<Rightarrow> (case ParseMonth s of Inr m \<Rightarrow> Some m | Inl _ \<Rightarrow> None)
   | _ \<Rightarrow> None)"

text \<open>
  \<open>time.Time\<close> keeps its value on \<open>null\<close> and reads the literal, too; a time is its instant. A \<open>float64\<close> is its literal, which
  must be in range.
\<close>

text \<open>The zero \<open>time.Time\<close>: the first instant of year 1, in Unix seconds.\<close>

definition zero_time :: int where "zero_time = - 62135596800"

definition decode_time :: "'w env \<Rightarrow> int decoder" where
  "decode_time env v x = (case v of JNull \<Rightarrow> Some x | JStr s \<Rightarrow> env_rfc3339 env s | _ \<Rightarrow> None)"

definition decode_float :: "'w env \<Rightarrow> string decoder" where
  "decode_float env v x = (case v of JNull \<Rightarrow> Some x
     | JNum s \<Rightarrow> if env_float64 env s then Some s else None | _ \<Rightarrow> None)"

definition decode_int32 :: "i32 decoder" where
  "decode_int32 v x = (case v of JNull \<Rightarrow> Some x
     | JNum s \<Rightarrow> (case ParseInt s of
         Inr k \<Rightarrow> if - 2147483648 \<le> sint k \<and> sint k < 2147483648 then Some (word_of_int (sint k)) else None
       | Inl _ \<Rightarrow> None)
     | _ \<Rightarrow> None)"

abbreviation decode_int64_pointer :: "i64 option decoder" where
  "decode_int64_pointer \<equiv> decode_pointer 0 decode_int64"

abbreviation decode_bool_pointer :: "bool option decoder" where
  "decode_bool_pointer \<equiv> decode_pointer False decode_bool"

abbreviation decode_date_pointer :: "Date option decoder" where
  "decode_date_pointer \<equiv> decode_pointer zero_Date decode_date"

definition decode_time_pointer :: "'w env \<Rightarrow> int option decoder" where
  "decode_time_pointer env = decode_pointer zero_time (decode_time env)"

definition decode_float_pointer :: "'w env \<Rightarrow> string option decoder" where
  "decode_float_pointer env = decode_pointer ''0'' (decode_float env)"

text \<open>A \<open>map[string]Milliunits\<close>: nil, or the members added to what is there.\<close>

definition decode_amounts :: "(string \<times> i64) list option decoder" where
  "decode_amounts v x = (case v of
     JNull \<Rightarrow> Some None
   | JObj ms \<Rightarrow>
       map_option Some (foldl (\<lambda>acc (k, w). case acc of None \<Rightarrow> None
           | Some m \<Rightarrow> map_option (\<lambda>a. AList.update k a m) (decode_int64 w 0))
         (Some (case x of None \<Rightarrow> [] | Some m \<Rightarrow> m)) ms)
   | _ \<Rightarrow> None)"

abbreviation decode_text_pointer :: "string option decoder" where
  "decode_text_pointer \<equiv> decode_pointer [] decode_string"

lemma decode_int64_json_int [simp]: "decode_int64 (json_int k) x = Some k"
  by (simp add: decode_int64_def json_int_def ParseInt_dec_int)

lemma decode_string_JStr [simp]: "decode_string (JStr s) x = Some s"
  by (simp add: decode_string_def)

lemma decode_bool_JBool [simp]: "decode_bool (JBool b) x = Some b"
  by (simp add: decode_bool_def)

lemma Date_String_no_backslash: "wire_date d \<Longrightarrow> CHR 0x5C \<notin> set (Date_String d)"
proof -
  have digit: "\<not> is_digit (CHR 0x5C)" by code_simp
  assume "wire_date d"
  then have "Date_String d = fmt_0d 4 (d_year d) @ ''-'' @ fmt_0d 2 (d_month d) @ ''-'' @ fmt_0d 2 (d_day d)"
    using wire_date_nonzero by (auto simp: Date_String_def Date_IsZero_def)
  moreover have "CHR 0x5C \<notin> set (fmt_0d w n)" for w n
    using dec_nat_set [of "CHR 0x5C"] digit by (auto simp: fmt_0d_def zero_pad_def)
  ultimately show ?thesis by simp
qed

lemma backslash_no_date: "CHR 0x5C \<in> set s \<Longrightarrow> isl (ParseDate s)"
  using ParseDate_canonical [of s] Date_String_no_backslash by (cases "ParseDate s") auto

lemma backslash_no_month: "CHR 0x5C \<in> set s \<Longrightarrow> isl (ParseMonth s)"
  using backslash_no_date [of s] by (auto simp: ParseMonth_def split: sum.split)

section \<open>Order of members\<close>

text \<open>Two decoders write independent parts of the struct.\<close>

definition commute :: "'s decoder \<Rightarrow> 's decoder \<Rightarrow> bool" where
  "commute f g \<longleftrightarrow> (\<forall>v w x. Option.bind (f v x) (g w) = Option.bind (g w x) (f v))"

definition independent :: "(string \<times> 's decoder) list \<Rightarrow> bool" where
  "independent fs \<longleftrightarrow> (\<forall>j k f g. map_of fs j = Some f \<longrightarrow> map_of fs k = Some g \<longrightarrow> j \<noteq> k \<longrightarrow> commute f g)"

lemma commute_field:
  assumes "\<And>a b x. putf a (putg b x) = putg b (putf a x)"
    and "\<And>b x. getf (putg b x) = getf x" and "\<And>a x. getg (putf a x) = getg x"
  shows "commute (snd (field j getf putf decf)) (snd (field k getg putg decg))"
  using assms by (auto simp: commute_def field_def split: option.split)
    (auto simp: map_option_case Option.bind_eq_None_conv split: option.splits)

definition apply_member :: "(string \<times> 's decoder) list \<Rightarrow> string \<times> json \<Rightarrow> 's option \<Rightarrow> 's option" where
  "apply_member fs kv acc = decode_member fs acc kv"

lemma decode_struct_fold: "decode_struct fs (JObj ms) x = fold (apply_member fs) ms (Some x)"
proof -
  have "(\<lambda>kv acc. decode_member fs acc kv) = apply_member fs" by (simp add: fun_eq_iff apply_member_def)
  then show ?thesis by (simp add: decode_struct_def foldl_conv_fold)
qed

lemma apply_member_bind:
  "apply_member fs kv acc = Option.bind acc (\<lambda>x. case map_of fs (fold_key (fst kv)) of
     None \<Rightarrow> Some x | Some f \<Rightarrow> f (snd kv) x)"
  by (cases acc) (simp_all add: apply_member_def decode_member_def)

lemma apply_member_commute:
  assumes "independent fs" and "fold_key (fst a) \<noteq> fold_key (fst b)"
  shows "apply_member fs a \<circ> apply_member fs b = apply_member fs b \<circ> apply_member fs a"
proof
  fix acc
  show "(apply_member fs a \<circ> apply_member fs b) acc = (apply_member fs b \<circ> apply_member fs a) acc"
  proof (cases "map_of fs (fold_key (fst a)) = None \<or> map_of fs (fold_key (fst b)) = None")
    case True
    then show ?thesis by (cases acc) (auto simp: apply_member_bind split: option.split)
  next
    case False
    then obtain f g where fg: "map_of fs (fold_key (fst a)) = Some f" "map_of fs (fold_key (fst b)) = Some g"
      by auto
    with assms have "commute f g" unfolding independent_def by blast
    then show ?thesis using fg
      by (cases acc) (simp_all add: apply_member_bind commute_def)
  qed
qed

text \<open>
  With independent fields, and no field named twice, decoding depends on which members an object has
  and not on their order.
\<close>

lemma decode_struct_order:
  assumes "independent fs" and "distinct (map (fold_key \<circ> fst) ms)" and "mset ms = mset ms'"
  shows "decode_struct fs (JObj ms) x = decode_struct fs (JObj ms') x"
proof -
  have "fold (apply_member fs) ms = fold (apply_member fs) ms'"
  proof (rule fold_multiset_equiv [OF _ assms(3)])
    fix a b assume ab: "a \<in> set ms" "b \<in> set ms"
    show "apply_member fs a \<circ> apply_member fs b = apply_member fs b \<circ> apply_member fs a"
    proof (cases "a = b")
      case False
      with ab assms(2) have "fold_key (fst a) \<noteq> fold_key (fst b)"
        by (auto simp: distinct_map inj_on_def)
      with assms(1) show ?thesis by (rule apply_member_commute)
    qed simp
  qed
  then show ?thesis by (simp add: decode_struct_fold)
qed

end
