(* ===== verification/Paths.thy ===== *)
theory Paths
  imports Transport
begin

text \<open>
  Operation paths: \<open>JoinPath\<close> of \<open>transport.go\<close> under \<open>Plan.path\<close> of \<open>plan.go\<close>, and the guard of
  \<open>do\<close> that refuses a path one of whose segments is empty. The escaped segments hold no delimiter,
  so a path is its list of segments and no id can reach another route.
\<close>

section \<open>The guard\<close>

definition empty_segment :: "string \<Rightarrow> bool" where
  "empty_segment path \<longleftrightarrow> path = [] \<or> HasSuffix path ''/'' \<or> Contains path ''//''"

definition Plan_path :: "string \<Rightarrow> string list \<Rightarrow> string" where
  "Plan_path plan_id segments = JoinPath (''plans'' # plan_id # segments)"

section \<open>Segments\<close>

lemma percent_decode_segment [simp]: "percent_decode (JoinPath_segment s) = s"
proof -
  have "percent_decode ''%2E'' = ''.''" "percent_decode ''%2E%2E'' = ''..''" by code_simp+
  then show ?thesis by (simp add: JoinPath_segment_def)
qed

lemma JoinPath_segment_inj [simp]: "JoinPath_segment s = JoinPath_segment t \<longleftrightarrow> s = t"
  by (metis percent_decode_segment)

lemma JoinPath_segment_no_delims:
  "CHR ''/'' \<notin> set (JoinPath_segment s)" "CHR ''?'' \<notin> set (JoinPath_segment s)"
  "CHR ''#'' \<notin> set (JoinPath_segment s)"
  by (simp_all add: JoinPath_segment_def PathEscape_no_delims)

lemma JoinPath_segment_not_dots: "JoinPath_segment s \<noteq> ''.''" "JoinPath_segment s \<noteq> ''..''"
proof -
  have "s = ''.''" if "PathEscape s = ''.''" using that by (metis PathEscape_dots(1) PathEscape_inj)
  moreover have "s = ''..''" if "PathEscape s = ''..''" using that by (metis PathEscape_dots(2) PathEscape_inj)
  ultimately show "JoinPath_segment s \<noteq> ''.''" "JoinPath_segment s \<noteq> ''..''"
    by (auto simp: JoinPath_segment_def)
qed

lemma JoinPath_segment_Nil [simp]: "JoinPath_segment s = [] \<longleftrightarrow> s = []"
  by (simp add: JoinPath_segment_def)

lemma JoinPath_segment_literal:
  "list_all (\<lambda>c. is_alnum c \<or> c = CHR ''_'') s \<Longrightarrow> JoinPath_segment s = s"
proof -
  assume a: "list_all (\<lambda>c. is_alnum c \<or> c = CHR ''_'') s"
  then have "PathEscape s = s"
    by (induction s) (auto simp: PathEscape_def escape_segment_byte_def shouldEscapeSegment_def)
  moreover have "s \<noteq> ''.''" "s \<noteq> ''..''" using a by (auto simp: is_alnum_def byte_in_def)
  ultimately show ?thesis by (simp add: JoinPath_segment_def)
qed

section \<open>Joining\<close>

abbreviation slash_free :: "string \<Rightarrow> bool" where
  "slash_free s \<equiv> CHR ''/'' \<notin> set s"

fun split_slash :: "string \<Rightarrow> string list" where
  "split_slash [] = [[]]"
| "split_slash (c # r) =
     (if c = CHR ''/'' then [] # split_slash r
      else (case split_slash r of x # xs \<Rightarrow> (c # x) # xs | [] \<Rightarrow> [[c]]))"

lemma split_slash_free: "slash_free s \<Longrightarrow> split_slash s = [s]"
  by (induction s) auto

lemma split_slash_append: "slash_free s \<Longrightarrow> split_slash (s @ CHR ''/'' # r) = s # split_slash r"
  by (induction s) auto

lemma split_slash_Join: "xs \<noteq> [] \<Longrightarrow> list_all slash_free xs \<Longrightarrow> split_slash (Join ''/'' xs) = xs"
  by (induction xs rule: induct_list012) (auto simp: split_slash_free split_slash_append)

lemma Contains_append: "slash_free s \<Longrightarrow> Contains (s @ r) ''//'' \<longleftrightarrow> Contains r ''//''"
  by (induction s) (auto simp: HasPrefix_def)

lemma Contains_slash:
  "Contains (CHR ''/'' # r) ''//'' \<longleftrightarrow> (r \<noteq> [] \<and> hd r = CHR ''/'') \<or> Contains r ''//''"
  by (cases r) (auto simp: HasPrefix_def)

lemma Contains_slash_free: "slash_free s \<Longrightarrow> \<not> Contains s ''//''"
  using Contains_append [of s "[]"] by simp

definition broken :: "string \<Rightarrow> bool" where
  "broken r \<longleftrightarrow> r = [] \<or> hd r = CHR ''/'' \<or> HasSuffix r ''/'' \<or> Contains r ''//''"

lemma broken_slash_free: "slash_free s \<Longrightarrow> broken s \<longleftrightarrow> s = []"
proof (cases "s = []")
  case False
  assume s: "slash_free s"
  with False have "hd s \<noteq> CHR ''/''" "last s \<noteq> CHR ''/''" by (metis hd_in_set, metis last_in_set)
  with False s show ?thesis by (simp add: broken_def HasSuffix_single Contains_slash_free)
qed (simp add: broken_def)

lemma broken_Cons: "slash_free s \<Longrightarrow> broken (s @ CHR ''/'' # r) \<longleftrightarrow> s = [] \<or> broken r"
proof -
  assume s: "slash_free s"
  have "HasSuffix (s @ CHR ''/'' # r) ''/'' \<longleftrightarrow> r = [] \<or> HasSuffix r ''/''"
    by (auto simp: HasSuffix_single)
  moreover have "Contains (s @ CHR ''/'' # r) ''//'' \<longleftrightarrow> (r \<noteq> [] \<and> hd r = CHR ''/'') \<or> Contains r ''//''"
    using Contains_append [OF s] Contains_slash by metis
  moreover have "hd (s @ CHR ''/'' # r) = CHR ''/'' \<longleftrightarrow> s = []"
    using s by (cases s) auto
  ultimately show ?thesis by (auto simp: broken_def)
qed

lemma broken_Join:
  "xs \<noteq> [] \<Longrightarrow> list_all slash_free xs \<Longrightarrow> broken (Join ''/'' xs) \<longleftrightarrow> [] \<in> set xs"
proof (induction xs rule: induct_list012)
  case (2 x)
  then show ?case by (auto simp: broken_slash_free)
next
  case (3 x y zs)
  then show ?case by (auto simp: broken_Cons)
qed simp

lemma JoinPath_slash_free: "list_all slash_free (map JoinPath_segment xs)"
  by (simp add: list_all_iff JoinPath_segment_no_delims)

lemma split_slash_JoinPath: "xs \<noteq> [] \<Longrightarrow> split_slash (JoinPath xs) = map JoinPath_segment xs"
  by (simp add: JoinPath_def split_slash_Join JoinPath_slash_free)

lemma JoinPath_eq_iff: "xs \<noteq> [] \<Longrightarrow> ys \<noteq> [] \<Longrightarrow> JoinPath xs = JoinPath ys \<longleftrightarrow> xs = ys"
  using split_slash_JoinPath [of xs] split_slash_JoinPath [of ys]
  by (metis JoinPath_segment_inj inj_def inj_map_eq_map)

lemma hd_Join: "xs \<noteq> [] \<Longrightarrow> hd xs \<noteq> [] \<Longrightarrow> Join sep xs \<noteq> [] \<and> hd (Join sep xs) = hd (hd xs)"
  by (cases xs rule: remdups_adj.cases) auto

lemma empty_segment_JoinPath:
  assumes "xs \<noteq> []" and "hd xs \<noteq> []"
  shows "empty_segment (JoinPath xs) \<longleftrightarrow> [] \<in> set xs"
proof -
  let ?ys = "map JoinPath_segment xs"
  have y: "?ys \<noteq> []" "hd ?ys \<noteq> []" using assms by (simp_all add: hd_map)
  have "hd (hd ?ys) \<in> set (hd ?ys)" using y(2) by simp
  then have "hd (hd ?ys) \<noteq> CHR ''/''"
    using JoinPath_segment_no_delims(1) [of "hd xs"] assms(1) by (metis hd_map)
  then have "hd (JoinPath xs) \<noteq> CHR ''/''" using hd_Join [OF y, of "''/''"] by (simp add: JoinPath_def)
  then have "empty_segment (JoinPath xs) \<longleftrightarrow> broken (JoinPath xs)"
    by (auto simp: empty_segment_def broken_def)
  also have "\<dots> \<longleftrightarrow> [] \<in> set ?ys"
    unfolding JoinPath_def using y(1) by (rule broken_Join) (rule JoinPath_slash_free)
  also have "\<dots> \<longleftrightarrow> [] \<in> set xs" using JoinPath_segment_Nil by (metis (mono_tags, lifting) image_iff list.set_map)
  finally show ?thesis .
qed

lemma empty_segment_Plan_path [simp]:
  "empty_segment (Plan_path pid segs) \<longleftrightarrow> pid = [] \<or> [] \<in> set segs"
  using empty_segment_JoinPath [of "''plans'' # pid # segs"] by (auto simp: Plan_path_def)

lemma Plan_path_inj [simp]:
  "Plan_path p xs = Plan_path q ys \<longleftrightarrow> p = q \<and> xs = ys"
  by (simp add: Plan_path_def JoinPath_eq_iff)

section \<open>Properties\<close>

text \<open>
  C17: no id reaches another route. Whatever bytes the segments hold, distinct segment lists make
  distinct paths; splitting a path at its slashes gives the escaped segments back one for one; no
  segment holds a path or query delimiter or is a dot segment; and decoding a segment returns the
  id it was made from.
\<close>

theorem JoinPath_no_traversal:
  "(JoinPath (s # xs) = JoinPath (t # ys) \<longleftrightarrow> s # xs = t # ys) \<and>
   split_slash (JoinPath (s # xs)) = map JoinPath_segment (s # xs) \<and>
   set (JoinPath_segment s) \<inter> set ''/?#'' = {} \<and>
   JoinPath_segment s \<noteq> ''.'' \<and> JoinPath_segment s \<noteq> ''..'' \<and> percent_decode (JoinPath_segment s) = s"
  using JoinPath_segment_no_delims [of s] JoinPath_segment_not_dots [of s]
  by (simp add: JoinPath_eq_iff split_slash_JoinPath)

text \<open>
  The empty-segment guard is exact: a plan-scoped path is refused precisely when the plan id or
  one of the segments is empty, and never because of what a non-empty id contains.
\<close>

theorem empty_segment_exact:
  "empty_segment (Plan_path pid segs) \<longleftrightarrow> pid = [] \<or> [] \<in> set segs"
  by (rule empty_segment_Plan_path)

end
