(* ===== verification/Client.thy ===== *)
theory Client
  imports Wire Paths
begin

text \<open>
  \<open>client.go\<close>: options, the two constructors with the config-error contract, the wiring of the
  transport core, \<open>RawDo\<close>; and \<open>do\<close> of \<open>plan.go\<close>, the funnel every operation goes through. An HTTP
  client, a token source and a limiter are the functions the pipeline calls; a nil one is \<open>None\<close>.
  \<open>url.Parse\<close> is an argument that returns the parts the code reads. A logger writes only debug
  lines, so only whether it is nil is kept.
\<close>

section \<open>Configuration\<close>

record URL =
  u_String :: string
  u_Scheme :: string
  u_Host :: string
  u_has_User :: bool
  u_ForceQuery :: bool
  u_RawQuery :: string
  u_Fragment :: string

record RetryPolicy =
  rp_MaxAttempts :: int
  rp_MinBackoff :: i64
  rp_MaxBackoff :: i64
  rp_RetryWrites :: bool

definition defaultBaseURL :: string where
  "defaultBaseURL = ''https://api.ynab.com/v1''"

definition defaultTimeout :: i64 where "defaultTimeout = 30 * second_ns"

definition defaultRetry :: RetryPolicy where
  "defaultRetry = \<lparr>rp_MaxAttempts = 3, rp_MinBackoff = 300 * 1000000,
     rp_MaxBackoff = 30 * second_ns, rp_RetryWrites = False\<rparr>"

definition Version :: string where "Version = ''1.6.1''"

type_synonym 'w token_source = "i64 \<Rightarrow> 'w \<Rightarrow> (gerr + string) \<times> 'w"
type_synonym 'w limiter = "i64 \<Rightarrow> 'w \<Rightarrow> gerr option \<times> 'w"
type_synonym 'w http_client = "i64 \<Rightarrow> request \<Rightarrow> 'w \<Rightarrow> (gerr + response) \<times> 'w"

record 'w Client =
  cl_tokenSource :: "'w token_source"
  cl_constructorOp :: string
  cl_httpClient :: "'w http_client"
  cl_baseURL :: URL
  cl_userAgent :: string
  cl_timeout :: i64
  cl_retry :: RetryPolicy
  cl_retryOff :: bool
  cl_limiter :: "'w limiter option"
  cl_configErr :: "ArgumentError option"

definition staticToken :: "string \<Rightarrow> 'w token_source" where
  "staticToken t = (\<lambda>_ w. (Inr t, w))"

definition storeConfigErr :: "string \<Rightarrow> string \<Rightarrow> 'w Client \<Rightarrow> 'w Client" where
  "storeConfigErr opt reason c =
     (if cl_configErr c = None
      then c\<lparr>cl_configErr := Some \<lparr>ae_Op = cl_constructorOp c, ae_Field = opt, ae_Reason = reason\<rparr>\<rparr>
      else c)"

section \<open>Options\<close>

datatype 'w Option =
    NoOption
  | WithHTTPClient "'w http_client option"
  | WithBaseURL string
  | WithUserAgent string
  | WithTimeout i64
  | WithRetryPolicy RetryPolicy
  | WithRetryDisabled
  | WithLimiter "'w limiter option"
  | WithLogger bool

definition fill_policy :: "RetryPolicy \<Rightarrow> RetryPolicy" where
  "fill_policy p =
     \<lparr>rp_MaxAttempts = (if rp_MaxAttempts p = 0 then rp_MaxAttempts defaultRetry else rp_MaxAttempts p),
      rp_MinBackoff = (if rp_MinBackoff p = 0 then rp_MinBackoff defaultRetry else rp_MinBackoff p),
      rp_MaxBackoff = (if rp_MaxBackoff p = 0 then rp_MaxBackoff defaultRetry else rp_MaxBackoff p),
      rp_RetryWrites = rp_RetryWrites p\<rparr>"

definition apply_BaseURL :: "(string \<Rightarrow> URL option) \<Rightarrow> string \<Rightarrow> 'w Client \<Rightarrow> 'w Client" where
  "apply_BaseURL parse raw c =
     (case parse raw of
        None \<Rightarrow> storeConfigErr ''WithBaseURL'' (''not an absolute URL: '' @ raw) c
      | Some u \<Rightarrow>
          if u_has_User u then storeConfigErr ''WithBaseURL'' ''URL must not carry credentials'' c
          else if u_Scheme u = [] \<or> u_Host u = []
          then storeConfigErr ''WithBaseURL'' (''not an absolute URL: '' @ raw) c
          else if u_Scheme u \<noteq> ''http'' \<and> u_Scheme u \<noteq> ''https''
          then storeConfigErr ''WithBaseURL'' (''scheme must be http or https: '' @ raw) c
          else if u_RawQuery u \<noteq> [] \<or> u_Fragment u \<noteq> []
          then storeConfigErr ''WithBaseURL'' (''URL must not carry a query or fragment: '' @ raw) c
          else c\<lparr>cl_baseURL := u\<rparr>)"

definition apply_RetryPolicy :: "RetryPolicy \<Rightarrow> 'w Client \<Rightarrow> 'w Client" where
  "apply_RetryPolicy p0 c =
     (let p = fill_policy p0 in
      if rp_MaxAttempts p < 1
      then storeConfigErr ''WithRetryPolicy'' ''MaxAttempts must be at least 1'' c
      else if sint (rp_MinBackoff p) \<le> 0 \<or> sint (rp_MaxBackoff p) < sint (rp_MinBackoff p)
      then storeConfigErr ''WithRetryPolicy'' ''want 0 < MinBackoff <= MaxBackoff'' c
      else c\<lparr>cl_retry := p\<rparr>)"

definition apply_option :: "(string \<Rightarrow> URL option) \<Rightarrow> 'w Option \<Rightarrow> 'w Client \<Rightarrow> 'w Client" where
  "apply_option parse opt c =
     (case opt of
        NoOption \<Rightarrow> c
      | WithHTTPClient hc \<Rightarrow>
          (case hc of None \<Rightarrow> storeConfigErr ''WithHTTPClient'' ''client must not be nil'' c
           | Some f \<Rightarrow> c\<lparr>cl_httpClient := f\<rparr>)
      | WithBaseURL raw \<Rightarrow> apply_BaseURL parse raw c
      | WithUserAgent ua \<Rightarrow> c\<lparr>cl_userAgent := ua\<rparr>
      | WithTimeout d \<Rightarrow>
          if sint d \<le> 0 then storeConfigErr ''WithTimeout'' ''timeout must be positive'' c
          else c\<lparr>cl_timeout := d\<rparr>
      | WithRetryPolicy p \<Rightarrow> apply_RetryPolicy p c
      | WithRetryDisabled \<Rightarrow> c\<lparr>cl_retryOff := True\<rparr>
      | WithLimiter l \<Rightarrow>
          (case l of None \<Rightarrow> storeConfigErr ''WithLimiter'' ''limiter must not be nil'' c
           | Some f \<Rightarrow> c\<lparr>cl_limiter := Some f\<rparr>)
      | WithLogger present \<Rightarrow>
          if \<not> present then storeConfigErr ''WithLogger'' ''logger must not be nil'' c else c)"

section \<open>Constructors\<close>

text \<open>\<open>base\<close> and \<open>hc\<close> are the parsed default URL and \<open>http.DefaultClient\<close>.\<close>

definition newClient ::
  "(string \<Rightarrow> URL option) \<Rightarrow> URL \<Rightarrow> 'w http_client \<Rightarrow> string \<Rightarrow> 'w token_source option \<Rightarrow> 'w Option list \<Rightarrow> 'w Client"
where
  "newClient parse base hc op ts opts =
     foldl (\<lambda>c opt. apply_option parse opt c)
       \<lparr>cl_tokenSource = (case ts of None \<Rightarrow> staticToken [] | Some f \<Rightarrow> f), cl_constructorOp = op,
        cl_httpClient = hc, cl_baseURL = base, cl_userAgent = ''pkg.venceslau.dev/ynab/'' @ Version,
        cl_timeout = defaultTimeout, cl_retry = defaultRetry, cl_retryOff = False, cl_limiter = None,
        cl_configErr = (case ts of
          None \<Rightarrow> Some \<lparr>ae_Op = op, ae_Field = ''ts'', ae_Reason = ''token source must not be nil''\<rparr>
        | Some _ \<Rightarrow> None)\<rparr>
       opts"

definition New ::
  "(string \<Rightarrow> URL option) \<Rightarrow> URL \<Rightarrow> 'w http_client \<Rightarrow> string \<Rightarrow> 'w Option list \<Rightarrow> 'w Client"
where
  "New parse base hc token opts =
     (let c = newClient parse base hc ''ynab.New'' (Some (staticToken token)) opts in
      if token = [] \<and> cl_configErr c = None
      then c\<lparr>cl_configErr := Some \<lparr>ae_Op = ''ynab.New'', ae_Field = ''token'', ae_Reason = ''token must not be empty''\<rparr>\<rparr>
      else c)"

definition NewWithTokenSource ::
  "(string \<Rightarrow> URL option) \<Rightarrow> URL \<Rightarrow> 'w http_client \<Rightarrow> 'w token_source option \<Rightarrow> 'w Option list \<Rightarrow> 'w Client"
where
  "NewWithTokenSource parse base hc ts opts = newClient parse base hc ''ynab.NewWithTokenSource'' ts opts"

text \<open>The transport core and the pipeline's world, as the constructor wires them.\<close>

definition core_of :: "'w Client \<Rightarrow> Core" where
  "core_of c =
     \<lparr>c_BaseURL = u_String (cl_baseURL c), c_UserAgent = cl_userAgent c, c_Timeout = cl_timeout c,
      c_Retry = \<lparr>rc_MaxAttempts = rp_MaxAttempts (cl_retry c), rc_MinBackoff = rp_MinBackoff (cl_retry c),
        rc_MaxBackoff = rp_MaxBackoff (cl_retry c), rc_RetryWrites = rp_RetryWrites (cl_retry c),
        rc_Disabled = cl_retryOff c\<rparr>,
      c_MaxResponseBytes = 0\<rparr>"

definition wire_env :: "'w env \<Rightarrow> 'w Client \<Rightarrow> 'w env" where
  "wire_env env c =
     env\<lparr>env_wait := cl_limiter c, env_token := cl_tokenSource c, env_do := cl_httpClient c\<rparr>"

section \<open>Calls\<close>

definition client_do ::
  "'w env \<Rightarrow> 'w Client \<Rightarrow> 'a \<Rightarrow> 'a decoder \<Rightarrow> string \<Rightarrow> string \<Rightarrow> url_values \<Rightarrow> payload \<Rightarrow>
   'w state \<Rightarrow> (gerr + 'a) \<times> 'w state"
where
  "client_do env c zero dec verb path query body st =
     (case cl_configErr c of
        Some e \<Rightarrow> (Inl (EArg e), st)
      | None \<Rightarrow>
          if empty_segment path
          then (Inl (EArg \<lparr>ae_Op = verb @ '' '' @ path, ae_Field = [], ae_Reason = ''an id argument is empty''\<rparr>), st)
          else Do (wire_env env c) (core_of c) zero dec verb path query body st)"

definition RawDo ::
  "'w env \<Rightarrow> 'w Client \<Rightarrow> string \<Rightarrow> string \<Rightarrow> url_values \<Rightarrow> string option \<Rightarrow> 'w state \<Rightarrow> (gerr + string) \<times> 'w state"
where
  "RawDo env c verb path query body st =
     (case cl_configErr c of
        Some e \<Rightarrow> (Inl (EArg e), st)
      | None \<Rightarrow> DoRaw (wire_env env c) (core_of c) verb path query body st)"

section \<open>What an option does\<close>

text \<open>The complaint of an option, if it has one: the option's name and the reason.\<close>

definition url_fault :: "(string \<Rightarrow> URL option) \<Rightarrow> string \<Rightarrow> string option" where
  "url_fault parse raw = (case parse raw of
     None \<Rightarrow> Some (''not an absolute URL: '' @ raw)
   | Some u \<Rightarrow>
       if u_has_User u then Some ''URL must not carry credentials''
       else if u_Scheme u = [] \<or> u_Host u = [] then Some (''not an absolute URL: '' @ raw)
       else if u_Scheme u \<notin> {''http'', ''https''} then Some (''scheme must be http or https: '' @ raw)
       else if u_RawQuery u \<noteq> [] \<or> u_Fragment u \<noteq> []
       then Some (''URL must not carry a query or fragment: '' @ raw)
       else None)"

definition policy_fault :: "RetryPolicy \<Rightarrow> string option" where
  "policy_fault p =
     (if rp_MaxAttempts (fill_policy p) < 1 then Some ''MaxAttempts must be at least 1''
      else if sint (rp_MinBackoff (fill_policy p)) \<le> 0
        \<or> sint (rp_MaxBackoff (fill_policy p)) < sint (rp_MinBackoff (fill_policy p))
      then Some ''want 0 < MinBackoff <= MaxBackoff'' else None)"

definition option_fault :: "(string \<Rightarrow> URL option) \<Rightarrow> 'w Option \<Rightarrow> (string \<times> string) option" where
  "option_fault parse opt = (case opt of
     WithHTTPClient None \<Rightarrow> Some (''WithHTTPClient'', ''client must not be nil'')
   | WithBaseURL raw \<Rightarrow> map_option (Pair ''WithBaseURL'') (url_fault parse raw)
   | WithTimeout d \<Rightarrow> if sint d \<le> 0 then Some (''WithTimeout'', ''timeout must be positive'') else None
   | WithRetryPolicy p \<Rightarrow> map_option (Pair ''WithRetryPolicy'') (policy_fault p)
   | WithLimiter None \<Rightarrow> Some (''WithLimiter'', ''limiter must not be nil'')
   | WithLogger False \<Rightarrow> Some (''WithLogger'', ''logger must not be nil'')
   | _ \<Rightarrow> None)"

lemma option_fault_Some:
  "option_fault parse opt = Some (f, r) \<Longrightarrow> apply_option parse opt c = storeConfigErr f r c"
  by (cases opt) (auto simp: option_fault_def apply_option_def apply_BaseURL_def url_fault_def
      apply_RetryPolicy_def policy_fault_def Let_def split: option.splits if_splits bool.splits)

lemma option_fault_None:
  "option_fault parse opt = None \<Longrightarrow> cl_configErr (apply_option parse opt c) = cl_configErr c \<and>
   cl_constructorOp (apply_option parse opt c) = cl_constructorOp c"
  by (cases opt) (auto simp: option_fault_def apply_option_def apply_BaseURL_def url_fault_def
      apply_RetryPolicy_def policy_fault_def Let_def split: option.splits if_splits bool.splits)

lemma storeConfigErr_simps [simp]:
  "cl_configErr (storeConfigErr f r c) = (case cl_configErr c of
     None \<Rightarrow> Some \<lparr>ae_Op = cl_constructorOp c, ae_Field = f, ae_Reason = r\<rparr> | Some e \<Rightarrow> Some e)"
  "cl_constructorOp (storeConfigErr f r c) = cl_constructorOp c"
  "cl_timeout (storeConfigErr f r c) = cl_timeout c" "cl_retry (storeConfigErr f r c) = cl_retry c"
  "cl_baseURL (storeConfigErr f r c) = cl_baseURL c"
  by (auto simp: storeConfigErr_def split: option.split)

lemma apply_options_configErr:
  "cl_configErr (foldl (\<lambda>c opt. apply_option parse opt c) c opts) =
     (case cl_configErr c of Some e \<Rightarrow> Some e
      | None \<Rightarrow> map_option (\<lambda>(f, r). \<lparr>ae_Op = cl_constructorOp c, ae_Field = f, ae_Reason = r\<rparr>)
          (errFirst (map (option_fault parse) opts)))"
proof (induction opts arbitrary: c)
  case (Cons opt opts)
  show ?case
  proof (cases "option_fault parse opt")
    case None
    with Cons.IH [of "apply_option parse opt c"] option_fault_None [OF None, of c] show ?thesis
      by (simp split: option.split)
  next
    case (Some fr)
    obtain f r where "fr = (f, r)" by fastforce
    with Cons.IH [of "apply_option parse opt c"] option_fault_Some [of parse opt f r c] Some show ?thesis
      by (simp split: option.split)
  qed
qed (simp split: option.split)

lemma newClient_configErr:
  "cl_configErr (newClient parse base hc op ts opts) = (case ts of
     None \<Rightarrow> Some \<lparr>ae_Op = op, ae_Field = ''ts'', ae_Reason = ''token source must not be nil''\<rparr>
   | Some _ \<Rightarrow> map_option (\<lambda>(f, r). \<lparr>ae_Op = op, ae_Field = f, ae_Reason = r\<rparr>)
       (errFirst (map (option_fault parse) opts)))"
  unfolding newClient_def apply_options_configErr by (simp split: option.split)

section \<open>The invariant of a client\<close>

definition safe_url :: "URL \<Rightarrow> bool" where
  "safe_url u \<longleftrightarrow> (u_Scheme u = ''http'' \<or> u_Scheme u = ''https'') \<and> u_Host u \<noteq> [] \<and>
     \<not> u_has_User u \<and> u_RawQuery u = [] \<and> u_Fragment u = []"

definition client_ok :: "'w Client \<Rightarrow> bool" where
  "client_ok c \<longleftrightarrow> safe_url (cl_baseURL c) \<and> 0 < sint (cl_timeout c) \<and>
     1 \<le> rp_MaxAttempts (cl_retry c) \<and> 0 < sint (rp_MinBackoff (cl_retry c)) \<and>
     sint (rp_MinBackoff (cl_retry c)) \<le> sint (rp_MaxBackoff (cl_retry c))"

lemma client_ok_store [simp]: "client_ok (storeConfigErr f r c) \<longleftrightarrow> client_ok c"
  by (simp add: client_ok_def)

lemma client_ok_configErr [simp]: "client_ok (c\<lparr>cl_configErr := e\<rparr>) \<longleftrightarrow> client_ok c"
  by (simp add: client_ok_def)

lemma apply_option_ok: "client_ok c \<Longrightarrow> client_ok (apply_option parse opt c)"
proof (cases opt)
  case (WithBaseURL raw)
  assume "client_ok c"
  then show ?thesis unfolding WithBaseURL apply_option_def apply_BaseURL_def
    by (auto simp: client_ok_def safe_url_def split: option.split)
next
  case (WithRetryPolicy p)
  assume "client_ok c"
  then show ?thesis unfolding WithRetryPolicy apply_option_def apply_RetryPolicy_def Let_def
    by (auto simp: client_ok_def)
qed (auto simp: apply_option_def split: option.split, auto simp: client_ok_def)

lemma newClient_ok:
  assumes "safe_url base"
  shows "client_ok (newClient parse base hc op ts opts)"
proof -
  have f: "client_ok c \<Longrightarrow> client_ok (foldl (\<lambda>c opt. apply_option parse opt c) c opts)" for c
    by (induction opts arbitrary: c) (simp_all add: apply_option_ok)
  have "sint defaultTimeout = 30000000000" "sint (rp_MinBackoff defaultRetry) = 300000000"
    "sint (rp_MaxBackoff defaultRetry) = 30000000000" "rp_MaxAttempts defaultRetry = 3"
    by code_simp+
  with assms show ?thesis
    unfolding newClient_def by (intro f) (simp add: client_ok_def)
qed

lemma client_ok_policy: "client_ok c \<Longrightarrow> valid_policy (c_Retry (core_of c))"
  by (simp add: client_ok_def valid_policy_def core_of_def)

section \<open>What every operation promises\<close>

text \<open>
  The contract of an operation on a client: with a stored configuration error it returns that error
  and touches nothing, and it never sends more requests than the client's policy allows. Every
  endpoint is interpreted in it.
\<close>

definition attempt_limit :: "'w Client \<Rightarrow> nat" where
  "attempt_limit c = (if cl_retryOff c then 1 else nat (rp_MaxAttempts (cl_retry c)))"

lemma attempts_of_core: "client_ok c \<Longrightarrow> attempts_of (c_Retry (core_of c)) = attempt_limit c"
  by (auto simp: attempts_of_def attempt_limit_def core_of_def client_ok_def)

locale operation =
  fixes run :: "'w Client \<Rightarrow> 'w state \<Rightarrow> (gerr + 'a) \<times> 'w state"
  assumes config_error: "cl_configErr c = Some e \<Longrightarrow>
      (\<exists>a. run c st = (Inl (EArg a), st))"
    and bounded: "client_ok c \<Longrightarrow> run c st = (out, st') \<Longrightarrow>
      \<exists>es. st_trace st' = st_trace st @ es \<and> sends es \<le> attempt_limit c"
begin

lemma config_error_silent: "cl_configErr c = Some e \<Longrightarrow> snd (run c st) = st"
  using config_error [of c e st] by auto

lemma sends_bounded: "client_ok c \<Longrightarrow> sends (st_trace (snd (run c st))) \<le> sends (st_trace st) + attempt_limit c"
  using bounded [of c st "fst (run c st)" "snd (run c st)"] by fastforce

end

lemma Do_bounded:
  assumes "valid_policy (c_Retry c)" and "Do env c zero dec verb path query body st = (out, st')"
  shows "\<exists>es. st_trace st' = st_trace st @ es \<and> sends es \<le> attempts_of (c_Retry c)"
proof -
  have run: "\<exists>es. st_trace st' = st_trace st @ es \<and> sends es \<le> attempts_of (c_Retry c)"
    if x: "execute env c verb path query pl st = (r, st')" for pl r
  proof -
    obtain es fin where t: "st_trace st' = st_trace st @ es"
      and p: "prun (c_Retry c) verb (has_limiter env) (Ready, 0) es fin"
      by (rule execute_is_run [OF assms(1) x])
    from prun_sends [OF p] begun_le [of fin "attempts_of (c_Retry c)"] t show ?thesis
      by (intro exI [of _ es]) linarith
  qed
  from assms(2) show ?thesis
    by (cases rule: Do_cases) (use run in auto)
qed

lemma client_do_bounded:
  assumes "client_ok c" and "client_do env c zero dec verb path query body st = (out, st')"
  shows "\<exists>es. st_trace st' = st_trace st @ es \<and> sends es \<le> attempt_limit c"
  using assms Do_bounded [of "core_of c" "wire_env env c" zero dec verb path query body st out st']
  by (auto simp: client_do_def attempts_of_core client_ok_policy split: option.splits if_splits)

lemma client_do_config_error:
  "cl_configErr c = Some e \<Longrightarrow> client_do env c zero dec verb path query body st = (Inl (EArg e), st)"
  by (simp add: client_do_def)

interpretation do_op: operation "\<lambda>c st. client_do env c zero dec verb path query body st"
  for env zero dec verb path query body
  by unfold_locales (auto simp: client_do_config_error intro: client_do_bounded)

section \<open>Properties\<close>

lemma constructors_store_first:
  "cl_configErr (New parse base hc token opts) =
     (case errFirst (map (option_fault parse) opts) of
        Some (f, r) \<Rightarrow> Some \<lparr>ae_Op = ''ynab.New'', ae_Field = f, ae_Reason = r\<rparr>
      | None \<Rightarrow> if token = [] then Some \<lparr>ae_Op = ''ynab.New'', ae_Field = ''token'', ae_Reason = ''token must not be empty''\<rparr>
               else None)"
  "cl_configErr (NewWithTokenSource parse base hc ts opts) =
     (if ts = None then Some \<lparr>ae_Op = ''ynab.NewWithTokenSource'', ae_Field = ''ts'', ae_Reason = ''token source must not be nil''\<rparr>
      else map_option (\<lambda>(f, r). \<lparr>ae_Op = ''ynab.NewWithTokenSource'', ae_Field = f, ae_Reason = r\<rparr>)
        (errFirst (map (option_fault parse) opts)))"
  by (auto simp: New_def NewWithTokenSource_def newClient_configErr Let_def split: option.split)

text \<open>
  A base URL that ends in a bare question mark has an empty query and \<open>ForceQuery\<close> set; the check does
  not look at that flag, and the path of every request then lands in the query.
\<close>

lemma bare_question_accepted:
  "parse ''http://h/v1?'' = Some \<lparr>u_String = ''http://h/v1?'', u_Scheme = ''http'', u_Host = ''h'', u_has_User = False,
     u_ForceQuery = True, u_RawQuery = [], u_Fragment = []\<rparr> \<Longrightarrow>
   requestURL (core_of (apply_BaseURL parse ''http://h/v1?'' c)) ''user'' [] = ''http://h/v1?/user''"
proof -
  have h: "\<not> HasPrefix ''user'' ''/''" "\<not> HasSuffix ''http://h/v1?'' ''/''" "Values_Encode [] = []" by code_simp+
  assume "parse ''http://h/v1?'' = Some \<lparr>u_String = ''http://h/v1?'', u_Scheme = ''http'', u_Host = ''h'', u_has_User = False,
     u_ForceQuery = True, u_RawQuery = [], u_Fragment = []\<rparr>"
  with h show ?thesis
    by (simp add: apply_BaseURL_def core_of_def requestURL_def TrimSuffix_def TrimPrefix_def Let_def)
qed

text \<open>
  C8: whatever options are given, in whatever order, a client ends up with an absolute http or
  https base URL without credentials, query or fragment, a positive timeout and a valid retry
  policy: a refused option leaves the setting it would have changed as it was.
\<close>

theorem clients_are_ok:
  assumes "safe_url base"
  shows "client_ok (New parse base hc token opts) \<and> client_ok (NewWithTokenSource parse base hc ts opts) \<and>
    valid_policy (c_Retry (core_of (New parse base hc token opts)))"
proof -
  have "client_ok (New parse base hc token opts)"
    using newClient_ok [OF assms, of parse hc "''ynab.New''" "Some (staticToken token)" opts]
    by (auto simp: New_def Let_def)
  then show ?thesis
    by (simp add: client_ok_policy NewWithTokenSource_def newClient_ok [OF assms])
qed

definition example_url :: URL where
  "example_url = \<lparr>u_String = defaultBaseURL, u_Scheme = ''https'', u_Host = ''api.ynab.com'',
     u_has_User = False, u_ForceQuery = False, u_RawQuery = [], u_Fragment = []\<rparr>"

lemma example_url_safe: "safe_url example_url"
  by (simp add: safe_url_def example_url_def)

theorem clients_are_ok_witness:
  "safe_url example_url \<and> client_ok (New (\<lambda>_. None) example_url (env_do script_env) ''t''
     [WithTimeout 0, WithBaseURL ''x'', WithRetryPolicy \<lparr>rp_MaxAttempts = 0, rp_MinBackoff = 5, rp_MaxBackoff = 1, rp_RetryWrites = True\<rparr>])"
  using clients_are_ok [OF example_url_safe] example_url_safe by blast

end
