(* ===== verification/Sync.thy ===== *)
theory Sync
  imports Decoders Client
begin

text \<open>
  \<open>sync.go\<close>: delta cursors, the list options that carry them, the persistable bundle of cursors, and
  \<open>MergeByID\<close>, the fold of a delta batch into a local store. The fold and the query options are two
  instances of one contract: a store of keyed entries replayed change by change.
\<close>

section \<open>Replaying keyed changes\<close>

text \<open>
  \<open>look\<close> reads the store, \<open>step\<close> applies a change, which sets its own key to its own effect (\<open>None\<close>
  removes) and touches nothing else.
\<close>

locale keyed_replay =
  fixes look :: "'s \<Rightarrow> 'k \<Rightarrow> 'v option" and step :: "'s \<Rightarrow> 'e \<Rightarrow> 's"
    and key :: "'e \<Rightarrow> 'k" and effect :: "'e \<Rightarrow> 'v option"
  assumes look_step: "look (step s e) k = (if k = key e then effect e else look s k)"
begin

lemma last_change_wins:
  "look (foldl step s es) k = (case find (\<lambda>e. key e = k) (rev es) of None \<Rightarrow> look s k | Some e \<Rightarrow> effect e)"
proof (induction es rule: rev_induct)
  case (snoc e es)
  then show ?case by (auto simp: look_step)
qed simp

lemma untouched: "k \<notin> key ` set es \<Longrightarrow> look (foldl step s es) k = look s k"
  by (induction es arbitrary: s) (auto simp: look_step)

lemma find_key_None: "find (\<lambda>e. key e = k) es = None \<longleftrightarrow> k \<notin> key ` set es"
  by (auto simp: find_None_iff)

lemma replay_twice: "look (foldl step (foldl step s es) es) k = look (foldl step s es) k"
  unfolding last_change_wins [of "foldl step s es"] by (simp add: last_change_wins split: option.split)

text \<open>Only the last change of each key matters, so two histories that agree on those converge.\<close>

lemma converge:
  assumes "\<And>k. find (\<lambda>e. key e = k) (rev es) = find (\<lambda>e. key e = k) (rev es')"
  shows "look (foldl step s es) k = look (foldl step s es') k"
  by (simp add: last_change_wins assms)

end

section \<open>Cursors and list options\<close>

type_synonym ServerKnowledge = i64

datatype ListOption = NoListOption | Since ServerKnowledge

definition apply_list_option :: "url_values \<Rightarrow> ListOption \<Rightarrow> url_values" where
  "apply_list_option q opt = (case opt of
     NoListOption \<Rightarrow> q
   | Since k \<Rightarrow> Values_Set ''last_knowledge_of_server'' (dec_int (sint k)) q)"

definition applyListOptions :: "url_values \<Rightarrow> ListOption list \<Rightarrow> url_values" where
  "applyListOptions q opts = foldl apply_list_option q opts"

interpretation query: keyed_replay "\<lambda>q k. map_of q k" "\<lambda>q (k, v). Values_Set k v q" fst "\<lambda>kv. Some [snd kv]"
  by unfold_locales (auto simp: Values_Set_def update_conv')

section \<open>The persistable cursors\<close>

record SyncState =
  sy_PlanID :: string
  sy_Plan :: ServerKnowledge
  sy_Accounts :: ServerKnowledge
  sy_Categories :: ServerKnowledge
  sy_Months :: ServerKnowledge
  sy_Payees :: ServerKnowledge
  sy_Transactions :: ServerKnowledge
  sy_Scheduled :: ServerKnowledge

definition zero_SyncState :: SyncState where
  "zero_SyncState = \<lparr>sy_PlanID = [], sy_Plan = 0, sy_Accounts = 0, sy_Categories = 0, sy_Months = 0,
     sy_Payees = 0, sy_Transactions = 0, sy_Scheduled = 0\<rparr>"

definition cursor_field :: "string \<Rightarrow> ServerKnowledge \<Rightarrow> (string \<times> json) list" where
  "cursor_field k c = (if c = 0 then [] else [(k, json_int c)])"

definition SyncState_json :: "SyncState \<Rightarrow> json" where
  "SyncState_json s = JObj
     (plain_field ''plan_id'' (JStr (sy_PlanID s)) @ cursor_field ''plan'' (sy_Plan s)
      @ cursor_field ''accounts'' (sy_Accounts s) @ cursor_field ''categories'' (sy_Categories s)
      @ cursor_field ''months'' (sy_Months s) @ cursor_field ''payees'' (sy_Payees s)
      @ cursor_field ''transactions'' (sy_Transactions s) @ cursor_field ''scheduled'' (sy_Scheduled s))"

definition SyncState_fields :: "(string \<times> SyncState decoder) list" where
  "SyncState_fields =
     [field ''plan_id'' sy_PlanID (\<lambda>a s. s\<lparr>sy_PlanID := a\<rparr>) decode_string,
      field ''plan'' sy_Plan (\<lambda>a s. s\<lparr>sy_Plan := a\<rparr>) decode_int64,
      field ''accounts'' sy_Accounts (\<lambda>a s. s\<lparr>sy_Accounts := a\<rparr>) decode_int64,
      field ''categories'' sy_Categories (\<lambda>a s. s\<lparr>sy_Categories := a\<rparr>) decode_int64,
      field ''months'' sy_Months (\<lambda>a s. s\<lparr>sy_Months := a\<rparr>) decode_int64,
      field ''payees'' sy_Payees (\<lambda>a s. s\<lparr>sy_Payees := a\<rparr>) decode_int64,
      field ''transactions'' sy_Transactions (\<lambda>a s. s\<lparr>sy_Transactions := a\<rparr>) decode_int64,
      field ''scheduled'' sy_Scheduled (\<lambda>a s. s\<lparr>sy_Scheduled := a\<rparr>) decode_int64]"

lemma sync_keys:
  "fold_key ''plan_id'' = ''plan_id''" "fold_key ''plan'' = ''plan''"
  "fold_key ''accounts'' = ''accounts''" "fold_key ''categories'' = ''categories''"
  "fold_key ''months'' = ''months''" "fold_key ''payees'' = ''payees''"
  "fold_key ''transactions'' = ''transactions''" "fold_key ''scheduled'' = ''scheduled''"
  by code_simp+

lemma decode_cursor_field:
  assumes "map_of fs (fold_key k) = Some (snd (field k get put decode_int64))"
    and "get x = 0" and "put (get x) x = x"
  shows "foldl (decode_member fs) (Some x) (cursor_field k c) = Some (put c x)"
proof (cases "c = 0")
  case True
  then show ?thesis using assms(2,3) by (simp add: cursor_field_def)
next
  case False
  then show ?thesis using assms(1) by (simp add: cursor_field_def decode_member_def field_def)
qed

lemma SyncState_fields_lookup:
  "map_of SyncState_fields (fold_key ''plan'') = Some (snd (field ''plan'' sy_Plan (\<lambda>a s. s\<lparr>sy_Plan := a\<rparr>) decode_int64))"
  "map_of SyncState_fields (fold_key ''accounts'') = Some (snd (field ''accounts'' sy_Accounts (\<lambda>a s. s\<lparr>sy_Accounts := a\<rparr>) decode_int64))"
  "map_of SyncState_fields (fold_key ''categories'') = Some (snd (field ''categories'' sy_Categories (\<lambda>a s. s\<lparr>sy_Categories := a\<rparr>) decode_int64))"
  "map_of SyncState_fields (fold_key ''months'') = Some (snd (field ''months'' sy_Months (\<lambda>a s. s\<lparr>sy_Months := a\<rparr>) decode_int64))"
  "map_of SyncState_fields (fold_key ''payees'') = Some (snd (field ''payees'' sy_Payees (\<lambda>a s. s\<lparr>sy_Payees := a\<rparr>) decode_int64))"
  "map_of SyncState_fields (fold_key ''transactions'') = Some (snd (field ''transactions'' sy_Transactions (\<lambda>a s. s\<lparr>sy_Transactions := a\<rparr>) decode_int64))"
  "map_of SyncState_fields (fold_key ''scheduled'') = Some (snd (field ''scheduled'' sy_Scheduled (\<lambda>a s. s\<lparr>sy_Scheduled := a\<rparr>) decode_int64))"
  by (simp_all add: SyncState_fields_def field_def sync_keys)

lemmas decode_cursors = decode_cursor_field [OF SyncState_fields_lookup(1)]
  decode_cursor_field [OF SyncState_fields_lookup(2)] decode_cursor_field [OF SyncState_fields_lookup(3)]
  decode_cursor_field [OF SyncState_fields_lookup(4)] decode_cursor_field [OF SyncState_fields_lookup(5)]
  decode_cursor_field [OF SyncState_fields_lookup(6)] decode_cursor_field [OF SyncState_fields_lookup(7)]

lemma SyncState_json_decode:
  "decode_struct SyncState_fields (SyncState_json s) zero_SyncState = Some s"
proof -
  have "decode_member SyncState_fields (Some zero_SyncState) (''plan_id'', JStr p) =
      Some (zero_SyncState\<lparr>sy_PlanID := p\<rparr>)" for p
    by (simp add: decode_member_def SyncState_fields_def field_def sync_keys)
  then show ?thesis
    by (simp add: decode_struct_def SyncState_json_def plain_field_def decode_cursors zero_SyncState_def)
qed

section \<open>Merging a delta\<close>

definition merge_step :: "('a \<Rightarrow> string) \<Rightarrow> ('a \<Rightarrow> bool) \<Rightarrow> (string \<rightharpoonup> 'a) \<Rightarrow> 'a \<Rightarrow> (string \<rightharpoonup> 'a)" where
  "merge_step SyncID IsDeleted local change =
     (if IsDeleted change then local(SyncID change := None) else local(SyncID change \<mapsto> change))"

text \<open>A nil map is \<open>None\<close>; the result never is.\<close>

definition MergeByID ::
  "('a \<Rightarrow> string) \<Rightarrow> ('a \<Rightarrow> bool) \<Rightarrow> (string \<rightharpoonup> 'a) option \<Rightarrow> 'a list \<Rightarrow> (string \<rightharpoonup> 'a) option"
where
  "MergeByID SyncID IsDeleted local changes =
     Some (foldl (merge_step SyncID IsDeleted) (case local of None \<Rightarrow> Map.empty | Some m \<Rightarrow> m) changes)"

definition merge_effect :: "('a \<Rightarrow> bool) \<Rightarrow> 'a \<Rightarrow> 'a option" where
  "merge_effect IsDeleted c = (if IsDeleted c then None else Some c)"

interpretation merge: keyed_replay "\<lambda>m. m" "merge_step SyncID IsDeleted" SyncID "merge_effect IsDeleted"
  for SyncID :: "'a \<Rightarrow> string" and IsDeleted :: "'a \<Rightarrow> bool"
  by unfold_locales (simp add: merge_step_def merge_effect_def)

definition store_of :: "(string \<rightharpoonup> 'a) option \<Rightarrow> (string \<rightharpoonup> 'a)" where
  "store_of local = (case local of None \<Rightarrow> Map.empty | Some m \<Rightarrow> m)"

lemma store_of_MergeByID: "store_of (MergeByID sid del local cs) = foldl (merge_step sid del) (store_of local) cs"
  by (simp add: store_of_def MergeByID_def)

lemma MergeByID_lookup:
  "store_of (MergeByID sid del local cs) k =
     (case find (\<lambda>c. sid c = k) (rev cs) of None \<Rightarrow> store_of local k | Some c \<Rightarrow> if del c then None else Some c)"
  unfolding store_of_MergeByID merge.last_change_wins
  by (simp only: merge_effect_def [abs_def])

text \<open>Every entry of a store sits under its own id and is no tombstone.\<close>

definition store_ok :: "('a \<Rightarrow> string) \<Rightarrow> ('a \<Rightarrow> bool) \<Rightarrow> (string \<rightharpoonup> 'a) \<Rightarrow> bool" where
  "store_ok sid del m \<longleftrightarrow> (\<forall>k x. m k = Some x \<longrightarrow> sid x = k \<and> \<not> del x)"

lemma merge_step_ok: "store_ok sid del m \<Longrightarrow> store_ok sid del (merge_step sid del m c)"
  by (simp add: store_ok_def merge_step_def)

lemma merge_store_ok: "store_ok sid del m \<Longrightarrow> store_ok sid del (foldl (merge_step sid del) m cs)"
  by (induction cs arbitrary: m) (simp_all add: merge_step_ok)

section \<open>Properties\<close>

text \<open>
  C16: merging is last writer wins, per id. After \<open>MergeByID\<close> an id holds what the last change
  carrying it says (nothing when that change is a tombstone), and what it held before when no change
  carries it; merging batch after batch is merging them in one go, and merging a batch twice is
  merging it once, so re-reading from an old cursor is harmless.
\<close>

theorem MergeByID_last_writer_wins:
  "store_of (MergeByID sid del local cs) k =
     (case find (\<lambda>c. sid c = k) (rev cs) of None \<Rightarrow> store_of local k
      | Some c \<Rightarrow> if del c then None else Some c) \<and>
   MergeByID sid del (MergeByID sid del local cs) ds = MergeByID sid del local (cs @ ds) \<and>
   MergeByID sid del (MergeByID sid del local cs) cs = MergeByID sid del local cs"
proof -
  have "foldl (merge_step sid del) (foldl (merge_step sid del) m cs) cs = foldl (merge_step sid del) m cs" for m
    by (rule ext) (rule merge.replay_twice)
  then show ?thesis unfolding MergeByID_lookup by (simp add: MergeByID_def)
qed

text \<open>
  The store invariant: from an empty store on, whatever batches are merged, every entry sits
  under its own id and no tombstone is ever kept.
\<close>

theorem MergeByID_invariant:
  assumes "store_ok sid del (store_of local)"
  shows "store_ok sid del (store_of (MergeByID sid del local cs)) \<and>
    store_ok sid del (store_of (MergeByID sid del None cs))"
proof -
  have "store_ok sid del Map.empty" by (simp add: store_ok_def)
  then show ?thesis
    using merge_store_ok [OF assms, of cs] merge_store_ok [of sid del Map.empty cs]
    unfolding store_of_MergeByID by (simp add: store_of_def)
qed

theorem MergeByID_invariant_witness:
  "store_ok fst snd (store_of (MergeByID fst snd (Some [''a'' \<mapsto> (''a'', False)]) [(''b'', False), (''a'', True)]))"
proof -
  have "store_ok fst snd (store_of (Some [''a'' \<mapsto> (''a'', False)]))"
    by (simp add: store_ok_def store_of_def)
  from MergeByID_invariant [OF this] show ?thesis by blast
qed

end
