(* ===== verification/Endpoint.thy ===== *)
theory Endpoint
  imports Sync
begin

text \<open>
  What every operation of \<open>plan.go\<close> and of the services shares: the plan handle, the shapes of the
  response payloads, and the contract of an endpoint. An endpoint keeps the promises of an
  operation and talks to one route only: every request it sends has the same method, URL and body,
  and with an empty id among its path segments it sends nothing at all. The contract is proved once
  for \<open>do\<close> and carried over to pre-flight checks and folded answers; each endpoint of the services
  is an interpretation of it.
\<close>

section \<open>The plan handle\<close>

text \<open>\<open>Client.Plan\<close>: the bound id and the client; the service handles hold nothing else.\<close>

record 'w Plan =
  p_id :: string
  p_client :: "'w Client"

definition Client_Plan :: "'w Client \<Rightarrow> string \<Rightarrow> 'w Plan" where
  "Client_Plan c pid = \<lparr>p_id = pid, p_client = c\<rparr>"

definition Plan_ID :: "'w Plan \<Rightarrow> string" where
  "Plan_ID p = p_id p"

abbreviation plan_path :: "'w Plan \<Rightarrow> string list \<Rightarrow> string" where
  "plan_path p segments \<equiv> Plan_path (p_id p) segments"

definition PlanIDLastUsed :: string where "PlanIDLastUsed = ''last-used''"
definition PlanIDDefault :: string where "PlanIDDefault = ''default''"

section \<open>Payload shapes\<close>

text \<open>
  The anonymous payload structs: one member, or one member beside \<open>server_knowledge\<close>. A missing
  member leaves Go's zero value.
\<close>

definition only :: "string \<Rightarrow> 'a decoder \<Rightarrow> 'a decoder" where
  "only name dec = decode_struct [field name id (\<lambda>a _. a) dec]"

definition with_knowledge :: "string \<Rightarrow> 'a decoder \<Rightarrow> ('a \<times> ServerKnowledge) decoder" where
  "with_knowledge name dec = decode_struct
     [field name fst (\<lambda>a p. (a, snd p)) dec,
      field ''server_knowledge'' snd (\<lambda>k p. (fst p, k)) decode_int64]"

abbreviation decode_record :: "'a \<Rightarrow> (string \<times> 'a decoder) list \<Rightarrow> 'a option decoder" where
  "decode_record zero fs \<equiv> decode_pointer zero (decode_struct fs)"

abbreviation decode_records :: "'a \<Rightarrow> (string \<times> 'a decoder) list \<Rightarrow> 'a list option decoder" where
  "decode_records zero fs \<equiv> decode_slice zero (decode_struct fs)"

text \<open>
  The write bodies: \<open>body{k: v}\<close>, and the one the group and payee writes share.
\<close>

definition body :: "string \<Rightarrow> json \<Rightarrow> payload" where
  "body k v = Some (Inr (JObj [(k, v)]))"

definition nameOnlyBody :: "string \<Rightarrow> string \<Rightarrow> payload" where
  "nameOnlyBody wrapper name = body wrapper (JObj [(''name'', JStr name)])"

section \<open>Pre-flight checks\<close>

definition checked :: "ArgumentError option \<Rightarrow> ('w state \<Rightarrow> (gerr + 'a) \<times> 'w state) \<Rightarrow> 'w state \<Rightarrow> (gerr + 'a) \<times> 'w state" where
  "checked chk call st = (case chk of Some e \<Rightarrow> (Inl (EArg e), st) | None \<Rightarrow> call st)"

definition month_check :: "string \<Rightarrow> Month \<Rightarrow> ArgumentError option" where
  "month_check op m = (if Month_IsZero m then Some (zeroMonthError op) else None)"

lemma checked_simps [simp]:
  "checked (Some e) call st = (Inl (EArg e), st)" "checked None call st = call st"
  by (simp_all add: checked_def)

section \<open>Events on one route\<close>

definition on_route :: "Core \<Rightarrow> string \<Rightarrow> string \<Rightarrow> url_values \<Rightarrow> gerr + string option \<Rightarrow> event \<Rightarrow> bool" where
  "on_route c verb path query wire ev = (case ev of
     EvSend req _ \<Rightarrow> rq_method req = verb \<and> rq_url req = requestURL c path query \<and> wire = Inr (rq_payload req)
   | _ \<Rightarrow> True)"

definition grows :: "(event \<Rightarrow> bool) \<Rightarrow> 'w state \<Rightarrow> 'w state \<Rightarrow> bool" where
  "grows P st st' \<longleftrightarrow> (\<exists>es. st_trace st' = st_trace st @ es \<and> list_all P es)"

lemma grows_refl [simp]: "grows P st st"
  by (simp add: grows_def)

lemma grows_world [simp]: "grows P (st\<lparr>st_world := w\<rparr>) st' \<longleftrightarrow> grows P st st'"
  by (simp add: grows_def)

lemma grows_trans: "grows P a b \<Longrightarrow> grows P b c \<Longrightarrow> grows P a c"
  by (auto simp: grows_def)

lemma grows_record [simp]: "P ev \<Longrightarrow> grows P st (record_event ev w st)"
  by (simp add: grows_def record_event_def)

lemma grows_sleep:
  "sleeper_sleep env d st = (e, st') \<Longrightarrow> grows (on_route c verb path query wire) st st'"
  by (auto simp: sleeper_sleep_def on_route_def split: if_splits prod.splits)

lemma grows_backoff:
  "backoff env c i out st = (e, st') \<Longrightarrow> grows (on_route c verb path query wire) st st'"
  by (auto simp: backoff_def split: if_splits prod.splits dest: grows_sleep)

lemma grows_attempt:
  assumes "attempt env c verb path query pl st = (out, st')"
  shows "grows (on_route c verb path query (Inr pl)) st st'"
proof -
  let ?g = "grows (on_route c verb path query (Inr pl))"
  obtain e st1 where w: "run_wait env c st = (e, st1)" by fastforce
  then have g1: "?g st st1" by (auto simp: run_wait_def on_route_def split: option.splits prod.splits)
  obtain t st2 where t: "run_token env c st1 = (t, st2)" by fastforce
  then have g2: "?g st1 st2" by (auto simp: run_token_def on_route_def split: sum.splits prod.splits)
  have g3: "?g st2 st3" if "run_send env c pre (build_request c verb (requestURL c path query) tok pl) st2 = (r, st3)" for pre tok r st3
    using that by (auto simp: run_send_def on_route_def build_request_def Let_def split: prod.splits)
  show ?thesis
    using assms w t g1 grows_trans [OF g1 g2] grows_trans [OF grows_trans [OF g1 g2] g3]
    by (auto simp: attempt_def Let_def split: option.splits sum.splits prod.splits)
qed

lemma grows_exec_loop:
  "exec_loop env c verb path query pl n i out st = (r, st') \<Longrightarrow> grows (on_route c verb path query (Inr pl)) st st'"
proof (induction n arbitrary: i out st)
  case (Suc n)
  let ?g = "grows (on_route c verb path query (Inr pl))"
  obtain e st1 where b: "backoff env c i out st = (e, st1)" by fastforce
  obtain out' st2 where a: "attempt env c verb path query pl st1 = (out', st2)" by fastforce
  have g: "?g st st1" "?g st st2"
    using grows_backoff [OF b] grows_trans [OF grows_backoff [OF b] grows_attempt [OF a]] by simp_all
  show ?case
    using Suc.prems b a g grows_trans [OF g(2) Suc.IH]
    by (auto split: option.splits prod.splits if_splits)
qed simp

lemma grows_execute:
  "execute env c verb path query pl st = (r, st') \<Longrightarrow> grows (on_route c verb path query (Inr pl)) st st'"
  unfolding execute_def by (rule grows_exec_loop)

section \<open>The contract of an endpoint\<close>

lemma grows_Do:
  assumes "Do env c zero dec verb path query pl st = (out, st')"
  shows "grows (on_route c verb path query (marshalBody env pl)) st st'"
  using assms by (cases rule: Do_cases) (auto dest: grows_execute)

lemma marshalBody_env [simp]: "marshalBody (wire_env env c) pl = marshalBody env pl"
  by (auto simp: marshalBody_def wire_env_def split: option.split sum.split)

text \<open>\<open>wire\<close> is what the body encodes to; a body that does not encode is never sent.\<close>

locale endpoint = operation run
  for run :: "'w Client \<Rightarrow> 'w state \<Rightarrow> (gerr + 'a) \<times> 'w state" +
  fixes verb :: string and path :: string and query :: url_values and wire :: "gerr + string option"
  assumes route: "run c st = (out, st') \<Longrightarrow> grows (on_route (core_of c) verb path query wire) st st'"
    and guarded: "empty_segment path \<Longrightarrow> \<exists>a. run c st = (Inl (EArg a), st)"
begin

text \<open>Every request of a call goes to the endpoint's route.\<close>

lemma requests_on_route:
  assumes "st_trace st = []" and "EvSend req out \<in> set (st_trace (snd (run c st)))"
  shows "rq_method req = verb \<and> rq_url req = requestURL (core_of c) path query \<and> wire = Inr (rq_payload req)"
  using route [of c st "fst (run c st)" "snd (run c st)"] assms
  by (auto simp: grows_def list_all_iff on_route_def split: event.splits)

lemma empty_id_silent: "empty_segment path \<Longrightarrow> snd (run c st) = st \<and> isl (fst (run c st))"
  using guarded [of c st] by auto

lemma sent_nonempty:
  assumes "st_trace st = []" and "EvSend req out \<in> set (st_trace (snd (run c st)))"
  shows "\<not> empty_segment path"
  using empty_id_silent [of c st] assms by auto

text \<open>The three promises in one.\<close>

lemma contract:
  assumes "client_ok c" and "st_trace st = []"
  shows "sends (st_trace (snd (run c st))) \<le> attempt_limit c \<and>
    (\<forall>req out. EvSend req out \<in> set (st_trace (snd (run c st))) \<longrightarrow> rq_method req = verb \<and>
       rq_url req = requestURL (core_of c) path query \<and> wire = Inr (rq_payload req)) \<and>
    (cl_configErr c \<noteq> None \<or> empty_segment path \<longrightarrow> snd (run c st) = st \<and> isl (fst (run c st)))"
proof (intro conjI impI allI)
  show "sends (st_trace (snd (run c st))) \<le> attempt_limit c"
    using sends_bounded [OF assms(1), of st] assms(2) by simp
next
  fix req out assume "EvSend req out \<in> set (st_trace (snd (run c st)))"
  from requests_on_route [OF assms(2) this]
  show "rq_method req = verb" "rq_url req = requestURL (core_of c) path query" "wire = Inr (rq_payload req)"
    by simp_all
next
  assume h: "cl_configErr c \<noteq> None \<or> empty_segment path"
  then show "snd (run c st) = st" "isl (fst (run c st))"
    using empty_id_silent [of c st] config_error [of c _ st] config_error_silent [of c _ st] by auto
qed

end

lemma endpoint_do:
  "endpoint (\<lambda>c. client_do env c zero dec verb path query pl) verb path query (marshalBody env pl)"
proof unfold_locales
  fix c :: "'a Client" and st :: "'a state" and out st'
  assume "client_do env c zero dec verb path query pl st = (out, st')"
  then show "grows (on_route (core_of c) verb path query (marshalBody env pl)) st st'"
    using grows_Do [of "wire_env env c" "core_of c" zero dec verb path query pl st out st']
    by (auto simp: client_do_def split: option.splits if_splits)
next
  fix c :: "'a Client" and st :: "'a state"
  assume "empty_segment path"
  then show "\<exists>a. client_do env c zero dec verb path query pl st = (Inl (EArg a), st)"
    by (auto simp: client_do_def split: option.split)
qed


text \<open>A pre-flight check in front of a call, and an answer folded after it, keep the contract.\<close>

lemma endpoint_checked:
  assumes "endpoint run verb path query pl"
  shows "endpoint (\<lambda>c. checked chk (run c)) verb path query pl"
proof -
  note o = endpoint.axioms(1) [OF assms]
  show ?thesis
  proof (unfold_locales, goal_cases)
    case (1 c e st)
    then show ?case using operation.config_error [OF o] by (cases chk) auto
  next
    case (2 c st out st')
    then show ?case using operation.bounded [OF o] by (cases chk) auto
  next
    case (3 c st out st')
    then show ?case using endpoint.route [OF assms] by (cases chk) auto
  next
    case (4 c st)
    then show ?case using endpoint.guarded [OF assms] by (cases chk) auto
  qed
qed

lemma endpoint_answer:
  assumes "endpoint run verb path query pl" and "\<And>a. post (Inl (EArg a)) = Inl (EArg a)"
  shows "endpoint (\<lambda>c st. map_prod post id (run c st)) verb path query pl"
proof -
  note o = endpoint.axioms(1) [OF assms(1)]
  show ?thesis
  proof (unfold_locales, goal_cases)
    case (1 c e st)
    then show ?case using operation.config_error [OF o 1] assms(2) by (metis id_apply map_prod_simp)
  next
    case (2 c st out st')
    obtain out0 where "run c st = (out0, st')" using 2 by (cases "run c st") auto
    then show ?case using operation.bounded [OF o 2(1)] by blast
  next
    case (3 c st out st')
    obtain out0 where "run c st = (out0, st')" using 3 by (cases "run c st") auto
    then show ?case using endpoint.route [OF assms(1)] by blast
  next
    case (4 c st)
    then show ?case using endpoint.guarded [OF assms(1) 4] assms(2) by (metis id_apply map_prod_simp)
  qed
qed

lemmas endpoint_intros = endpoint_do endpoint_checked [OF endpoint_do]

section \<open>Reading a payload\<close>

lemma payload_keys: "fold_key ''data'' = ''data''" "fold_key ''server_knowledge'' = ''server_knowledge''"
  by code_simp+

lemma decodeData_with_knowledge:
  assumes "fold_key name = name" and "name \<noteq> ''server_knowledge''" and "dec v z = Some a"
  shows "decodeData (z, 0) (with_knowledge name dec)
    (Some (JObj [(''data'', JObj [(name, v), (''server_knowledge'', json_int k)])])) = Inr (a, k)"
  using assms payload_keys
  by (simp add: decodeData_def decode_struct_single decode_pointer_def with_knowledge_def decode_struct_def
      decode_member_def field_def)

section \<open>A call answered at once\<close>

text \<open>A call whose first answer is complete and decodes.\<close>

lemma answered_at_once:
  assumes "cl_configErr c = None" "cl_limiter c = None" "cl_tokenSource c = staticToken t"
    and "\<And>verb u. env_new_request env verb u = None" and "\<not> empty_segment path"
    and "\<And>d req w. cl_httpClient c d req w = (Inr rp, w)"
    and "200 \<le> rp_status rp" "rp_status rp \<le> 299" "rp_failure rp = None" "length (rp_body rp) < 134217728"
    and "env_json_value env (rp_body rp) = Some v" and "decodeData zero dec (Some v) = Inr x"
  shows "fst (client_do env c zero dec verb path query None st) = Inr x"
proof -
  let ?e = "wire_env env c" and ?c = "core_of c"
  have l: "sint (defaultMaxResponseBytes + 1) = 134217729" "sint defaultMaxResponseBytes = 134217728" by code_simp+
  have "attempts_of (c_Retry ?c) \<noteq> 0" by (simp add: attempts_of_def)
  then obtain n where n: "attempts_of (c_Retry ?c) = Suc n" using not0_implies_Suc by blast
  have "fst (execute ?e ?c verb path query None st) =
      Inr \<lparr>r_status = rp_status rp, r_body = rp_body rp, r_header = rp_header rp\<rparr>"
    using l assms(2-10) unfolding execute_def n
    by (simp add: backoff_def attempt_def run_wait_def staticToken_def wire_env_def core_of_def
        run_token_def run_send_def read_response_def read_limit_def ReadAll_limited_def classify_def Let_def record_event_def)
  then obtain st' where x: "execute ?e ?c verb path query None st =
      (Inr \<lparr>r_status = rp_status rp, r_body = rp_body rp, r_header = rp_header rp\<rparr>, st')"
    by (metis prod.collapse)
  have j: "env_json_value ?e (rp_body rp) = Some v" using assms(11) by (simp add: wire_env_def)
  show ?thesis
    using Do_executed [OF _ x, of None zero dec] assms(1,5,7,8,12) j
    by (simp add: client_do_def marshalBody_def)
qed

section \<open>A scripted client\<close>

definition example_client :: "(gerr + response) list Client" where
  "example_client = New (\<lambda>_. None) example_url (env_do script_env) ''t'' []"

text \<open>A call in the scripted world that is answered at once, with a body that decodes to \<open>v\<close>.\<close>

definition answering :: "json \<Rightarrow> (gerr + response) list env" where
  "answering v = script_env\<lparr>env_json_value := \<lambda>_. Some v\<rparr>"

definition scripted :: "int \<Rightarrow> (gerr + response) list state" where
  "scripted n = \<lparr>st_world = [script_answer n], st_trace = []\<rparr>"

lemma scripted_call_at:
  fixes f g defines "e \<equiv> script_env\<lparr>env_json_value := f, env_json_text := g\<rparr>"
  assumes "200 \<le> n" "n \<le> 299" and "\<not> empty_segment path"
    and "f ''{}'' = Some v" and "decodeData zero dec (Some v) = Inr x"
  shows "fst (client_do e example_client zero dec verb path query None (scripted n)) = Inr x"
proof -
  have c: "cl_configErr example_client = None" "core_of example_client =
    \<lparr>c_BaseURL = defaultBaseURL, c_UserAgent = ''pkg.venceslau.dev/ynab/'' @ Version, c_Timeout = defaultTimeout,
     c_Retry = \<lparr>rc_MaxAttempts = 3, rc_MinBackoff = rp_MinBackoff defaultRetry, rc_MaxBackoff = rp_MaxBackoff defaultRetry,
       rc_RetryWrites = False, rc_Disabled = False\<rparr>, c_MaxResponseBytes = 0\<rparr>"
    "wire_env e example_client = e\<lparr>env_wait := None, env_token := staticToken ''t''\<rparr>"
    by (simp_all add: example_client_def New_def newClient_def core_of_def example_url_def Let_def wire_env_def
        e_def script_env_def defaultRetry_def)
  have l: "sint (defaultMaxResponseBytes + 1) = 134217729" "sint defaultMaxResponseBytes = 134217728" by code_simp+
  have "fst (execute (wire_env e example_client) (core_of example_client) verb path query None (scripted n)) =
      Inr \<lparr>r_status = n, r_body = ''{}'', r_header = []\<rparr>"
    unfolding c using l assms(2,3)
    by (simp add: execute_def attempts_of_def backoff_def attempt_def run_wait_def scripted_def staticToken_def
        run_token_def run_send_def script_env_def script_answer_def read_response_def read_limit_def e_def
        ReadAll_limited_def classify_def numeral_3_eq_3 Let_def record_event_def)
  then obtain st' where x: "execute (wire_env e example_client) (core_of example_client) verb path query None (scripted n) =
      (Inr \<lparr>r_status = n, r_body = ''{}'', r_header = []\<rparr>, st')"
    by (metis prod.collapse)
  have j: "env_json_value (wire_env e example_client) ''{}'' = Some v"
    using assms(5) by (simp add: wire_env_def e_def)
  show ?thesis
    using Do_executed [OF _ x, of None zero dec] assms(2-) c(1) j
    by (simp add: client_do_def marshalBody_def)
qed

lemma scripted_call:
  assumes "200 \<le> n" "n \<le> 299" and "\<not> empty_segment path"
    and "decodeData zero dec (Some v) = Inr x"
  shows "fst (client_do (answering v) example_client zero dec verb path query None (scripted n)) = Inr x"
proof -
  have "answering v = script_env\<lparr>env_json_value := \<lambda>_. Some v, env_json_text := env_json_text script_env\<rparr>"
    by (simp add: answering_def)
  then show ?thesis by (simp only:) (rule scripted_call_at [OF assms(1-3) refl assms(4)])
qed

end
