(* ===== verification/Accounts.thy ===== *)
theory Accounts
  imports Endpoint
begin

text \<open>
  \<open>accounts.go\<close>: the account models with the table that decodes each, their types, and the three
  endpoints. An embedded base struct is the parent of an extended record, so its table and its
  \<open>SyncID\<close> serve both.
\<close>

section \<open>Types\<close>

definition AccountType_values :: "string list" where
  "AccountType_values =
     [''checking'', ''savings'', ''cash'', ''creditCard'', ''lineOfCredit'', ''otherAsset'',
     ''otherLiability'', ''mortgage'', ''autoLoan'', ''studentLoan'', ''personalLoan'',
     ''medicalDebt'', ''otherDebt'']"

definition AccountType_Valid :: "string \<Rightarrow> bool" where
  "AccountType_Valid t = List.member AccountType_values t"

definition AccountSpecType_values :: "string list" where
  "AccountSpecType_values =
     [''checking'', ''savings'', ''cash'', ''creditCard'', ''otherAsset'', ''otherLiability'']"

definition AccountSpecType_Valid :: "string \<Rightarrow> bool" where
  "AccountSpecType_Valid t = List.member AccountSpecType_values t"

type_synonym LoanAccountPeriodicValue = "(string \<times> i64) list option"

section \<open>Models\<close>

record AccountBase =
  ab_ID :: string
  ab_Name :: string
  ab_Type :: string
  ab_OnBudget :: bool
  ab_Closed :: bool
  ab_Note :: "string option"
  ab_Balance :: i64
  ab_ClearedBalance :: i64
  ab_UnclearedBalance :: i64
  ab_TransferPayeeID :: "string option"
  ab_DirectImportLinked :: bool
  ab_DirectImportInError :: bool
  ab_LastReconciledAt :: "int option"
  ab_DebtOriginalBalance :: "i64 option"
  ab_DebtInterestRates :: LoanAccountPeriodicValue
  ab_DebtMinimumPayments :: LoanAccountPeriodicValue
  ab_DebtEscrowAmounts :: LoanAccountPeriodicValue
  ab_Deleted :: bool

definition zero_AccountBase :: AccountBase where
  "zero_AccountBase = \<lparr>ab_ID = [], ab_Name = [], ab_Type = [], ab_OnBudget = False,
     ab_Closed = False, ab_Note = None, ab_Balance = 0, ab_ClearedBalance = 0, ab_UnclearedBalance = 0,
     ab_TransferPayeeID = None, ab_DirectImportLinked = False, ab_DirectImportInError = False,
     ab_LastReconciledAt = None, ab_DebtOriginalBalance = None, ab_DebtInterestRates = None,
     ab_DebtMinimumPayments = None, ab_DebtEscrowAmounts = None, ab_Deleted = False\<rparr>"

definition AccountBase_fields :: "'w env \<Rightarrow> (string \<times> 'z AccountBase_scheme decoder) list" where
  "AccountBase_fields env =
     [field ''id'' ab_ID (\<lambda>a r. r\<lparr>ab_ID := a\<rparr>) decode_string,
      field ''name'' ab_Name (\<lambda>a r. r\<lparr>ab_Name := a\<rparr>) decode_string,
      field ''type'' ab_Type (\<lambda>a r. r\<lparr>ab_Type := a\<rparr>) decode_string,
      field ''on_budget'' ab_OnBudget (\<lambda>a r. r\<lparr>ab_OnBudget := a\<rparr>) decode_bool,
      field ''closed'' ab_Closed (\<lambda>a r. r\<lparr>ab_Closed := a\<rparr>) decode_bool,
      field ''note'' ab_Note (\<lambda>a r. r\<lparr>ab_Note := a\<rparr>) decode_text_pointer,
      field ''balance'' ab_Balance (\<lambda>a r. r\<lparr>ab_Balance := a\<rparr>) decode_int64,
      field ''cleared_balance'' ab_ClearedBalance (\<lambda>a r. r\<lparr>ab_ClearedBalance := a\<rparr>) decode_int64,
      field ''uncleared_balance'' ab_UnclearedBalance (\<lambda>a r. r\<lparr>ab_UnclearedBalance := a\<rparr>) decode_int64,
      field ''transfer_payee_id'' ab_TransferPayeeID (\<lambda>a r. r\<lparr>ab_TransferPayeeID := a\<rparr>) decode_text_pointer,
      field ''direct_import_linked'' ab_DirectImportLinked (\<lambda>a r. r\<lparr>ab_DirectImportLinked := a\<rparr>) decode_bool,
      field ''direct_import_in_error'' ab_DirectImportInError (\<lambda>a r. r\<lparr>ab_DirectImportInError := a\<rparr>) decode_bool,
      field ''last_reconciled_at'' ab_LastReconciledAt (\<lambda>a r. r\<lparr>ab_LastReconciledAt := a\<rparr>) (decode_time_pointer env),
      field ''debt_original_balance'' ab_DebtOriginalBalance (\<lambda>a r. r\<lparr>ab_DebtOriginalBalance := a\<rparr>) decode_int64_pointer,
      field ''debt_interest_rates'' ab_DebtInterestRates (\<lambda>a r. r\<lparr>ab_DebtInterestRates := a\<rparr>) decode_amounts,
      field ''debt_minimum_payments'' ab_DebtMinimumPayments (\<lambda>a r. r\<lparr>ab_DebtMinimumPayments := a\<rparr>) decode_amounts,
      field ''debt_escrow_amounts'' ab_DebtEscrowAmounts (\<lambda>a r. r\<lparr>ab_DebtEscrowAmounts := a\<rparr>) decode_amounts,
      field ''deleted'' ab_Deleted (\<lambda>a r. r\<lparr>ab_Deleted := a\<rparr>) decode_bool]"

record Account = AccountBase +
  ac_BalanceFormatted :: string
  ac_BalanceCurrency :: string
  ac_ClearedBalanceFormatted :: string
  ac_ClearedBalanceCurrency :: string
  ac_UnclearedBalanceFormatted :: string
  ac_UnclearedBalanceCurrency :: string

definition zero_Account :: Account where
  "zero_Account = \<lparr>ab_ID = [], ab_Name = [], ab_Type = [], ab_OnBudget = False,
     ab_Closed = False, ab_Note = None, ab_Balance = 0, ab_ClearedBalance = 0, ab_UnclearedBalance = 0,
     ab_TransferPayeeID = None, ab_DirectImportLinked = False, ab_DirectImportInError = False,
     ab_LastReconciledAt = None, ab_DebtOriginalBalance = None, ab_DebtInterestRates = None,
     ab_DebtMinimumPayments = None, ab_DebtEscrowAmounts = None, ab_Deleted = False,
     ac_BalanceFormatted = [], ac_BalanceCurrency = ''0'', ac_ClearedBalanceFormatted = [],
     ac_ClearedBalanceCurrency = ''0'', ac_UnclearedBalanceFormatted = [],
     ac_UnclearedBalanceCurrency = ''0''\<rparr>"

definition Account_fields :: "'w env \<Rightarrow> (string \<times> Account decoder) list" where
  "Account_fields env = AccountBase_fields env @
     [field ''balance_formatted'' ac_BalanceFormatted (\<lambda>a r. r\<lparr>ac_BalanceFormatted := a\<rparr>) decode_string,
      field ''balance_currency'' ac_BalanceCurrency (\<lambda>a r. r\<lparr>ac_BalanceCurrency := a\<rparr>) (decode_float env),
      field ''cleared_balance_formatted'' ac_ClearedBalanceFormatted (\<lambda>a r. r\<lparr>ac_ClearedBalanceFormatted := a\<rparr>) decode_string,
      field ''cleared_balance_currency'' ac_ClearedBalanceCurrency (\<lambda>a r. r\<lparr>ac_ClearedBalanceCurrency := a\<rparr>) (decode_float env),
      field ''uncleared_balance_formatted'' ac_UnclearedBalanceFormatted (\<lambda>a r. r\<lparr>ac_UnclearedBalanceFormatted := a\<rparr>) decode_string,
      field ''uncleared_balance_currency'' ac_UnclearedBalanceCurrency (\<lambda>a r. r\<lparr>ac_UnclearedBalanceCurrency := a\<rparr>) (decode_float env)]"

definition AccountBase_SyncID :: "'z AccountBase_scheme \<Rightarrow> string" where
  "AccountBase_SyncID x = ab_ID x"

definition AccountBase_IsDeleted :: "'z AccountBase_scheme \<Rightarrow> bool" where
  "AccountBase_IsDeleted x = ab_Deleted x"

record AccountSpec =
  asp_Name :: string
  asp_Type :: string
  asp_Balance :: i64

definition AccountSpec_members :: "AccountSpec \<Rightarrow> (string \<times> json) list" where
  "AccountSpec_members s =
     plain_field ''name'' (JStr (asp_Name s))
     @ plain_field ''type'' (JStr (asp_Type s))
     @ plain_field ''balance'' (json_int (asp_Balance s))"

definition AccountSpec_json :: "AccountSpec \<Rightarrow> json" where
  "AccountSpec_json s = JObj (AccountSpec_members s)"

section \<open>Endpoints\<close>

definition Accounts_List ::
  "'w env \<Rightarrow> 'w Plan \<Rightarrow> ListOption list \<Rightarrow> 'w state \<Rightarrow> (gerr + Account list option \<times> ServerKnowledge) \<times> 'w state"
where
  "Accounts_List env p opts =
     client_do env (p_client p) (None, 0)
     (with_knowledge ''accounts'' (decode_records zero_Account (Account_fields env))) ''GET''
     (plan_path p [''accounts'']) (applyListOptions [] opts) None"

interpretation accounts_list: endpoint "\<lambda>c. Accounts_List env (Client_Plan c pid) opts"
  "''GET''" "Plan_path pid [''accounts'']" "applyListOptions [] opts" "marshalBody env None"
  for env pid opts
  by (simp add: Accounts_List_def Client_Plan_def endpoint_intros)

definition Accounts_Get ::
  "'w env \<Rightarrow> 'w Plan \<Rightarrow> string \<Rightarrow> 'w state \<Rightarrow> (gerr + Account option) \<times> 'w state"
where
  "Accounts_Get env p accountID =
     client_do env (p_client p) None
     (only ''account'' (decode_record zero_Account (Account_fields env))) ''GET''
     (plan_path p [''accounts'', accountID]) [] None"

interpretation accounts_get: endpoint "\<lambda>c. Accounts_Get env (Client_Plan c pid) accountID"
  "''GET''" "Plan_path pid [''accounts'', accountID]" "[]" "marshalBody env None"
  for env pid accountID
  by (simp add: Accounts_Get_def Client_Plan_def endpoint_intros)

definition Accounts_Create ::
  "'w env \<Rightarrow> 'w Plan \<Rightarrow> AccountSpec \<Rightarrow> 'w state \<Rightarrow> (gerr + Account option) \<times> 'w state"
where
  "Accounts_Create env p spec =
     client_do env (p_client p) None
     (only ''account'' (decode_record zero_Account (Account_fields env))) ''POST''
     (plan_path p [''accounts'']) [] (body ''account'' (AccountSpec_json spec))"

interpretation accounts_create: endpoint "\<lambda>c. Accounts_Create env (Client_Plan c pid) spec"
  "''POST''" "Plan_path pid [''accounts'']" "[]" "marshalBody env (body ''account'' (AccountSpec_json spec))"
  for env pid spec
  by (simp add: Accounts_Create_def Client_Plan_def endpoint_intros)

end
