(* ===== verification/Payees.thy ===== *)
theory Payees
  imports Endpoint
begin

text \<open>
  \<open>payees.go\<close> and \<open>payee_locations.go\<close>: the payee models, the payee endpoints with the name bound
  the writes share, and the location endpoints, which have no delta support.
\<close>

section \<open>Payees\<close>

record Payee =
  py_ID :: string
  py_Name :: string
  py_TransferAccountID :: "string option"
  py_Deleted :: bool

definition zero_Payee :: Payee where
  "zero_Payee = \<lparr>py_ID = [], py_Name = [], py_TransferAccountID = None,
     py_Deleted = False\<rparr>"

definition Payee_fields :: "(string \<times> Payee decoder) list" where
  "Payee_fields =
     [field ''id'' py_ID (\<lambda>a r. r\<lparr>py_ID := a\<rparr>) decode_string,
      field ''name'' py_Name (\<lambda>a r. r\<lparr>py_Name := a\<rparr>) decode_string,
      field ''transfer_account_id'' py_TransferAccountID (\<lambda>a r. r\<lparr>py_TransferAccountID := a\<rparr>) decode_text_pointer,
      field ''deleted'' py_Deleted (\<lambda>a r. r\<lparr>py_Deleted := a\<rparr>) decode_bool]"

definition Payee_SyncID :: "Payee \<Rightarrow> string" where
  "Payee_SyncID x = py_ID x"

definition Payee_IsDeleted :: "Payee \<Rightarrow> bool" where
  "Payee_IsDeleted x = py_Deleted x"

definition payeeNameMax :: nat where "payeeNameMax = 500"

definition Payees_List ::
  "'w env \<Rightarrow> 'w Plan \<Rightarrow> ListOption list \<Rightarrow> 'w state \<Rightarrow> (gerr + Payee list option \<times> ServerKnowledge) \<times> 'w state"
where
  "Payees_List env p opts =
     client_do env (p_client p) (None, 0)
     (with_knowledge ''payees'' (decode_records zero_Payee Payee_fields)) ''GET''
     (plan_path p [''payees'']) (applyListOptions [] opts) None"

interpretation payees_list: endpoint "\<lambda>c. Payees_List env (Client_Plan c pid) opts"
  "''GET''" "Plan_path pid [''payees'']" "applyListOptions [] opts" "marshalBody env None"
  for env pid opts
  by (simp add: Payees_List_def Client_Plan_def endpoint_intros)

definition Payees_Get ::
  "'w env \<Rightarrow> 'w Plan \<Rightarrow> string \<Rightarrow> 'w state \<Rightarrow> (gerr + Payee option) \<times> 'w state"
where
  "Payees_Get env p payeeID =
     client_do env (p_client p) None (only ''payee'' (decode_record zero_Payee Payee_fields)) ''GET''
     (plan_path p [''payees'', payeeID]) [] None"

interpretation payees_get: endpoint "\<lambda>c. Payees_Get env (Client_Plan c pid) payeeID"
  "''GET''" "Plan_path pid [''payees'', payeeID]" "[]" "marshalBody env None"
  for env pid payeeID
  by (simp add: Payees_Get_def Client_Plan_def endpoint_intros)

definition Payees_save ::
  "'w env \<Rightarrow> 'w Plan \<Rightarrow> string \<Rightarrow> string \<Rightarrow> string \<Rightarrow> string \<Rightarrow> 'w state \<Rightarrow>
   (gerr + Payee option \<times> ServerKnowledge) \<times> 'w state"
where
  "Payees_save env p op verb path name = checked (checkRuneMax op ''name'' name payeeNameMax)
     (client_do env (p_client p) (None, 0) (with_knowledge ''payee'' (decode_record zero_Payee Payee_fields))
        verb path [] (nameOnlyBody ''payee'' name))"

definition Payees_Create ::
  "'w env \<Rightarrow> 'w Plan \<Rightarrow> string \<Rightarrow> 'w state \<Rightarrow> (gerr + Payee option \<times> ServerKnowledge) \<times> 'w state"
where
  "Payees_Create env p name = Payees_save env p ''Payees.Create'' ''POST'' (plan_path p [''payees'']) name"

interpretation payees_create: endpoint "\<lambda>c. Payees_Create env (Client_Plan c pid) name"
  "''POST''" "Plan_path pid [''payees'']" "[]" "marshalBody env (nameOnlyBody ''payee'' name)"
  for env pid name
  by (simp add: Payees_Create_def Payees_save_def Client_Plan_def endpoint_intros)

definition Payees_Rename ::
  "'w env \<Rightarrow> 'w Plan \<Rightarrow> string \<Rightarrow> string \<Rightarrow> 'w state \<Rightarrow> (gerr + Payee option \<times> ServerKnowledge) \<times> 'w state"
where
  "Payees_Rename env p payeeID name = Payees_save env p ''Payees.Rename'' ''PATCH'' (plan_path p [''payees'', payeeID]) name"

interpretation payees_rename: endpoint "\<lambda>c. Payees_Rename env (Client_Plan c pid) payeeID name"
  "''PATCH''" "Plan_path pid [''payees'', payeeID]" "[]" "marshalBody env (nameOnlyBody ''payee'' name)"
  for env pid payeeID name
  by (simp add: Payees_Rename_def Payees_save_def Client_Plan_def endpoint_intros)

section \<open>Payee locations\<close>

record PayeeLocation =
  pl_ID :: string
  pl_PayeeID :: string
  pl_Latitude :: string
  pl_Longitude :: string
  pl_Deleted :: bool

definition zero_PayeeLocation :: PayeeLocation where
  "zero_PayeeLocation = \<lparr>pl_ID = [], pl_PayeeID = [], pl_Latitude = [], pl_Longitude = [],
     pl_Deleted = False\<rparr>"

definition PayeeLocation_fields :: "(string \<times> PayeeLocation decoder) list" where
  "PayeeLocation_fields =
     [field ''id'' pl_ID (\<lambda>a r. r\<lparr>pl_ID := a\<rparr>) decode_string,
      field ''payee_id'' pl_PayeeID (\<lambda>a r. r\<lparr>pl_PayeeID := a\<rparr>) decode_string,
      field ''latitude'' pl_Latitude (\<lambda>a r. r\<lparr>pl_Latitude := a\<rparr>) decode_string,
      field ''longitude'' pl_Longitude (\<lambda>a r. r\<lparr>pl_Longitude := a\<rparr>) decode_string,
      field ''deleted'' pl_Deleted (\<lambda>a r. r\<lparr>pl_Deleted := a\<rparr>) decode_bool]"

definition PayeeLocation_SyncID :: "PayeeLocation \<Rightarrow> string" where
  "PayeeLocation_SyncID x = pl_ID x"

definition PayeeLocation_IsDeleted :: "PayeeLocation \<Rightarrow> bool" where
  "PayeeLocation_IsDeleted x = pl_Deleted x"

definition payeeLocationsResult :: "PayeeLocation list option decoder" where
  "payeeLocationsResult = only ''payee_locations'' (decode_records zero_PayeeLocation PayeeLocation_fields)"

definition PayeeLocations_List ::
  "'w env \<Rightarrow> 'w Plan \<Rightarrow> 'w state \<Rightarrow> (gerr + PayeeLocation list option) \<times> 'w state"
where
  "PayeeLocations_List env p =
     client_do env (p_client p) None payeeLocationsResult ''GET'' (plan_path p [''payee_locations''])
     [] None"

interpretation payeelocations_list: endpoint "\<lambda>c. PayeeLocations_List env (Client_Plan c pid)"
  "''GET''" "Plan_path pid [''payee_locations'']" "[]" "marshalBody env None"
  for env pid
  by (simp add: PayeeLocations_List_def Client_Plan_def endpoint_intros)

definition PayeeLocations_Get ::
  "'w env \<Rightarrow> 'w Plan \<Rightarrow> string \<Rightarrow> 'w state \<Rightarrow> (gerr + PayeeLocation option) \<times> 'w state"
where
  "PayeeLocations_Get env p payeeLocationID =
     client_do env (p_client p) None
     (only ''payee_location'' (decode_record zero_PayeeLocation PayeeLocation_fields)) ''GET''
     (plan_path p [''payee_locations'', payeeLocationID]) [] None"

interpretation payeelocations_get: endpoint "\<lambda>c. PayeeLocations_Get env (Client_Plan c pid) payeeLocationID"
  "''GET''" "Plan_path pid [''payee_locations'', payeeLocationID]" "[]" "marshalBody env None"
  for env pid payeeLocationID
  by (simp add: PayeeLocations_Get_def Client_Plan_def endpoint_intros)

definition PayeeLocations_ListByPayee ::
  "'w env \<Rightarrow> 'w Plan \<Rightarrow> string \<Rightarrow> 'w state \<Rightarrow> (gerr + PayeeLocation list option) \<times> 'w state"
where
  "PayeeLocations_ListByPayee env p payeeID =
     client_do env (p_client p) None payeeLocationsResult ''GET''
     (plan_path p [''payees'', payeeID, ''payee_locations'']) [] None"

interpretation payeelocations_listbypayee: endpoint "\<lambda>c. PayeeLocations_ListByPayee env (Client_Plan c pid) payeeID"
  "''GET''" "Plan_path pid [''payees'', payeeID, ''payee_locations'']" "[]" "marshalBody env None"
  for env pid payeeID
  by (simp add: PayeeLocations_ListByPayee_def Client_Plan_def endpoint_intros)

end
