(* ===== verification/Categories.thy ===== *)
theory Categories
  imports Endpoint
begin

text \<open>
  \<open>categories.go\<close>: the category models, the write payloads, and the endpoints, the group writes
  with their shared name bound included.
\<close>

section \<open>Types\<close>

definition GoalType_values :: "string list" where
  "GoalType_values =
     [''TB'', ''TBD'', ''MF'', ''NEED'', ''DEBT'']"

definition GoalType_Valid :: "string \<Rightarrow> bool" where
  "GoalType_Valid t = List.member GoalType_values t"

definition GoalFrequency_values :: "string list" where
  "GoalFrequency_values =
     [''monthly'', ''weekly'', ''yearly'']"

definition GoalFrequency_Valid :: "string \<Rightarrow> bool" where
  "GoalFrequency_Valid t = List.member GoalFrequency_values t"

section \<open>Models\<close>

record CategoryBase =
  cb_ID :: string
  cb_CategoryGroupID :: string
  cb_CategoryGroupName :: string
  cb_Name :: string
  cb_Hidden :: bool
  cb_Internal :: bool
  cb_OriginalCategoryGroupID :: "string option"
  cb_Note :: "string option"
  cb_Budgeted :: i64
  cb_Activity :: i64
  cb_Balance :: i64
  cb_GoalType :: "string option"
  cb_GoalNeedsWholeAmount :: "bool option"
  cb_GoalDay :: "i64 option"
  cb_GoalCadence :: "i64 option"
  cb_GoalCadenceFrequency :: "i64 option"
  cb_GoalCreationMonth :: "Date option"
  cb_GoalTarget :: "i64 option"
  cb_GoalTargetMonth :: "Date option"
  cb_GoalTargetDate :: "Date option"
  cb_GoalPercentageComplete :: "i64 option"
  cb_GoalMonthsToBudget :: "i64 option"
  cb_GoalUnderFunded :: "i64 option"
  cb_GoalOverallFunded :: "i64 option"
  cb_GoalOverallLeft :: "i64 option"
  cb_GoalSnoozedAt :: "int option"
  cb_Deleted :: bool

definition zero_CategoryBase :: CategoryBase where
  "zero_CategoryBase = \<lparr>cb_ID = [], cb_CategoryGroupID = [], cb_CategoryGroupName = [],
     cb_Name = [], cb_Hidden = False, cb_Internal = False, cb_OriginalCategoryGroupID = None,
     cb_Note = None, cb_Budgeted = 0, cb_Activity = 0, cb_Balance = 0, cb_GoalType = None,
     cb_GoalNeedsWholeAmount = None, cb_GoalDay = None, cb_GoalCadence = None,
     cb_GoalCadenceFrequency = None, cb_GoalCreationMonth = None, cb_GoalTarget = None,
     cb_GoalTargetMonth = None, cb_GoalTargetDate = None, cb_GoalPercentageComplete = None,
     cb_GoalMonthsToBudget = None, cb_GoalUnderFunded = None, cb_GoalOverallFunded = None,
     cb_GoalOverallLeft = None, cb_GoalSnoozedAt = None, cb_Deleted = False\<rparr>"

definition CategoryBase_fields :: "'w env \<Rightarrow> (string \<times> 'z CategoryBase_scheme decoder) list" where
  "CategoryBase_fields env =
     [field ''id'' cb_ID (\<lambda>a r. r\<lparr>cb_ID := a\<rparr>) decode_string,
      field ''category_group_id'' cb_CategoryGroupID (\<lambda>a r. r\<lparr>cb_CategoryGroupID := a\<rparr>) decode_string,
      field ''category_group_name'' cb_CategoryGroupName (\<lambda>a r. r\<lparr>cb_CategoryGroupName := a\<rparr>) decode_string,
      field ''name'' cb_Name (\<lambda>a r. r\<lparr>cb_Name := a\<rparr>) decode_string,
      field ''hidden'' cb_Hidden (\<lambda>a r. r\<lparr>cb_Hidden := a\<rparr>) decode_bool,
      field ''internal'' cb_Internal (\<lambda>a r. r\<lparr>cb_Internal := a\<rparr>) decode_bool,
      field ''original_category_group_id'' cb_OriginalCategoryGroupID (\<lambda>a r. r\<lparr>cb_OriginalCategoryGroupID := a\<rparr>) decode_text_pointer,
      field ''note'' cb_Note (\<lambda>a r. r\<lparr>cb_Note := a\<rparr>) decode_text_pointer,
      field ''budgeted'' cb_Budgeted (\<lambda>a r. r\<lparr>cb_Budgeted := a\<rparr>) decode_int64,
      field ''activity'' cb_Activity (\<lambda>a r. r\<lparr>cb_Activity := a\<rparr>) decode_int64,
      field ''balance'' cb_Balance (\<lambda>a r. r\<lparr>cb_Balance := a\<rparr>) decode_int64,
      field ''goal_type'' cb_GoalType (\<lambda>a r. r\<lparr>cb_GoalType := a\<rparr>) decode_text_pointer,
      field ''goal_needs_whole_amount'' cb_GoalNeedsWholeAmount (\<lambda>a r. r\<lparr>cb_GoalNeedsWholeAmount := a\<rparr>) decode_bool_pointer,
      field ''goal_day'' cb_GoalDay (\<lambda>a r. r\<lparr>cb_GoalDay := a\<rparr>) decode_int64_pointer,
      field ''goal_cadence'' cb_GoalCadence (\<lambda>a r. r\<lparr>cb_GoalCadence := a\<rparr>) decode_int64_pointer,
      field ''goal_cadence_frequency'' cb_GoalCadenceFrequency (\<lambda>a r. r\<lparr>cb_GoalCadenceFrequency := a\<rparr>) decode_int64_pointer,
      field ''goal_creation_month'' cb_GoalCreationMonth (\<lambda>a r. r\<lparr>cb_GoalCreationMonth := a\<rparr>) decode_date_pointer,
      field ''goal_target'' cb_GoalTarget (\<lambda>a r. r\<lparr>cb_GoalTarget := a\<rparr>) decode_int64_pointer,
      field ''goal_target_month'' cb_GoalTargetMonth (\<lambda>a r. r\<lparr>cb_GoalTargetMonth := a\<rparr>) decode_date_pointer,
      field ''goal_target_date'' cb_GoalTargetDate (\<lambda>a r. r\<lparr>cb_GoalTargetDate := a\<rparr>) decode_date_pointer,
      field ''goal_percentage_complete'' cb_GoalPercentageComplete (\<lambda>a r. r\<lparr>cb_GoalPercentageComplete := a\<rparr>) decode_int64_pointer,
      field ''goal_months_to_budget'' cb_GoalMonthsToBudget (\<lambda>a r. r\<lparr>cb_GoalMonthsToBudget := a\<rparr>) decode_int64_pointer,
      field ''goal_under_funded'' cb_GoalUnderFunded (\<lambda>a r. r\<lparr>cb_GoalUnderFunded := a\<rparr>) decode_int64_pointer,
      field ''goal_overall_funded'' cb_GoalOverallFunded (\<lambda>a r. r\<lparr>cb_GoalOverallFunded := a\<rparr>) decode_int64_pointer,
      field ''goal_overall_left'' cb_GoalOverallLeft (\<lambda>a r. r\<lparr>cb_GoalOverallLeft := a\<rparr>) decode_int64_pointer,
      field ''goal_snoozed_at'' cb_GoalSnoozedAt (\<lambda>a r. r\<lparr>cb_GoalSnoozedAt := a\<rparr>) (decode_time_pointer env),
      field ''deleted'' cb_Deleted (\<lambda>a r. r\<lparr>cb_Deleted := a\<rparr>) decode_bool]"

record Category = CategoryBase +
  ct_BalanceFormatted :: string
  ct_BalanceCurrency :: string
  ct_ActivityFormatted :: string
  ct_ActivityCurrency :: string
  ct_BudgetedFormatted :: string
  ct_BudgetedCurrency :: string
  ct_GoalTargetFormatted :: "string option"
  ct_GoalTargetCurrency :: "string option"
  ct_GoalUnderFundedFormatted :: "string option"
  ct_GoalUnderFundedCurrency :: "string option"
  ct_GoalOverallFundedFormatted :: "string option"
  ct_GoalOverallFundedCurrency :: "string option"
  ct_GoalOverallLeftFormatted :: "string option"
  ct_GoalOverallLeftCurrency :: "string option"

definition zero_Category :: Category where
  "zero_Category = \<lparr>cb_ID = [], cb_CategoryGroupID = [], cb_CategoryGroupName = [],
     cb_Name = [], cb_Hidden = False, cb_Internal = False, cb_OriginalCategoryGroupID = None,
     cb_Note = None, cb_Budgeted = 0, cb_Activity = 0, cb_Balance = 0, cb_GoalType = None,
     cb_GoalNeedsWholeAmount = None, cb_GoalDay = None, cb_GoalCadence = None,
     cb_GoalCadenceFrequency = None, cb_GoalCreationMonth = None, cb_GoalTarget = None,
     cb_GoalTargetMonth = None, cb_GoalTargetDate = None, cb_GoalPercentageComplete = None,
     cb_GoalMonthsToBudget = None, cb_GoalUnderFunded = None, cb_GoalOverallFunded = None,
     cb_GoalOverallLeft = None, cb_GoalSnoozedAt = None, cb_Deleted = False, ct_BalanceFormatted = [],
     ct_BalanceCurrency = ''0'', ct_ActivityFormatted = [], ct_ActivityCurrency = ''0'',
     ct_BudgetedFormatted = [], ct_BudgetedCurrency = ''0'', ct_GoalTargetFormatted = None,
     ct_GoalTargetCurrency = None, ct_GoalUnderFundedFormatted = None,
     ct_GoalUnderFundedCurrency = None, ct_GoalOverallFundedFormatted = None,
     ct_GoalOverallFundedCurrency = None, ct_GoalOverallLeftFormatted = None,
     ct_GoalOverallLeftCurrency = None\<rparr>"

definition Category_fields :: "'w env \<Rightarrow> (string \<times> Category decoder) list" where
  "Category_fields env = CategoryBase_fields env @
     [field ''balance_formatted'' ct_BalanceFormatted (\<lambda>a r. r\<lparr>ct_BalanceFormatted := a\<rparr>) decode_string,
      field ''balance_currency'' ct_BalanceCurrency (\<lambda>a r. r\<lparr>ct_BalanceCurrency := a\<rparr>) (decode_float env),
      field ''activity_formatted'' ct_ActivityFormatted (\<lambda>a r. r\<lparr>ct_ActivityFormatted := a\<rparr>) decode_string,
      field ''activity_currency'' ct_ActivityCurrency (\<lambda>a r. r\<lparr>ct_ActivityCurrency := a\<rparr>) (decode_float env),
      field ''budgeted_formatted'' ct_BudgetedFormatted (\<lambda>a r. r\<lparr>ct_BudgetedFormatted := a\<rparr>) decode_string,
      field ''budgeted_currency'' ct_BudgetedCurrency (\<lambda>a r. r\<lparr>ct_BudgetedCurrency := a\<rparr>) (decode_float env),
      field ''goal_target_formatted'' ct_GoalTargetFormatted (\<lambda>a r. r\<lparr>ct_GoalTargetFormatted := a\<rparr>) decode_text_pointer,
      field ''goal_target_currency'' ct_GoalTargetCurrency (\<lambda>a r. r\<lparr>ct_GoalTargetCurrency := a\<rparr>) (decode_float_pointer env),
      field ''goal_under_funded_formatted'' ct_GoalUnderFundedFormatted (\<lambda>a r. r\<lparr>ct_GoalUnderFundedFormatted := a\<rparr>) decode_text_pointer,
      field ''goal_under_funded_currency'' ct_GoalUnderFundedCurrency (\<lambda>a r. r\<lparr>ct_GoalUnderFundedCurrency := a\<rparr>) (decode_float_pointer env),
      field ''goal_overall_funded_formatted'' ct_GoalOverallFundedFormatted (\<lambda>a r. r\<lparr>ct_GoalOverallFundedFormatted := a\<rparr>) decode_text_pointer,
      field ''goal_overall_funded_currency'' ct_GoalOverallFundedCurrency (\<lambda>a r. r\<lparr>ct_GoalOverallFundedCurrency := a\<rparr>) (decode_float_pointer env),
      field ''goal_overall_left_formatted'' ct_GoalOverallLeftFormatted (\<lambda>a r. r\<lparr>ct_GoalOverallLeftFormatted := a\<rparr>) decode_text_pointer,
      field ''goal_overall_left_currency'' ct_GoalOverallLeftCurrency (\<lambda>a r. r\<lparr>ct_GoalOverallLeftCurrency := a\<rparr>) (decode_float_pointer env)]"

definition CategoryBase_SyncID :: "'z CategoryBase_scheme \<Rightarrow> string" where
  "CategoryBase_SyncID x = cb_ID x"

definition CategoryBase_IsDeleted :: "'z CategoryBase_scheme \<Rightarrow> bool" where
  "CategoryBase_IsDeleted x = cb_Deleted x"

record CategoryGroup =
  cg_ID :: string
  cg_Name :: string
  cg_Hidden :: bool
  cg_Internal :: bool
  cg_Deleted :: bool
  cg_Categories :: "Category list option"

definition zero_CategoryGroup :: CategoryGroup where
  "zero_CategoryGroup = \<lparr>cg_ID = [], cg_Name = [], cg_Hidden = False, cg_Internal = False,
     cg_Deleted = False, cg_Categories = None\<rparr>"

definition CategoryGroup_fields :: "'w env \<Rightarrow> (string \<times> CategoryGroup decoder) list" where
  "CategoryGroup_fields env =
     [field ''id'' cg_ID (\<lambda>a r. r\<lparr>cg_ID := a\<rparr>) decode_string,
      field ''name'' cg_Name (\<lambda>a r. r\<lparr>cg_Name := a\<rparr>) decode_string,
      field ''hidden'' cg_Hidden (\<lambda>a r. r\<lparr>cg_Hidden := a\<rparr>) decode_bool,
      field ''internal'' cg_Internal (\<lambda>a r. r\<lparr>cg_Internal := a\<rparr>) decode_bool,
      field ''deleted'' cg_Deleted (\<lambda>a r. r\<lparr>cg_Deleted := a\<rparr>) decode_bool,
      field ''categories'' cg_Categories (\<lambda>a r. r\<lparr>cg_Categories := a\<rparr>) (decode_records zero_Category (Category_fields env))]"

definition CategoryGroup_SyncID :: "CategoryGroup \<Rightarrow> string" where
  "CategoryGroup_SyncID x = cg_ID x"

definition CategoryGroup_IsDeleted :: "CategoryGroup \<Rightarrow> bool" where
  "CategoryGroup_IsDeleted x = cg_Deleted x"

record CategorySpec =
  csp_Name :: string
  csp_GroupID :: string
  csp_Note :: "string Optional"
  csp_GoalTarget :: "i64 Optional"
  csp_GoalTargetDate :: "Date Optional"
  csp_GoalNeedsWholeAmount :: "bool Optional"
  csp_GoalFrequency :: string

definition CategorySpec_members :: "CategorySpec \<Rightarrow> (string \<times> json) list" where
  "CategorySpec_members s =
     plain_field ''name'' (JStr (csp_Name s))
     @ plain_field ''category_group_id'' (JStr (csp_GroupID s))
     @ opt_field ''note'' JStr (csp_Note s)
     @ opt_field ''goal_target'' json_int (csp_GoalTarget s)
     @ opt_field ''goal_target_date'' json_date (csp_GoalTargetDate s)
     @ opt_field ''goal_needs_whole_amount'' JBool (csp_GoalNeedsWholeAmount s)
     @ str_field ''goal_frequency'' (csp_GoalFrequency s)"

definition CategorySpec_json :: "CategorySpec \<Rightarrow> json" where
  "CategorySpec_json s = JObj (CategorySpec_members s)"

record CategoryUpdate =
  cu_Name :: "string Optional"
  cu_GroupID :: "string Optional"
  cu_Note :: "string Optional"
  cu_GoalTarget :: "i64 Optional"
  cu_GoalTargetDate :: "Date Optional"
  cu_GoalNeedsWholeAmount :: "bool Optional"
  cu_GoalFrequency :: string

definition CategoryUpdate_members :: "CategoryUpdate \<Rightarrow> (string \<times> json) list" where
  "CategoryUpdate_members s =
     opt_field ''name'' JStr (cu_Name s)
     @ opt_field ''category_group_id'' JStr (cu_GroupID s)
     @ opt_field ''note'' JStr (cu_Note s)
     @ opt_field ''goal_target'' json_int (cu_GoalTarget s)
     @ opt_field ''goal_target_date'' json_date (cu_GoalTargetDate s)
     @ opt_field ''goal_needs_whole_amount'' JBool (cu_GoalNeedsWholeAmount s)
     @ str_field ''goal_frequency'' (cu_GoalFrequency s)"

definition CategoryUpdate_json :: "CategoryUpdate \<Rightarrow> json" where
  "CategoryUpdate_json s = JObj (CategoryUpdate_members s)"

definition categoryGroupNameMax :: nat where "categoryGroupNameMax = 50"

section \<open>Endpoints\<close>

definition categoryResult :: "'w env \<Rightarrow> (Category option \<times> ServerKnowledge) decoder" where
  "categoryResult env = with_knowledge ''category'' (decode_record zero_Category (Category_fields env))"

definition categoryGroupResult :: "'w env \<Rightarrow> (CategoryGroup option \<times> ServerKnowledge) decoder" where
  "categoryGroupResult env = with_knowledge ''category_group'' (decode_record zero_CategoryGroup (CategoryGroup_fields env))"

definition Categories_List ::
  "'w env \<Rightarrow> 'w Plan \<Rightarrow> ListOption list \<Rightarrow> 'w state \<Rightarrow> (gerr + CategoryGroup list option \<times> ServerKnowledge) \<times> 'w state"
where
  "Categories_List env p opts =
     client_do env (p_client p) (None, 0)
     (with_knowledge ''category_groups'' (decode_records zero_CategoryGroup (CategoryGroup_fields env)))
     ''GET'' (plan_path p [''categories'']) (applyListOptions [] opts) None"

interpretation categories_list: endpoint "\<lambda>c. Categories_List env (Client_Plan c pid) opts"
  "''GET''" "Plan_path pid [''categories'']" "applyListOptions [] opts" "marshalBody env None"
  for env pid opts
  by (simp add: Categories_List_def Client_Plan_def endpoint_intros)

definition Categories_Get ::
  "'w env \<Rightarrow> 'w Plan \<Rightarrow> string \<Rightarrow> 'w state \<Rightarrow> (gerr + Category option) \<times> 'w state"
where
  "Categories_Get env p categoryID =
     client_do env (p_client p) None
     (only ''category'' (decode_record zero_Category (Category_fields env))) ''GET''
     (plan_path p [''categories'', categoryID]) [] None"

interpretation categories_get: endpoint "\<lambda>c. Categories_Get env (Client_Plan c pid) categoryID"
  "''GET''" "Plan_path pid [''categories'', categoryID]" "[]" "marshalBody env None"
  for env pid categoryID
  by (simp add: Categories_Get_def Client_Plan_def endpoint_intros)

definition Categories_GetForMonth ::
  "'w env \<Rightarrow> 'w Plan \<Rightarrow> Month \<Rightarrow> string \<Rightarrow> 'w state \<Rightarrow> (gerr + Category option) \<times> 'w state"
where
  "Categories_GetForMonth env p m categoryID = checked (month_check ''Categories.GetForMonth'' m) (client_do env (p_client p) None
     (only ''category'' (decode_record zero_Category (Category_fields env))) ''GET''
     (plan_path p [''months'', Month_String m, ''categories'', categoryID]) [] None)"

interpretation categories_getformonth: endpoint "\<lambda>c. Categories_GetForMonth env (Client_Plan c pid) m categoryID"
  "''GET''" "Plan_path pid [''months'', Month_String m, ''categories'', categoryID]" "[]" "marshalBody env None"
  for env pid m categoryID
  by (simp add: Categories_GetForMonth_def Client_Plan_def endpoint_intros)

definition Categories_Create ::
  "'w env \<Rightarrow> 'w Plan \<Rightarrow> CategorySpec \<Rightarrow> 'w state \<Rightarrow> (gerr + Category option \<times> ServerKnowledge) \<times> 'w state"
where
  "Categories_Create env p spec =
     client_do env (p_client p) (None, 0) (categoryResult env) ''POST'' (plan_path p [''categories''])
     [] (body ''category'' (CategorySpec_json spec))"

interpretation categories_create: endpoint "\<lambda>c. Categories_Create env (Client_Plan c pid) spec"
  "''POST''" "Plan_path pid [''categories'']" "[]" "marshalBody env (body ''category'' (CategorySpec_json spec))"
  for env pid spec
  by (simp add: Categories_Create_def Client_Plan_def endpoint_intros)

definition Categories_Update ::
  "'w env \<Rightarrow> 'w Plan \<Rightarrow> string \<Rightarrow> CategoryUpdate \<Rightarrow> 'w state \<Rightarrow> (gerr + Category option \<times> ServerKnowledge) \<times> 'w state"
where
  "Categories_Update env p categoryID update =
     client_do env (p_client p) (None, 0) (categoryResult env) ''PATCH''
     (plan_path p [''categories'', categoryID]) [] (body ''category'' (CategoryUpdate_json update))"

interpretation categories_update: endpoint "\<lambda>c. Categories_Update env (Client_Plan c pid) categoryID update"
  "''PATCH''" "Plan_path pid [''categories'', categoryID]" "[]" "marshalBody env (body ''category'' (CategoryUpdate_json update))"
  for env pid categoryID update
  by (simp add: Categories_Update_def Client_Plan_def endpoint_intros)

definition Categories_Assign ::
  "'w env \<Rightarrow> 'w Plan \<Rightarrow> Month \<Rightarrow> string \<Rightarrow> i64 \<Rightarrow> 'w state \<Rightarrow> (gerr + Category option \<times> ServerKnowledge) \<times> 'w state"
where
  "Categories_Assign env p m categoryID budgeted = checked (month_check ''Categories.Assign'' m) (client_do env (p_client p) (None, 0) (categoryResult env) ''PATCH''
     (plan_path p [''months'', Month_String m, ''categories'', categoryID]) []
     (body ''category'' (JObj [(''budgeted'', json_int budgeted)])))"

interpretation categories_assign: endpoint "\<lambda>c. Categories_Assign env (Client_Plan c pid) m categoryID budgeted"
  "''PATCH''" "Plan_path pid [''months'', Month_String m, ''categories'', categoryID]" "[]" "marshalBody env (body ''category'' (JObj [(''budgeted'', json_int budgeted)]))"
  for env pid m categoryID budgeted
  by (simp add: Categories_Assign_def Client_Plan_def endpoint_intros)

definition Categories_saveGroup ::
  "'w env \<Rightarrow> 'w Plan \<Rightarrow> string \<Rightarrow> string \<Rightarrow> string \<Rightarrow> string \<Rightarrow> 'w state \<Rightarrow>
   (gerr + CategoryGroup option \<times> ServerKnowledge) \<times> 'w state"
where
  "Categories_saveGroup env p op verb path name = checked (checkRuneMax op ''name'' name categoryGroupNameMax)
     (client_do env (p_client p) (None, 0) (categoryGroupResult env)
        verb path [] (nameOnlyBody ''category_group'' name))"

definition Categories_CreateGroup ::
  "'w env \<Rightarrow> 'w Plan \<Rightarrow> string \<Rightarrow> 'w state \<Rightarrow> (gerr + CategoryGroup option \<times> ServerKnowledge) \<times> 'w state"
where
  "Categories_CreateGroup env p name = Categories_saveGroup env p ''Categories.CreateGroup'' ''POST'' (plan_path p [''category_groups'']) name"

interpretation categories_creategroup: endpoint "\<lambda>c. Categories_CreateGroup env (Client_Plan c pid) name"
  "''POST''" "Plan_path pid [''category_groups'']" "[]" "marshalBody env (nameOnlyBody ''category_group'' name)"
  for env pid name
  by (simp add: Categories_CreateGroup_def Categories_saveGroup_def Client_Plan_def endpoint_intros)

definition Categories_RenameGroup ::
  "'w env \<Rightarrow> 'w Plan \<Rightarrow> string \<Rightarrow> string \<Rightarrow> 'w state \<Rightarrow> (gerr + CategoryGroup option \<times> ServerKnowledge) \<times> 'w state"
where
  "Categories_RenameGroup env p groupID name = Categories_saveGroup env p ''Categories.RenameGroup'' ''PATCH'' (plan_path p [''category_groups'', groupID]) name"

interpretation categories_renamegroup: endpoint "\<lambda>c. Categories_RenameGroup env (Client_Plan c pid) groupID name"
  "''PATCH''" "Plan_path pid [''category_groups'', groupID]" "[]" "marshalBody env (nameOnlyBody ''category_group'' name)"
  for env pid groupID name
  by (simp add: Categories_RenameGroup_def Categories_saveGroup_def Client_Plan_def endpoint_intros)

end
