(* ===== verification/Months.thy ===== *)
theory Months
  imports Categories
begin

text \<open>\<open>months.go\<close>: the month summaries and details, and the two month endpoints.\<close>

section \<open>Models\<close>

record MonthSummaryBase =
  msb_Month :: Month
  msb_Note :: "string option"
  msb_Income :: i64
  msb_Budgeted :: i64
  msb_Activity :: i64
  msb_ToBeBudgeted :: i64
  msb_AgeOfMoney :: "i64 option"
  msb_Deleted :: bool

definition zero_MonthSummaryBase :: MonthSummaryBase where
  "zero_MonthSummaryBase = \<lparr>msb_Month = zero_Month, msb_Note = None, msb_Income = 0,
     msb_Budgeted = 0, msb_Activity = 0, msb_ToBeBudgeted = 0, msb_AgeOfMoney = None,
     msb_Deleted = False\<rparr>"

definition MonthSummaryBase_fields :: "(string \<times> 'z MonthSummaryBase_scheme decoder) list" where
  "MonthSummaryBase_fields =
     [field ''month'' msb_Month (\<lambda>a r. r\<lparr>msb_Month := a\<rparr>) decode_month,
      field ''note'' msb_Note (\<lambda>a r. r\<lparr>msb_Note := a\<rparr>) decode_text_pointer,
      field ''income'' msb_Income (\<lambda>a r. r\<lparr>msb_Income := a\<rparr>) decode_int64,
      field ''budgeted'' msb_Budgeted (\<lambda>a r. r\<lparr>msb_Budgeted := a\<rparr>) decode_int64,
      field ''activity'' msb_Activity (\<lambda>a r. r\<lparr>msb_Activity := a\<rparr>) decode_int64,
      field ''to_be_budgeted'' msb_ToBeBudgeted (\<lambda>a r. r\<lparr>msb_ToBeBudgeted := a\<rparr>) decode_int64,
      field ''age_of_money'' msb_AgeOfMoney (\<lambda>a r. r\<lparr>msb_AgeOfMoney := a\<rparr>) decode_int64_pointer,
      field ''deleted'' msb_Deleted (\<lambda>a r. r\<lparr>msb_Deleted := a\<rparr>) decode_bool]"

record MonthSummary = MonthSummaryBase +
  ms_IncomeFormatted :: string
  ms_IncomeCurrency :: string
  ms_BudgetedFormatted :: string
  ms_BudgetedCurrency :: string
  ms_ActivityFormatted :: string
  ms_ActivityCurrency :: string
  ms_ToBeBudgetedFormatted :: string
  ms_ToBeBudgetedCurrency :: string

definition zero_MonthSummary :: MonthSummary where
  "zero_MonthSummary = \<lparr>msb_Month = zero_Month, msb_Note = None, msb_Income = 0,
     msb_Budgeted = 0, msb_Activity = 0, msb_ToBeBudgeted = 0, msb_AgeOfMoney = None,
     msb_Deleted = False, ms_IncomeFormatted = [], ms_IncomeCurrency = ''0'',
     ms_BudgetedFormatted = [], ms_BudgetedCurrency = ''0'', ms_ActivityFormatted = [],
     ms_ActivityCurrency = ''0'', ms_ToBeBudgetedFormatted = [],
     ms_ToBeBudgetedCurrency = ''0''\<rparr>"

definition MonthSummary_fields :: "'w env \<Rightarrow> (string \<times> 'z MonthSummary_scheme decoder) list" where
  "MonthSummary_fields env = MonthSummaryBase_fields @
     [field ''income_formatted'' ms_IncomeFormatted (\<lambda>a r. r\<lparr>ms_IncomeFormatted := a\<rparr>) decode_string,
      field ''income_currency'' ms_IncomeCurrency (\<lambda>a r. r\<lparr>ms_IncomeCurrency := a\<rparr>) (decode_float env),
      field ''budgeted_formatted'' ms_BudgetedFormatted (\<lambda>a r. r\<lparr>ms_BudgetedFormatted := a\<rparr>) decode_string,
      field ''budgeted_currency'' ms_BudgetedCurrency (\<lambda>a r. r\<lparr>ms_BudgetedCurrency := a\<rparr>) (decode_float env),
      field ''activity_formatted'' ms_ActivityFormatted (\<lambda>a r. r\<lparr>ms_ActivityFormatted := a\<rparr>) decode_string,
      field ''activity_currency'' ms_ActivityCurrency (\<lambda>a r. r\<lparr>ms_ActivityCurrency := a\<rparr>) (decode_float env),
      field ''to_be_budgeted_formatted'' ms_ToBeBudgetedFormatted (\<lambda>a r. r\<lparr>ms_ToBeBudgetedFormatted := a\<rparr>) decode_string,
      field ''to_be_budgeted_currency'' ms_ToBeBudgetedCurrency (\<lambda>a r. r\<lparr>ms_ToBeBudgetedCurrency := a\<rparr>) (decode_float env)]"

definition MonthSummaryBase_SyncID :: "'z MonthSummaryBase_scheme \<Rightarrow> string" where
  "MonthSummaryBase_SyncID x = Month_String (msb_Month x)"

definition MonthSummaryBase_IsDeleted :: "'z MonthSummaryBase_scheme \<Rightarrow> bool" where
  "MonthSummaryBase_IsDeleted x = msb_Deleted x"

record MonthDetailBase = MonthSummaryBase +
  mdb_Categories :: "CategoryBase list option"

definition zero_MonthDetailBase :: MonthDetailBase where
  "zero_MonthDetailBase = \<lparr>msb_Month = zero_Month, msb_Note = None, msb_Income = 0,
     msb_Budgeted = 0, msb_Activity = 0, msb_ToBeBudgeted = 0, msb_AgeOfMoney = None,
     msb_Deleted = False, mdb_Categories = None\<rparr>"

definition MonthDetailBase_fields :: "'w env \<Rightarrow> (string \<times> MonthDetailBase decoder) list" where
  "MonthDetailBase_fields env = MonthSummaryBase_fields @
     [field ''categories'' mdb_Categories (\<lambda>a r. r\<lparr>mdb_Categories := a\<rparr>) (decode_records zero_CategoryBase (CategoryBase_fields env))]"

record MonthDetail = MonthSummary +
  md_Categories :: "Category list option"

definition zero_MonthDetail :: MonthDetail where
  "zero_MonthDetail = \<lparr>msb_Month = zero_Month, msb_Note = None, msb_Income = 0,
     msb_Budgeted = 0, msb_Activity = 0, msb_ToBeBudgeted = 0, msb_AgeOfMoney = None,
     msb_Deleted = False, ms_IncomeFormatted = [], ms_IncomeCurrency = ''0'',
     ms_BudgetedFormatted = [], ms_BudgetedCurrency = ''0'', ms_ActivityFormatted = [],
     ms_ActivityCurrency = ''0'', ms_ToBeBudgetedFormatted = [], ms_ToBeBudgetedCurrency = ''0'',
     md_Categories = None\<rparr>"

definition MonthDetail_fields :: "'w env \<Rightarrow> (string \<times> MonthDetail decoder) list" where
  "MonthDetail_fields env = MonthSummary_fields env @
     [field ''categories'' md_Categories (\<lambda>a r. r\<lparr>md_Categories := a\<rparr>) (decode_records zero_Category (Category_fields env))]"

section \<open>Endpoints\<close>

definition Months_List ::
  "'w env \<Rightarrow> 'w Plan \<Rightarrow> ListOption list \<Rightarrow> 'w state \<Rightarrow> (gerr + MonthSummary list option \<times> ServerKnowledge) \<times> 'w state"
where
  "Months_List env p opts =
     client_do env (p_client p) (None, 0)
     (with_knowledge ''months'' (decode_records zero_MonthSummary (MonthSummary_fields env))) ''GET''
     (plan_path p [''months'']) (applyListOptions [] opts) None"

interpretation months_list: endpoint "\<lambda>c. Months_List env (Client_Plan c pid) opts"
  "''GET''" "Plan_path pid [''months'']" "applyListOptions [] opts" "marshalBody env None"
  for env pid opts
  by (simp add: Months_List_def Client_Plan_def endpoint_intros)

definition Months_Get ::
  "'w env \<Rightarrow> 'w Plan \<Rightarrow> Month \<Rightarrow> 'w state \<Rightarrow> (gerr + MonthDetail option) \<times> 'w state"
where
  "Months_Get env p m = checked (month_check ''Months.Get'' m) (client_do env (p_client p) None
     (only ''month'' (decode_record zero_MonthDetail (MonthDetail_fields env))) ''GET''
     (plan_path p [''months'', Month_String m]) [] None)"

interpretation months_get: endpoint "\<lambda>c. Months_Get env (Client_Plan c pid) m"
  "''GET''" "Plan_path pid [''months'', Month_String m]" "[]" "marshalBody env None"
  for env pid m
  by (simp add: Months_Get_def Client_Plan_def endpoint_intros)

end
