(* ===== verification/Money_Movements.thy ===== *)
theory Money_Movements
  imports Endpoint
begin

text \<open>
  \<open>money_movements.go\<close>: the movement models and the four list endpoints, two of which check their
  month before any I/O. The endpoints answer a server knowledge and accept no cursor.
\<close>

section \<open>Models\<close>

record MoneyMovement =
  mm_ID :: string
  mm_Month :: "Month option"
  mm_MovedAt :: "int option"
  mm_Note :: "string option"
  mm_MoneyMovementGroupID :: "string option"
  mm_PerformedByUserID :: "string option"
  mm_FromCategoryID :: "string option"
  mm_ToCategoryID :: "string option"
  mm_Amount :: i64
  mm_AmountFormatted :: string
  mm_AmountCurrency :: string

definition zero_MoneyMovement :: MoneyMovement where
  "zero_MoneyMovement = \<lparr>mm_ID = [], mm_Month = None, mm_MovedAt = None, mm_Note = None,
     mm_MoneyMovementGroupID = None, mm_PerformedByUserID = None, mm_FromCategoryID = None,
     mm_ToCategoryID = None, mm_Amount = 0, mm_AmountFormatted = [], mm_AmountCurrency = ''0''\<rparr>"

definition MoneyMovement_fields :: "'w env \<Rightarrow> (string \<times> MoneyMovement decoder) list" where
  "MoneyMovement_fields env =
     [field ''id'' mm_ID (\<lambda>a r. r\<lparr>mm_ID := a\<rparr>) decode_string,
      field ''month'' mm_Month (\<lambda>a r. r\<lparr>mm_Month := a\<rparr>) (decode_pointer zero_Month decode_month),
      field ''moved_at'' mm_MovedAt (\<lambda>a r. r\<lparr>mm_MovedAt := a\<rparr>) (decode_time_pointer env),
      field ''note'' mm_Note (\<lambda>a r. r\<lparr>mm_Note := a\<rparr>) decode_text_pointer,
      field ''money_movement_group_id'' mm_MoneyMovementGroupID (\<lambda>a r. r\<lparr>mm_MoneyMovementGroupID := a\<rparr>) decode_text_pointer,
      field ''performed_by_user_id'' mm_PerformedByUserID (\<lambda>a r. r\<lparr>mm_PerformedByUserID := a\<rparr>) decode_text_pointer,
      field ''from_category_id'' mm_FromCategoryID (\<lambda>a r. r\<lparr>mm_FromCategoryID := a\<rparr>) decode_text_pointer,
      field ''to_category_id'' mm_ToCategoryID (\<lambda>a r. r\<lparr>mm_ToCategoryID := a\<rparr>) decode_text_pointer,
      field ''amount'' mm_Amount (\<lambda>a r. r\<lparr>mm_Amount := a\<rparr>) decode_int64,
      field ''amount_formatted'' mm_AmountFormatted (\<lambda>a r. r\<lparr>mm_AmountFormatted := a\<rparr>) decode_string,
      field ''amount_currency'' mm_AmountCurrency (\<lambda>a r. r\<lparr>mm_AmountCurrency := a\<rparr>) (decode_float env)]"

record MoneyMovementGroup =
  mg_ID :: string
  mg_GroupCreatedAt :: int
  mg_Month :: Month
  mg_Note :: "string option"
  mg_PerformedByUserID :: "string option"

definition zero_MoneyMovementGroup :: MoneyMovementGroup where
  "zero_MoneyMovementGroup = \<lparr>mg_ID = [], mg_GroupCreatedAt = zero_time, mg_Month = zero_Month,
     mg_Note = None, mg_PerformedByUserID = None\<rparr>"

definition MoneyMovementGroup_fields :: "'w env \<Rightarrow> (string \<times> MoneyMovementGroup decoder) list" where
  "MoneyMovementGroup_fields env =
     [field ''id'' mg_ID (\<lambda>a r. r\<lparr>mg_ID := a\<rparr>) decode_string,
      field ''group_created_at'' mg_GroupCreatedAt (\<lambda>a r. r\<lparr>mg_GroupCreatedAt := a\<rparr>) (decode_time env),
      field ''month'' mg_Month (\<lambda>a r. r\<lparr>mg_Month := a\<rparr>) decode_month,
      field ''note'' mg_Note (\<lambda>a r. r\<lparr>mg_Note := a\<rparr>) decode_text_pointer,
      field ''performed_by_user_id'' mg_PerformedByUserID (\<lambda>a r. r\<lparr>mg_PerformedByUserID := a\<rparr>) decode_text_pointer]"

definition moneyMovementsResult :: "'w env \<Rightarrow> (MoneyMovement list option \<times> ServerKnowledge) decoder" where
  "moneyMovementsResult env = with_knowledge ''money_movements'' (decode_records zero_MoneyMovement (MoneyMovement_fields env))"

definition moneyMovementGroupsResult :: "'w env \<Rightarrow> (MoneyMovementGroup list option \<times> ServerKnowledge) decoder" where
  "moneyMovementGroupsResult env = with_knowledge ''money_movement_groups'' (decode_records zero_MoneyMovementGroup (MoneyMovementGroup_fields env))"

section \<open>Endpoints\<close>

definition MoneyMovements_List ::
  "'w env \<Rightarrow> 'w Plan \<Rightarrow> 'w state \<Rightarrow> (gerr + MoneyMovement list option \<times> ServerKnowledge) \<times> 'w state"
where
  "MoneyMovements_List env p =
     client_do env (p_client p) (None, 0) (moneyMovementsResult env) ''GET''
     (plan_path p [''money_movements'']) [] None"

interpretation moneymovements_list: endpoint "\<lambda>c. MoneyMovements_List env (Client_Plan c pid)"
  "''GET''" "Plan_path pid [''money_movements'']" "[]" "marshalBody env None"
  for env pid
  by (simp add: MoneyMovements_List_def Client_Plan_def endpoint_intros)

definition MoneyMovements_ListByMonth ::
  "'w env \<Rightarrow> 'w Plan \<Rightarrow> Month \<Rightarrow> 'w state \<Rightarrow> (gerr + MoneyMovement list option \<times> ServerKnowledge) \<times> 'w state"
where
  "MoneyMovements_ListByMonth env p m = checked (month_check ''MoneyMovements.ListByMonth'' m) (client_do env (p_client p) (None, 0) (moneyMovementsResult env) ''GET''
     (plan_path p [''months'', Month_String m, ''money_movements'']) [] None)"

interpretation moneymovements_listbymonth: endpoint "\<lambda>c. MoneyMovements_ListByMonth env (Client_Plan c pid) m"
  "''GET''" "Plan_path pid [''months'', Month_String m, ''money_movements'']" "[]" "marshalBody env None"
  for env pid m
  by (simp add: MoneyMovements_ListByMonth_def Client_Plan_def endpoint_intros)

definition MoneyMovements_ListGroups ::
  "'w env \<Rightarrow> 'w Plan \<Rightarrow> 'w state \<Rightarrow> (gerr + MoneyMovementGroup list option \<times> ServerKnowledge) \<times> 'w state"
where
  "MoneyMovements_ListGroups env p =
     client_do env (p_client p) (None, 0) (moneyMovementGroupsResult env) ''GET''
     (plan_path p [''money_movement_groups'']) [] None"

interpretation moneymovements_listgroups: endpoint "\<lambda>c. MoneyMovements_ListGroups env (Client_Plan c pid)"
  "''GET''" "Plan_path pid [''money_movement_groups'']" "[]" "marshalBody env None"
  for env pid
  by (simp add: MoneyMovements_ListGroups_def Client_Plan_def endpoint_intros)

definition MoneyMovements_ListGroupsByMonth ::
  "'w env \<Rightarrow> 'w Plan \<Rightarrow> Month \<Rightarrow> 'w state \<Rightarrow> (gerr + MoneyMovementGroup list option \<times> ServerKnowledge) \<times> 'w state"
where
  "MoneyMovements_ListGroupsByMonth env p m = checked (month_check ''MoneyMovements.ListGroupsByMonth'' m) (client_do env (p_client p) (None, 0) (moneyMovementGroupsResult env) ''GET''
     (plan_path p [''months'', Month_String m, ''money_movement_groups'']) [] None)"

interpretation moneymovements_listgroupsbymonth: endpoint "\<lambda>c. MoneyMovements_ListGroupsByMonth env (Client_Plan c pid) m"
  "''GET''" "Plan_path pid [''months'', Month_String m, ''money_movement_groups'']" "[]" "marshalBody env None"
  for env pid m
  by (simp add: MoneyMovements_ListGroupsByMonth_def Client_Plan_def endpoint_intros)

end
