(* ===== verification/Transactions.thy ===== *)
theory Transactions
  imports Endpoint
begin

text \<open>
  \<open>transactions.go\<close>: the transaction models, the list filter, the write payloads with their
  pre-flight checks, the batch patches, and the endpoints. A nil slice of specs or patches is
  \<open>None\<close>; it encodes as \<open>null\<close>, an empty one as the empty array.
\<close>

section \<open>Types\<close>

definition ClearedStatus_values :: "string list" where
  "ClearedStatus_values =
     [''uncleared'', ''cleared'', ''reconciled'']"

definition ClearedStatus_Valid :: "string \<Rightarrow> bool" where
  "ClearedStatus_Valid t = List.member ClearedStatus_values t"

definition FlagColor_values :: "string list" where
  "FlagColor_values =
     ['''', ''red'', ''orange'', ''yellow'', ''green'', ''blue'', ''purple'']"

definition FlagColor_Valid :: "string \<Rightarrow> bool" where
  "FlagColor_Valid t = List.member FlagColor_values t"

definition TransactionType_values :: "string list" where
  "TransactionType_values =
     [''uncategorized'', ''unapproved'']"

definition TransactionType_Valid :: "string \<Rightarrow> bool" where
  "TransactionType_Valid t = List.member TransactionType_values t"

definition HybridType_values :: "string list" where
  "HybridType_values =
     [''transaction'', ''subtransaction'']"

definition HybridType_Valid :: "string \<Rightarrow> bool" where
  "HybridType_Valid t = List.member HybridType_values t"

definition DebtTransactionType_values :: "string list" where
  "DebtTransactionType_values =
     [''payment'', ''refund'', ''fee'', ''interest'', ''escrow'', ''balanceAdjustment'', ''credit'',
     ''charge'']"

definition DebtTransactionType_Valid :: "string \<Rightarrow> bool" where
  "DebtTransactionType_Valid t = List.member DebtTransactionType_values t"

section \<open>Models\<close>

record TransactionBase =
  tb_ID :: string
  tb_Date :: Date
  tb_Amount :: i64
  tb_Memo :: "string option"
  tb_Cleared :: string
  tb_Approved :: bool
  tb_FlagColor :: "string option"
  tb_FlagName :: "string option"
  tb_AccountID :: string
  tb_PayeeID :: "string option"
  tb_CategoryID :: "string option"
  tb_TransferAccountID :: "string option"
  tb_TransferTransactionID :: "string option"
  tb_MatchedTransactionID :: "string option"
  tb_ImportID :: "string option"
  tb_ImportPayeeName :: "string option"
  tb_ImportPayeeNameOriginal :: "string option"
  tb_DebtTransactionType :: "string option"
  tb_Deleted :: bool

definition zero_TransactionBase :: TransactionBase where
  "zero_TransactionBase = \<lparr>tb_ID = [], tb_Date = zero_Date, tb_Amount = 0, tb_Memo = None,
     tb_Cleared = [], tb_Approved = False, tb_FlagColor = None, tb_FlagName = None, tb_AccountID = [],
     tb_PayeeID = None, tb_CategoryID = None, tb_TransferAccountID = None,
     tb_TransferTransactionID = None, tb_MatchedTransactionID = None, tb_ImportID = None,
     tb_ImportPayeeName = None, tb_ImportPayeeNameOriginal = None, tb_DebtTransactionType = None,
     tb_Deleted = False\<rparr>"

definition TransactionBase_fields :: "(string \<times> 'z TransactionBase_scheme decoder) list" where
  "TransactionBase_fields =
     [field ''id'' tb_ID (\<lambda>a r. r\<lparr>tb_ID := a\<rparr>) decode_string,
      field ''date'' tb_Date (\<lambda>a r. r\<lparr>tb_Date := a\<rparr>) decode_date,
      field ''amount'' tb_Amount (\<lambda>a r. r\<lparr>tb_Amount := a\<rparr>) decode_int64,
      field ''memo'' tb_Memo (\<lambda>a r. r\<lparr>tb_Memo := a\<rparr>) decode_text_pointer,
      field ''cleared'' tb_Cleared (\<lambda>a r. r\<lparr>tb_Cleared := a\<rparr>) decode_string,
      field ''approved'' tb_Approved (\<lambda>a r. r\<lparr>tb_Approved := a\<rparr>) decode_bool,
      field ''flag_color'' tb_FlagColor (\<lambda>a r. r\<lparr>tb_FlagColor := a\<rparr>) decode_text_pointer,
      field ''flag_name'' tb_FlagName (\<lambda>a r. r\<lparr>tb_FlagName := a\<rparr>) decode_text_pointer,
      field ''account_id'' tb_AccountID (\<lambda>a r. r\<lparr>tb_AccountID := a\<rparr>) decode_string,
      field ''payee_id'' tb_PayeeID (\<lambda>a r. r\<lparr>tb_PayeeID := a\<rparr>) decode_text_pointer,
      field ''category_id'' tb_CategoryID (\<lambda>a r. r\<lparr>tb_CategoryID := a\<rparr>) decode_text_pointer,
      field ''transfer_account_id'' tb_TransferAccountID (\<lambda>a r. r\<lparr>tb_TransferAccountID := a\<rparr>) decode_text_pointer,
      field ''transfer_transaction_id'' tb_TransferTransactionID (\<lambda>a r. r\<lparr>tb_TransferTransactionID := a\<rparr>) decode_text_pointer,
      field ''matched_transaction_id'' tb_MatchedTransactionID (\<lambda>a r. r\<lparr>tb_MatchedTransactionID := a\<rparr>) decode_text_pointer,
      field ''import_id'' tb_ImportID (\<lambda>a r. r\<lparr>tb_ImportID := a\<rparr>) decode_text_pointer,
      field ''import_payee_name'' tb_ImportPayeeName (\<lambda>a r. r\<lparr>tb_ImportPayeeName := a\<rparr>) decode_text_pointer,
      field ''import_payee_name_original'' tb_ImportPayeeNameOriginal (\<lambda>a r. r\<lparr>tb_ImportPayeeNameOriginal := a\<rparr>) decode_text_pointer,
      field ''debt_transaction_type'' tb_DebtTransactionType (\<lambda>a r. r\<lparr>tb_DebtTransactionType := a\<rparr>) decode_text_pointer,
      field ''deleted'' tb_Deleted (\<lambda>a r. r\<lparr>tb_Deleted := a\<rparr>) decode_bool]"

definition TransactionBase_SyncID :: "'z TransactionBase_scheme \<Rightarrow> string" where
  "TransactionBase_SyncID x = tb_ID x"

definition TransactionBase_IsDeleted :: "'z TransactionBase_scheme \<Rightarrow> bool" where
  "TransactionBase_IsDeleted x = tb_Deleted x"

record SubtransactionBase =
  sb_ID :: string
  sb_TransactionID :: string
  sb_Amount :: i64
  sb_Memo :: "string option"
  sb_PayeeID :: "string option"
  sb_PayeeName :: "string option"
  sb_CategoryID :: "string option"
  sb_CategoryName :: "string option"
  sb_TransferAccountID :: "string option"
  sb_TransferTransactionID :: "string option"
  sb_Deleted :: bool

definition zero_SubtransactionBase :: SubtransactionBase where
  "zero_SubtransactionBase = \<lparr>sb_ID = [], sb_TransactionID = [], sb_Amount = 0, sb_Memo = None,
     sb_PayeeID = None, sb_PayeeName = None, sb_CategoryID = None, sb_CategoryName = None,
     sb_TransferAccountID = None, sb_TransferTransactionID = None, sb_Deleted = False\<rparr>"

definition SubtransactionBase_fields :: "(string \<times> 'z SubtransactionBase_scheme decoder) list" where
  "SubtransactionBase_fields =
     [field ''id'' sb_ID (\<lambda>a r. r\<lparr>sb_ID := a\<rparr>) decode_string,
      field ''transaction_id'' sb_TransactionID (\<lambda>a r. r\<lparr>sb_TransactionID := a\<rparr>) decode_string,
      field ''amount'' sb_Amount (\<lambda>a r. r\<lparr>sb_Amount := a\<rparr>) decode_int64,
      field ''memo'' sb_Memo (\<lambda>a r. r\<lparr>sb_Memo := a\<rparr>) decode_text_pointer,
      field ''payee_id'' sb_PayeeID (\<lambda>a r. r\<lparr>sb_PayeeID := a\<rparr>) decode_text_pointer,
      field ''payee_name'' sb_PayeeName (\<lambda>a r. r\<lparr>sb_PayeeName := a\<rparr>) decode_text_pointer,
      field ''category_id'' sb_CategoryID (\<lambda>a r. r\<lparr>sb_CategoryID := a\<rparr>) decode_text_pointer,
      field ''category_name'' sb_CategoryName (\<lambda>a r. r\<lparr>sb_CategoryName := a\<rparr>) decode_text_pointer,
      field ''transfer_account_id'' sb_TransferAccountID (\<lambda>a r. r\<lparr>sb_TransferAccountID := a\<rparr>) decode_text_pointer,
      field ''transfer_transaction_id'' sb_TransferTransactionID (\<lambda>a r. r\<lparr>sb_TransferTransactionID := a\<rparr>) decode_text_pointer,
      field ''deleted'' sb_Deleted (\<lambda>a r. r\<lparr>sb_Deleted := a\<rparr>) decode_bool]"

definition SubtransactionBase_SyncID :: "'z SubtransactionBase_scheme \<Rightarrow> string" where
  "SubtransactionBase_SyncID x = sb_ID x"

definition SubtransactionBase_IsDeleted :: "'z SubtransactionBase_scheme \<Rightarrow> bool" where
  "SubtransactionBase_IsDeleted x = sb_Deleted x"

record Subtransaction = SubtransactionBase +
  su_AmountFormatted :: string
  su_AmountCurrency :: string

definition zero_Subtransaction :: Subtransaction where
  "zero_Subtransaction = \<lparr>sb_ID = [], sb_TransactionID = [], sb_Amount = 0, sb_Memo = None,
     sb_PayeeID = None, sb_PayeeName = None, sb_CategoryID = None, sb_CategoryName = None,
     sb_TransferAccountID = None, sb_TransferTransactionID = None, sb_Deleted = False,
     su_AmountFormatted = [], su_AmountCurrency = ''0''\<rparr>"

definition Subtransaction_fields :: "'w env \<Rightarrow> (string \<times> Subtransaction decoder) list" where
  "Subtransaction_fields env = SubtransactionBase_fields @
     [field ''amount_formatted'' su_AmountFormatted (\<lambda>a r. r\<lparr>su_AmountFormatted := a\<rparr>) decode_string,
      field ''amount_currency'' su_AmountCurrency (\<lambda>a r. r\<lparr>su_AmountCurrency := a\<rparr>) (decode_float env)]"

record Transaction = TransactionBase +
  tr_AmountFormatted :: string
  tr_AmountCurrency :: string
  tr_AccountName :: string
  tr_PayeeName :: "string option"
  tr_CategoryName :: "string option"
  tr_Subtransactions :: "Subtransaction list option"

definition zero_Transaction :: Transaction where
  "zero_Transaction = \<lparr>tb_ID = [], tb_Date = zero_Date, tb_Amount = 0, tb_Memo = None,
     tb_Cleared = [], tb_Approved = False, tb_FlagColor = None, tb_FlagName = None, tb_AccountID = [],
     tb_PayeeID = None, tb_CategoryID = None, tb_TransferAccountID = None,
     tb_TransferTransactionID = None, tb_MatchedTransactionID = None, tb_ImportID = None,
     tb_ImportPayeeName = None, tb_ImportPayeeNameOriginal = None, tb_DebtTransactionType = None,
     tb_Deleted = False, tr_AmountFormatted = [], tr_AmountCurrency = ''0'', tr_AccountName = [],
     tr_PayeeName = None, tr_CategoryName = None, tr_Subtransactions = None\<rparr>"

definition Transaction_fields :: "'w env \<Rightarrow> (string \<times> Transaction decoder) list" where
  "Transaction_fields env = TransactionBase_fields @
     [field ''amount_formatted'' tr_AmountFormatted (\<lambda>a r. r\<lparr>tr_AmountFormatted := a\<rparr>) decode_string,
      field ''amount_currency'' tr_AmountCurrency (\<lambda>a r. r\<lparr>tr_AmountCurrency := a\<rparr>) (decode_float env),
      field ''account_name'' tr_AccountName (\<lambda>a r. r\<lparr>tr_AccountName := a\<rparr>) decode_string,
      field ''payee_name'' tr_PayeeName (\<lambda>a r. r\<lparr>tr_PayeeName := a\<rparr>) decode_text_pointer,
      field ''category_name'' tr_CategoryName (\<lambda>a r. r\<lparr>tr_CategoryName := a\<rparr>) decode_text_pointer,
      field ''subtransactions'' tr_Subtransactions (\<lambda>a r. r\<lparr>tr_Subtransactions := a\<rparr>) (decode_records zero_Subtransaction (Subtransaction_fields env))]"

record HybridTransaction = TransactionBase +
  ht_AmountFormatted :: string
  ht_AmountCurrency :: string
  ht_Type :: string
  ht_ParentTransactionID :: "string option"
  ht_AccountName :: string
  ht_PayeeName :: "string option"
  ht_CategoryName :: string

definition zero_HybridTransaction :: HybridTransaction where
  "zero_HybridTransaction = \<lparr>tb_ID = [], tb_Date = zero_Date, tb_Amount = 0, tb_Memo = None,
     tb_Cleared = [], tb_Approved = False, tb_FlagColor = None, tb_FlagName = None, tb_AccountID = [],
     tb_PayeeID = None, tb_CategoryID = None, tb_TransferAccountID = None,
     tb_TransferTransactionID = None, tb_MatchedTransactionID = None, tb_ImportID = None,
     tb_ImportPayeeName = None, tb_ImportPayeeNameOriginal = None, tb_DebtTransactionType = None,
     tb_Deleted = False, ht_AmountFormatted = [], ht_AmountCurrency = ''0'', ht_Type = [],
     ht_ParentTransactionID = None, ht_AccountName = [], ht_PayeeName = None,
     ht_CategoryName = []\<rparr>"

definition HybridTransaction_fields :: "'w env \<Rightarrow> (string \<times> HybridTransaction decoder) list" where
  "HybridTransaction_fields env = TransactionBase_fields @
     [field ''amount_formatted'' ht_AmountFormatted (\<lambda>a r. r\<lparr>ht_AmountFormatted := a\<rparr>) decode_string,
      field ''amount_currency'' ht_AmountCurrency (\<lambda>a r. r\<lparr>ht_AmountCurrency := a\<rparr>) (decode_float env),
      field ''type'' ht_Type (\<lambda>a r. r\<lparr>ht_Type := a\<rparr>) decode_string,
      field ''parent_transaction_id'' ht_ParentTransactionID (\<lambda>a r. r\<lparr>ht_ParentTransactionID := a\<rparr>) decode_text_pointer,
      field ''account_name'' ht_AccountName (\<lambda>a r. r\<lparr>ht_AccountName := a\<rparr>) decode_string,
      field ''payee_name'' ht_PayeeName (\<lambda>a r. r\<lparr>ht_PayeeName := a\<rparr>) decode_text_pointer,
      field ''category_name'' ht_CategoryName (\<lambda>a r. r\<lparr>ht_CategoryName := a\<rparr>) decode_string]"

record BatchResult =
  br_Transactions :: "Transaction list option"
  br_TransactionIDs :: "string list option"
  br_DuplicateImportIDs :: "string list option"
  br_ServerKnowledge :: ServerKnowledge

definition zero_BatchResult :: BatchResult where
  "zero_BatchResult = \<lparr>br_Transactions = None, br_TransactionIDs = None,
     br_DuplicateImportIDs = None, br_ServerKnowledge = 0\<rparr>"

definition BatchResult_fields :: "'w env \<Rightarrow> (string \<times> BatchResult decoder) list" where
  "BatchResult_fields env =
     [field ''transactions'' br_Transactions (\<lambda>a r. r\<lparr>br_Transactions := a\<rparr>) (decode_records zero_Transaction (Transaction_fields env)),
      field ''transaction_ids'' br_TransactionIDs (\<lambda>a r. r\<lparr>br_TransactionIDs := a\<rparr>) (decode_slice [] decode_string),
      field ''duplicate_import_ids'' br_DuplicateImportIDs (\<lambda>a r. r\<lparr>br_DuplicateImportIDs := a\<rparr>) (decode_slice [] decode_string),
      field ''server_knowledge'' br_ServerKnowledge (\<lambda>a r. r\<lparr>br_ServerKnowledge := a\<rparr>) decode_int64]"

section \<open>The list filter\<close>

record TransactionFilter =
  tf_SinceDate :: Date
  tf_UntilDate :: Date
  tf_Type :: string
  tf_Since :: ServerKnowledge

definition set_if :: "bool \<Rightarrow> string \<Rightarrow> string \<Rightarrow> url_values \<Rightarrow> url_values" where
  "set_if cond k v q = (if cond then Values_Set k v q else q)"

definition TransactionFilter_encode :: "TransactionFilter \<Rightarrow> url_values" where
  "TransactionFilter_encode f =
     set_if (tf_Since f \<noteq> 0) ''last_knowledge_of_server'' (dec_int (sint (tf_Since f)))
       (set_if (tf_Type f \<noteq> []) ''type'' (tf_Type f)
         (set_if (\<not> Date_IsZero (tf_UntilDate f)) ''until_date'' (Date_String (tf_UntilDate f))
           (set_if (\<not> Date_IsZero (tf_SinceDate f)) ''since_date'' (Date_String (tf_SinceDate f)) [])))"

section \<open>Write payloads\<close>

record SubtransactionSpec =
  ss_Amount :: i64
  ss_PayeeID :: "string Optional"
  ss_PayeeName :: "string Optional"
  ss_CategoryID :: "string Optional"
  ss_Memo :: "string Optional"

definition SubtransactionSpec_members :: "SubtransactionSpec \<Rightarrow> (string \<times> json) list" where
  "SubtransactionSpec_members s =
     plain_field ''amount'' (json_int (ss_Amount s))
     @ opt_field ''payee_id'' JStr (ss_PayeeID s)
     @ opt_field ''payee_name'' JStr (ss_PayeeName s)
     @ opt_field ''category_id'' JStr (ss_CategoryID s)
     @ opt_field ''memo'' JStr (ss_Memo s)"

definition SubtransactionSpec_json :: "SubtransactionSpec \<Rightarrow> json" where
  "SubtransactionSpec_json s = JObj (SubtransactionSpec_members s)"

record TransactionSpec =
  ts_AccountID :: string
  ts_Date :: Date
  ts_Amount :: i64
  ts_PayeeID :: "string Optional"
  ts_PayeeName :: "string Optional"
  ts_CategoryID :: "string Optional"
  ts_Memo :: "string Optional"
  ts_Cleared :: string
  ts_Approved :: "bool Optional"
  ts_FlagColor :: "string Optional"
  ts_ImportID :: "string Optional"
  ts_Splits :: "SubtransactionSpec list option"

definition TransactionSpec_members :: "TransactionSpec \<Rightarrow> (string \<times> json) list" where
  "TransactionSpec_members s =
     plain_field ''account_id'' (JStr (ts_AccountID s))
     @ plain_field ''date'' (json_date (ts_Date s))
     @ plain_field ''amount'' (json_int (ts_Amount s))
     @ opt_field ''payee_id'' JStr (ts_PayeeID s)
     @ opt_field ''payee_name'' JStr (ts_PayeeName s)
     @ opt_field ''category_id'' JStr (ts_CategoryID s)
     @ opt_field ''memo'' JStr (ts_Memo s)
     @ str_field ''cleared'' (ts_Cleared s)
     @ opt_field ''approved'' JBool (ts_Approved s)
     @ opt_field ''flag_color'' JStr (ts_FlagColor s)
     @ opt_field ''import_id'' JStr (ts_ImportID s)
     @ (case ts_Splits s of None \<Rightarrow> []
        | Some legs \<Rightarrow> plain_field ''subtransactions'' (JArr (map SubtransactionSpec_json legs)))"

definition TransactionSpec_json :: "TransactionSpec \<Rightarrow> json" where
  "TransactionSpec_json s = JObj (TransactionSpec_members s)"

record TransactionUpdate =
  tu_AccountID :: "string Optional"
  tu_Date :: "Date Optional"
  tu_Amount :: "i64 Optional"
  tu_PayeeID :: "string Optional"
  tu_PayeeName :: "string Optional"
  tu_CategoryID :: "string Optional"
  tu_Memo :: "string Optional"
  tu_Cleared :: string
  tu_Approved :: "bool Optional"
  tu_FlagColor :: "string Optional"

definition TransactionUpdate_members :: "TransactionUpdate \<Rightarrow> (string \<times> json) list" where
  "TransactionUpdate_members s =
     opt_field ''account_id'' JStr (tu_AccountID s)
     @ opt_field ''date'' json_date (tu_Date s)
     @ opt_field ''amount'' json_int (tu_Amount s)
     @ opt_field ''payee_id'' JStr (tu_PayeeID s)
     @ opt_field ''payee_name'' JStr (tu_PayeeName s)
     @ opt_field ''category_id'' JStr (tu_CategoryID s)
     @ opt_field ''memo'' JStr (tu_Memo s)
     @ str_field ''cleared'' (tu_Cleared s)
     @ opt_field ''approved'' JBool (tu_Approved s)
     @ opt_field ''flag_color'' JStr (tu_FlagColor s)"

definition TransactionUpdate_json :: "TransactionUpdate \<Rightarrow> json" where
  "TransactionUpdate_json s = JObj (TransactionUpdate_members s)"

text \<open>
  One patch of a batch: the identity and the update. \<open>MarshalJSON\<close> encodes the update, reads it back
  as a map, adds the identity key and writes the map out in key order.
\<close>

record TransactionPatch =
  tp_id :: string
  tp_importID :: string
  tp_update :: TransactionUpdate

definition PatchByID :: "string \<Rightarrow> TransactionUpdate \<Rightarrow> TransactionPatch" where
  "PatchByID i update = \<lparr>tp_id = i, tp_importID = [], tp_update = update\<rparr>"

definition PatchByImportID :: "string \<Rightarrow> TransactionUpdate \<Rightarrow> TransactionPatch" where
  "PatchByImportID i update = \<lparr>tp_id = [], tp_importID = i, tp_update = update\<rparr>"

definition marshal_map :: "(string \<times> json) list \<Rightarrow> json" where
  "marshal_map m = JObj (sort_key fst m)"

definition TransactionPatch_MarshalJSON :: "TransactionPatch \<Rightarrow> gerr + json" where
  "TransactionPatch_MarshalJSON p =
     (let m = TransactionUpdate_members (tp_update p) in
      if tp_id p \<noteq> [] then Inr (marshal_map (AList.update ''id'' (JStr (tp_id p)) m))
      else if tp_importID p \<noteq> [] then Inr (marshal_map (AList.update ''import_id'' (JStr (tp_importID p)) m))
      else Inl (EPlain (''ynab: TransactionPatch needs an identity '' @ [CHR 0xE2, CHR 0x80, CHR 0x94] @ '' use PatchByID or PatchByImportID'')))"

fun marshal_patches :: "TransactionPatch list \<Rightarrow> gerr + json list" where
  "marshal_patches [] = Inr []"
| "marshal_patches (p # ps) = (case TransactionPatch_MarshalJSON p of
     Inl e \<Rightarrow> Inl (EWrap ''json: error calling MarshalJSON for type ynab.TransactionPatch: '' e)
   | Inr v \<Rightarrow> (case marshal_patches ps of Inl e \<Rightarrow> Inl e | Inr vs \<Rightarrow> Inr (v # vs)))"

definition patches_body :: "TransactionPatch list option \<Rightarrow> payload" where
  "patches_body ps = (case ps of
     None \<Rightarrow> body ''transactions'' JNull
   | Some ps \<Rightarrow> (case marshal_patches ps of
       Inl e \<Rightarrow> Some (Inl e) | Inr vs \<Rightarrow> body ''transactions'' (JArr vs)))"

definition specs_body :: "TransactionSpec list option \<Rightarrow> payload" where
  "specs_body specs = body ''transactions''
     (case specs of None \<Rightarrow> JNull | Some ss \<Rightarrow> JArr (map TransactionSpec_json ss))"

section \<open>Pre-flight checks\<close>

definition importIDMax :: nat where "importIDMax = 36"
definition transactionPayeeNameMax :: nat where "transactionPayeeNameMax = 200"
definition memoMax :: nat where "memoMax = 500"

text \<open>\<open>argErr.Reason += " (split i)"\<close> and its siblings.\<close>

definition at_index :: "string \<Rightarrow> nat \<Rightarrow> ArgumentError \<Rightarrow> ArgumentError" where
  "at_index what i e = e\<lparr>ae_Reason := ae_Reason e @ '' ('' @ what @ '' '' @ dec_nat i @ '')''\<rparr>"

definition leg_check :: "string \<Rightarrow> SubtransactionSpec \<Rightarrow> ArgumentError option" where
  "leg_check op leg = errFirst
     [checkOptRuneMax op ''payee_name'' (ss_PayeeName leg) transactionPayeeNameMax,
      checkOptRuneMax op ''memo'' (ss_Memo leg) memoMax]"

text \<open>The loop over the legs: the first complaint, or the sum of the amounts, which wraps.\<close>

fun check_legs :: "string \<Rightarrow> nat \<Rightarrow> i64 \<Rightarrow> SubtransactionSpec list \<Rightarrow> ArgumentError + i64" where
  "check_legs op i acc [] = Inr acc"
| "check_legs op i acc (leg # legs) = (case leg_check op leg of
     Some e \<Rightarrow> Inl (at_index ''split'' i e)
   | None \<Rightarrow> check_legs op (Suc i) (Add acc (ss_Amount leg)) legs)"

definition TransactionSpec_validate :: "string \<Rightarrow> TransactionSpec \<Rightarrow> ArgumentError option" where
  "TransactionSpec_validate op s =
     (case errFirst
        [checkOptRuneMax op ''import_id'' (ts_ImportID s) importIDMax,
         checkOptRuneMax op ''payee_name'' (ts_PayeeName s) transactionPayeeNameMax,
         checkOptRuneMax op ''memo'' (ts_Memo s) memoMax] of
        Some e \<Rightarrow> Some e
      | None \<Rightarrow>
          (case ts_Splits s of
             None \<Rightarrow> None
           | Some legs \<Rightarrow>
               if legs = [] then None
               else (case check_legs op 0 0 legs of
                  Inl e \<Rightarrow> Some e
                | Inr acc \<Rightarrow>
                    if acc \<noteq> ts_Amount s
                    then Some \<lparr>ae_Op = op, ae_Field = [], ae_Reason = ''split amounts must sum exactly to Amount''\<rparr>
                    else None)))"

definition TransactionUpdate_validate :: "string \<Rightarrow> TransactionUpdate \<Rightarrow> ArgumentError option" where
  "TransactionUpdate_validate op u = errFirst
     [checkOptRuneMax op ''payee_name'' (tu_PayeeName u) transactionPayeeNameMax,
      checkOptRuneMax op ''memo'' (tu_Memo u) memoMax]"

definition TransactionPatch_validate :: "string \<Rightarrow> TransactionPatch \<Rightarrow> ArgumentError option" where
  "TransactionPatch_validate op p = (case checkRuneMax op ''import_id'' (tp_importID p) importIDMax of
     Some e \<Rightarrow> Some e | None \<Rightarrow> TransactionUpdate_validate op (tp_update p))"

text \<open>A loop that stops at the first element with a complaint.\<close>

fun first_complaint :: "(nat \<Rightarrow> 'a \<Rightarrow> ArgumentError option) \<Rightarrow> nat \<Rightarrow> 'a list \<Rightarrow> ArgumentError option" where
  "first_complaint chk i [] = None"
| "first_complaint chk i (x # xs) = (case chk i x of Some e \<Rightarrow> Some e | None \<Rightarrow> first_complaint chk (Suc i) xs)"

definition elements :: "'a list option \<Rightarrow> 'a list" where
  "elements xs = (case xs of None \<Rightarrow> [] | Some l \<Rightarrow> l)"

definition spec_complaint :: "nat \<Rightarrow> TransactionSpec \<Rightarrow> ArgumentError option" where
  "spec_complaint i s = map_option (at_index ''spec'' i) (TransactionSpec_validate ''Transactions.CreateBatch'' s)"

definition patch_complaint :: "nat \<Rightarrow> TransactionPatch \<Rightarrow> ArgumentError option" where
  "patch_complaint i p =
     (if tp_id p = [] \<and> tp_importID p = []
      then Some \<lparr>ae_Op = ''Transactions.UpdateBatch'', ae_Field = ''id'',
        ae_Reason = ''patch '' @ dec_nat i @ '' has an empty identity '' @ [CHR 0xE2, CHR 0x80, CHR 0x94] @ '' use PatchByID or PatchByImportID''\<rparr>
      else map_option (at_index ''patch'' i) (TransactionPatch_validate ''Transactions.UpdateBatch'' p))"

section \<open>Endpoints\<close>

definition transactionsResult :: "'w env \<Rightarrow> (Transaction list option \<times> ServerKnowledge) decoder" where
  "transactionsResult env = with_knowledge ''transactions'' (decode_records zero_Transaction (Transaction_fields env))"

definition hybridResult :: "'w env \<Rightarrow> (HybridTransaction list option \<times> ServerKnowledge) decoder" where
  "hybridResult env = with_knowledge ''transactions'' (decode_records zero_HybridTransaction (HybridTransaction_fields env))"

definition transactionResult :: "'w env \<Rightarrow> (Transaction option \<times> ServerKnowledge) decoder" where
  "transactionResult env = with_knowledge ''transaction'' (decode_record zero_Transaction (Transaction_fields env))"

definition Transactions_List ::
  "'w env \<Rightarrow> 'w Plan \<Rightarrow> TransactionFilter \<Rightarrow> 'w state \<Rightarrow> (gerr + Transaction list option \<times> ServerKnowledge) \<times> 'w state"
where
  "Transactions_List env p filt =
     client_do env (p_client p) (None, 0) (transactionsResult env) ''GET''
     (plan_path p [''transactions'']) (TransactionFilter_encode filt) None"

interpretation transactions_list: endpoint "\<lambda>c. Transactions_List env (Client_Plan c pid) filt"
  "''GET''" "Plan_path pid [''transactions'']" "TransactionFilter_encode filt" "marshalBody env None"
  for env pid filt
  by (simp add: Transactions_List_def Client_Plan_def endpoint_intros)

definition Transactions_ListByAccount ::
  "'w env \<Rightarrow> 'w Plan \<Rightarrow> string \<Rightarrow> TransactionFilter \<Rightarrow> 'w state \<Rightarrow> (gerr + Transaction list option \<times> ServerKnowledge) \<times> 'w state"
where
  "Transactions_ListByAccount env p accountID filt =
     client_do env (p_client p) (None, 0) (transactionsResult env) ''GET''
     (plan_path p [''accounts'', accountID, ''transactions'']) (TransactionFilter_encode filt) None"

interpretation transactions_listbyaccount: endpoint "\<lambda>c. Transactions_ListByAccount env (Client_Plan c pid) accountID filt"
  "''GET''" "Plan_path pid [''accounts'', accountID, ''transactions'']" "TransactionFilter_encode filt" "marshalBody env None"
  for env pid accountID filt
  by (simp add: Transactions_ListByAccount_def Client_Plan_def endpoint_intros)

definition Transactions_ListByCategory ::
  "'w env \<Rightarrow> 'w Plan \<Rightarrow> string \<Rightarrow> TransactionFilter \<Rightarrow> 'w state \<Rightarrow> (gerr + HybridTransaction list option \<times> ServerKnowledge) \<times> 'w state"
where
  "Transactions_ListByCategory env p categoryID filt =
     client_do env (p_client p) (None, 0) (hybridResult env) ''GET''
     (plan_path p [''categories'', categoryID, ''transactions'']) (TransactionFilter_encode filt) None"

interpretation transactions_listbycategory: endpoint "\<lambda>c. Transactions_ListByCategory env (Client_Plan c pid) categoryID filt"
  "''GET''" "Plan_path pid [''categories'', categoryID, ''transactions'']" "TransactionFilter_encode filt" "marshalBody env None"
  for env pid categoryID filt
  by (simp add: Transactions_ListByCategory_def Client_Plan_def endpoint_intros)

definition Transactions_ListByPayee ::
  "'w env \<Rightarrow> 'w Plan \<Rightarrow> string \<Rightarrow> TransactionFilter \<Rightarrow> 'w state \<Rightarrow> (gerr + HybridTransaction list option \<times> ServerKnowledge) \<times> 'w state"
where
  "Transactions_ListByPayee env p payeeID filt =
     client_do env (p_client p) (None, 0) (hybridResult env) ''GET''
     (plan_path p [''payees'', payeeID, ''transactions'']) (TransactionFilter_encode filt) None"

interpretation transactions_listbypayee: endpoint "\<lambda>c. Transactions_ListByPayee env (Client_Plan c pid) payeeID filt"
  "''GET''" "Plan_path pid [''payees'', payeeID, ''transactions'']" "TransactionFilter_encode filt" "marshalBody env None"
  for env pid payeeID filt
  by (simp add: Transactions_ListByPayee_def Client_Plan_def endpoint_intros)

definition Transactions_ListByMonth ::
  "'w env \<Rightarrow> 'w Plan \<Rightarrow> Month \<Rightarrow> TransactionFilter \<Rightarrow> 'w state \<Rightarrow> (gerr + Transaction list option \<times> ServerKnowledge) \<times> 'w state"
where
  "Transactions_ListByMonth env p m filt = checked (month_check ''Transactions.ListByMonth'' m) (client_do env (p_client p) (None, 0) (transactionsResult env) ''GET''
     (plan_path p [''months'', Month_String m, ''transactions'']) (TransactionFilter_encode filt) None)"

interpretation transactions_listbymonth: endpoint "\<lambda>c. Transactions_ListByMonth env (Client_Plan c pid) m filt"
  "''GET''" "Plan_path pid [''months'', Month_String m, ''transactions'']" "TransactionFilter_encode filt" "marshalBody env None"
  for env pid m filt
  by (simp add: Transactions_ListByMonth_def Client_Plan_def endpoint_intros)

definition Transactions_Get ::
  "'w env \<Rightarrow> 'w Plan \<Rightarrow> string \<Rightarrow> 'w state \<Rightarrow> (gerr + Transaction option \<times> ServerKnowledge) \<times> 'w state"
where
  "Transactions_Get env p transactionID =
     client_do env (p_client p) (None, 0) (transactionResult env) ''GET''
     (plan_path p [''transactions'', transactionID]) [] None"

interpretation transactions_get: endpoint "\<lambda>c. Transactions_Get env (Client_Plan c pid) transactionID"
  "''GET''" "Plan_path pid [''transactions'', transactionID]" "[]" "marshalBody env None"
  for env pid transactionID
  by (simp add: Transactions_Get_def Client_Plan_def endpoint_intros)

definition Transactions_Create ::
  "'w env \<Rightarrow> 'w Plan \<Rightarrow> TransactionSpec \<Rightarrow> 'w state \<Rightarrow> (gerr + Transaction option \<times> ServerKnowledge) \<times> 'w state"
where
  "Transactions_Create env p spec = checked (TransactionSpec_validate ''Transactions.Create'' spec) (client_do env (p_client p) (None, 0) (transactionResult env) ''POST''
     (plan_path p [''transactions'']) [] (body ''transaction'' (TransactionSpec_json spec)))"

interpretation transactions_create: endpoint "\<lambda>c. Transactions_Create env (Client_Plan c pid) spec"
  "''POST''" "Plan_path pid [''transactions'']" "[]" "marshalBody env (body ''transaction'' (TransactionSpec_json spec))"
  for env pid spec
  by (simp add: Transactions_Create_def Client_Plan_def endpoint_intros)

definition Transactions_CreateBatch ::
  "'w env \<Rightarrow> 'w Plan \<Rightarrow> TransactionSpec list option \<Rightarrow> 'w state \<Rightarrow> (gerr + BatchResult) \<times> 'w state"
where
  "Transactions_CreateBatch env p specs = checked (first_complaint spec_complaint 0 (elements specs)) (client_do env (p_client p) zero_BatchResult (decode_struct (BatchResult_fields env)) ''POST''
     (plan_path p [''transactions'']) [] (specs_body specs))"

interpretation transactions_createbatch: endpoint "\<lambda>c. Transactions_CreateBatch env (Client_Plan c pid) specs"
  "''POST''" "Plan_path pid [''transactions'']" "[]" "marshalBody env (specs_body specs)"
  for env pid specs
  by (simp add: Transactions_CreateBatch_def Client_Plan_def endpoint_intros)

definition Transactions_Update ::
  "'w env \<Rightarrow> 'w Plan \<Rightarrow> string \<Rightarrow> TransactionUpdate \<Rightarrow> 'w state \<Rightarrow> (gerr + Transaction option \<times> ServerKnowledge) \<times> 'w state"
where
  "Transactions_Update env p transactionID update = checked (TransactionUpdate_validate ''Transactions.Update'' update) (client_do env (p_client p) (None, 0) (transactionResult env) ''PUT''
     (plan_path p [''transactions'', transactionID]) []
     (body ''transaction'' (TransactionUpdate_json update)))"

interpretation transactions_update: endpoint "\<lambda>c. Transactions_Update env (Client_Plan c pid) transactionID update"
  "''PUT''" "Plan_path pid [''transactions'', transactionID]" "[]" "marshalBody env (body ''transaction'' (TransactionUpdate_json update))"
  for env pid transactionID update
  by (simp add: Transactions_Update_def Client_Plan_def endpoint_intros)

definition Transactions_UpdateBatch ::
  "'w env \<Rightarrow> 'w Plan \<Rightarrow> TransactionPatch list option \<Rightarrow> 'w state \<Rightarrow> (gerr + BatchResult) \<times> 'w state"
where
  "Transactions_UpdateBatch env p patches = checked (first_complaint patch_complaint 0 (elements patches)) (client_do env (p_client p) zero_BatchResult (decode_struct (BatchResult_fields env)) ''PATCH''
     (plan_path p [''transactions'']) [] (patches_body patches))"

interpretation transactions_updatebatch: endpoint "\<lambda>c. Transactions_UpdateBatch env (Client_Plan c pid) patches"
  "''PATCH''" "Plan_path pid [''transactions'']" "[]" "marshalBody env (patches_body patches)"
  for env pid patches
  by (simp add: Transactions_UpdateBatch_def Client_Plan_def endpoint_intros)

definition Transactions_Delete ::
  "'w env \<Rightarrow> 'w Plan \<Rightarrow> string \<Rightarrow> 'w state \<Rightarrow> (gerr + Transaction option \<times> ServerKnowledge) \<times> 'w state"
where
  "Transactions_Delete env p transactionID =
     client_do env (p_client p) (None, 0) (transactionResult env) ''DELETE''
     (plan_path p [''transactions'', transactionID]) [] None"

interpretation transactions_delete: endpoint "\<lambda>c. Transactions_Delete env (Client_Plan c pid) transactionID"
  "''DELETE''" "Plan_path pid [''transactions'', transactionID]" "[]" "marshalBody env None"
  for env pid transactionID
  by (simp add: Transactions_Delete_def Client_Plan_def endpoint_intros)

definition Transactions_Import ::
  "'w env \<Rightarrow> 'w Plan \<Rightarrow> 'w state \<Rightarrow> (gerr + string list option) \<times> 'w state"
where
  "Transactions_Import env p =
     client_do env (p_client p) None (only ''transaction_ids'' (decode_slice [] decode_string))
     ''POST'' (plan_path p [''transactions'', ''import'']) [] None"

interpretation transactions_import: endpoint "\<lambda>c. Transactions_Import env (Client_Plan c pid)"
  "''POST''" "Plan_path pid [''transactions'', ''import'']" "[]" "marshalBody env None"
  for env pid
  by (simp add: Transactions_Import_def Client_Plan_def endpoint_intros)

end
