(* ===== verification/Scheduled.thy ===== *)
theory Scheduled
  imports Transactions
begin

text \<open>
  \<open>scheduled.go\<close>: the scheduled-transaction models, the write payloads with the shared date window,
  and the endpoints. \<open>Today()\<close> reads the clock; the local calendar day is an argument.
\<close>

section \<open>Types\<close>

definition Frequency_values :: "string list" where
  "Frequency_values =
     [''never'', ''daily'', ''weekly'', ''everyOtherWeek'', ''twiceAMonth'', ''every4Weeks'',
     ''monthly'', ''everyOtherMonth'', ''every3Months'', ''every4Months'', ''twiceAYear'', ''yearly'',
     ''everyOtherYear'']"

definition Frequency_Valid :: "string \<Rightarrow> bool" where
  "Frequency_Valid t = List.member Frequency_values t"

section \<open>Models\<close>

record ScheduledTransactionBase =
  stb_ID :: string
  stb_DateFirst :: Date
  stb_DateNext :: Date
  stb_Frequency :: string
  stb_Amount :: i64
  stb_Memo :: "string option"
  stb_FlagColor :: "string option"
  stb_FlagName :: "string option"
  stb_AccountID :: string
  stb_PayeeID :: "string option"
  stb_CategoryID :: "string option"
  stb_TransferAccountID :: "string option"
  stb_Deleted :: bool

definition zero_ScheduledTransactionBase :: ScheduledTransactionBase where
  "zero_ScheduledTransactionBase = \<lparr>stb_ID = [], stb_DateFirst = zero_Date,
     stb_DateNext = zero_Date, stb_Frequency = [], stb_Amount = 0, stb_Memo = None,
     stb_FlagColor = None, stb_FlagName = None, stb_AccountID = [], stb_PayeeID = None,
     stb_CategoryID = None, stb_TransferAccountID = None, stb_Deleted = False\<rparr>"

definition ScheduledTransactionBase_fields :: "(string \<times> 'z ScheduledTransactionBase_scheme decoder) list" where
  "ScheduledTransactionBase_fields =
     [field ''id'' stb_ID (\<lambda>a r. r\<lparr>stb_ID := a\<rparr>) decode_string,
      field ''date_first'' stb_DateFirst (\<lambda>a r. r\<lparr>stb_DateFirst := a\<rparr>) decode_date,
      field ''date_next'' stb_DateNext (\<lambda>a r. r\<lparr>stb_DateNext := a\<rparr>) decode_date,
      field ''frequency'' stb_Frequency (\<lambda>a r. r\<lparr>stb_Frequency := a\<rparr>) decode_string,
      field ''amount'' stb_Amount (\<lambda>a r. r\<lparr>stb_Amount := a\<rparr>) decode_int64,
      field ''memo'' stb_Memo (\<lambda>a r. r\<lparr>stb_Memo := a\<rparr>) decode_text_pointer,
      field ''flag_color'' stb_FlagColor (\<lambda>a r. r\<lparr>stb_FlagColor := a\<rparr>) decode_text_pointer,
      field ''flag_name'' stb_FlagName (\<lambda>a r. r\<lparr>stb_FlagName := a\<rparr>) decode_text_pointer,
      field ''account_id'' stb_AccountID (\<lambda>a r. r\<lparr>stb_AccountID := a\<rparr>) decode_string,
      field ''payee_id'' stb_PayeeID (\<lambda>a r. r\<lparr>stb_PayeeID := a\<rparr>) decode_text_pointer,
      field ''category_id'' stb_CategoryID (\<lambda>a r. r\<lparr>stb_CategoryID := a\<rparr>) decode_text_pointer,
      field ''transfer_account_id'' stb_TransferAccountID (\<lambda>a r. r\<lparr>stb_TransferAccountID := a\<rparr>) decode_text_pointer,
      field ''deleted'' stb_Deleted (\<lambda>a r. r\<lparr>stb_Deleted := a\<rparr>) decode_bool]"

definition ScheduledTransactionBase_SyncID :: "'z ScheduledTransactionBase_scheme \<Rightarrow> string" where
  "ScheduledTransactionBase_SyncID x = stb_ID x"

definition ScheduledTransactionBase_IsDeleted :: "'z ScheduledTransactionBase_scheme \<Rightarrow> bool" where
  "ScheduledTransactionBase_IsDeleted x = stb_Deleted x"

record ScheduledSubtransactionBase =
  ssb_ID :: string
  ssb_ScheduledTransactionID :: string
  ssb_Amount :: i64
  ssb_Memo :: "string option"
  ssb_PayeeID :: "string option"
  ssb_PayeeName :: "string option"
  ssb_CategoryID :: "string option"
  ssb_CategoryName :: "string option"
  ssb_TransferAccountID :: "string option"
  ssb_Deleted :: bool

definition zero_ScheduledSubtransactionBase :: ScheduledSubtransactionBase where
  "zero_ScheduledSubtransactionBase = \<lparr>ssb_ID = [], ssb_ScheduledTransactionID = [],
     ssb_Amount = 0, ssb_Memo = None, ssb_PayeeID = None, ssb_PayeeName = None, ssb_CategoryID = None,
     ssb_CategoryName = None, ssb_TransferAccountID = None, ssb_Deleted = False\<rparr>"

definition ScheduledSubtransactionBase_fields :: "(string \<times> 'z ScheduledSubtransactionBase_scheme decoder) list" where
  "ScheduledSubtransactionBase_fields =
     [field ''id'' ssb_ID (\<lambda>a r. r\<lparr>ssb_ID := a\<rparr>) decode_string,
      field ''scheduled_transaction_id'' ssb_ScheduledTransactionID (\<lambda>a r. r\<lparr>ssb_ScheduledTransactionID := a\<rparr>) decode_string,
      field ''amount'' ssb_Amount (\<lambda>a r. r\<lparr>ssb_Amount := a\<rparr>) decode_int64,
      field ''memo'' ssb_Memo (\<lambda>a r. r\<lparr>ssb_Memo := a\<rparr>) decode_text_pointer,
      field ''payee_id'' ssb_PayeeID (\<lambda>a r. r\<lparr>ssb_PayeeID := a\<rparr>) decode_text_pointer,
      field ''payee_name'' ssb_PayeeName (\<lambda>a r. r\<lparr>ssb_PayeeName := a\<rparr>) decode_text_pointer,
      field ''category_id'' ssb_CategoryID (\<lambda>a r. r\<lparr>ssb_CategoryID := a\<rparr>) decode_text_pointer,
      field ''category_name'' ssb_CategoryName (\<lambda>a r. r\<lparr>ssb_CategoryName := a\<rparr>) decode_text_pointer,
      field ''transfer_account_id'' ssb_TransferAccountID (\<lambda>a r. r\<lparr>ssb_TransferAccountID := a\<rparr>) decode_text_pointer,
      field ''deleted'' ssb_Deleted (\<lambda>a r. r\<lparr>ssb_Deleted := a\<rparr>) decode_bool]"

definition ScheduledSubtransactionBase_SyncID :: "'z ScheduledSubtransactionBase_scheme \<Rightarrow> string" where
  "ScheduledSubtransactionBase_SyncID x = ssb_ID x"

definition ScheduledSubtransactionBase_IsDeleted :: "'z ScheduledSubtransactionBase_scheme \<Rightarrow> bool" where
  "ScheduledSubtransactionBase_IsDeleted x = ssb_Deleted x"

record ScheduledSubtransaction = ScheduledSubtransactionBase +
  ssu_AmountFormatted :: string
  ssu_AmountCurrency :: string

definition zero_ScheduledSubtransaction :: ScheduledSubtransaction where
  "zero_ScheduledSubtransaction = \<lparr>ssb_ID = [], ssb_ScheduledTransactionID = [], ssb_Amount = 0,
     ssb_Memo = None, ssb_PayeeID = None, ssb_PayeeName = None, ssb_CategoryID = None,
     ssb_CategoryName = None, ssb_TransferAccountID = None, ssb_Deleted = False,
     ssu_AmountFormatted = [], ssu_AmountCurrency = ''0''\<rparr>"

definition ScheduledSubtransaction_fields :: "'w env \<Rightarrow> (string \<times> ScheduledSubtransaction decoder) list" where
  "ScheduledSubtransaction_fields env = ScheduledSubtransactionBase_fields @
     [field ''amount_formatted'' ssu_AmountFormatted (\<lambda>a r. r\<lparr>ssu_AmountFormatted := a\<rparr>) decode_string,
      field ''amount_currency'' ssu_AmountCurrency (\<lambda>a r. r\<lparr>ssu_AmountCurrency := a\<rparr>) (decode_float env)]"

record ScheduledTransaction = ScheduledTransactionBase +
  sct_AmountFormatted :: string
  sct_AmountCurrency :: string
  sct_AccountName :: string
  sct_PayeeName :: "string option"
  sct_CategoryName :: "string option"
  sct_Subtransactions :: "ScheduledSubtransaction list option"

definition zero_ScheduledTransaction :: ScheduledTransaction where
  "zero_ScheduledTransaction = \<lparr>stb_ID = [], stb_DateFirst = zero_Date,
     stb_DateNext = zero_Date, stb_Frequency = [], stb_Amount = 0, stb_Memo = None,
     stb_FlagColor = None, stb_FlagName = None, stb_AccountID = [], stb_PayeeID = None,
     stb_CategoryID = None, stb_TransferAccountID = None, stb_Deleted = False,
     sct_AmountFormatted = [], sct_AmountCurrency = ''0'', sct_AccountName = [], sct_PayeeName = None,
     sct_CategoryName = None, sct_Subtransactions = None\<rparr>"

definition ScheduledTransaction_fields :: "'w env \<Rightarrow> (string \<times> ScheduledTransaction decoder) list" where
  "ScheduledTransaction_fields env = ScheduledTransactionBase_fields @
     [field ''amount_formatted'' sct_AmountFormatted (\<lambda>a r. r\<lparr>sct_AmountFormatted := a\<rparr>) decode_string,
      field ''amount_currency'' sct_AmountCurrency (\<lambda>a r. r\<lparr>sct_AmountCurrency := a\<rparr>) (decode_float env),
      field ''account_name'' sct_AccountName (\<lambda>a r. r\<lparr>sct_AccountName := a\<rparr>) decode_string,
      field ''payee_name'' sct_PayeeName (\<lambda>a r. r\<lparr>sct_PayeeName := a\<rparr>) decode_text_pointer,
      field ''category_name'' sct_CategoryName (\<lambda>a r. r\<lparr>sct_CategoryName := a\<rparr>) decode_text_pointer,
      field ''subtransactions'' sct_Subtransactions (\<lambda>a r. r\<lparr>sct_Subtransactions := a\<rparr>) (decode_records zero_ScheduledSubtransaction (ScheduledSubtransaction_fields env))]"

section \<open>Write payloads\<close>

record ScheduledTransactionSpec =
  sts_AccountID :: string
  sts_Date :: Date
  sts_Amount :: i64
  sts_Frequency :: string
  sts_PayeeID :: "string Optional"
  sts_PayeeName :: "string Optional"
  sts_CategoryID :: "string Optional"
  sts_Memo :: "string Optional"
  sts_FlagColor :: "string Optional"

definition ScheduledTransactionSpec_members :: "ScheduledTransactionSpec \<Rightarrow> (string \<times> json) list" where
  "ScheduledTransactionSpec_members s =
     plain_field ''account_id'' (JStr (sts_AccountID s))
     @ plain_field ''date'' (json_date (sts_Date s))
     @ plain_field ''amount'' (json_int (sts_Amount s))
     @ str_field ''frequency'' (sts_Frequency s)
     @ opt_field ''payee_id'' JStr (sts_PayeeID s)
     @ opt_field ''payee_name'' JStr (sts_PayeeName s)
     @ opt_field ''category_id'' JStr (sts_CategoryID s)
     @ opt_field ''memo'' JStr (sts_Memo s)
     @ opt_field ''flag_color'' JStr (sts_FlagColor s)"

definition ScheduledTransactionSpec_json :: "ScheduledTransactionSpec \<Rightarrow> json" where
  "ScheduledTransactionSpec_json s = JObj (ScheduledTransactionSpec_members s)"

record ScheduledTransactionUpdate =
  stu_AccountID :: "string Optional"
  stu_Date :: "Date Optional"
  stu_Amount :: "i64 Optional"
  stu_Frequency :: string
  stu_PayeeID :: "string Optional"
  stu_PayeeName :: "string Optional"
  stu_CategoryID :: "string Optional"
  stu_Memo :: "string Optional"
  stu_FlagColor :: "string Optional"

definition ScheduledTransactionUpdate_members :: "ScheduledTransactionUpdate \<Rightarrow> (string \<times> json) list" where
  "ScheduledTransactionUpdate_members s =
     opt_field ''account_id'' JStr (stu_AccountID s)
     @ opt_field ''date'' json_date (stu_Date s)
     @ opt_field ''amount'' json_int (stu_Amount s)
     @ str_field ''frequency'' (stu_Frequency s)
     @ opt_field ''payee_id'' JStr (stu_PayeeID s)
     @ opt_field ''payee_name'' JStr (stu_PayeeName s)
     @ opt_field ''category_id'' JStr (stu_CategoryID s)
     @ opt_field ''memo'' JStr (stu_Memo s)
     @ opt_field ''flag_color'' JStr (stu_FlagColor s)"

definition ScheduledTransactionUpdate_json :: "ScheduledTransactionUpdate \<Rightarrow> json" where
  "ScheduledTransactionUpdate_json s = JObj (ScheduledTransactionUpdate_members s)"

section \<open>Pre-flight checks\<close>

definition checkScheduledDate :: "Date \<Rightarrow> string \<Rightarrow> Date \<Rightarrow> ArgumentError option" where
  "checkScheduledDate today op d =
     (if Date_IsZero d
      then Some \<lparr>ae_Op = op, ae_Field = ''date'', ae_Reason = ''date is required''\<rparr>
      else if Date_Before d today
      then Some \<lparr>ae_Op = op, ae_Field = ''date'', ae_Reason = ''must not be in the past''\<rparr>
      else if Date_After d (Date_AddMonths today 60)
      then Some \<lparr>ae_Op = op, ae_Field = ''date'', ae_Reason = ''must be at most 5 years out''\<rparr>
      else None)"

definition ScheduledTransactionSpec_validate :: "Date \<Rightarrow> string \<Rightarrow> ScheduledTransactionSpec \<Rightarrow> ArgumentError option" where
  "ScheduledTransactionSpec_validate today op s = errFirst
     [checkScheduledDate today op (sts_Date s),
      checkOptRuneMax op ''payee_name'' (sts_PayeeName s) transactionPayeeNameMax,
      checkOptRuneMax op ''memo'' (sts_Memo s) memoMax]"

definition ScheduledTransactionUpdate_validate :: "Date \<Rightarrow> string \<Rightarrow> ScheduledTransactionUpdate \<Rightarrow> ArgumentError option" where
  "ScheduledTransactionUpdate_validate today op u =
     (case (case Optional_Get (stu_Date u) of (d, ok) \<Rightarrow> if ok then checkScheduledDate today op d else None) of
        Some e \<Rightarrow> Some e
      | None \<Rightarrow> errFirst
          [checkOptRuneMax op ''payee_name'' (stu_PayeeName u) transactionPayeeNameMax,
           checkOptRuneMax op ''memo'' (stu_Memo u) memoMax])"

section \<open>Endpoints\<close>

definition scheduledResult :: "'w env \<Rightarrow> ScheduledTransaction option decoder" where
  "scheduledResult env = only ''scheduled_transaction'' (decode_record zero_ScheduledTransaction (ScheduledTransaction_fields env))"

text \<open>A 404 answer of the list, and of the list only, becomes the empty list.\<close>

definition fold_not_found :: "gerr + 'a list option \<times> ServerKnowledge \<Rightarrow> gerr + 'a list option \<times> ServerKnowledge" where
  "fold_not_found r = (case r of
     Inl e \<Rightarrow> if errors_Is e (TSentinel ErrNotFound) then Inr (Some [], 0) else Inl e
   | Inr x \<Rightarrow> Inr x)"

definition Scheduled_List ::
  "'w env \<Rightarrow> 'w Plan \<Rightarrow> ListOption list \<Rightarrow> 'w state \<Rightarrow> (gerr + ScheduledTransaction list option \<times> ServerKnowledge) \<times> 'w state"
where
  "Scheduled_List env p opts = (\<lambda>st. map_prod fold_not_found id
     (client_do env (p_client p) (None, 0)
        (with_knowledge ''scheduled_transactions'' (decode_records zero_ScheduledTransaction (ScheduledTransaction_fields env)))
        ''GET'' (plan_path p [''scheduled_transactions'']) (applyListOptions [] opts) None st))"

lemma fold_not_found_EArg [simp]: "fold_not_found (Inl (EArg a)) = Inl (EArg a)"
  by (simp add: fold_not_found_def errors_Is_def error_matches_def)

interpretation scheduled_list: endpoint "\<lambda>c. Scheduled_List env (Client_Plan c pid) opts"
  "''GET''" "Plan_path pid [''scheduled_transactions'']" "applyListOptions [] opts" "marshalBody env None"
  for env pid opts
  unfolding Scheduled_List_def Client_Plan_def Plan.simps
  by (rule endpoint_answer [OF endpoint_do]) simp

definition Scheduled_Get ::
  "'w env \<Rightarrow> 'w Plan \<Rightarrow> string \<Rightarrow> 'w state \<Rightarrow> (gerr + ScheduledTransaction option) \<times> 'w state"
where
  "Scheduled_Get env p scheduledTransactionID =
     client_do env (p_client p) None (scheduledResult env) ''GET''
     (plan_path p [''scheduled_transactions'', scheduledTransactionID]) [] None"

interpretation scheduled_get: endpoint "\<lambda>c. Scheduled_Get env (Client_Plan c pid) scheduledTransactionID"
  "''GET''" "Plan_path pid [''scheduled_transactions'', scheduledTransactionID]" "[]" "marshalBody env None"
  for env pid scheduledTransactionID
  by (simp add: Scheduled_Get_def Client_Plan_def endpoint_intros)

definition Scheduled_Create ::
  "'w env \<Rightarrow> 'w Plan \<Rightarrow> Date \<Rightarrow> ScheduledTransactionSpec \<Rightarrow> 'w state \<Rightarrow> (gerr + ScheduledTransaction option) \<times> 'w state"
where
  "Scheduled_Create env p today spec = checked (ScheduledTransactionSpec_validate today ''Scheduled.Create'' spec) (client_do env (p_client p) None (scheduledResult env) ''POST''
     (plan_path p [''scheduled_transactions'']) []
     (body ''scheduled_transaction'' (ScheduledTransactionSpec_json spec)))"

interpretation scheduled_create: endpoint "\<lambda>c. Scheduled_Create env (Client_Plan c pid) today spec"
  "''POST''" "Plan_path pid [''scheduled_transactions'']" "[]" "marshalBody env (body ''scheduled_transaction'' (ScheduledTransactionSpec_json spec))"
  for env pid today spec
  by (simp add: Scheduled_Create_def Client_Plan_def endpoint_intros)

definition Scheduled_Update ::
  "'w env \<Rightarrow> 'w Plan \<Rightarrow> Date \<Rightarrow> string \<Rightarrow> ScheduledTransactionUpdate \<Rightarrow> 'w state \<Rightarrow> (gerr + ScheduledTransaction option) \<times> 'w state"
where
  "Scheduled_Update env p today scheduledTransactionID update = checked (ScheduledTransactionUpdate_validate today ''Scheduled.Update'' update) (client_do env (p_client p) None (scheduledResult env) ''PUT''
     (plan_path p [''scheduled_transactions'', scheduledTransactionID]) []
     (body ''scheduled_transaction'' (ScheduledTransactionUpdate_json update)))"

interpretation scheduled_update: endpoint "\<lambda>c. Scheduled_Update env (Client_Plan c pid) today scheduledTransactionID update"
  "''PUT''" "Plan_path pid [''scheduled_transactions'', scheduledTransactionID]" "[]" "marshalBody env (body ''scheduled_transaction'' (ScheduledTransactionUpdate_json update))"
  for env pid today scheduledTransactionID update
  by (simp add: Scheduled_Update_def Client_Plan_def endpoint_intros)

definition Scheduled_Delete ::
  "'w env \<Rightarrow> 'w Plan \<Rightarrow> string \<Rightarrow> 'w state \<Rightarrow> (gerr + ScheduledTransaction option) \<times> 'w state"
where
  "Scheduled_Delete env p scheduledTransactionID =
     client_do env (p_client p) None (scheduledResult env) ''DELETE''
     (plan_path p [''scheduled_transactions'', scheduledTransactionID]) [] None"

interpretation scheduled_delete: endpoint "\<lambda>c. Scheduled_Delete env (Client_Plan c pid) scheduledTransactionID"
  "''DELETE''" "Plan_path pid [''scheduled_transactions'', scheduledTransactionID]" "[]" "marshalBody env None"
  for env pid scheduledTransactionID
  by (simp add: Scheduled_Delete_def Client_Plan_def endpoint_intros)

end
