(* ===== verification/Plans.thy ===== *)
theory Plans
  imports Accounts Payees Months Money_Movements Scheduled
begin

text \<open>
  \<open>plan.go\<close>: the plan models, the user and plan endpoints, the full-plan export, and \<open>Delta\<close>, the
  one operation that keeps state of its own: the caller's cursor bundle.
\<close>

section \<open>Models\<close>

record User =
  us_ID :: string

definition zero_User :: User where
  "zero_User = \<lparr>us_ID = []\<rparr>"

definition User_fields :: "(string \<times> User decoder) list" where
  "User_fields =
     [field ''id'' us_ID (\<lambda>a r. r\<lparr>us_ID := a\<rparr>) decode_string]"

record DateFormat =
  df_Format :: string

definition zero_DateFormat :: DateFormat where
  "zero_DateFormat = \<lparr>df_Format = []\<rparr>"

definition DateFormat_fields :: "(string \<times> DateFormat decoder) list" where
  "DateFormat_fields =
     [field ''format'' df_Format (\<lambda>a r. r\<lparr>df_Format := a\<rparr>) decode_string]"

definition zero_CurrencyFormat :: CurrencyFormat where
  "zero_CurrencyFormat = \<lparr>ISOCode = [], ExampleFormat = [], DecimalDigits = 0, DecimalSeparator = [], SymbolFirst = False, GroupSeparator = [], CurrencySymbol = [], DisplaySymbol = False\<rparr>"

definition CurrencyFormat_fields :: "(string \<times> CurrencyFormat decoder) list" where
  "CurrencyFormat_fields =
     [field ''iso_code'' ISOCode (\<lambda>a r. r\<lparr>ISOCode := a\<rparr>) decode_string,
      field ''example_format'' ExampleFormat (\<lambda>a r. r\<lparr>ExampleFormat := a\<rparr>) decode_string,
      field ''decimal_digits'' DecimalDigits (\<lambda>a r. r\<lparr>DecimalDigits := a\<rparr>) decode_int32,
      field ''decimal_separator'' DecimalSeparator (\<lambda>a r. r\<lparr>DecimalSeparator := a\<rparr>) decode_string,
      field ''symbol_first'' SymbolFirst (\<lambda>a r. r\<lparr>SymbolFirst := a\<rparr>) decode_bool,
      field ''group_separator'' GroupSeparator (\<lambda>a r. r\<lparr>GroupSeparator := a\<rparr>) decode_string,
      field ''currency_symbol'' CurrencySymbol (\<lambda>a r. r\<lparr>CurrencySymbol := a\<rparr>) decode_string,
      field ''display_symbol'' DisplaySymbol (\<lambda>a r. r\<lparr>DisplaySymbol := a\<rparr>) decode_bool]"

record PlanSummary =
  ps_ID :: string
  ps_Name :: string
  ps_LastModifiedOn :: int
  ps_FirstMonth :: Month
  ps_LastMonth :: Month
  ps_DateFormat :: "DateFormat option"
  ps_CurrencyFormat :: "CurrencyFormat option"
  ps_Accounts :: "Account list option"

definition zero_PlanSummary :: PlanSummary where
  "zero_PlanSummary = \<lparr>ps_ID = [], ps_Name = [], ps_LastModifiedOn = zero_time,
     ps_FirstMonth = zero_Month, ps_LastMonth = zero_Month, ps_DateFormat = None,
     ps_CurrencyFormat = None, ps_Accounts = None\<rparr>"

definition PlanSummary_fields :: "'w env \<Rightarrow> (string \<times> PlanSummary decoder) list" where
  "PlanSummary_fields env =
     [field ''id'' ps_ID (\<lambda>a r. r\<lparr>ps_ID := a\<rparr>) decode_string,
      field ''name'' ps_Name (\<lambda>a r. r\<lparr>ps_Name := a\<rparr>) decode_string,
      field ''last_modified_on'' ps_LastModifiedOn (\<lambda>a r. r\<lparr>ps_LastModifiedOn := a\<rparr>) (decode_time env),
      field ''first_month'' ps_FirstMonth (\<lambda>a r. r\<lparr>ps_FirstMonth := a\<rparr>) decode_month,
      field ''last_month'' ps_LastMonth (\<lambda>a r. r\<lparr>ps_LastMonth := a\<rparr>) decode_month,
      field ''date_format'' ps_DateFormat (\<lambda>a r. r\<lparr>ps_DateFormat := a\<rparr>) (decode_record zero_DateFormat DateFormat_fields),
      field ''currency_format'' ps_CurrencyFormat (\<lambda>a r. r\<lparr>ps_CurrencyFormat := a\<rparr>) (decode_record zero_CurrencyFormat CurrencyFormat_fields),
      field ''accounts'' ps_Accounts (\<lambda>a r. r\<lparr>ps_Accounts := a\<rparr>) (decode_records zero_Account (Account_fields env))]"

record PlanDetail =
  pd_ID :: string
  pd_Name :: string
  pd_LastModifiedOn :: int
  pd_FirstMonth :: Month
  pd_LastMonth :: Month
  pd_DateFormat :: "DateFormat option"
  pd_CurrencyFormat :: "CurrencyFormat option"
  pd_Accounts :: "AccountBase list option"
  pd_Payees :: "Payee list option"
  pd_PayeeLocations :: "PayeeLocation list option"
  pd_CategoryGroups :: "CategoryGroup list option"
  pd_Categories :: "CategoryBase list option"
  pd_Months :: "MonthDetailBase list option"
  pd_Transactions :: "TransactionBase list option"
  pd_Subtransactions :: "SubtransactionBase list option"
  pd_ScheduledTransactions :: "ScheduledTransactionBase list option"
  pd_ScheduledSubtransactions :: "ScheduledSubtransactionBase list option"

definition zero_PlanDetail :: PlanDetail where
  "zero_PlanDetail = \<lparr>pd_ID = [], pd_Name = [], pd_LastModifiedOn = zero_time,
     pd_FirstMonth = zero_Month, pd_LastMonth = zero_Month, pd_DateFormat = None,
     pd_CurrencyFormat = None, pd_Accounts = None, pd_Payees = None, pd_PayeeLocations = None,
     pd_CategoryGroups = None, pd_Categories = None, pd_Months = None, pd_Transactions = None,
     pd_Subtransactions = None, pd_ScheduledTransactions = None,
     pd_ScheduledSubtransactions = None\<rparr>"

definition PlanDetail_fields :: "'w env \<Rightarrow> (string \<times> PlanDetail decoder) list" where
  "PlanDetail_fields env =
     [field ''id'' pd_ID (\<lambda>a r. r\<lparr>pd_ID := a\<rparr>) decode_string,
      field ''name'' pd_Name (\<lambda>a r. r\<lparr>pd_Name := a\<rparr>) decode_string,
      field ''last_modified_on'' pd_LastModifiedOn (\<lambda>a r. r\<lparr>pd_LastModifiedOn := a\<rparr>) (decode_time env),
      field ''first_month'' pd_FirstMonth (\<lambda>a r. r\<lparr>pd_FirstMonth := a\<rparr>) decode_month,
      field ''last_month'' pd_LastMonth (\<lambda>a r. r\<lparr>pd_LastMonth := a\<rparr>) decode_month,
      field ''date_format'' pd_DateFormat (\<lambda>a r. r\<lparr>pd_DateFormat := a\<rparr>) (decode_record zero_DateFormat DateFormat_fields),
      field ''currency_format'' pd_CurrencyFormat (\<lambda>a r. r\<lparr>pd_CurrencyFormat := a\<rparr>) (decode_record zero_CurrencyFormat CurrencyFormat_fields),
      field ''accounts'' pd_Accounts (\<lambda>a r. r\<lparr>pd_Accounts := a\<rparr>) (decode_records zero_AccountBase (AccountBase_fields env)),
      field ''payees'' pd_Payees (\<lambda>a r. r\<lparr>pd_Payees := a\<rparr>) (decode_records zero_Payee Payee_fields),
      field ''payee_locations'' pd_PayeeLocations (\<lambda>a r. r\<lparr>pd_PayeeLocations := a\<rparr>) (decode_records zero_PayeeLocation PayeeLocation_fields),
      field ''category_groups'' pd_CategoryGroups (\<lambda>a r. r\<lparr>pd_CategoryGroups := a\<rparr>) (decode_records zero_CategoryGroup (CategoryGroup_fields env)),
      field ''categories'' pd_Categories (\<lambda>a r. r\<lparr>pd_Categories := a\<rparr>) (decode_records zero_CategoryBase (CategoryBase_fields env)),
      field ''months'' pd_Months (\<lambda>a r. r\<lparr>pd_Months := a\<rparr>) (decode_records zero_MonthDetailBase (MonthDetailBase_fields env)),
      field ''transactions'' pd_Transactions (\<lambda>a r. r\<lparr>pd_Transactions := a\<rparr>) (decode_records zero_TransactionBase TransactionBase_fields),
      field ''subtransactions'' pd_Subtransactions (\<lambda>a r. r\<lparr>pd_Subtransactions := a\<rparr>) (decode_records zero_SubtransactionBase SubtransactionBase_fields),
      field ''scheduled_transactions'' pd_ScheduledTransactions (\<lambda>a r. r\<lparr>pd_ScheduledTransactions := a\<rparr>) (decode_records zero_ScheduledTransactionBase ScheduledTransactionBase_fields),
      field ''scheduled_subtransactions'' pd_ScheduledSubtransactions (\<lambda>a r. r\<lparr>pd_ScheduledSubtransactions := a\<rparr>) (decode_records zero_ScheduledSubtransactionBase ScheduledSubtransactionBase_fields)]"

record PlanList =
  pls_Plans :: "PlanSummary list option"
  pls_DefaultPlan :: "PlanSummary option"

definition zero_PlanList :: PlanList where
  "zero_PlanList = \<lparr>pls_Plans = None, pls_DefaultPlan = None\<rparr>"

definition PlanList_fields :: "'w env \<Rightarrow> (string \<times> PlanList decoder) list" where
  "PlanList_fields env =
     [field ''plans'' pls_Plans (\<lambda>a r. r\<lparr>pls_Plans := a\<rparr>) (decode_records zero_PlanSummary (PlanSummary_fields env)),
      field ''default_plan'' pls_DefaultPlan (\<lambda>a r. r\<lparr>pls_DefaultPlan := a\<rparr>) (decode_record zero_PlanSummary (PlanSummary_fields env))]"

record PlanSettings =
  pst_DateFormat :: "DateFormat option"
  pst_CurrencyFormat :: "CurrencyFormat option"

definition zero_PlanSettings :: PlanSettings where
  "zero_PlanSettings = \<lparr>pst_DateFormat = None, pst_CurrencyFormat = None\<rparr>"

definition PlanSettings_fields :: "(string \<times> PlanSettings decoder) list" where
  "PlanSettings_fields =
     [field ''date_format'' pst_DateFormat (\<lambda>a r. r\<lparr>pst_DateFormat := a\<rparr>) (decode_record zero_DateFormat DateFormat_fields),
      field ''currency_format'' pst_CurrencyFormat (\<lambda>a r. r\<lparr>pst_CurrencyFormat := a\<rparr>) (decode_record zero_CurrencyFormat CurrencyFormat_fields)]"

section \<open>Endpoints\<close>

datatype PlansOption = NoPlansOption | IncludeAccounts

definition apply_plans_option :: "url_values \<Rightarrow> PlansOption \<Rightarrow> url_values" where
  "apply_plans_option q opt = (case opt of
     NoPlansOption \<Rightarrow> q | IncludeAccounts \<Rightarrow> Values_Set ''include_accounts'' ''true'' q)"

definition plans_query :: "PlansOption list \<Rightarrow> url_values" where
  "plans_query opts = foldl apply_plans_option [] opts"

definition Client_User ::
  "'w env \<Rightarrow> 'w Client \<Rightarrow> 'w state \<Rightarrow> (gerr + User option) \<times> 'w state"
where
  "Client_User env c =
     client_do env c None (only ''user'' (decode_record zero_User User_fields)) ''GET'' ''user'' []
     None"

interpretation client_user: endpoint "\<lambda>c. Client_User env c"
  "''GET''" "''user''" "[]" "marshalBody env None"
  for env
  by (simp add: Client_User_def Client_Plan_def endpoint_intros)

definition Client_Plans ::
  "'w env \<Rightarrow> 'w Client \<Rightarrow> PlansOption list \<Rightarrow> 'w state \<Rightarrow> (gerr + PlanList) \<times> 'w state"
where
  "Client_Plans env c opts =
     client_do env c zero_PlanList (decode_struct (PlanList_fields env)) ''GET'' ''plans''
     (plans_query opts) None"

interpretation client_plans: endpoint "\<lambda>c. Client_Plans env c opts"
  "''GET''" "''plans''" "plans_query opts" "marshalBody env None"
  for env opts
  by (simp add: Client_Plans_def Client_Plan_def endpoint_intros)

definition export_path :: "'w Plan \<Rightarrow> string" where
  "export_path p = JoinPath [''plans'', p_id p]"

definition Plan_Export ::
  "'w env \<Rightarrow> 'w Plan \<Rightarrow> ListOption list \<Rightarrow> 'w state \<Rightarrow> (gerr + PlanDetail option \<times> ServerKnowledge) \<times> 'w state"
where
  "Plan_Export env p opts =
     client_do env (p_client p) (None, 0) (with_knowledge ''plan'' (decode_record zero_PlanDetail (PlanDetail_fields env)))
       ''GET'' (export_path p) (applyListOptions [] opts) None"

interpretation plan_export: endpoint "\<lambda>c. Plan_Export env (Client_Plan c pid) opts"
  "''GET''" "JoinPath [''plans'', pid]" "applyListOptions [] opts" "marshalBody env None"
  for env pid opts
  by (simp add: Plan_Export_def export_path_def Client_Plan_def endpoint_intros)

definition Plan_Settings ::
  "'w env \<Rightarrow> 'w Plan \<Rightarrow> 'w state \<Rightarrow> (gerr + PlanSettings option) \<times> 'w state"
where
  "Plan_Settings env p =
     client_do env (p_client p) None
     (only ''settings'' (decode_record zero_PlanSettings PlanSettings_fields)) ''GET''
     (plan_path p [''settings'']) [] None"

interpretation plan_settings: endpoint "\<lambda>c. Plan_Settings env (Client_Plan c pid)"
  "''GET''" "Plan_path pid [''settings'']" "[]" "marshalBody env None"
  for env pid
  by (simp add: Plan_Settings_def Client_Plan_def endpoint_intros)

section \<open>The delta\<close>

text \<open>
  \<open>st\<close> is the caller's pointer: \<open>None\<close> is nil, and the returned bundle is what it points to after
  the call.
\<close>

definition delta_guard :: "string \<Rightarrow> SyncState option \<Rightarrow> ArgumentError option" where
  "delta_guard pid ss = (case ss of
     None \<Rightarrow> Some \<lparr>ae_Op = ''Plan.Delta'', ae_Field = ''st'', ae_Reason = ''sync state must not be nil''\<rparr>
   | Some s \<Rightarrow>
       if sy_PlanID s \<noteq> [] \<and> sy_PlanID s \<noteq> pid
       then Some \<lparr>ae_Op = ''Plan.Delta'', ae_Field = ''st'',
         ae_Reason = ''sync state belongs to plan '' @ sy_PlanID s @ '', not '' @ pid\<rparr>
       else if sy_PlanID s = [] \<and> sy_Plan s \<noteq> 0
       then Some \<lparr>ae_Op = ''Plan.Delta'', ae_Field = ''st'',
         ae_Reason = ''sync state carries a cursor but no plan id '' @ [CHR 0xE2, CHR 0x80, CHR 0x94] @ '' it cannot be attributed to this plan''\<rparr>
       else None)"

definition delta_options :: "SyncState \<Rightarrow> ListOption list" where
  "delta_options s = (if sy_Plan s \<noteq> 0 then [Since (sy_Plan s)] else [])"

definition Plan_Delta ::
  "'w env \<Rightarrow> 'w Plan \<Rightarrow> SyncState option \<Rightarrow> 'w state \<Rightarrow> ((gerr + PlanDetail option) \<times> SyncState option) \<times> 'w state"
where
  "Plan_Delta env p ss st = (case delta_guard (p_id p) ss of
     Some e \<Rightarrow> ((Inl (EArg e), ss), st)
   | None \<Rightarrow>
       let s = the ss in
       (case Plan_Export env p (delta_options s) st of
          (Inl e, st') \<Rightarrow> ((Inl e, ss), st')
        | (Inr (detail, sk), st') \<Rightarrow>
            ((Inr detail, Some (s\<lparr>sy_PlanID := p_id p, sy_Plan := sk\<rparr>)), st')))"

end
