(* ===== verification/Contract_Table.thy ===== *)
theory Contract_Table
  imports Paths
begin

text \<open>
  \<open>internal/contract/table.go\<close>: the coverage table, one row per operation of the API, and the
  pattern a path template stands for; and the bodiless operations of \<open>writes.go\<close>. A regular
  expression made from a template is the list of its segments: the templates hold nothing else.
\<close>

section \<open>The table\<close>

record Operation =
  op_ID :: string
  op_Method :: string
  op_Path :: string
  op_QueryParams :: "string list"
  op_GoMethods :: "string list"

definition table_op :: "string \<Rightarrow> string \<Rightarrow> string \<Rightarrow> string list \<Rightarrow> Operation" where
  "table_op i verb path goMethods =
     \<lparr>op_ID = i, op_Method = verb, op_Path = path, op_QueryParams = [], op_GoMethods = goMethods\<rparr>"

definition table_opQ :: "string \<Rightarrow> string \<Rightarrow> string \<Rightarrow> string list \<Rightarrow> string list \<Rightarrow> Operation" where
  "table_opQ i verb path queryParams goMethods =
     \<lparr>op_ID = i, op_Method = verb, op_Path = path, op_QueryParams = queryParams, op_GoMethods = goMethods\<rparr>"

definition deltaParams :: "string list" where
  "deltaParams = [''last_knowledge_of_server'']"

definition transactionFilterParams :: "string list" where
  "transactionFilterParams = [''since_date'', ''until_date'', ''type'', ''last_knowledge_of_server'']"

definition Table :: "Operation list" where
  "Table =
     [table_op ''getUser'' ''GET'' ''/user'' [''Client.User''],
      table_opQ ''getPlans'' ''GET'' ''/plans'' [''include_accounts''] [''Client.Plans''],
      table_opQ ''getPlanById'' ''GET'' ''/plans/{plan_id}'' deltaParams [''Plan.Export''],
      table_op ''getPlanSettingsById'' ''GET'' ''/plans/{plan_id}/settings'' [''Plan.Settings''],
      table_opQ ''getPlanMonths'' ''GET'' ''/plans/{plan_id}/months'' deltaParams [''MonthsService.List''],
      table_op ''getPlanMonth'' ''GET'' ''/plans/{plan_id}/months/{month}'' [''MonthsService.Get''],
      table_opQ ''getAccounts'' ''GET'' ''/plans/{plan_id}/accounts'' deltaParams [''AccountsService.List''],
      table_op ''createAccount'' ''POST'' ''/plans/{plan_id}/accounts'' [''AccountsService.Create''],
      table_op ''getAccountById'' ''GET'' ''/plans/{plan_id}/accounts/{account_id}'' [''AccountsService.Get''],
      table_opQ ''getCategories'' ''GET'' ''/plans/{plan_id}/categories'' deltaParams [''CategoriesService.List''],
      table_op ''createCategory'' ''POST'' ''/plans/{plan_id}/categories'' [''CategoriesService.Create''],
      table_op ''getCategoryById'' ''GET'' ''/plans/{plan_id}/categories/{category_id}'' [''CategoriesService.Get''],
      table_op ''updateCategory'' ''PATCH'' ''/plans/{plan_id}/categories/{category_id}'' [''CategoriesService.Update''],
      table_op ''getMonthCategoryById'' ''GET'' ''/plans/{plan_id}/months/{month}/categories/{category_id}'' [''CategoriesService.GetForMonth''],
      table_op ''updateMonthCategory'' ''PATCH'' ''/plans/{plan_id}/months/{month}/categories/{category_id}'' [''CategoriesService.Assign''],
      table_op ''createCategoryGroup'' ''POST'' ''/plans/{plan_id}/category_groups'' [''CategoriesService.CreateGroup''],
      table_op ''updateCategoryGroup'' ''PATCH'' ''/plans/{plan_id}/category_groups/{category_group_id}'' [''CategoriesService.RenameGroup''],
      table_opQ ''getPayees'' ''GET'' ''/plans/{plan_id}/payees'' deltaParams [''PayeesService.List''],
      table_op ''createPayee'' ''POST'' ''/plans/{plan_id}/payees'' [''PayeesService.Create''],
      table_op ''getPayeeById'' ''GET'' ''/plans/{plan_id}/payees/{payee_id}'' [''PayeesService.Get''],
      table_op ''updatePayee'' ''PATCH'' ''/plans/{plan_id}/payees/{payee_id}'' [''PayeesService.Rename''],
      table_op ''getPayeeLocations'' ''GET'' ''/plans/{plan_id}/payee_locations'' [''PayeeLocationsService.List''],
      table_op ''getPayeeLocationById'' ''GET'' ''/plans/{plan_id}/payee_locations/{payee_location_id}'' [''PayeeLocationsService.Get''],
      table_op ''getPayeeLocationsByPayee'' ''GET'' ''/plans/{plan_id}/payees/{payee_id}/payee_locations'' [''PayeeLocationsService.ListByPayee''],
      table_op ''getMoneyMovements'' ''GET'' ''/plans/{plan_id}/money_movements'' [''MoneyMovementsService.List''],
      table_op ''getMoneyMovementsByMonth'' ''GET'' ''/plans/{plan_id}/months/{month}/money_movements'' [''MoneyMovementsService.ListByMonth''],
      table_op ''getMoneyMovementGroups'' ''GET'' ''/plans/{plan_id}/money_movement_groups'' [''MoneyMovementsService.ListGroups''],
      table_op ''getMoneyMovementGroupsByMonth'' ''GET'' ''/plans/{plan_id}/months/{month}/money_movement_groups'' [''MoneyMovementsService.ListGroupsByMonth''],
      table_opQ ''getTransactions'' ''GET'' ''/plans/{plan_id}/transactions'' transactionFilterParams [''TransactionsService.List''],
      table_op ''createTransaction'' ''POST'' ''/plans/{plan_id}/transactions'' [''TransactionsService.Create'', ''TransactionsService.CreateBatch''],
      table_op ''updateTransactions'' ''PATCH'' ''/plans/{plan_id}/transactions'' [''TransactionsService.UpdateBatch''],
      table_op ''importTransactions'' ''POST'' ''/plans/{plan_id}/transactions/import'' [''TransactionsService.Import''],
      table_op ''getTransactionById'' ''GET'' ''/plans/{plan_id}/transactions/{transaction_id}'' [''TransactionsService.Get''],
      table_op ''updateTransaction'' ''PUT'' ''/plans/{plan_id}/transactions/{transaction_id}'' [''TransactionsService.Update''],
      table_op ''deleteTransaction'' ''DELETE'' ''/plans/{plan_id}/transactions/{transaction_id}'' [''TransactionsService.Delete''],
      table_opQ ''getTransactionsByAccount'' ''GET'' ''/plans/{plan_id}/accounts/{account_id}/transactions'' transactionFilterParams [''TransactionsService.ListByAccount''],
      table_opQ ''getTransactionsByCategory'' ''GET'' ''/plans/{plan_id}/categories/{category_id}/transactions'' transactionFilterParams [''TransactionsService.ListByCategory''],
      table_opQ ''getTransactionsByPayee'' ''GET'' ''/plans/{plan_id}/payees/{payee_id}/transactions'' transactionFilterParams [''TransactionsService.ListByPayee''],
      table_opQ ''getTransactionsByMonth'' ''GET'' ''/plans/{plan_id}/months/{month}/transactions'' transactionFilterParams [''TransactionsService.ListByMonth''],
      table_opQ ''getScheduledTransactions'' ''GET'' ''/plans/{plan_id}/scheduled_transactions'' deltaParams [''ScheduledTransactionsService.List''],
      table_op ''createScheduledTransaction'' ''POST'' ''/plans/{plan_id}/scheduled_transactions'' [''ScheduledTransactionsService.Create''],
      table_op ''getScheduledTransactionById'' ''GET'' ''/plans/{plan_id}/scheduled_transactions/{scheduled_transaction_id}'' [''ScheduledTransactionsService.Get''],
      table_op ''updateScheduledTransaction'' ''PUT'' ''/plans/{plan_id}/scheduled_transactions/{scheduled_transaction_id}'' [''ScheduledTransactionsService.Update''],
      table_op ''deleteScheduledTransaction'' ''DELETE'' ''/plans/{plan_id}/scheduled_transactions/{scheduled_transaction_id}'' [''ScheduledTransactionsService.Delete'']]"

definition TableIDs :: "string list" where
  "TableIDs = sort (map op_ID Table)"

section \<open>Path patterns\<close>

datatype segment_pattern = Wild | Lit string

definition PathRegexp :: "string \<Rightarrow> segment_pattern list" where
  "PathRegexp pathTemplate =
     map (\<lambda>seg. if HasPrefix seg ''{'' \<and> HasSuffix seg ''}'' then Wild else Lit seg) (split_slash pathTemplate)"

definition segment_matches :: "segment_pattern \<Rightarrow> string \<Rightarrow> bool" where
  "segment_matches p s = (case p of Wild \<Rightarrow> s \<noteq> [] | Lit l \<Rightarrow> s = l)"

definition MatchString :: "segment_pattern list \<Rightarrow> string \<Rightarrow> bool" where
  "MatchString ps path = list_all2 segment_matches ps (split_slash path)"

section \<open>Bodiless operations\<close>

definition bodilessOps :: "string list" where
  "bodilessOps = [''deleteTransaction'', ''deleteScheduledTransaction'', ''importTransactions'']"

definition isBodiless :: "string \<Rightarrow> bool" where
  "isBodiless i = List.member bodilessOps i"

section \<open>Facts\<close>

text \<open>Every row, as a member of the table.\<close>

lemma Table_rows:
  "table_op ''getUser'' ''GET'' ''/user'' [''Client.User''] \<in> set Table"
  "table_opQ ''getPlans'' ''GET'' ''/plans'' [''include_accounts''] [''Client.Plans''] \<in> set Table"
  "table_opQ ''getPlanById'' ''GET'' ''/plans/{plan_id}'' deltaParams [''Plan.Export''] \<in> set Table"
  "table_op ''getPlanSettingsById'' ''GET'' ''/plans/{plan_id}/settings'' [''Plan.Settings''] \<in> set Table"
  "table_opQ ''getPlanMonths'' ''GET'' ''/plans/{plan_id}/months'' deltaParams [''MonthsService.List''] \<in> set Table"
  "table_op ''getPlanMonth'' ''GET'' ''/plans/{plan_id}/months/{month}'' [''MonthsService.Get''] \<in> set Table"
  "table_opQ ''getAccounts'' ''GET'' ''/plans/{plan_id}/accounts'' deltaParams [''AccountsService.List''] \<in> set Table"
  "table_op ''createAccount'' ''POST'' ''/plans/{plan_id}/accounts'' [''AccountsService.Create''] \<in> set Table"
  "table_op ''getAccountById'' ''GET'' ''/plans/{plan_id}/accounts/{account_id}'' [''AccountsService.Get''] \<in> set Table"
  "table_opQ ''getCategories'' ''GET'' ''/plans/{plan_id}/categories'' deltaParams [''CategoriesService.List''] \<in> set Table"
  "table_op ''createCategory'' ''POST'' ''/plans/{plan_id}/categories'' [''CategoriesService.Create''] \<in> set Table"
  "table_op ''getCategoryById'' ''GET'' ''/plans/{plan_id}/categories/{category_id}'' [''CategoriesService.Get''] \<in> set Table"
  "table_op ''updateCategory'' ''PATCH'' ''/plans/{plan_id}/categories/{category_id}'' [''CategoriesService.Update''] \<in> set Table"
  "table_op ''getMonthCategoryById'' ''GET'' ''/plans/{plan_id}/months/{month}/categories/{category_id}'' [''CategoriesService.GetForMonth''] \<in> set Table"
  "table_op ''updateMonthCategory'' ''PATCH'' ''/plans/{plan_id}/months/{month}/categories/{category_id}'' [''CategoriesService.Assign''] \<in> set Table"
  "table_op ''createCategoryGroup'' ''POST'' ''/plans/{plan_id}/category_groups'' [''CategoriesService.CreateGroup''] \<in> set Table"
  "table_op ''updateCategoryGroup'' ''PATCH'' ''/plans/{plan_id}/category_groups/{category_group_id}'' [''CategoriesService.RenameGroup''] \<in> set Table"
  "table_opQ ''getPayees'' ''GET'' ''/plans/{plan_id}/payees'' deltaParams [''PayeesService.List''] \<in> set Table"
  "table_op ''createPayee'' ''POST'' ''/plans/{plan_id}/payees'' [''PayeesService.Create''] \<in> set Table"
  "table_op ''getPayeeById'' ''GET'' ''/plans/{plan_id}/payees/{payee_id}'' [''PayeesService.Get''] \<in> set Table"
  "table_op ''updatePayee'' ''PATCH'' ''/plans/{plan_id}/payees/{payee_id}'' [''PayeesService.Rename''] \<in> set Table"
  "table_op ''getPayeeLocations'' ''GET'' ''/plans/{plan_id}/payee_locations'' [''PayeeLocationsService.List''] \<in> set Table"
  "table_op ''getPayeeLocationById'' ''GET'' ''/plans/{plan_id}/payee_locations/{payee_location_id}'' [''PayeeLocationsService.Get''] \<in> set Table"
  "table_op ''getPayeeLocationsByPayee'' ''GET'' ''/plans/{plan_id}/payees/{payee_id}/payee_locations'' [''PayeeLocationsService.ListByPayee''] \<in> set Table"
  "table_op ''getMoneyMovements'' ''GET'' ''/plans/{plan_id}/money_movements'' [''MoneyMovementsService.List''] \<in> set Table"
  "table_op ''getMoneyMovementsByMonth'' ''GET'' ''/plans/{plan_id}/months/{month}/money_movements'' [''MoneyMovementsService.ListByMonth''] \<in> set Table"
  "table_op ''getMoneyMovementGroups'' ''GET'' ''/plans/{plan_id}/money_movement_groups'' [''MoneyMovementsService.ListGroups''] \<in> set Table"
  "table_op ''getMoneyMovementGroupsByMonth'' ''GET'' ''/plans/{plan_id}/months/{month}/money_movement_groups'' [''MoneyMovementsService.ListGroupsByMonth''] \<in> set Table"
  "table_opQ ''getTransactions'' ''GET'' ''/plans/{plan_id}/transactions'' transactionFilterParams [''TransactionsService.List''] \<in> set Table"
  "table_op ''createTransaction'' ''POST'' ''/plans/{plan_id}/transactions'' [''TransactionsService.Create'', ''TransactionsService.CreateBatch''] \<in> set Table"
  "table_op ''updateTransactions'' ''PATCH'' ''/plans/{plan_id}/transactions'' [''TransactionsService.UpdateBatch''] \<in> set Table"
  "table_op ''importTransactions'' ''POST'' ''/plans/{plan_id}/transactions/import'' [''TransactionsService.Import''] \<in> set Table"
  "table_op ''getTransactionById'' ''GET'' ''/plans/{plan_id}/transactions/{transaction_id}'' [''TransactionsService.Get''] \<in> set Table"
  "table_op ''updateTransaction'' ''PUT'' ''/plans/{plan_id}/transactions/{transaction_id}'' [''TransactionsService.Update''] \<in> set Table"
  "table_op ''deleteTransaction'' ''DELETE'' ''/plans/{plan_id}/transactions/{transaction_id}'' [''TransactionsService.Delete''] \<in> set Table"
  "table_opQ ''getTransactionsByAccount'' ''GET'' ''/plans/{plan_id}/accounts/{account_id}/transactions'' transactionFilterParams [''TransactionsService.ListByAccount''] \<in> set Table"
  "table_opQ ''getTransactionsByCategory'' ''GET'' ''/plans/{plan_id}/categories/{category_id}/transactions'' transactionFilterParams [''TransactionsService.ListByCategory''] \<in> set Table"
  "table_opQ ''getTransactionsByPayee'' ''GET'' ''/plans/{plan_id}/payees/{payee_id}/transactions'' transactionFilterParams [''TransactionsService.ListByPayee''] \<in> set Table"
  "table_opQ ''getTransactionsByMonth'' ''GET'' ''/plans/{plan_id}/months/{month}/transactions'' transactionFilterParams [''TransactionsService.ListByMonth''] \<in> set Table"
  "table_opQ ''getScheduledTransactions'' ''GET'' ''/plans/{plan_id}/scheduled_transactions'' deltaParams [''ScheduledTransactionsService.List''] \<in> set Table"
  "table_op ''createScheduledTransaction'' ''POST'' ''/plans/{plan_id}/scheduled_transactions'' [''ScheduledTransactionsService.Create''] \<in> set Table"
  "table_op ''getScheduledTransactionById'' ''GET'' ''/plans/{plan_id}/scheduled_transactions/{scheduled_transaction_id}'' [''ScheduledTransactionsService.Get''] \<in> set Table"
  "table_op ''updateScheduledTransaction'' ''PUT'' ''/plans/{plan_id}/scheduled_transactions/{scheduled_transaction_id}'' [''ScheduledTransactionsService.Update''] \<in> set Table"
  "table_op ''deleteScheduledTransaction'' ''DELETE'' ''/plans/{plan_id}/scheduled_transactions/{scheduled_transaction_id}'' [''ScheduledTransactionsService.Delete''] \<in> set Table"
  by (simp_all only: Table_def list.set insert_iff simp_thms)

text \<open>The patterns of the templates.\<close>

lemma template_patterns:
  "PathRegexp ''/user'' = [Lit [], Lit ''user'']"
  "PathRegexp ''/plans'' = [Lit [], Lit ''plans'']"
  "PathRegexp ''/plans/{plan_id}'' = [Lit [], Lit ''plans'', Wild]"
  "PathRegexp ''/plans/{plan_id}/settings'' = [Lit [], Lit ''plans'', Wild, Lit ''settings'']"
  "PathRegexp ''/plans/{plan_id}/months'' = [Lit [], Lit ''plans'', Wild, Lit ''months'']"
  "PathRegexp ''/plans/{plan_id}/months/{month}'' = [Lit [], Lit ''plans'', Wild, Lit ''months'', Wild]"
  "PathRegexp ''/plans/{plan_id}/accounts'' = [Lit [], Lit ''plans'', Wild, Lit ''accounts'']"
  "PathRegexp ''/plans/{plan_id}/accounts/{account_id}'' = [Lit [], Lit ''plans'', Wild, Lit ''accounts'', Wild]"
  "PathRegexp ''/plans/{plan_id}/categories'' = [Lit [], Lit ''plans'', Wild, Lit ''categories'']"
  "PathRegexp ''/plans/{plan_id}/categories/{category_id}'' = [Lit [], Lit ''plans'', Wild, Lit ''categories'', Wild]"
  "PathRegexp ''/plans/{plan_id}/months/{month}/categories/{category_id}'' = [Lit [], Lit ''plans'', Wild, Lit ''months'', Wild, Lit ''categories'', Wild]"
  "PathRegexp ''/plans/{plan_id}/category_groups'' = [Lit [], Lit ''plans'', Wild, Lit ''category_groups'']"
  "PathRegexp ''/plans/{plan_id}/category_groups/{category_group_id}'' = [Lit [], Lit ''plans'', Wild, Lit ''category_groups'', Wild]"
  "PathRegexp ''/plans/{plan_id}/payees'' = [Lit [], Lit ''plans'', Wild, Lit ''payees'']"
  "PathRegexp ''/plans/{plan_id}/payees/{payee_id}'' = [Lit [], Lit ''plans'', Wild, Lit ''payees'', Wild]"
  "PathRegexp ''/plans/{plan_id}/payee_locations'' = [Lit [], Lit ''plans'', Wild, Lit ''payee_locations'']"
  "PathRegexp ''/plans/{plan_id}/payee_locations/{payee_location_id}'' = [Lit [], Lit ''plans'', Wild, Lit ''payee_locations'', Wild]"
  "PathRegexp ''/plans/{plan_id}/payees/{payee_id}/payee_locations'' = [Lit [], Lit ''plans'', Wild, Lit ''payees'', Wild, Lit ''payee_locations'']"
  "PathRegexp ''/plans/{plan_id}/money_movements'' = [Lit [], Lit ''plans'', Wild, Lit ''money_movements'']"
  "PathRegexp ''/plans/{plan_id}/months/{month}/money_movements'' = [Lit [], Lit ''plans'', Wild, Lit ''months'', Wild, Lit ''money_movements'']"
  "PathRegexp ''/plans/{plan_id}/money_movement_groups'' = [Lit [], Lit ''plans'', Wild, Lit ''money_movement_groups'']"
  "PathRegexp ''/plans/{plan_id}/months/{month}/money_movement_groups'' = [Lit [], Lit ''plans'', Wild, Lit ''months'', Wild, Lit ''money_movement_groups'']"
  "PathRegexp ''/plans/{plan_id}/transactions'' = [Lit [], Lit ''plans'', Wild, Lit ''transactions'']"
  "PathRegexp ''/plans/{plan_id}/transactions/import'' = [Lit [], Lit ''plans'', Wild, Lit ''transactions'', Lit ''import'']"
  "PathRegexp ''/plans/{plan_id}/transactions/{transaction_id}'' = [Lit [], Lit ''plans'', Wild, Lit ''transactions'', Wild]"
  "PathRegexp ''/plans/{plan_id}/accounts/{account_id}/transactions'' = [Lit [], Lit ''plans'', Wild, Lit ''accounts'', Wild, Lit ''transactions'']"
  "PathRegexp ''/plans/{plan_id}/categories/{category_id}/transactions'' = [Lit [], Lit ''plans'', Wild, Lit ''categories'', Wild, Lit ''transactions'']"
  "PathRegexp ''/plans/{plan_id}/payees/{payee_id}/transactions'' = [Lit [], Lit ''plans'', Wild, Lit ''payees'', Wild, Lit ''transactions'']"
  "PathRegexp ''/plans/{plan_id}/months/{month}/transactions'' = [Lit [], Lit ''plans'', Wild, Lit ''months'', Wild, Lit ''transactions'']"
  "PathRegexp ''/plans/{plan_id}/scheduled_transactions'' = [Lit [], Lit ''plans'', Wild, Lit ''scheduled_transactions'']"
  "PathRegexp ''/plans/{plan_id}/scheduled_transactions/{scheduled_transaction_id}'' = [Lit [], Lit ''plans'', Wild, Lit ''scheduled_transactions'', Wild]"
  by code_simp+

lemma IDs_distinct: "distinct (map op_ID Table)"
  by code_simp

lemma Table_length: "length Table = 44"
  by (simp add: Table_def)

end
