(* ===== verification/Conformance.thy ===== *)
theory Conformance
  imports Plans Contract_Table
begin

text \<open>
  The client against its contract table. Every call a program can make, with every argument, is a
  value of \<open>call\<close>, one datatype per service; \<open>run_call\<close> performs it on a client. What is shown is
  that whatever the call, the server and the hooks do, the requests that leave the client are those
  of the call's row: its method, a path its template matches, no query parameter the row does not
  list, and a body exactly when the operation has one.
\<close>

section \<open>Matching plan paths\<close>

lemma literal_segments:
  "JoinPath_segment ''accounts'' = ''accounts''"
  "JoinPath_segment ''categories'' = ''categories''"
  "JoinPath_segment ''category_groups'' = ''category_groups''"
  "JoinPath_segment ''import'' = ''import''"
  "JoinPath_segment ''money_movement_groups'' = ''money_movement_groups''"
  "JoinPath_segment ''money_movements'' = ''money_movements''"
  "JoinPath_segment ''months'' = ''months''"
  "JoinPath_segment ''payee_locations'' = ''payee_locations''"
  "JoinPath_segment ''payees'' = ''payees''"
  "JoinPath_segment ''plans'' = ''plans''"
  "JoinPath_segment ''scheduled_transactions'' = ''scheduled_transactions''"
  "JoinPath_segment ''settings'' = ''settings''"
  "JoinPath_segment ''transactions'' = ''transactions''"
  "JoinPath_segment ''user'' = ''user''"
  by (rule JoinPath_segment_literal, code_simp)+

lemma match_plan:
  "MatchString (Lit [] # Lit ''plans'' # Wild # ps) (CHR ''/'' # Plan_path pid segs) \<longleftrightarrow>
     pid \<noteq> [] \<and> list_all2 segment_matches ps (map JoinPath_segment segs)"
  using JoinPath_segment_Nil [of pid]
  by (simp add: MatchString_def Plan_path_def split_slash_JoinPath segment_matches_def literal_segments)

lemma match_export:
  "MatchString [Lit [], Lit ''plans'', Wild] (CHR ''/'' # JoinPath [''plans'', pid]) \<longleftrightarrow> pid \<noteq> []"
  using match_plan [of "[]" pid "[]"] by (simp add: Plan_path_def)

lemma segment_matches_simps:
  "segment_matches Wild (JoinPath_segment s) \<longleftrightarrow> s \<noteq> []"
  "segment_matches (Lit l) s \<longleftrightarrow> s = l"
  "[] = s \<longleftrightarrow> s = []"
  by (auto simp: segment_matches_def JoinPath_segment_Nil)

section \<open>Conformance to a row\<close>

text \<open>A path that was put together from segments.\<close>

definition joined :: "string \<Rightarrow> bool" where
  "joined path \<longleftrightarrow> (\<exists>segs. segs \<noteq> [] \<and> path = JoinPath segs)"

lemma joined_simps [simp]:
  "joined (Plan_path pid segs)" "joined (JoinPath (x # xs))" "joined ''user''" "joined ''plans''"
proof -
  have flat: "JoinPath [''user''] = ''user''" "JoinPath [''plans''] = ''plans''" by code_simp+
  show "joined (Plan_path pid segs)" "joined (JoinPath (x # xs))" by (auto simp: joined_def Plan_path_def)
  show "joined ''user''" "joined ''plans''" unfolding joined_def by (metis flat list.distinct(1))+
qed

definition conforms :: "Core \<Rightarrow> string \<Rightarrow> request \<Rightarrow> bool" where
  "conforms c i req \<longleftrightarrow> (\<exists>row\<in>set Table. op_ID row = i \<and> rq_method req = op_Method row \<and>
     (\<exists>path query. rq_url req = requestURL c path query \<and> joined path \<and>
        MatchString (PathRegexp (op_Path row)) (CHR ''/'' # path) \<and>
        fst ` set query \<subseteq> set (op_QueryParams row)) \<and>
     (rq_payload req = None \<longleftrightarrow> op_Method row = ''GET'' \<or> isBodiless i))"

definition upholds :: "'w Client \<Rightarrow> 'w state \<Rightarrow> 'w state \<Rightarrow> string \<Rightarrow> bool" where
  "upholds c st st' i \<longleftrightarrow> sends (st_trace st') \<le> attempt_limit c \<and>
     (\<forall>req out. EvSend req out \<in> set (st_trace st') \<longrightarrow> conforms (core_of c) i req) \<and>
     (cl_configErr c \<noteq> None \<longrightarrow> st' = st)"

definition wire_fits :: "bool \<Rightarrow> gerr + string option \<Rightarrow> bool" where
  "wire_fits bodiless wire \<longleftrightarrow> (if bodiless then wire = Inr None else wire \<noteq> Inr None)"

lemma upholdsI:
  assumes "endpoint run verb path query wire" and "client_ok c" and "st_trace st = []"
    and "row \<in> set Table" and "op_ID row = i" and "op_Method row = verb"
    and "\<not> empty_segment path \<Longrightarrow> MatchString (PathRegexp (op_Path row)) (CHR ''/'' # path)"
    and "fst ` set query \<subseteq> set (op_QueryParams row)"
    and "joined path"
    and "wire_fits (verb = ''GET'' \<or> isBodiless i) wire"
  shows "upholds c st (snd (run c st)) i"
proof -
  note e = endpoint.contract [OF assms(1-3)]
  note bounded = conjunct1 [OF e] and silent = conjunct2 [OF conjunct2 [OF e]]
  have "conforms (core_of c) i req" if r: "EvSend req out \<in> set (st_trace (snd (run c st)))" for req out
  proof -
    note s = endpoint.sent_nonempty [OF assms(1,3) r]
    from endpoint.requests_on_route [OF assms(1,3) r]
    have q: "rq_method req = verb" "rq_url req = requestURL (core_of c) path query"
      "wire = Inr (rq_payload req)" by simp_all
    from q(3) assms(10) have "rq_payload req = None \<longleftrightarrow> verb = ''GET'' \<or> isBodiless i"
      by (simp add: wire_fits_def split: if_splits)
    with q(1) assms(5,6) have "op_ID row = i \<and> rq_method req = op_Method row \<and>
        (rq_payload req = None \<longleftrightarrow> op_Method row = ''GET'' \<or> isBodiless i)" by simp
    moreover have "\<exists>path query. rq_url req = requestURL (core_of c) path query \<and> joined path \<and>
        MatchString (PathRegexp (op_Path row)) (CHR ''/'' # path) \<and> fst ` set query \<subseteq> set (op_QueryParams row)"
      by (intro exI conjI, rule q(2), rule assms(9), rule assms(7) [OF s], rule assms(8))
    ultimately show ?thesis unfolding conforms_def by (intro bexI [OF _ assms(4)]) simp
  qed
  with bounded silent show ?thesis unfolding upholds_def by simp
qed

lemma wire_fits_simps [simp]:
  "wire_fits b (marshalBody env None) \<longleftrightarrow> b"
  "wire_fits b (marshalBody env (body k v)) \<longleftrightarrow> \<not> b"
  "wire_fits b (marshalBody env (nameOnlyBody k n)) \<longleftrightarrow> \<not> b"
  "wire_fits b (marshalBody env (specs_body ss)) \<longleftrightarrow> \<not> b"
  by (simp_all add: wire_fits_def marshalBody_def body_def nameOnlyBody_def specs_body_def)

lemma wire_fits_patches [simp]: "wire_fits b (marshalBody env (patches_body ps)) \<longleftrightarrow> \<not> b"
  by (auto simp: wire_fits_def marshalBody_def patches_body_def body_def split: option.split sum.split)

text \<open>Query keys.\<close>

lemma Values_Set_fst: "fst ` set (Values_Set k v q) = insert k (fst ` set q)"
  using Values_Set_keys [of k v q] by simp

lemma list_options_keys: "fst ` set (applyListOptions [] opts) \<subseteq> {''last_knowledge_of_server''}"
proof -
  have "fst ` set (foldl apply_list_option q opts) \<subseteq> insert ''last_knowledge_of_server'' (fst ` set q)" for q
  proof (induction opts arbitrary: q)
    case (Cons opt opts)
    have "fst ` set (apply_list_option q opt) \<subseteq> insert ''last_knowledge_of_server'' (fst ` set q)"
      by (cases opt) (simp_all add: apply_list_option_def Values_Set_fst subset_insertI)
    with Cons.IH [of "apply_list_option q opt"] show ?case by auto
  qed (simp add: subset_insertI)
  from this [of "[]"] show ?thesis by (simp add: applyListOptions_def)
qed

lemma plans_query_keys: "fst ` set (plans_query opts) \<subseteq> {''include_accounts''}"
proof -
  have "fst ` set (foldl apply_plans_option q opts) \<subseteq> insert ''include_accounts'' (fst ` set q)" for q
  proof (induction opts arbitrary: q)
    case (Cons opt opts)
    have "fst ` set (apply_plans_option q opt) \<subseteq> insert ''include_accounts'' (fst ` set q)"
      by (cases opt) (simp_all add: apply_plans_option_def Values_Set_fst subset_insertI)
    with Cons.IH [of "apply_plans_option q opt"] show ?case by auto
  qed (simp add: subset_insertI)
  from this [of "[]"] show ?thesis by (simp add: plans_query_def)
qed

lemma filter_keys: "fst ` set (TransactionFilter_encode f) \<subseteq> set transactionFilterParams"
proof -
  have k: "fst ` set (set_if b k v q) \<subseteq> insert k (fst ` set q)" for b k v q
    by (simp add: set_if_def Values_Set_fst subset_insertI)
  show ?thesis
    unfolding TransactionFilter_encode_def transactionFilterParams_def
    by (rule order_trans [OF k] insert_mono | simp | rule insert_subset [THEN iffD2] conjI)+
qed

lemmas row_simps = table_op_def table_opQ_def template_patterns match_plan match_export segment_matches_simps
  literal_segments deltaParams_def list_options_keys plans_query_keys filter_keys isBodiless_def bodilessOps_def


section \<open>Accounts\<close>

datatype accounts_call =
    AccountsListCall "ListOption list"
  | AccountsGetCall string
  | AccountsCreateCall AccountSpec

fun accounts_op :: "accounts_call \<Rightarrow> string" where
  "accounts_op (AccountsListCall opts) = ''getAccounts''"
| "accounts_op (AccountsGetCall accountID) = ''getAccountById''"
| "accounts_op (AccountsCreateCall spec) = ''createAccount''"

fun accounts_run :: "'w env \<Rightarrow> 'w Plan \<Rightarrow> accounts_call \<Rightarrow> 'w state \<Rightarrow> 'w state" where
  "accounts_run env p (AccountsListCall opts) st = snd (Accounts_List env p opts st)"
| "accounts_run env p (AccountsGetCall accountID) st = snd (Accounts_Get env p accountID st)"
| "accounts_run env p (AccountsCreateCall spec) st = snd (Accounts_Create env p spec st)"

lemma accounts_upholds:
  assumes "client_ok c" and "st_trace st = []"
  shows "upholds c st (accounts_run env (Client_Plan c pid) call st) (accounts_op call)"
proof (cases call)
  case (AccountsListCall opts)
  show ?thesis unfolding AccountsListCall accounts_run.simps accounts_op.simps
    by (rule upholdsI [OF accounts_list.endpoint_axioms assms Table_rows(7)]) (simp_all add: row_simps)
next
  case (AccountsGetCall accountID)
  show ?thesis unfolding AccountsGetCall accounts_run.simps accounts_op.simps
    by (rule upholdsI [OF accounts_get.endpoint_axioms assms Table_rows(9)]) (simp_all add: row_simps)
next
  case (AccountsCreateCall spec)
  show ?thesis unfolding AccountsCreateCall accounts_run.simps accounts_op.simps
    by (rule upholdsI [OF accounts_create.endpoint_axioms assms Table_rows(8)]) (simp_all add: row_simps)
qed

lemma accounts_op_range: "set [''getAccounts'', ''getAccountById'', ''createAccount''] \<subseteq> range accounts_op"
  unfolding list.set insert_subset
  by (intro conjI empty_subsetI)
    (rule range_eqI, rule accounts_op.simps(1) [symmetric],
      rule range_eqI, rule accounts_op.simps(2) [symmetric],
      rule range_eqI, rule accounts_op.simps(3) [symmetric])

section \<open>Payees\<close>

datatype payees_call =
    PayeesListCall "ListOption list"
  | PayeesGetCall string
  | PayeesCreateCall string
  | PayeesRenameCall string string

fun payees_op :: "payees_call \<Rightarrow> string" where
  "payees_op (PayeesListCall opts) = ''getPayees''"
| "payees_op (PayeesGetCall payeeID) = ''getPayeeById''"
| "payees_op (PayeesCreateCall name) = ''createPayee''"
| "payees_op (PayeesRenameCall payeeID name) = ''updatePayee''"

fun payees_run :: "'w env \<Rightarrow> 'w Plan \<Rightarrow> payees_call \<Rightarrow> 'w state \<Rightarrow> 'w state" where
  "payees_run env p (PayeesListCall opts) st = snd (Payees_List env p opts st)"
| "payees_run env p (PayeesGetCall payeeID) st = snd (Payees_Get env p payeeID st)"
| "payees_run env p (PayeesCreateCall name) st = snd (Payees_Create env p name st)"
| "payees_run env p (PayeesRenameCall payeeID name) st = snd (Payees_Rename env p payeeID name st)"

lemma payees_upholds:
  assumes "client_ok c" and "st_trace st = []"
  shows "upholds c st (payees_run env (Client_Plan c pid) call st) (payees_op call)"
proof (cases call)
  case (PayeesListCall opts)
  show ?thesis unfolding PayeesListCall payees_run.simps payees_op.simps
    by (rule upholdsI [OF payees_list.endpoint_axioms assms Table_rows(18)]) (simp_all add: row_simps)
next
  case (PayeesGetCall payeeID)
  show ?thesis unfolding PayeesGetCall payees_run.simps payees_op.simps
    by (rule upholdsI [OF payees_get.endpoint_axioms assms Table_rows(20)]) (simp_all add: row_simps)
next
  case (PayeesCreateCall name)
  show ?thesis unfolding PayeesCreateCall payees_run.simps payees_op.simps
    by (rule upholdsI [OF payees_create.endpoint_axioms assms Table_rows(19)]) (simp_all add: row_simps)
next
  case (PayeesRenameCall payeeID name)
  show ?thesis unfolding PayeesRenameCall payees_run.simps payees_op.simps
    by (rule upholdsI [OF payees_rename.endpoint_axioms assms Table_rows(21)]) (simp_all add: row_simps)
qed

lemma payees_op_range: "set [''getPayees'', ''getPayeeById'', ''createPayee'', ''updatePayee''] \<subseteq> range payees_op"
  unfolding list.set insert_subset
  by (intro conjI empty_subsetI)
    (rule range_eqI, rule payees_op.simps(1) [symmetric],
      rule range_eqI, rule payees_op.simps(2) [symmetric],
      rule range_eqI, rule payees_op.simps(3) [symmetric],
      rule range_eqI, rule payees_op.simps(4) [symmetric])

section \<open>PayeeLocations\<close>

datatype payeelocations_call =
    PayeeLocationsListCall
  | PayeeLocationsGetCall string
  | PayeeLocationsListByPayeeCall string

fun payeelocations_op :: "payeelocations_call \<Rightarrow> string" where
  "payeelocations_op PayeeLocationsListCall = ''getPayeeLocations''"
| "payeelocations_op (PayeeLocationsGetCall payeeLocationID) = ''getPayeeLocationById''"
| "payeelocations_op (PayeeLocationsListByPayeeCall payeeID) = ''getPayeeLocationsByPayee''"

fun payeelocations_run :: "'w env \<Rightarrow> 'w Plan \<Rightarrow> payeelocations_call \<Rightarrow> 'w state \<Rightarrow> 'w state" where
  "payeelocations_run env p PayeeLocationsListCall st = snd (PayeeLocations_List env p st)"
| "payeelocations_run env p (PayeeLocationsGetCall payeeLocationID) st = snd (PayeeLocations_Get env p payeeLocationID st)"
| "payeelocations_run env p (PayeeLocationsListByPayeeCall payeeID) st = snd (PayeeLocations_ListByPayee env p payeeID st)"

lemma payeelocations_upholds:
  assumes "client_ok c" and "st_trace st = []"
  shows "upholds c st (payeelocations_run env (Client_Plan c pid) call st) (payeelocations_op call)"
proof (cases call)
  case (PayeeLocationsListCall)
  show ?thesis unfolding PayeeLocationsListCall payeelocations_run.simps payeelocations_op.simps
    by (rule upholdsI [OF payeelocations_list.endpoint_axioms assms Table_rows(22)]) (simp_all add: row_simps)
next
  case (PayeeLocationsGetCall payeeLocationID)
  show ?thesis unfolding PayeeLocationsGetCall payeelocations_run.simps payeelocations_op.simps
    by (rule upholdsI [OF payeelocations_get.endpoint_axioms assms Table_rows(23)]) (simp_all add: row_simps)
next
  case (PayeeLocationsListByPayeeCall payeeID)
  show ?thesis unfolding PayeeLocationsListByPayeeCall payeelocations_run.simps payeelocations_op.simps
    by (rule upholdsI [OF payeelocations_listbypayee.endpoint_axioms assms Table_rows(24)]) (simp_all add: row_simps)
qed

lemma payeelocations_op_range: "set [''getPayeeLocations'', ''getPayeeLocationById'', ''getPayeeLocationsByPayee''] \<subseteq> range payeelocations_op"
  unfolding list.set insert_subset
  by (intro conjI empty_subsetI)
    (rule range_eqI, rule payeelocations_op.simps(1) [symmetric],
      rule range_eqI, rule payeelocations_op.simps(2) [symmetric],
      rule range_eqI, rule payeelocations_op.simps(3) [symmetric])

section \<open>MoneyMovements\<close>

datatype moneymovements_call =
    MoneyMovementsListCall
  | MoneyMovementsListByMonthCall Month
  | MoneyMovementsListGroupsCall
  | MoneyMovementsListGroupsByMonthCall Month

fun moneymovements_op :: "moneymovements_call \<Rightarrow> string" where
  "moneymovements_op MoneyMovementsListCall = ''getMoneyMovements''"
| "moneymovements_op (MoneyMovementsListByMonthCall m) = ''getMoneyMovementsByMonth''"
| "moneymovements_op MoneyMovementsListGroupsCall = ''getMoneyMovementGroups''"
| "moneymovements_op (MoneyMovementsListGroupsByMonthCall m) = ''getMoneyMovementGroupsByMonth''"

fun moneymovements_run :: "'w env \<Rightarrow> 'w Plan \<Rightarrow> moneymovements_call \<Rightarrow> 'w state \<Rightarrow> 'w state" where
  "moneymovements_run env p MoneyMovementsListCall st = snd (MoneyMovements_List env p st)"
| "moneymovements_run env p (MoneyMovementsListByMonthCall m) st = snd (MoneyMovements_ListByMonth env p m st)"
| "moneymovements_run env p MoneyMovementsListGroupsCall st = snd (MoneyMovements_ListGroups env p st)"
| "moneymovements_run env p (MoneyMovementsListGroupsByMonthCall m) st = snd (MoneyMovements_ListGroupsByMonth env p m st)"

lemma moneymovements_upholds:
  assumes "client_ok c" and "st_trace st = []"
  shows "upholds c st (moneymovements_run env (Client_Plan c pid) call st) (moneymovements_op call)"
proof (cases call)
  case (MoneyMovementsListCall)
  show ?thesis unfolding MoneyMovementsListCall moneymovements_run.simps moneymovements_op.simps
    by (rule upholdsI [OF moneymovements_list.endpoint_axioms assms Table_rows(25)]) (simp_all add: row_simps)
next
  case (MoneyMovementsListByMonthCall m)
  show ?thesis unfolding MoneyMovementsListByMonthCall moneymovements_run.simps moneymovements_op.simps
    by (rule upholdsI [OF moneymovements_listbymonth.endpoint_axioms assms Table_rows(26)]) (simp_all add: row_simps)
next
  case (MoneyMovementsListGroupsCall)
  show ?thesis unfolding MoneyMovementsListGroupsCall moneymovements_run.simps moneymovements_op.simps
    by (rule upholdsI [OF moneymovements_listgroups.endpoint_axioms assms Table_rows(27)]) (simp_all add: row_simps)
next
  case (MoneyMovementsListGroupsByMonthCall m)
  show ?thesis unfolding MoneyMovementsListGroupsByMonthCall moneymovements_run.simps moneymovements_op.simps
    by (rule upholdsI [OF moneymovements_listgroupsbymonth.endpoint_axioms assms Table_rows(28)]) (simp_all add: row_simps)
qed

lemma moneymovements_op_range: "set [''getMoneyMovements'', ''getMoneyMovementsByMonth'', ''getMoneyMovementGroups'', ''getMoneyMovementGroupsByMonth''] \<subseteq> range moneymovements_op"
  unfolding list.set insert_subset
  by (intro conjI empty_subsetI)
    (rule range_eqI, rule moneymovements_op.simps(1) [symmetric],
      rule range_eqI, rule moneymovements_op.simps(2) [symmetric],
      rule range_eqI, rule moneymovements_op.simps(3) [symmetric],
      rule range_eqI, rule moneymovements_op.simps(4) [symmetric])

section \<open>Categories\<close>

datatype categories_call =
    CategoriesListCall "ListOption list"
  | CategoriesGetCall string
  | CategoriesGetForMonthCall Month string
  | CategoriesCreateCall CategorySpec
  | CategoriesUpdateCall string CategoryUpdate
  | CategoriesAssignCall Month string i64
  | CategoriesCreateGroupCall string
  | CategoriesRenameGroupCall string string

fun categories_op :: "categories_call \<Rightarrow> string" where
  "categories_op (CategoriesListCall opts) = ''getCategories''"
| "categories_op (CategoriesGetCall categoryID) = ''getCategoryById''"
| "categories_op (CategoriesGetForMonthCall m categoryID) = ''getMonthCategoryById''"
| "categories_op (CategoriesCreateCall spec) = ''createCategory''"
| "categories_op (CategoriesUpdateCall categoryID update) = ''updateCategory''"
| "categories_op (CategoriesAssignCall m categoryID budgeted) = ''updateMonthCategory''"
| "categories_op (CategoriesCreateGroupCall name) = ''createCategoryGroup''"
| "categories_op (CategoriesRenameGroupCall groupID name) = ''updateCategoryGroup''"

fun categories_run :: "'w env \<Rightarrow> 'w Plan \<Rightarrow> categories_call \<Rightarrow> 'w state \<Rightarrow> 'w state" where
  "categories_run env p (CategoriesListCall opts) st = snd (Categories_List env p opts st)"
| "categories_run env p (CategoriesGetCall categoryID) st = snd (Categories_Get env p categoryID st)"
| "categories_run env p (CategoriesGetForMonthCall m categoryID) st = snd (Categories_GetForMonth env p m categoryID st)"
| "categories_run env p (CategoriesCreateCall spec) st = snd (Categories_Create env p spec st)"
| "categories_run env p (CategoriesUpdateCall categoryID update) st = snd (Categories_Update env p categoryID update st)"
| "categories_run env p (CategoriesAssignCall m categoryID budgeted) st = snd (Categories_Assign env p m categoryID budgeted st)"
| "categories_run env p (CategoriesCreateGroupCall name) st = snd (Categories_CreateGroup env p name st)"
| "categories_run env p (CategoriesRenameGroupCall groupID name) st = snd (Categories_RenameGroup env p groupID name st)"

lemma categories_upholds:
  assumes "client_ok c" and "st_trace st = []"
  shows "upholds c st (categories_run env (Client_Plan c pid) call st) (categories_op call)"
proof (cases call)
  case (CategoriesListCall opts)
  show ?thesis unfolding CategoriesListCall categories_run.simps categories_op.simps
    by (rule upholdsI [OF categories_list.endpoint_axioms assms Table_rows(10)]) (simp_all add: row_simps)
next
  case (CategoriesGetCall categoryID)
  show ?thesis unfolding CategoriesGetCall categories_run.simps categories_op.simps
    by (rule upholdsI [OF categories_get.endpoint_axioms assms Table_rows(12)]) (simp_all add: row_simps)
next
  case (CategoriesGetForMonthCall m categoryID)
  show ?thesis unfolding CategoriesGetForMonthCall categories_run.simps categories_op.simps
    by (rule upholdsI [OF categories_getformonth.endpoint_axioms assms Table_rows(14)]) (simp_all add: row_simps)
next
  case (CategoriesCreateCall spec)
  show ?thesis unfolding CategoriesCreateCall categories_run.simps categories_op.simps
    by (rule upholdsI [OF categories_create.endpoint_axioms assms Table_rows(11)]) (simp_all add: row_simps)
next
  case (CategoriesUpdateCall categoryID update)
  show ?thesis unfolding CategoriesUpdateCall categories_run.simps categories_op.simps
    by (rule upholdsI [OF categories_update.endpoint_axioms assms Table_rows(13)]) (simp_all add: row_simps)
next
  case (CategoriesAssignCall m categoryID budgeted)
  show ?thesis unfolding CategoriesAssignCall categories_run.simps categories_op.simps
    by (rule upholdsI [OF categories_assign.endpoint_axioms assms Table_rows(15)]) (simp_all add: row_simps)
next
  case (CategoriesCreateGroupCall name)
  show ?thesis unfolding CategoriesCreateGroupCall categories_run.simps categories_op.simps
    by (rule upholdsI [OF categories_creategroup.endpoint_axioms assms Table_rows(16)]) (simp_all add: row_simps)
next
  case (CategoriesRenameGroupCall groupID name)
  show ?thesis unfolding CategoriesRenameGroupCall categories_run.simps categories_op.simps
    by (rule upholdsI [OF categories_renamegroup.endpoint_axioms assms Table_rows(17)]) (simp_all add: row_simps)
qed

lemma categories_op_range: "set [''getCategories'', ''getCategoryById'', ''getMonthCategoryById'', ''createCategory'', ''updateCategory'', ''updateMonthCategory'', ''createCategoryGroup'', ''updateCategoryGroup''] \<subseteq> range categories_op"
  unfolding list.set insert_subset
  by (intro conjI empty_subsetI)
    (rule range_eqI, rule categories_op.simps(1) [symmetric],
      rule range_eqI, rule categories_op.simps(2) [symmetric],
      rule range_eqI, rule categories_op.simps(3) [symmetric],
      rule range_eqI, rule categories_op.simps(4) [symmetric],
      rule range_eqI, rule categories_op.simps(5) [symmetric],
      rule range_eqI, rule categories_op.simps(6) [symmetric],
      rule range_eqI, rule categories_op.simps(7) [symmetric],
      rule range_eqI, rule categories_op.simps(8) [symmetric])

section \<open>Months\<close>

datatype months_call =
    MonthsListCall "ListOption list"
  | MonthsGetCall Month

fun months_op :: "months_call \<Rightarrow> string" where
  "months_op (MonthsListCall opts) = ''getPlanMonths''"
| "months_op (MonthsGetCall m) = ''getPlanMonth''"

fun months_run :: "'w env \<Rightarrow> 'w Plan \<Rightarrow> months_call \<Rightarrow> 'w state \<Rightarrow> 'w state" where
  "months_run env p (MonthsListCall opts) st = snd (Months_List env p opts st)"
| "months_run env p (MonthsGetCall m) st = snd (Months_Get env p m st)"

lemma months_upholds:
  assumes "client_ok c" and "st_trace st = []"
  shows "upholds c st (months_run env (Client_Plan c pid) call st) (months_op call)"
proof (cases call)
  case (MonthsListCall opts)
  show ?thesis unfolding MonthsListCall months_run.simps months_op.simps
    by (rule upholdsI [OF months_list.endpoint_axioms assms Table_rows(5)]) (simp_all add: row_simps)
next
  case (MonthsGetCall m)
  show ?thesis unfolding MonthsGetCall months_run.simps months_op.simps
    by (rule upholdsI [OF months_get.endpoint_axioms assms Table_rows(6)]) (simp_all add: row_simps)
qed

lemma months_op_range: "set [''getPlanMonths'', ''getPlanMonth''] \<subseteq> range months_op"
  unfolding list.set insert_subset
  by (intro conjI empty_subsetI)
    (rule range_eqI, rule months_op.simps(1) [symmetric],
      rule range_eqI, rule months_op.simps(2) [symmetric])

section \<open>Transactions\<close>

datatype transactions_call =
    TransactionsListCall TransactionFilter
  | TransactionsListByAccountCall string TransactionFilter
  | TransactionsListByCategoryCall string TransactionFilter
  | TransactionsListByPayeeCall string TransactionFilter
  | TransactionsListByMonthCall Month TransactionFilter
  | TransactionsGetCall string
  | TransactionsCreateCall TransactionSpec
  | TransactionsCreateBatchCall "TransactionSpec list option"
  | TransactionsUpdateCall string TransactionUpdate
  | TransactionsUpdateBatchCall "TransactionPatch list option"
  | TransactionsDeleteCall string
  | TransactionsImportCall

fun transactions_op :: "transactions_call \<Rightarrow> string" where
  "transactions_op (TransactionsListCall filt) = ''getTransactions''"
| "transactions_op (TransactionsListByAccountCall accountID filt) = ''getTransactionsByAccount''"
| "transactions_op (TransactionsListByCategoryCall categoryID filt) = ''getTransactionsByCategory''"
| "transactions_op (TransactionsListByPayeeCall payeeID filt) = ''getTransactionsByPayee''"
| "transactions_op (TransactionsListByMonthCall m filt) = ''getTransactionsByMonth''"
| "transactions_op (TransactionsGetCall transactionID) = ''getTransactionById''"
| "transactions_op (TransactionsCreateCall spec) = ''createTransaction''"
| "transactions_op (TransactionsCreateBatchCall specs) = ''createTransaction''"
| "transactions_op (TransactionsUpdateCall transactionID update) = ''updateTransaction''"
| "transactions_op (TransactionsUpdateBatchCall patches) = ''updateTransactions''"
| "transactions_op (TransactionsDeleteCall transactionID) = ''deleteTransaction''"
| "transactions_op TransactionsImportCall = ''importTransactions''"

fun transactions_run :: "'w env \<Rightarrow> 'w Plan \<Rightarrow> transactions_call \<Rightarrow> 'w state \<Rightarrow> 'w state" where
  "transactions_run env p (TransactionsListCall filt) st = snd (Transactions_List env p filt st)"
| "transactions_run env p (TransactionsListByAccountCall accountID filt) st = snd (Transactions_ListByAccount env p accountID filt st)"
| "transactions_run env p (TransactionsListByCategoryCall categoryID filt) st = snd (Transactions_ListByCategory env p categoryID filt st)"
| "transactions_run env p (TransactionsListByPayeeCall payeeID filt) st = snd (Transactions_ListByPayee env p payeeID filt st)"
| "transactions_run env p (TransactionsListByMonthCall m filt) st = snd (Transactions_ListByMonth env p m filt st)"
| "transactions_run env p (TransactionsGetCall transactionID) st = snd (Transactions_Get env p transactionID st)"
| "transactions_run env p (TransactionsCreateCall spec) st = snd (Transactions_Create env p spec st)"
| "transactions_run env p (TransactionsCreateBatchCall specs) st = snd (Transactions_CreateBatch env p specs st)"
| "transactions_run env p (TransactionsUpdateCall transactionID update) st = snd (Transactions_Update env p transactionID update st)"
| "transactions_run env p (TransactionsUpdateBatchCall patches) st = snd (Transactions_UpdateBatch env p patches st)"
| "transactions_run env p (TransactionsDeleteCall transactionID) st = snd (Transactions_Delete env p transactionID st)"
| "transactions_run env p TransactionsImportCall st = snd (Transactions_Import env p st)"

lemma transactions_upholds:
  assumes "client_ok c" and "st_trace st = []"
  shows "upholds c st (transactions_run env (Client_Plan c pid) call st) (transactions_op call)"
proof (cases call)
  case (TransactionsListCall filt)
  show ?thesis unfolding TransactionsListCall transactions_run.simps transactions_op.simps
    by (rule upholdsI [OF transactions_list.endpoint_axioms assms Table_rows(29)]) (simp_all add: row_simps)
next
  case (TransactionsListByAccountCall accountID filt)
  show ?thesis unfolding TransactionsListByAccountCall transactions_run.simps transactions_op.simps
    by (rule upholdsI [OF transactions_listbyaccount.endpoint_axioms assms Table_rows(36)]) (simp_all add: row_simps)
next
  case (TransactionsListByCategoryCall categoryID filt)
  show ?thesis unfolding TransactionsListByCategoryCall transactions_run.simps transactions_op.simps
    by (rule upholdsI [OF transactions_listbycategory.endpoint_axioms assms Table_rows(37)]) (simp_all add: row_simps)
next
  case (TransactionsListByPayeeCall payeeID filt)
  show ?thesis unfolding TransactionsListByPayeeCall transactions_run.simps transactions_op.simps
    by (rule upholdsI [OF transactions_listbypayee.endpoint_axioms assms Table_rows(38)]) (simp_all add: row_simps)
next
  case (TransactionsListByMonthCall m filt)
  show ?thesis unfolding TransactionsListByMonthCall transactions_run.simps transactions_op.simps
    by (rule upholdsI [OF transactions_listbymonth.endpoint_axioms assms Table_rows(39)]) (simp_all add: row_simps)
next
  case (TransactionsGetCall transactionID)
  show ?thesis unfolding TransactionsGetCall transactions_run.simps transactions_op.simps
    by (rule upholdsI [OF transactions_get.endpoint_axioms assms Table_rows(33)]) (simp_all add: row_simps)
next
  case (TransactionsCreateCall spec)
  show ?thesis unfolding TransactionsCreateCall transactions_run.simps transactions_op.simps
    by (rule upholdsI [OF transactions_create.endpoint_axioms assms Table_rows(30)]) (simp_all add: row_simps)
next
  case (TransactionsCreateBatchCall specs)
  show ?thesis unfolding TransactionsCreateBatchCall transactions_run.simps transactions_op.simps
    by (rule upholdsI [OF transactions_createbatch.endpoint_axioms assms Table_rows(30)]) (simp_all add: row_simps)
next
  case (TransactionsUpdateCall transactionID update)
  show ?thesis unfolding TransactionsUpdateCall transactions_run.simps transactions_op.simps
    by (rule upholdsI [OF transactions_update.endpoint_axioms assms Table_rows(34)]) (simp_all add: row_simps)
next
  case (TransactionsUpdateBatchCall patches)
  show ?thesis unfolding TransactionsUpdateBatchCall transactions_run.simps transactions_op.simps
    by (rule upholdsI [OF transactions_updatebatch.endpoint_axioms assms Table_rows(31)]) (simp_all add: row_simps)
next
  case (TransactionsDeleteCall transactionID)
  show ?thesis unfolding TransactionsDeleteCall transactions_run.simps transactions_op.simps
    by (rule upholdsI [OF transactions_delete.endpoint_axioms assms Table_rows(35)]) (simp_all add: row_simps)
next
  case (TransactionsImportCall)
  show ?thesis unfolding TransactionsImportCall transactions_run.simps transactions_op.simps
    by (rule upholdsI [OF transactions_import.endpoint_axioms assms Table_rows(32)]) (simp_all add: row_simps)
qed

lemma transactions_op_range: "set [''getTransactions'', ''getTransactionsByAccount'', ''getTransactionsByCategory'', ''getTransactionsByPayee'', ''getTransactionsByMonth'', ''getTransactionById'', ''createTransaction'', ''createTransaction'', ''updateTransaction'', ''updateTransactions'', ''deleteTransaction'', ''importTransactions''] \<subseteq> range transactions_op"
  unfolding list.set insert_subset
  by (intro conjI empty_subsetI)
    (rule range_eqI, rule transactions_op.simps(1) [symmetric],
      rule range_eqI, rule transactions_op.simps(2) [symmetric],
      rule range_eqI, rule transactions_op.simps(3) [symmetric],
      rule range_eqI, rule transactions_op.simps(4) [symmetric],
      rule range_eqI, rule transactions_op.simps(5) [symmetric],
      rule range_eqI, rule transactions_op.simps(6) [symmetric],
      rule range_eqI, rule transactions_op.simps(7) [symmetric],
      rule range_eqI, rule transactions_op.simps(8) [symmetric],
      rule range_eqI, rule transactions_op.simps(9) [symmetric],
      rule range_eqI, rule transactions_op.simps(10) [symmetric],
      rule range_eqI, rule transactions_op.simps(11) [symmetric],
      rule range_eqI, rule transactions_op.simps(12) [symmetric])

section \<open>Scheduled\<close>

datatype scheduled_call =
    ScheduledListCall "ListOption list"
  | ScheduledGetCall string
  | ScheduledCreateCall Date ScheduledTransactionSpec
  | ScheduledUpdateCall Date string ScheduledTransactionUpdate
  | ScheduledDeleteCall string

fun scheduled_op :: "scheduled_call \<Rightarrow> string" where
  "scheduled_op (ScheduledListCall opts) = ''getScheduledTransactions''"
| "scheduled_op (ScheduledGetCall scheduledTransactionID) = ''getScheduledTransactionById''"
| "scheduled_op (ScheduledCreateCall today spec) = ''createScheduledTransaction''"
| "scheduled_op (ScheduledUpdateCall today scheduledTransactionID update) = ''updateScheduledTransaction''"
| "scheduled_op (ScheduledDeleteCall scheduledTransactionID) = ''deleteScheduledTransaction''"

fun scheduled_run :: "'w env \<Rightarrow> 'w Plan \<Rightarrow> scheduled_call \<Rightarrow> 'w state \<Rightarrow> 'w state" where
  "scheduled_run env p (ScheduledListCall opts) st = snd (Scheduled_List env p opts st)"
| "scheduled_run env p (ScheduledGetCall scheduledTransactionID) st = snd (Scheduled_Get env p scheduledTransactionID st)"
| "scheduled_run env p (ScheduledCreateCall today spec) st = snd (Scheduled_Create env p today spec st)"
| "scheduled_run env p (ScheduledUpdateCall today scheduledTransactionID update) st = snd (Scheduled_Update env p today scheduledTransactionID update st)"
| "scheduled_run env p (ScheduledDeleteCall scheduledTransactionID) st = snd (Scheduled_Delete env p scheduledTransactionID st)"

lemma scheduled_upholds:
  assumes "client_ok c" and "st_trace st = []"
  shows "upholds c st (scheduled_run env (Client_Plan c pid) call st) (scheduled_op call)"
proof (cases call)
  case (ScheduledListCall opts)
  show ?thesis unfolding ScheduledListCall scheduled_run.simps scheduled_op.simps
    by (rule upholdsI [OF scheduled_list.endpoint_axioms assms Table_rows(40)]) (simp_all add: row_simps)
next
  case (ScheduledGetCall scheduledTransactionID)
  show ?thesis unfolding ScheduledGetCall scheduled_run.simps scheduled_op.simps
    by (rule upholdsI [OF scheduled_get.endpoint_axioms assms Table_rows(42)]) (simp_all add: row_simps)
next
  case (ScheduledCreateCall today spec)
  show ?thesis unfolding ScheduledCreateCall scheduled_run.simps scheduled_op.simps
    by (rule upholdsI [OF scheduled_create.endpoint_axioms assms Table_rows(41)]) (simp_all add: row_simps)
next
  case (ScheduledUpdateCall today scheduledTransactionID update)
  show ?thesis unfolding ScheduledUpdateCall scheduled_run.simps scheduled_op.simps
    by (rule upholdsI [OF scheduled_update.endpoint_axioms assms Table_rows(43)]) (simp_all add: row_simps)
next
  case (ScheduledDeleteCall scheduledTransactionID)
  show ?thesis unfolding ScheduledDeleteCall scheduled_run.simps scheduled_op.simps
    by (rule upholdsI [OF scheduled_delete.endpoint_axioms assms Table_rows(44)]) (simp_all add: row_simps)
qed

lemma scheduled_op_range: "set [''getScheduledTransactions'', ''getScheduledTransactionById'', ''createScheduledTransaction'', ''updateScheduledTransaction'', ''deleteScheduledTransaction''] \<subseteq> range scheduled_op"
  unfolding list.set insert_subset
  by (intro conjI empty_subsetI)
    (rule range_eqI, rule scheduled_op.simps(1) [symmetric],
      rule range_eqI, rule scheduled_op.simps(2) [symmetric],
      rule range_eqI, rule scheduled_op.simps(3) [symmetric],
      rule range_eqI, rule scheduled_op.simps(4) [symmetric],
      rule range_eqI, rule scheduled_op.simps(5) [symmetric])

section \<open>Every call\<close>

text \<open>The whole API; the client-level calls and those of the plan handle stand beside the services.\<close>

datatype call =
    ClientUserCall | ClientPlansCall "PlansOption list" | PlanExportCall "ListOption list" | PlanSettingsCall
  | PlanDeltaCall "SyncState option"
  | AccountsCall accounts_call | PayeesCall payees_call | PayeeLocationsCall payeelocations_call
  | MoneyMovementsCall moneymovements_call | CategoriesCall categories_call | MonthsCall months_call
  | TransactionsCall transactions_call | ScheduledCall scheduled_call

fun call_op :: "call \<Rightarrow> string" where
  "call_op ClientUserCall = ''getUser''"
| "call_op (ClientPlansCall opts) = ''getPlans''"
| "call_op (PlanExportCall opts) = ''getPlanById''"
| "call_op PlanSettingsCall = ''getPlanSettingsById''"
| "call_op (PlanDeltaCall ss) = ''getPlanById''"
| "call_op (AccountsCall x) = accounts_op x"
| "call_op (PayeesCall x) = payees_op x"
| "call_op (PayeeLocationsCall x) = payeelocations_op x"
| "call_op (MoneyMovementsCall x) = moneymovements_op x"
| "call_op (CategoriesCall x) = categories_op x"
| "call_op (MonthsCall x) = months_op x"
| "call_op (TransactionsCall x) = transactions_op x"
| "call_op (ScheduledCall x) = scheduled_op x"

fun run_call :: "'w env \<Rightarrow> 'w Client \<Rightarrow> string \<Rightarrow> call \<Rightarrow> 'w state \<Rightarrow> 'w state" where
  "run_call env c pid ClientUserCall st = snd (Client_User env c st)"
| "run_call env c pid (ClientPlansCall opts) st = snd (Client_Plans env c opts st)"
| "run_call env c pid (PlanExportCall opts) st = snd (Plan_Export env (Client_Plan c pid) opts st)"
| "run_call env c pid PlanSettingsCall st = snd (Plan_Settings env (Client_Plan c pid) st)"
| "run_call env c pid (PlanDeltaCall ss) st = snd (Plan_Delta env (Client_Plan c pid) ss st)"
| "run_call env c pid (AccountsCall x) st = accounts_run env (Client_Plan c pid) x st"
| "run_call env c pid (PayeesCall x) st = payees_run env (Client_Plan c pid) x st"
| "run_call env c pid (PayeeLocationsCall x) st = payeelocations_run env (Client_Plan c pid) x st"
| "run_call env c pid (MoneyMovementsCall x) st = moneymovements_run env (Client_Plan c pid) x st"
| "run_call env c pid (CategoriesCall x) st = categories_run env (Client_Plan c pid) x st"
| "run_call env c pid (MonthsCall x) st = months_run env (Client_Plan c pid) x st"
| "run_call env c pid (TransactionsCall x) st = transactions_run env (Client_Plan c pid) x st"
| "run_call env c pid (ScheduledCall x) st = scheduled_run env (Client_Plan c pid) x st"

lemma match_flat:
  "MatchString [Lit [], Lit ''user''] (CHR ''/'' # ''user'')" "MatchString [Lit [], Lit ''plans''] (CHR ''/'' # ''plans'')"
  by code_simp+

lemma export_upholds:
  assumes "client_ok c" and "st_trace st = []"
  shows "upholds c st (snd (Plan_Export env (Client_Plan c pid) opts st)) ''getPlanById''"
proof (rule upholdsI [OF plan_export.endpoint_axioms assms Table_rows(3)])
  assume "\<not> empty_segment (JoinPath [''plans'', pid])"
  then have "pid \<noteq> []" using empty_segment_JoinPath [of "[''plans'', pid]"] by auto
  then show "MatchString (PathRegexp (op_Path (table_opQ ''getPlanById'' ''GET'' ''/plans/{plan_id}'' deltaParams [''Plan.Export''])))
      (CHR ''/'' # JoinPath [''plans'', pid])"
    by (simp add: table_opQ_def template_patterns match_export)
qed (simp_all add: row_simps)

lemma plan_upholds:
  assumes "client_ok c" and "st_trace st = []"
  shows "upholds c st (snd (Client_User env c st)) ''getUser''"
    and "upholds c st (snd (Client_Plans env c po st)) ''getPlans''"
    and "upholds c st (snd (Plan_Settings env (Client_Plan c pid) st)) ''getPlanSettingsById''"
    and "upholds c st (snd (Plan_Delta env (Client_Plan c pid) ss st)) ''getPlanById''"
proof -
  show "upholds c st (snd (Client_User env c st)) ''getUser''"
    by (rule upholdsI [OF client_user.endpoint_axioms assms Table_rows(1)]) (simp_all add: row_simps match_flat)
  show "upholds c st (snd (Client_Plans env c po st)) ''getPlans''"
    by (rule upholdsI [OF client_plans.endpoint_axioms assms Table_rows(2)]) (simp_all add: row_simps match_flat)
  show "upholds c st (snd (Plan_Settings env (Client_Plan c pid) st)) ''getPlanSettingsById''"
    by (rule upholdsI [OF plan_settings.endpoint_axioms assms Table_rows(4)]) (simp_all add: row_simps)
  show "upholds c st (snd (Plan_Delta env (Client_Plan c pid) ss st)) ''getPlanById''"
  proof (cases "delta_guard (p_id (Client_Plan c pid)) ss")
    case None
    then have "snd (Plan_Delta env (Client_Plan c pid) ss st) =
        snd (Plan_Export env (Client_Plan c pid) (delta_options (the ss)) st)"
      by (simp add: Plan_Delta_def Let_def split: prod.split sum.split)
    then show ?thesis using export_upholds [OF assms] by simp
  next
    case (Some e)
    then show ?thesis using assms(2) by (simp add: Plan_Delta_def upholds_def)
  qed
qed

lemma run_call_upholds:
  assumes "client_ok c" and "st_trace st = []"
  shows "upholds c st (run_call env c pid call st) (call_op call)"
  by (cases call) (simp_all only: run_call.simps call_op.simps plan_upholds [OF assms] export_upholds [OF assms]
      accounts_upholds [OF assms] payees_upholds [OF assms] payeelocations_upholds [OF assms]
      moneymovements_upholds [OF assms] categories_upholds [OF assms] months_upholds [OF assms]
      transactions_upholds [OF assms] scheduled_upholds [OF assms])

lemma call_op_range: "set (map op_ID Table) \<subseteq> range call_op"
proof -
  have s: "range accounts_op \<subseteq> range call_op" "range payees_op \<subseteq> range call_op"
    "range payeelocations_op \<subseteq> range call_op" "range moneymovements_op \<subseteq> range call_op"
    "range categories_op \<subseteq> range call_op" "range months_op \<subseteq> range call_op"
    "range transactions_op \<subseteq> range call_op" "range scheduled_op \<subseteq> range call_op"
    by (rule image_subsetI, rule range_eqI, rule call_op.simps [symmetric])+
  have p: "{''getUser'', ''getPlans'', ''getPlanById'', ''getPlanSettingsById''} \<subseteq> range call_op"
    unfolding insert_subset
    by (intro conjI empty_subsetI)
      (rule range_eqI, rule call_op.simps(1) [symmetric], rule range_eqI, rule call_op.simps(2) [symmetric],
       rule range_eqI, rule call_op.simps(3) [symmetric], rule range_eqI, rule call_op.simps(4) [symmetric])
  note all = order_trans [OF accounts_op_range s(1)] order_trans [OF payees_op_range s(2)]
    order_trans [OF payeelocations_op_range s(3)] order_trans [OF moneymovements_op_range s(4)]
    order_trans [OF categories_op_range s(5)] order_trans [OF months_op_range s(6)]
    order_trans [OF transactions_op_range s(7)] order_trans [OF scheduled_op_range s(8)] p
  show ?thesis
    using all unfolding Table_def table_op_def table_opQ_def
    by (simp only: list.map list.set insert_subset Operation.simps empty_subsetI simp_thms)
qed

section \<open>The table is unambiguous\<close>

definition overlap :: "segment_pattern list \<Rightarrow> segment_pattern list \<Rightarrow> bool" where
  "overlap ps qs = list_all2 (\<lambda>p q. case (p, q) of (Lit a, Lit b) \<Rightarrow> a = b | _ \<Rightarrow> True) ps qs"

lemma overlap_matches: "MatchString ps s \<Longrightarrow> MatchString qs s \<Longrightarrow> overlap ps qs"
  unfolding MatchString_def overlap_def list_all2_conv_all_nth
  by (auto simp: segment_matches_def split: segment_pattern.splits)

fun all_apart :: "(string \<times> segment_pattern list) list \<Rightarrow> bool" where
  "all_apart [] = True"
| "all_apart (x # xs) = (list_all (\<lambda>y. fst x = fst y \<longrightarrow> \<not> overlap (snd x) (snd y)) xs \<and> all_apart xs)"

lemma all_apart_filter:
  "all_apart xs \<Longrightarrow> length (filter (\<lambda>x. fst x = verb \<and> MatchString (snd x) s) xs) \<le> 1"
proof (induction xs)
  case (Cons x xs)
  show ?case
  proof (cases "fst x = verb \<and> MatchString (snd x) s")
    case True
    then have "\<not> (fst y = verb \<and> MatchString (snd y) s)" if "y \<in> set xs" for y
      using Cons.prems that overlap_matches [of "snd x" s "snd y"] by (auto simp: list_all_iff)
    then have "filter (\<lambda>x. fst x = verb \<and> MatchString (snd x) s) xs = []" by (simp add: filter_empty_conv)
    with True show ?thesis by simp
  next
    case False
    then show ?thesis using Cons.IH Cons.prems by auto
  qed
qed simp

lemma Table_apart: "all_apart (map (\<lambda>r. (op_Method r, PathRegexp (op_Path r))) Table)"
  by code_simp

section \<open>Properties\<close>

text \<open>
  C3: the client conforms to its contract table. Whatever call is made, with whatever arguments, on
  a client the constructors can build, and whatever the hooks, the server and the clock do: at most
  the policy's number of requests leave; every one of them has the method of the call's row, goes
  to the base URL with a path the row's template matches, carries no query parameter the row does
  not list, and has a body exactly when the operation is neither a GET nor bodiless; and a client
  with a stored configuration error sends nothing. Every row of the table is the row of some call.
\<close>

theorem every_call_conforms:
  assumes "client_ok c"
  shows "upholds c \<lparr>st_world = w, st_trace = []\<rparr> (run_call env c pid call \<lparr>st_world = w, st_trace = []\<rparr>) (call_op call) \<and>
    set (map op_ID Table) \<subseteq> range call_op"
  using run_call_upholds [OF assms, of "\<lparr>st_world = w, st_trace = []\<rparr>"] call_op_range by simp

theorem every_call_conforms_witness:
  "client_ok example_client \<and>
   upholds example_client (scripted 200) (run_call script_env example_client ''p'' (AccountsCall (AccountsGetCall ''a'')) (scripted 200)) ''getAccountById''"
proof -
  have c: "client_ok example_client" by (simp add: example_client_def New_def Let_def newClient_ok example_url_safe)
  show ?thesis
    using every_call_conforms [OF c, of "[script_answer 200]" script_env "''p''" "AccountsCall (AccountsGetCall ''a'')"] c
    by (simp add: scripted_def)
qed

text \<open>
  The table is a routing table: whatever the method and the path of a request, at most one row
  has that method and a template that matches; its operation ids are distinct, and there are 44.
\<close>

theorem table_unambiguous:
  "length (filter (\<lambda>r. op_Method r = verb \<and> MatchString (PathRegexp (op_Path r)) path) Table) \<le> 1 \<and>
   distinct TableIDs \<and> length TableIDs = 44"
  using all_apart_filter [OF Table_apart, of verb path] IDs_distinct Table_length
  by (simp add: filter_map comp_def TableIDs_def)

end
