(* ===== verification/Well_Typed.thy ===== *)
theory Well_Typed
  imports Conformance
begin

text \<open>
  What the read models promise whatever the server sends: every date and month of a delivered value
  is one the wire form can carry, or the zero value. An invariant of a struct is kept by its decoder
  when it is kept by the decoder of each field, and an endpoint delivers only what its decoder made.
\<close>

section \<open>Decoders and invariants\<close>

definition keeps :: "('a \<Rightarrow> bool) \<Rightarrow> 'a decoder \<Rightarrow> bool" where
  "keeps P dec \<longleftrightarrow> (\<forall>v x y. P x \<longrightarrow> dec v x = Some y \<longrightarrow> P y)"

definition fields_keep :: "('a \<Rightarrow> bool) \<Rightarrow> (string \<times> 'a decoder) list \<Rightarrow> bool" where
  "fields_keep P fs \<longleftrightarrow> (\<forall>f\<in>set fs. keeps P (snd f))"

lemma fields_keep_Nil: "fields_keep P []"
  by (simp add: fields_keep_def)

lemma fields_keep_Cons: "keeps P (snd f) \<Longrightarrow> fields_keep P fs \<Longrightarrow> fields_keep P (f # fs)"
  by (simp add: fields_keep_def)

lemma fields_keep_append: "fields_keep P fs \<Longrightarrow> fields_keep P gs \<Longrightarrow> fields_keep P (fs @ gs)"
  by (auto simp: fields_keep_def)

lemma keeps_field:
  assumes "\<And>v x a. P x \<Longrightarrow> dec v (get x) = Some a \<Longrightarrow> P (put a x)"
  shows "keeps P (snd (field k get put dec))"
  using assms by (auto simp: keeps_def field_def)

lemmas keeps_fields = fields_keep_Nil fields_keep_Cons fields_keep_append keeps_field

lemma fold_members_None: "foldl (decode_member fs) None ms = None"
  by (induction ms) (simp_all add: decode_member_def)

lemma decode_member_keeps:
  assumes "fields_keep P fs" and "P x" and "decode_member fs (Some x) m = Some y"
  shows "P y"
proof (cases "map_of fs (fold_key (fst m))")
  case None
  with assms(2,3) show ?thesis by (simp add: decode_member_def)
next
  case (Some f)
  then have "(fold_key (fst m), f) \<in> set fs" by (rule map_of_SomeD)
  with assms(1) have "keeps P f" by (auto simp: fields_keep_def)
  with assms(2,3) Some show ?thesis by (simp add: decode_member_def keeps_def)
qed

lemma keeps_struct:
  assumes "fields_keep P fs"
  shows "keeps P (decode_struct fs)"
proof -
  have "P y" if "foldl (decode_member fs) (Some x) ms = Some y" "P x" for ms x y
    using that
  proof (induction ms arbitrary: x)
    case (Cons m ms)
    then obtain z where z: "decode_member fs (Some x) m = Some z"
      by (cases "decode_member fs (Some x) m") (simp_all add: fold_members_None)
    with Cons show ?case using decode_member_keeps [OF assms Cons.prems(2) z] by simp
  qed simp
  then show ?thesis by (auto simp: keeps_def decode_struct_def split: json.splits)
qed

lemma keeps_pointer: "P zero \<Longrightarrow> keeps P dec \<Longrightarrow> keeps (pred_option P) (decode_pointer zero dec)"
  by (auto simp: keeps_def decode_pointer_def pred_option_def split: option.splits if_splits)

lemma keeps_slice: "P zero \<Longrightarrow> keeps P dec \<Longrightarrow> keeps (pred_option (list_all P)) (decode_slice zero dec)"
proof -
  assume h: "P zero" "keeps P dec"
  have "those (map (\<lambda>w. dec w zero) vs) = Some xs \<Longrightarrow> list_all P xs" for vs xs
    using h by (induction vs arbitrary: xs) (auto simp: keeps_def split: option.splits)
  then show ?thesis by (auto simp: keeps_def decode_slice_def split: json.splits)
qed

text \<open>A decoder that starts a record afresh: what it makes, without regard to what was there.\<close>

lemma records_made:
  assumes "decode_records zero fs v x = Some xs" and "P zero" and "fields_keep P fs"
  shows "pred_option (list_all P) xs"
proof -
  have "keeps (pred_option (list_all P)) (decode_records zero fs)"
    using assms(2,3) by (intro keeps_slice keeps_struct)
  moreover have "decode_records zero fs v None = Some xs"
    using assms(1) by (simp add: decode_slice_def)
  ultimately show ?thesis unfolding keeps_def by (metis option.pred_inject(1))
qed

section \<open>Delivery\<close>

definition delivers :: "('a \<Rightarrow> bool) \<Rightarrow> (gerr + 'a) \<times> 'w state \<Rightarrow> bool" where
  "delivers P r \<longleftrightarrow> (case fst r of Inl _ \<Rightarrow> True | Inr x \<Rightarrow> P x)"

lemma keeps_data:
  assumes "P zero" and "keeps P dec" and "decodeData zero dec parsed = Inr x"
  shows "P x"
proof -
  have "keeps (pred_option P) (decode_struct [field ''data'' id (\<lambda>p _. p) (decode_pointer zero dec)])"
    using keeps_pointer [OF assms(1,2)] by (intro keeps_struct keeps_fields) (simp add: keeps_def)
  then have "decode_struct [field ''data'' id (\<lambda>p _. p) (decode_pointer zero dec)] v None = Some (Some x) \<Longrightarrow>
      pred_option P (Some x)" for v
    unfolding keeps_def by (metis option.pred_inject(1))
  then show ?thesis using assms(3) by (auto simp: decodeData_def split: option.splits)
qed

lemma client_do_delivers:
  fixes env :: "'w env"
  assumes "P zero" and "keeps P dec"
  shows "delivers P (client_do env c zero dec verb path query bd st)"
proof -
  have "delivers P (Do e k zero dec verb path query bd st)" for e :: "'w env" and k
  proof -
    obtain out st' where x: "Do e k zero dec verb path query bd st = (out, st')" by fastforce
    then show ?thesis
      by (cases rule: Do_cases) (simp_all add: delivers_def x keeps_data [OF assms])
  qed
  then show ?thesis by (simp add: client_do_def delivers_def split: option.split)
qed

lemma checked_delivers: "(\<And>st. delivers P (call st)) \<Longrightarrow> delivers P (checked chk call st)"
  by (simp add: checked_def delivers_def split: option.split)

lemma keeps_with_knowledge: "keeps Q dec \<Longrightarrow> keeps (\<lambda>p. Q (fst p)) (with_knowledge k dec)"
  unfolding with_knowledge_def by (intro keeps_struct keeps_fields) (auto simp: keeps_def)

lemma keeps_only: "keeps Q dec \<Longrightarrow> keeps Q (only k dec)"
  unfolding only_def by (intro keeps_struct keeps_fields) (auto simp: keeps_def)

lemma delivers_records:
  assumes "P z" and "fields_keep P fs"
  shows "delivers (\<lambda>p. pred_option (list_all P) (fst p))
    (client_do env c (None, 0) (with_knowledge k (decode_records z fs)) verb path query bd st)"
  using assms by (intro client_do_delivers keeps_with_knowledge keeps_slice keeps_struct) simp_all

lemma delivers_record:
  assumes "P z" and "fields_keep P fs"
  shows "delivers (\<lambda>p. pred_option P (fst p))
    (client_do env c (None, 0) (with_knowledge k (decode_record z fs)) verb path query bd st)"
  using assms by (intro client_do_delivers keeps_with_knowledge keeps_pointer keeps_struct) simp_all

section \<open>Dates and months\<close>

definition ok_date :: "Date \<Rightarrow> bool" where
  "ok_date d \<longleftrightarrow> d = zero_Date \<or> wire_date d"

definition ok_month :: "Month \<Rightarrow> bool" where
  "ok_month m \<longleftrightarrow> m = zero_Month \<or> wire_month m"

lemma ok_zero [simp]: "ok_date zero_Date" "ok_month zero_Month"
  by (simp_all add: ok_date_def ok_month_def)

lemma date_made [simp]: "decode_date v x = Some d \<Longrightarrow> ok_date d"
  using ParseDate_canonical by (auto simp: decode_date_def ok_date_def split: json.splits sum.splits)

lemma month_made [simp]: "decode_month v x = Some m \<Longrightarrow> ok_month m"
  using ParseMonth_canonical by (auto simp: decode_month_def ok_month_def split: json.splits sum.splits)

lemma date_pointer_made [simp]: "decode_date_pointer v p = Some q \<Longrightarrow> pred_option ok_date q"
  by (auto simp: decode_pointer_def split: if_splits)

lemma month_pointer_made [simp]: "decode_pointer zero_Month decode_month v p = Some q \<Longrightarrow> pred_option ok_month q"
  by (auto simp: decode_pointer_def split: if_splits)

section \<open>The models\<close>

definition CategoryBase_ok :: "'z CategoryBase_scheme \<Rightarrow> bool" where
  "CategoryBase_ok c \<longleftrightarrow> pred_option ok_date (cb_GoalCreationMonth c) \<and>
     pred_option ok_date (cb_GoalTargetMonth c) \<and> pred_option ok_date (cb_GoalTargetDate c)"

lemma CategoryBase_kept [kept]: "fields_keep CategoryBase_ok (CategoryBase_fields env)"
  unfolding CategoryBase_fields_def by (intro keeps_fields) (simp_all add: CategoryBase_ok_def)

lemma Category_kept [kept]: "fields_keep CategoryBase_ok (Category_fields env)"
  unfolding Category_fields_def by (intro keeps_fields CategoryBase_kept) (simp_all add: CategoryBase_ok_def)

lemma zero_category_ok [zero_ok]: "CategoryBase_ok zero_CategoryBase" "CategoryBase_ok zero_Category"
  by (simp_all add: CategoryBase_ok_def zero_CategoryBase_def zero_Category_def)

definition CategoryGroup_ok :: "CategoryGroup \<Rightarrow> bool" where
  "CategoryGroup_ok g \<longleftrightarrow> pred_option (list_all CategoryBase_ok) (cg_Categories g)"

lemma CategoryGroup_kept [kept]: "fields_keep CategoryGroup_ok (CategoryGroup_fields env)"
  unfolding CategoryGroup_fields_def
  by (intro keeps_fields) (simp_all add: CategoryGroup_ok_def records_made zero_ok kept)

definition MonthSummaryBase_ok :: "'z MonthSummaryBase_scheme \<Rightarrow> bool" where
  "MonthSummaryBase_ok m \<longleftrightarrow> ok_month (msb_Month m)"

lemma MonthSummaryBase_kept [kept]: "fields_keep MonthSummaryBase_ok MonthSummaryBase_fields"
  unfolding MonthSummaryBase_fields_def by (intro keeps_fields) (simp_all add: MonthSummaryBase_ok_def)

lemma MonthSummary_kept [kept]: "fields_keep MonthSummaryBase_ok (MonthSummary_fields env)"
  unfolding MonthSummary_fields_def
  by (intro keeps_fields MonthSummaryBase_kept) (simp_all add: MonthSummaryBase_ok_def)

definition MonthDetailBase_ok :: "MonthDetailBase \<Rightarrow> bool" where
  "MonthDetailBase_ok m \<longleftrightarrow> MonthSummaryBase_ok m \<and> pred_option (list_all CategoryBase_ok) (mdb_Categories m)"

definition MonthDetail_ok :: "MonthDetail \<Rightarrow> bool" where
  "MonthDetail_ok m \<longleftrightarrow> MonthSummaryBase_ok m \<and> pred_option (list_all CategoryBase_ok) (md_Categories m)"

lemma MonthDetailBase_kept [kept]: "fields_keep MonthDetailBase_ok (MonthDetailBase_fields env)"
  unfolding MonthDetailBase_fields_def MonthSummaryBase_fields_def
  by (intro keeps_fields)
    (simp_all add: MonthDetailBase_ok_def MonthSummaryBase_ok_def records_made zero_ok kept)

lemma MonthDetail_kept [kept]: "fields_keep MonthDetail_ok (MonthDetail_fields env)"
  unfolding MonthDetail_fields_def MonthSummary_fields_def MonthSummaryBase_fields_def
  by (intro keeps_fields)
    (simp_all add: MonthDetail_ok_def MonthSummaryBase_ok_def records_made zero_ok kept)

definition MoneyMovement_ok :: "MoneyMovement \<Rightarrow> bool" where
  "MoneyMovement_ok m \<longleftrightarrow> pred_option ok_month (mm_Month m)"

lemma MoneyMovement_kept [kept]: "fields_keep MoneyMovement_ok (MoneyMovement_fields env)"
  unfolding MoneyMovement_fields_def by (intro keeps_fields) (simp_all add: MoneyMovement_ok_def)

definition MoneyMovementGroup_ok :: "MoneyMovementGroup \<Rightarrow> bool" where
  "MoneyMovementGroup_ok g \<longleftrightarrow> ok_month (mg_Month g)"

lemma MoneyMovementGroup_kept [kept]: "fields_keep MoneyMovementGroup_ok (MoneyMovementGroup_fields env)"
  unfolding MoneyMovementGroup_fields_def by (intro keeps_fields) (simp_all add: MoneyMovementGroup_ok_def)

definition TransactionBase_ok :: "'z TransactionBase_scheme \<Rightarrow> bool" where
  "TransactionBase_ok t \<longleftrightarrow> ok_date (tb_Date t)"

lemma TransactionBase_kept [kept]: "fields_keep TransactionBase_ok TransactionBase_fields"
  unfolding TransactionBase_fields_def by (intro keeps_fields) (simp_all add: TransactionBase_ok_def)

lemma Transaction_kept [kept]: "fields_keep TransactionBase_ok (Transaction_fields env)"
  unfolding Transaction_fields_def
  by (intro keeps_fields TransactionBase_kept) (simp_all add: TransactionBase_ok_def)

lemma HybridTransaction_kept [kept]: "fields_keep TransactionBase_ok (HybridTransaction_fields env)"
  unfolding HybridTransaction_fields_def
  by (intro keeps_fields TransactionBase_kept) (simp_all add: TransactionBase_ok_def)

definition ScheduledTransactionBase_ok :: "'z ScheduledTransactionBase_scheme \<Rightarrow> bool" where
  "ScheduledTransactionBase_ok t \<longleftrightarrow> ok_date (stb_DateFirst t) \<and> ok_date (stb_DateNext t)"

lemma ScheduledTransactionBase_kept [kept]: "fields_keep ScheduledTransactionBase_ok ScheduledTransactionBase_fields"
  unfolding ScheduledTransactionBase_fields_def by (intro keeps_fields) (simp_all add: ScheduledTransactionBase_ok_def)

lemma ScheduledTransaction_kept [kept]: "fields_keep ScheduledTransactionBase_ok (ScheduledTransaction_fields env)"
  unfolding ScheduledTransaction_fields_def
  by (intro keeps_fields ScheduledTransactionBase_kept) (simp_all add: ScheduledTransactionBase_ok_def)

lemma zeros_ok [zero_ok]:
  "MonthSummaryBase_ok zero_MonthSummary" "MonthDetailBase_ok zero_MonthDetailBase" "MonthDetail_ok zero_MonthDetail"
  "CategoryGroup_ok zero_CategoryGroup" "MoneyMovement_ok zero_MoneyMovement" "MoneyMovementGroup_ok zero_MoneyMovementGroup"
  "TransactionBase_ok zero_TransactionBase" "TransactionBase_ok zero_Transaction" "TransactionBase_ok zero_HybridTransaction"
  "ScheduledTransactionBase_ok zero_ScheduledTransactionBase" "ScheduledTransactionBase_ok zero_ScheduledTransaction"
  by (simp_all add: MonthSummaryBase_ok_def MonthDetailBase_ok_def MonthDetail_ok_def CategoryGroup_ok_def
      MoneyMovement_ok_def MoneyMovementGroup_ok_def zero_MoneyMovementGroup_def TransactionBase_ok_def ScheduledTransactionBase_ok_def zero_MonthSummary_def
      zero_MonthDetailBase_def zero_MonthDetail_def zero_CategoryGroup_def zero_MoneyMovement_def
      zero_TransactionBase_def zero_Transaction_def zero_HybridTransaction_def
      zero_ScheduledTransactionBase_def zero_ScheduledTransaction_def)

text \<open>The full export holds all of them.\<close>

definition PlanDetail_ok :: "PlanDetail \<Rightarrow> bool" where
  "PlanDetail_ok d \<longleftrightarrow> ok_month (pd_FirstMonth d) \<and> ok_month (pd_LastMonth d) \<and>
     pred_option (list_all CategoryGroup_ok) (pd_CategoryGroups d) \<and>
     pred_option (list_all CategoryBase_ok) (pd_Categories d) \<and>
     pred_option (list_all MonthDetailBase_ok) (pd_Months d) \<and>
     pred_option (list_all TransactionBase_ok) (pd_Transactions d) \<and>
     pred_option (list_all ScheduledTransactionBase_ok) (pd_ScheduledTransactions d)"

lemma PlanDetail_kept [kept]: "fields_keep PlanDetail_ok (PlanDetail_fields env)"
  unfolding PlanDetail_fields_def
  by (intro keeps_fields)
    (simp_all add: PlanDetail_ok_def records_made zero_ok kept)

lemma PlanDetail_zero_ok [zero_ok]: "PlanDetail_ok zero_PlanDetail"
  by (simp add: PlanDetail_ok_def zero_PlanDetail_def)

definition BatchResult_ok :: "BatchResult \<Rightarrow> bool" where
  "BatchResult_ok r \<longleftrightarrow> pred_option (list_all TransactionBase_ok) (br_Transactions r)"

lemma BatchResult_kept [kept]: "fields_keep BatchResult_ok (BatchResult_fields env)"
  unfolding BatchResult_fields_def
  by (intro keeps_fields) (simp_all add: BatchResult_ok_def records_made zero_ok kept)

definition PlanSummary_ok :: "PlanSummary \<Rightarrow> bool" where
  "PlanSummary_ok p \<longleftrightarrow> ok_month (ps_FirstMonth p) \<and> ok_month (ps_LastMonth p)"

lemma PlanSummary_kept [kept]: "fields_keep PlanSummary_ok (PlanSummary_fields env)"
  unfolding PlanSummary_fields_def by (intro keeps_fields) (simp_all add: PlanSummary_ok_def)

definition PlanList_ok :: "PlanList \<Rightarrow> bool" where
  "PlanList_ok l \<longleftrightarrow> pred_option (list_all PlanSummary_ok) (pls_Plans l) \<and> pred_option PlanSummary_ok (pls_DefaultPlan l)"

lemma tops_ok [zero_ok]: "BatchResult_ok zero_BatchResult" "PlanSummary_ok zero_PlanSummary" "PlanList_ok zero_PlanList"
  by (simp_all add: BatchResult_ok_def zero_BatchResult_def PlanSummary_ok_def zero_PlanSummary_def PlanList_ok_def
      zero_PlanList_def)

text \<open>A single record may be decoded over an earlier one, which must be in order itself.\<close>

lemma record_made:
  assumes "decode_record zero fs v x = Some y" and "P zero" and "fields_keep P fs" and "pred_option P x"
  shows "pred_option P y"
proof -
  have "keeps (pred_option P) (decode_record zero fs)" using assms(2,3) by (intro keeps_pointer keeps_struct)
  with assms(1,4) show ?thesis unfolding keeps_def by blast
qed

lemma PlanList_kept [kept]: "fields_keep PlanList_ok (PlanList_fields env)"
  unfolding PlanList_fields_def
proof (intro keeps_fields)
  fix v :: json and x a
  assume ok: "PlanList_ok x"
  assume "decode_records zero_PlanSummary (PlanSummary_fields env) v (pls_Plans x) = Some a"
  from records_made [OF this, of PlanSummary_ok] ok show "PlanList_ok (x\<lparr>pls_Plans := a\<rparr>)"
    by (simp add: PlanList_ok_def zero_ok kept)
next
  fix v :: json and x a
  assume ok: "PlanList_ok x"
  assume "decode_record zero_PlanSummary (PlanSummary_fields env) v (pls_DefaultPlan x) = Some a"
  from record_made [OF this, of PlanSummary_ok] ok show "PlanList_ok (x\<lparr>pls_DefaultPlan := a\<rparr>)"
    by (simp add: PlanList_ok_def zero_ok kept)
qed

section \<open>Every call\<close>

text \<open>What a call delivers, when it delivers a value: nothing to say of a value without dates.\<close>

definition categories_typed :: "'w env \<Rightarrow> 'w Plan \<Rightarrow> categories_call \<Rightarrow> 'w state \<Rightarrow> bool" where
  "categories_typed env p call st = (case call of
       CategoriesListCall opts \<Rightarrow> delivers (\<lambda>r. pred_option (list_all CategoryGroup_ok) (fst r)) (Categories_List env p opts st)
     | CategoriesGetCall i \<Rightarrow> delivers (pred_option CategoryBase_ok) (Categories_Get env p i st)
     | CategoriesGetForMonthCall m i \<Rightarrow> delivers (pred_option CategoryBase_ok) (Categories_GetForMonth env p m i st)
     | CategoriesCreateCall spec \<Rightarrow> delivers (\<lambda>r. pred_option CategoryBase_ok (fst r)) (Categories_Create env p spec st)
     | CategoriesUpdateCall i update \<Rightarrow> delivers (\<lambda>r. pred_option CategoryBase_ok (fst r)) (Categories_Update env p i update st)
     | CategoriesAssignCall m i b \<Rightarrow> delivers (\<lambda>r. pred_option CategoryBase_ok (fst r)) (Categories_Assign env p m i b st)
     | CategoriesCreateGroupCall name \<Rightarrow> delivers (\<lambda>r. pred_option CategoryGroup_ok (fst r)) (Categories_CreateGroup env p name st)
     | CategoriesRenameGroupCall i name \<Rightarrow> delivers (\<lambda>r. pred_option CategoryGroup_ok (fst r)) (Categories_RenameGroup env p i name st))"

definition moneymovements_typed :: "'w env \<Rightarrow> 'w Plan \<Rightarrow> moneymovements_call \<Rightarrow> 'w state \<Rightarrow> bool" where
  "moneymovements_typed env p call st = (case call of
       MoneyMovementsListCall \<Rightarrow> delivers (\<lambda>r. pred_option (list_all MoneyMovement_ok) (fst r)) (MoneyMovements_List env p st)
     | MoneyMovementsListByMonthCall m \<Rightarrow> delivers (\<lambda>r. pred_option (list_all MoneyMovement_ok) (fst r)) (MoneyMovements_ListByMonth env p m st)
     | MoneyMovementsListGroupsCall \<Rightarrow> delivers (\<lambda>r. pred_option (list_all MoneyMovementGroup_ok) (fst r)) (MoneyMovements_ListGroups env p st)
     | MoneyMovementsListGroupsByMonthCall m \<Rightarrow>
         delivers (\<lambda>r. pred_option (list_all MoneyMovementGroup_ok) (fst r)) (MoneyMovements_ListGroupsByMonth env p m st))"

definition months_typed :: "'w env \<Rightarrow> 'w Plan \<Rightarrow> months_call \<Rightarrow> 'w state \<Rightarrow> bool" where
  "months_typed env p call st = (case call of
       MonthsListCall opts \<Rightarrow> delivers (\<lambda>r. pred_option (list_all MonthSummaryBase_ok) (fst r)) (Months_List env p opts st)
     | MonthsGetCall m \<Rightarrow> delivers (pred_option MonthDetail_ok) (Months_Get env p m st))"

definition transactions_typed :: "'w env \<Rightarrow> 'w Plan \<Rightarrow> transactions_call \<Rightarrow> 'w state \<Rightarrow> bool" where
  "transactions_typed env p call st = (case call of
       TransactionsListCall f \<Rightarrow> delivers (\<lambda>r. pred_option (list_all TransactionBase_ok) (fst r)) (Transactions_List env p f st)
     | TransactionsListByAccountCall i f \<Rightarrow>
         delivers (\<lambda>r. pred_option (list_all TransactionBase_ok) (fst r)) (Transactions_ListByAccount env p i f st)
     | TransactionsListByCategoryCall i f \<Rightarrow>
         delivers (\<lambda>r. pred_option (list_all TransactionBase_ok) (fst r)) (Transactions_ListByCategory env p i f st)
     | TransactionsListByPayeeCall i f \<Rightarrow>
         delivers (\<lambda>r. pred_option (list_all TransactionBase_ok) (fst r)) (Transactions_ListByPayee env p i f st)
     | TransactionsListByMonthCall m f \<Rightarrow>
         delivers (\<lambda>r. pred_option (list_all TransactionBase_ok) (fst r)) (Transactions_ListByMonth env p m f st)
     | TransactionsGetCall i \<Rightarrow> delivers (\<lambda>r. pred_option TransactionBase_ok (fst r)) (Transactions_Get env p i st)
     | TransactionsCreateCall spec \<Rightarrow> delivers (\<lambda>r. pred_option TransactionBase_ok (fst r)) (Transactions_Create env p spec st)
     | TransactionsCreateBatchCall specs \<Rightarrow> delivers BatchResult_ok (Transactions_CreateBatch env p specs st)
     | TransactionsUpdateCall i update \<Rightarrow>
         delivers (\<lambda>r. pred_option TransactionBase_ok (fst r)) (Transactions_Update env p i update st)
     | TransactionsUpdateBatchCall patches \<Rightarrow> delivers BatchResult_ok (Transactions_UpdateBatch env p patches st)
     | TransactionsDeleteCall i \<Rightarrow> delivers (\<lambda>r. pred_option TransactionBase_ok (fst r)) (Transactions_Delete env p i st)
     | TransactionsImportCall \<Rightarrow> True)"

definition scheduled_typed :: "'w env \<Rightarrow> 'w Plan \<Rightarrow> scheduled_call \<Rightarrow> 'w state \<Rightarrow> bool" where
  "scheduled_typed env p call st = (case call of
       ScheduledListCall opts \<Rightarrow>
         delivers (\<lambda>r. pred_option (list_all ScheduledTransactionBase_ok) (fst r)) (Scheduled_List env p opts st)
     | ScheduledGetCall i \<Rightarrow> delivers (pred_option ScheduledTransactionBase_ok) (Scheduled_Get env p i st)
     | ScheduledCreateCall today spec \<Rightarrow> delivers (pred_option ScheduledTransactionBase_ok) (Scheduled_Create env p today spec st)
     | ScheduledUpdateCall today i update \<Rightarrow>
         delivers (pred_option ScheduledTransactionBase_ok) (Scheduled_Update env p today i update st)
     | ScheduledDeleteCall i \<Rightarrow> delivers (pred_option ScheduledTransactionBase_ok) (Scheduled_Delete env p i st))"

definition call_typed :: "'w env \<Rightarrow> 'w Client \<Rightarrow> string \<Rightarrow> call \<Rightarrow> 'w state \<Rightarrow> bool" where
  "call_typed env c pid call st = (let p = Client_Plan c pid in case call of
       ClientUserCall \<Rightarrow> True
     | ClientPlansCall opts \<Rightarrow> delivers PlanList_ok (Client_Plans env c opts st)
     | PlanExportCall opts \<Rightarrow> delivers (\<lambda>r. pred_option PlanDetail_ok (fst r)) (Plan_Export env p opts st)
     | PlanSettingsCall \<Rightarrow> True
     | PlanDeltaCall ss \<Rightarrow> (case Plan_Delta env p ss st of ((r, _), st') \<Rightarrow> delivers (pred_option PlanDetail_ok) (r, st'))
     | AccountsCall x \<Rightarrow> True
     | PayeesCall x \<Rightarrow> True
     | PayeeLocationsCall x \<Rightarrow> True
     | MoneyMovementsCall x \<Rightarrow> moneymovements_typed env p x st
     | CategoriesCall x \<Rightarrow> categories_typed env p x st
     | MonthsCall x \<Rightarrow> months_typed env p x st
     | TransactionsCall x \<Rightarrow> transactions_typed env p x st
     | ScheduledCall x \<Rightarrow> scheduled_typed env p x st)"

lemma delivers_only:
  assumes "P z" and "fields_keep P fs"
  shows "delivers (pred_option P) (client_do env c None (only k (decode_record z fs)) verb path query bd st)"
  using assms by (intro client_do_delivers keeps_only keeps_pointer keeps_struct) simp_all

lemma delivers_struct:
  assumes "P z" and "fields_keep P fs"
  shows "delivers P (client_do env c z (decode_struct fs) verb path query bd st)"
  using assms by (intro client_do_delivers keeps_struct)

lemmas delivery = delivers_records delivers_record delivers_only delivers_struct checked_delivers zero_ok kept

lemma categories_well_typed: "categories_typed env p call st"
  by (cases call) (simp_all only: categories_typed_def categories_call.case Categories_List_def Categories_Get_def
      Categories_GetForMonth_def Categories_Create_def Categories_Update_def Categories_Assign_def categoryResult_def
      Categories_CreateGroup_def Categories_RenameGroup_def Categories_saveGroup_def categoryGroupResult_def delivery)

lemma moneymovements_well_typed: "moneymovements_typed env p call st"
  by (cases call) (simp_all only: moneymovements_typed_def moneymovements_call.case MoneyMovements_List_def
      MoneyMovements_ListByMonth_def MoneyMovements_ListGroups_def MoneyMovements_ListGroupsByMonth_def
      moneyMovementsResult_def moneyMovementGroupsResult_def delivery)

lemma months_well_typed: "months_typed env p call st"
  by (cases call) (simp_all only: months_typed_def months_call.case Months_List_def Months_Get_def delivery)

lemma transactions_well_typed: "transactions_typed env p call st"
  by (cases call) (simp_all only: transactions_typed_def transactions_call.case Transactions_List_def
      Transactions_ListByAccount_def Transactions_ListByCategory_def Transactions_ListByPayee_def
      Transactions_ListByMonth_def Transactions_Get_def Transactions_Create_def Transactions_CreateBatch_def
      Transactions_Update_def Transactions_UpdateBatch_def Transactions_Delete_def transactionsResult_def
      hybridResult_def transactionResult_def delivery)

lemma scheduled_well_typed: "scheduled_typed env p call st"
proof (cases call)
  case (ScheduledListCall opts)
  have "delivers (\<lambda>r. pred_option (list_all ScheduledTransactionBase_ok) (fst r))
      (client_do env (p_client p) (None, 0)
        (with_knowledge ''scheduled_transactions'' (decode_records zero_ScheduledTransaction (ScheduledTransaction_fields env)))
        ''GET'' (plan_path p [''scheduled_transactions'']) (applyListOptions [] opts) None st)"
    by (intro delivery)
  then show ?thesis
    by (auto simp: ScheduledListCall scheduled_typed_def Scheduled_List_def delivers_def fold_not_found_def split: sum.splits)
qed (simp_all only: scheduled_typed_def scheduled_call.case Scheduled_Get_def Scheduled_Create_def Scheduled_Update_def
    Scheduled_Delete_def scheduledResult_def delivery)

lemma delta_well_typed:
  "case Plan_Delta env p ss st of ((r, _), st') \<Rightarrow> delivers (pred_option PlanDetail_ok) (r, st')"
proof -
  have "delivers (\<lambda>r. pred_option PlanDetail_ok (fst r)) (Plan_Export env p opts st)" for opts
    unfolding Plan_Export_def by (intro delivery)
  then show ?thesis
    by (auto simp: Plan_Delta_def delivers_def Let_def split: option.split prod.split sum.split) (metis fst_conv sum.case(2))
qed

section \<open>Properties\<close>

text \<open>
  C11: the read models are well typed, whatever the server answers. Whatever call is made, every date and
  every month of the value it delivers, at any depth and in read and write results alike, is the zero
  value or one the wire form can carry, a real calendar day or month of the years 0 to 9999 (or the
  current-month sentinel). The users, settings, accounts, payees, payee locations and imported ids
  have no dates.
\<close>

theorem delivered_models_well_typed: "call_typed env c pid call st"
  by (cases call)
    (simp_all add: call_typed_def Let_def categories_well_typed moneymovements_well_typed months_well_typed
      transactions_well_typed scheduled_well_typed delta_well_typed,
     simp_all only: Client_Plans_def Plan_Export_def delivery)

end
