(* ===== verification/Config_Errors.thy ===== *)
theory Config_Errors
  imports Conformance
begin

text \<open>
  The config-error contract of \<open>client.go\<close>, over every call of the API: which argument check a method
  makes before it consults the client, and what the call returns when the client holds a stored
  configuration error.
\<close>

section \<open>The error of a call\<close>

definition err_of :: "(gerr + 'a) \<times> 'w state \<Rightarrow> gerr option" where
  "err_of r = (case fst r of Inl e \<Rightarrow> Some e | Inr _ \<Rightarrow> None)"

lemma err_of_Inl [simp]: "err_of (Inl e, st) = Some e"
  by (simp add: err_of_def)

definition accounts_error :: "'w env \<Rightarrow> 'w Plan \<Rightarrow> accounts_call \<Rightarrow> 'w state \<Rightarrow> gerr option" where
  "accounts_error env p call st = (case call of
       AccountsListCall opts \<Rightarrow> err_of (Accounts_List env p opts st)
     | AccountsGetCall accountID \<Rightarrow> err_of (Accounts_Get env p accountID st)
     | AccountsCreateCall spec \<Rightarrow> err_of (Accounts_Create env p spec st))"

definition payees_error :: "'w env \<Rightarrow> 'w Plan \<Rightarrow> payees_call \<Rightarrow> 'w state \<Rightarrow> gerr option" where
  "payees_error env p call st = (case call of
       PayeesListCall opts \<Rightarrow> err_of (Payees_List env p opts st)
     | PayeesGetCall payeeID \<Rightarrow> err_of (Payees_Get env p payeeID st)
     | PayeesCreateCall name \<Rightarrow> err_of (Payees_Create env p name st)
     | PayeesRenameCall payeeID name \<Rightarrow> err_of (Payees_Rename env p payeeID name st))"

definition payeelocations_error :: "'w env \<Rightarrow> 'w Plan \<Rightarrow> payeelocations_call \<Rightarrow> 'w state \<Rightarrow> gerr option" where
  "payeelocations_error env p call st = (case call of
       PayeeLocationsListCall \<Rightarrow> err_of (PayeeLocations_List env p st)
     | PayeeLocationsGetCall payeeLocationID \<Rightarrow> err_of (PayeeLocations_Get env p payeeLocationID st)
     | PayeeLocationsListByPayeeCall payeeID \<Rightarrow> err_of (PayeeLocations_ListByPayee env p payeeID st))"

definition moneymovements_error :: "'w env \<Rightarrow> 'w Plan \<Rightarrow> moneymovements_call \<Rightarrow> 'w state \<Rightarrow> gerr option" where
  "moneymovements_error env p call st = (case call of
       MoneyMovementsListCall \<Rightarrow> err_of (MoneyMovements_List env p st)
     | MoneyMovementsListByMonthCall m \<Rightarrow> err_of (MoneyMovements_ListByMonth env p m st)
     | MoneyMovementsListGroupsCall \<Rightarrow> err_of (MoneyMovements_ListGroups env p st)
     | MoneyMovementsListGroupsByMonthCall m \<Rightarrow> err_of (MoneyMovements_ListGroupsByMonth env p m st))"

definition categories_error :: "'w env \<Rightarrow> 'w Plan \<Rightarrow> categories_call \<Rightarrow> 'w state \<Rightarrow> gerr option" where
  "categories_error env p call st = (case call of
       CategoriesListCall opts \<Rightarrow> err_of (Categories_List env p opts st)
     | CategoriesGetCall categoryID \<Rightarrow> err_of (Categories_Get env p categoryID st)
     | CategoriesGetForMonthCall m categoryID \<Rightarrow> err_of (Categories_GetForMonth env p m categoryID st)
     | CategoriesCreateCall spec \<Rightarrow> err_of (Categories_Create env p spec st)
     | CategoriesUpdateCall categoryID update \<Rightarrow> err_of (Categories_Update env p categoryID update st)
     | CategoriesAssignCall m categoryID budgeted \<Rightarrow> err_of (Categories_Assign env p m categoryID budgeted st)
     | CategoriesCreateGroupCall name \<Rightarrow> err_of (Categories_CreateGroup env p name st)
     | CategoriesRenameGroupCall groupID name \<Rightarrow> err_of (Categories_RenameGroup env p groupID name st))"

definition months_error :: "'w env \<Rightarrow> 'w Plan \<Rightarrow> months_call \<Rightarrow> 'w state \<Rightarrow> gerr option" where
  "months_error env p call st = (case call of
       MonthsListCall opts \<Rightarrow> err_of (Months_List env p opts st)
     | MonthsGetCall m \<Rightarrow> err_of (Months_Get env p m st))"

definition transactions_error :: "'w env \<Rightarrow> 'w Plan \<Rightarrow> transactions_call \<Rightarrow> 'w state \<Rightarrow> gerr option" where
  "transactions_error env p call st = (case call of
       TransactionsListCall filt \<Rightarrow> err_of (Transactions_List env p filt st)
     | TransactionsListByAccountCall accountID filt \<Rightarrow> err_of (Transactions_ListByAccount env p accountID filt st)
     | TransactionsListByCategoryCall categoryID filt \<Rightarrow> err_of (Transactions_ListByCategory env p categoryID filt st)
     | TransactionsListByPayeeCall payeeID filt \<Rightarrow> err_of (Transactions_ListByPayee env p payeeID filt st)
     | TransactionsListByMonthCall m filt \<Rightarrow> err_of (Transactions_ListByMonth env p m filt st)
     | TransactionsGetCall transactionID \<Rightarrow> err_of (Transactions_Get env p transactionID st)
     | TransactionsCreateCall spec \<Rightarrow> err_of (Transactions_Create env p spec st)
     | TransactionsCreateBatchCall specs \<Rightarrow> err_of (Transactions_CreateBatch env p specs st)
     | TransactionsUpdateCall transactionID update \<Rightarrow> err_of (Transactions_Update env p transactionID update st)
     | TransactionsUpdateBatchCall patches \<Rightarrow> err_of (Transactions_UpdateBatch env p patches st)
     | TransactionsDeleteCall transactionID \<Rightarrow> err_of (Transactions_Delete env p transactionID st)
     | TransactionsImportCall \<Rightarrow> err_of (Transactions_Import env p st))"

definition scheduled_error :: "'w env \<Rightarrow> 'w Plan \<Rightarrow> scheduled_call \<Rightarrow> 'w state \<Rightarrow> gerr option" where
  "scheduled_error env p call st = (case call of
       ScheduledListCall opts \<Rightarrow> err_of (Scheduled_List env p opts st)
     | ScheduledGetCall scheduledTransactionID \<Rightarrow> err_of (Scheduled_Get env p scheduledTransactionID st)
     | ScheduledCreateCall today spec \<Rightarrow> err_of (Scheduled_Create env p today spec st)
     | ScheduledUpdateCall today scheduledTransactionID update \<Rightarrow> err_of (Scheduled_Update env p today scheduledTransactionID update st)
     | ScheduledDeleteCall scheduledTransactionID \<Rightarrow> err_of (Scheduled_Delete env p scheduledTransactionID st))"

definition call_error :: "'w env \<Rightarrow> 'w Client \<Rightarrow> string \<Rightarrow> call \<Rightarrow> 'w state \<Rightarrow> gerr option" where
  "call_error env c pid call st = (let p = Client_Plan c pid in case call of
       ClientUserCall \<Rightarrow> err_of (Client_User env c st)
     | ClientPlansCall opts \<Rightarrow> err_of (Client_Plans env c opts st)
     | PlanExportCall opts \<Rightarrow> err_of (Plan_Export env p opts st)
     | PlanSettingsCall \<Rightarrow> err_of (Plan_Settings env p st)
     | PlanDeltaCall ss \<Rightarrow> (case Plan_Delta env p ss st of ((r, _), st') \<Rightarrow> err_of (r, st'))
     | AccountsCall x \<Rightarrow> accounts_error env p x st
     | PayeesCall x \<Rightarrow> payees_error env p x st
     | PayeeLocationsCall x \<Rightarrow> payeelocations_error env p x st
     | MoneyMovementsCall x \<Rightarrow> moneymovements_error env p x st
     | CategoriesCall x \<Rightarrow> categories_error env p x st
     | MonthsCall x \<Rightarrow> months_error env p x st
     | TransactionsCall x \<Rightarrow> transactions_error env p x st
     | ScheduledCall x \<Rightarrow> scheduled_error env p x st)"

section \<open>The checks in front of the client\<close>

text \<open>The argument check of each method that has one; it runs before \<open>do\<close> is called.\<close>

definition payees_check :: "payees_call \<Rightarrow> ArgumentError option" where
  "payees_check call = (case call of
       PayeesCreateCall name \<Rightarrow> checkRuneMax ''Payees.Create'' ''name'' name payeeNameMax
     | PayeesRenameCall i name \<Rightarrow> checkRuneMax ''Payees.Rename'' ''name'' name payeeNameMax
     | _ \<Rightarrow> None)"

definition moneymovements_check :: "moneymovements_call \<Rightarrow> ArgumentError option" where
  "moneymovements_check call = (case call of
       MoneyMovementsListByMonthCall m \<Rightarrow> month_check ''MoneyMovements.ListByMonth'' m
     | MoneyMovementsListGroupsByMonthCall m \<Rightarrow> month_check ''MoneyMovements.ListGroupsByMonth'' m
     | _ \<Rightarrow> None)"

definition categories_check :: "categories_call \<Rightarrow> ArgumentError option" where
  "categories_check call = (case call of
       CategoriesGetForMonthCall m i \<Rightarrow> month_check ''Categories.GetForMonth'' m
     | CategoriesAssignCall m i budgeted \<Rightarrow> month_check ''Categories.Assign'' m
     | CategoriesCreateGroupCall name \<Rightarrow> checkRuneMax ''Categories.CreateGroup'' ''name'' name categoryGroupNameMax
     | CategoriesRenameGroupCall i name \<Rightarrow> checkRuneMax ''Categories.RenameGroup'' ''name'' name categoryGroupNameMax
     | _ \<Rightarrow> None)"

definition transactions_check :: "transactions_call \<Rightarrow> ArgumentError option" where
  "transactions_check call = (case call of
       TransactionsListByMonthCall m filt \<Rightarrow> month_check ''Transactions.ListByMonth'' m
     | TransactionsCreateCall spec \<Rightarrow> TransactionSpec_validate ''Transactions.Create'' spec
     | TransactionsCreateBatchCall specs \<Rightarrow> first_complaint spec_complaint 0 (elements specs)
     | TransactionsUpdateCall i update \<Rightarrow> TransactionUpdate_validate ''Transactions.Update'' update
     | TransactionsUpdateBatchCall patches \<Rightarrow> first_complaint patch_complaint 0 (elements patches)
     | _ \<Rightarrow> None)"

definition scheduled_check :: "scheduled_call \<Rightarrow> ArgumentError option" where
  "scheduled_check call = (case call of
       ScheduledCreateCall today spec \<Rightarrow> ScheduledTransactionSpec_validate today ''Scheduled.Create'' spec
     | ScheduledUpdateCall today i update \<Rightarrow> ScheduledTransactionUpdate_validate today ''Scheduled.Update'' update
     | _ \<Rightarrow> None)"

definition call_check :: "string \<Rightarrow> call \<Rightarrow> ArgumentError option" where
  "call_check pid call = (case call of
       PlanDeltaCall ss \<Rightarrow> delta_guard pid ss
     | PayeesCall x \<Rightarrow> payees_check x
     | MoneyMovementsCall x \<Rightarrow> moneymovements_check x
     | CategoriesCall x \<Rightarrow> categories_check x
     | MonthsCall (MonthsGetCall m) \<Rightarrow> month_check ''Months.Get'' m
     | TransactionsCall x \<Rightarrow> transactions_check x
     | ScheduledCall x \<Rightarrow> scheduled_check x
     | _ \<Rightarrow> None)"

section \<open>A client with a stored error\<close>

definition refused :: "ArgumentError option \<Rightarrow> ArgumentError \<Rightarrow> gerr option" where
  "refused chk e = Some (EArg (case chk of Some a \<Rightarrow> a | None \<Rightarrow> e))"

lemma checked_refused:
  "cl_configErr c = Some e \<Longrightarrow> checked chk (client_do env c zero dec verb path query bd) st =
     (Inl (EArg (case chk of Some a \<Rightarrow> a | None \<Rightarrow> e)), st)"
  by (simp add: client_do_config_error split: option.split)

lemma plan_parts: "p_client (Client_Plan c pid) = c" "p_id (Client_Plan c pid) = pid"
  by (simp_all add: Client_Plan_def)

lemmas refused_simps = refused_def checked_refused client_do_config_error plan_parts

lemma accounts_refused:
  assumes "cl_configErr c = Some e"
  shows "accounts_run env (Client_Plan c pid) call st = st \<and> accounts_error env (Client_Plan c pid) call st = refused None e"
  by (cases call) (simp_all add: refused_simps assms accounts_error_def Accounts_List_def Accounts_Get_def Accounts_Create_def)

lemma payees_refused:
  assumes "cl_configErr c = Some e"
  shows "payees_run env (Client_Plan c pid) call st = st \<and> payees_error env (Client_Plan c pid) call st = refused (payees_check call) e"
  by (cases call) (simp_all add: refused_simps assms payees_error_def Payees_List_def Payees_Get_def Payees_Create_def Payees_Rename_def Payees_save_def
      payees_check_def)

lemma payeelocations_refused:
  assumes "cl_configErr c = Some e"
  shows "payeelocations_run env (Client_Plan c pid) call st = st \<and> payeelocations_error env (Client_Plan c pid) call st = refused None e"
  by (cases call) (simp_all add: refused_simps assms payeelocations_error_def PayeeLocations_List_def PayeeLocations_Get_def PayeeLocations_ListByPayee_def)

lemma moneymovements_refused:
  assumes "cl_configErr c = Some e"
  shows "moneymovements_run env (Client_Plan c pid) call st = st \<and> moneymovements_error env (Client_Plan c pid) call st = refused (moneymovements_check call) e"
  by (cases call) (simp_all add: refused_simps assms moneymovements_error_def MoneyMovements_List_def MoneyMovements_ListByMonth_def
      MoneyMovements_ListGroups_def MoneyMovements_ListGroupsByMonth_def moneymovements_check_def)

lemma categories_refused:
  assumes "cl_configErr c = Some e"
  shows "categories_run env (Client_Plan c pid) call st = st \<and> categories_error env (Client_Plan c pid) call st = refused (categories_check call) e"
  by (cases call) (simp_all add: refused_simps assms categories_error_def Categories_List_def Categories_Get_def Categories_GetForMonth_def
      Categories_Create_def Categories_Update_def Categories_Assign_def Categories_CreateGroup_def
      Categories_RenameGroup_def Categories_saveGroup_def categories_check_def)

lemma months_refused:
  assumes "cl_configErr c = Some e"
  shows "months_run env (Client_Plan c pid) call st = st \<and> months_error env (Client_Plan c pid) call st = refused (call_check pid (MonthsCall call)) e"
  by (cases call) (simp_all add: refused_simps assms months_error_def Months_List_def Months_Get_def call_check_def)

lemma transactions_refused:
  assumes "cl_configErr c = Some e"
  shows "transactions_run env (Client_Plan c pid) call st = st \<and> transactions_error env (Client_Plan c pid) call st = refused (transactions_check call) e"
  by (cases call) (simp_all add: refused_simps assms transactions_error_def Transactions_List_def Transactions_ListByAccount_def
      Transactions_ListByCategory_def Transactions_ListByPayee_def Transactions_ListByMonth_def
      Transactions_Get_def Transactions_Create_def Transactions_CreateBatch_def Transactions_Update_def
      Transactions_UpdateBatch_def Transactions_Delete_def Transactions_Import_def transactions_check_def)

lemma scheduled_refused:
  assumes "cl_configErr c = Some e"
  shows "scheduled_run env (Client_Plan c pid) call st = st \<and> scheduled_error env (Client_Plan c pid) call st = refused (scheduled_check call) e"
  by (cases call) (simp_all add: refused_simps assms scheduled_error_def Scheduled_List_def Scheduled_Get_def Scheduled_Create_def Scheduled_Update_def
      Scheduled_Delete_def scheduled_check_def)

lemma call_refused:
  assumes "cl_configErr c = Some e"
  shows "run_call env c pid call st = st \<and> call_error env c pid call st = refused (call_check pid call) e"
proof (cases call)
  case (PlanDeltaCall ss)
  then show ?thesis
    by (simp add: call_error_def call_check_def Plan_Delta_def Plan_Export_def Let_def refused_simps assms split: option.split)
next
  case (MonthsCall x)
  then show ?thesis using months_refused [OF assms, of env pid x st] by (simp add: call_error_def Let_def)
qed (simp_all add: call_error_def call_check_def Let_def Client_User_def Client_Plans_def Plan_Export_def Plan_Settings_def
    accounts_refused [OF assms] payees_refused [OF assms] payeelocations_refused [OF assms] moneymovements_refused [OF assms]
    categories_refused [OF assms] transactions_refused [OF assms] scheduled_refused [OF assms] refused_simps assms)

section \<open>Properties\<close>

text \<open>
  C7: the config-error contract. A constructor stores the complaint of the first option that has
  one, under the constructor's name; a nil token source takes precedence over every option and an
  empty token comes after all of them. On a client with a stored error every call of the API leaves
  the world and the trace as they were and returns an argument error: that of the method's own
  check when it complains, which comes first, and otherwise exactly the stored one; the raw call
  returns the stored one always.
\<close>

theorem config_error_contract:
  "cl_configErr (New parse base hc token opts) =
     (case errFirst (map (option_fault parse) opts) of
        Some (f, r) \<Rightarrow> Some \<lparr>ae_Op = ''ynab.New'', ae_Field = f, ae_Reason = r\<rparr>
      | None \<Rightarrow> if token = [] then Some \<lparr>ae_Op = ''ynab.New'', ae_Field = ''token'', ae_Reason = ''token must not be empty''\<rparr>
               else None) \<and>
   cl_configErr (NewWithTokenSource parse base hc ts opts) =
     (if ts = None then Some \<lparr>ae_Op = ''ynab.NewWithTokenSource'', ae_Field = ''ts'', ae_Reason = ''token source must not be nil''\<rparr>
      else map_option (\<lambda>(f, r). \<lparr>ae_Op = ''ynab.NewWithTokenSource'', ae_Field = f, ae_Reason = r\<rparr>)
        (errFirst (map (option_fault parse) opts))) \<and>
   (case cl_configErr c of None \<Rightarrow> True
    | Some e \<Rightarrow> RawDo env c verb path query pl st = (Inl (EArg e), st) \<and> run_call env c pid call st = st \<and>
        call_error env c pid call st = Some (EArg (case call_check pid call of Some a \<Rightarrow> a | None \<Rightarrow> e)))"
  using constructors_store_first(1) [of parse base hc token opts] constructors_store_first(2) [of parse base hc ts opts]
    call_refused [of c _ env pid call st]
  by (auto simp: RawDo_def refused_def split: option.split)

end
