(* ===== verification/Fake_Server.thy ===== *)
theory Fake_Server
  imports Conformance
begin

text \<open>
  \<open>internal/ynabtest/server.go\<close>: the fake API the repository's tests run against, as a state machine
  over the pending injected failure, the test it reports to and whether it still listens. Its routes are
  derived from the contract table and the fixture map; a panic of the derivation is \<open>None\<close>. The fixture
  files (\<open>os.ReadFile\<close> under the module's \<open>testdata\<close> directory: the bytes, or the text of an error) and
  the text form of JSON are parameters. What \<open>net/http\<close> makes of a status and a body is modelled, for
  requests other than HEAD, which the table does not have and whose answers lose their body.
\<close>

section \<open>Fixtures and routes\<close>

record fixtureSpec =
  fx_fixture :: string
  fx_deltaFixture :: string
  fx_status :: int
  fx_bodyKey :: string

definition fixture_spec :: "string \<Rightarrow> string \<Rightarrow> int \<Rightarrow> string \<Rightarrow> fixtureSpec" where
  "fixture_spec f d st k = \<lparr>fx_fixture = f, fx_deltaFixture = d, fx_status = st, fx_bodyKey = k\<rparr>"

definition fixtures :: "(string \<times> fixtureSpec list) list" where
  "fixtures =
     [(''getUser'', [fixture_spec ''user/get.json'' [] 0 []]),
      (''getPlans'', [fixture_spec ''plans/list.json'' [] 0 []]),
      (''getPlanById'', [fixture_spec ''plans/export.json'' ''plans/export_delta.json'' 0 []]),
      (''getPlanSettingsById'', [fixture_spec ''plans/settings.json'' [] 0 []]),
      (''getPlanMonths'', [fixture_spec ''months/list.json'' [] 0 []]),
      (''getPlanMonth'', [fixture_spec ''months/get.json'' [] 0 []]),
      (''getAccounts'', [fixture_spec ''accounts/list.json'' ''accounts/list_delta.json'' 0 []]),
      (''createAccount'', [fixture_spec ''accounts/create.json'' [] 201 []]),
      (''getAccountById'', [fixture_spec ''accounts/get.json'' [] 0 []]),
      (''getCategories'', [fixture_spec ''categories/list.json'' ''categories/list_delta.json'' 0 []]),
      (''createCategory'', [fixture_spec ''categories/create.json'' [] 201 []]),
      (''getCategoryById'', [fixture_spec ''categories/get.json'' [] 0 []]),
      (''updateCategory'', [fixture_spec ''categories/update.json'' [] 0 []]),
      (''getMonthCategoryById'', [fixture_spec ''categories/get_for_month.json'' [] 0 []]),
      (''updateMonthCategory'', [fixture_spec ''categories/assign.json'' [] 0 []]),
      (''createCategoryGroup'', [fixture_spec ''categories/group_create.json'' [] 201 []]),
      (''updateCategoryGroup'', [fixture_spec ''categories/group_rename.json'' [] 0 []]),
      (''getPayees'', [fixture_spec ''payees/list.json'' ''payees/list_delta.json'' 0 []]),
      (''createPayee'', [fixture_spec ''payees/create.json'' [] 201 []]),
      (''getPayeeById'', [fixture_spec ''payees/get.json'' [] 0 []]),
      (''updatePayee'', [fixture_spec ''payees/rename.json'' [] 0 []]),
      (''getPayeeLocations'', [fixture_spec ''payee_locations/list.json'' [] 0 []]),
      (''getPayeeLocationById'', [fixture_spec ''payee_locations/get.json'' [] 0 []]),
      (''getPayeeLocationsByPayee'', [fixture_spec ''payee_locations/by_payee.json'' [] 0 []]),
      (''getMoneyMovements'', [fixture_spec ''money_movements/list.json'' [] 0 []]),
      (''getMoneyMovementsByMonth'', [fixture_spec ''money_movements/by_month.json'' [] 0 []]),
      (''getMoneyMovementGroups'', [fixture_spec ''money_movements/groups.json'' [] 0 []]),
      (''getMoneyMovementGroupsByMonth'', [fixture_spec ''money_movements/groups_by_month.json'' [] 0 []]),
      (''getTransactions'', [fixture_spec ''transactions/list.json'' [] 0 []]),
      (''createTransaction'', [fixture_spec ''transactions/create.json'' [] 201 ''transaction'', fixture_spec ''transactions/batch.json'' [] 201 ''transactions'']),
      (''updateTransactions'', [fixture_spec ''transactions/batch.json'' [] 0 []]),
      (''importTransactions'', [fixture_spec ''transactions/import_ids.json'' [] 201 []]),
      (''getTransactionById'', [fixture_spec ''transactions/get.json'' [] 0 []]),
      (''updateTransaction'', [fixture_spec ''transactions/update.json'' [] 0 []]),
      (''deleteTransaction'', [fixture_spec ''transactions/delete.json'' [] 0 []]),
      (''getTransactionsByAccount'', [fixture_spec ''transactions/list.json'' [] 0 []]),
      (''getTransactionsByCategory'', [fixture_spec ''transactions/hybrid.json'' [] 0 []]),
      (''getTransactionsByPayee'', [fixture_spec ''transactions/hybrid.json'' [] 0 []]),
      (''getTransactionsByMonth'', [fixture_spec ''transactions/list.json'' [] 0 []]),
      (''getScheduledTransactions'', [fixture_spec ''scheduled/list.json'' [] 0 []]),
      (''createScheduledTransaction'', [fixture_spec ''scheduled/create.json'' [] 201 []]),
      (''getScheduledTransactionById'', [fixture_spec ''scheduled/get.json'' [] 0 []]),
      (''updateScheduledTransaction'', [fixture_spec ''scheduled/update.json'' [] 0 []]),
      (''deleteScheduledTransaction'', [fixture_spec ''scheduled/delete.json'' [] 0 []])]"

record route =
  rt_method :: string
  rt_pattern :: "segment_pattern list"
  rt_spec :: fixtureSpec

definition routes_of_op :: "Operation \<Rightarrow> fixtureSpec list \<Rightarrow> route list" where
  "routes_of_op r specs =
     map (\<lambda>fs. \<lparr>rt_method = op_Method r, rt_pattern = PathRegexp (op_Path r), rt_spec = fs\<rparr>) specs"

fun derive_routes :: "Operation list \<Rightarrow> route list option" where
  "derive_routes [] = Some []"
| "derive_routes (r # rs) = (case map_of fixtures (op_ID r) of
     None \<Rightarrow> None
   | Some specs \<Rightarrow> map_option (\<lambda>rts. routes_of_op r specs @ rts) (derive_routes rs))"

definition routes :: "route list option" where
  "routes = (if length fixtures \<noteq> length Table then None else derive_routes Table)"

section \<open>The server\<close>

text \<open>
  \<open>tb\<close> is nil or a test, which is the list of the failures reported to it.
\<close>

record Server =
  sv_URL :: string
  sv_tb :: "string list option"
  sv_open :: bool
  sv_failStatus :: int
  sv_failID :: string
  sv_failName :: string

definition NewServer :: "string \<Rightarrow> string list option \<Rightarrow> Server" where
  "NewServer url tb =
     \<lparr>sv_URL = url, sv_tb = tb, sv_open = True, sv_failStatus = 0, sv_failID = [], sv_failName = []\<rparr>"

definition Close :: "Server \<Rightarrow> Server" where
  "Close s = s\<lparr>sv_open := False\<rparr>"

text \<open>What the end of a test does to a server: \<open>NewServer\<close> has registered \<open>Close\<close> with a non-nil \<open>tb\<close>.\<close>

definition cleanup :: "Server \<Rightarrow> Server" where
  "cleanup s = (if sv_tb s \<noteq> None then Close s else s)"

definition FailWith :: "int \<Rightarrow> string \<Rightarrow> string \<Rightarrow> Server \<Rightarrow> Server" where
  "FailWith status i name s = s\<lparr>sv_failStatus := status, sv_failID := i, sv_failName := name\<rparr>"

text \<open>A request as the handler sees it: the decoded path, the parsed query and the body's bytes.\<close>

record incoming =
  iq_method :: string
  iq_path :: string
  iq_query :: url_values
  iq_body :: string

record answer =
  an_status :: int
  an_body :: string

text \<open>
  \<open>w.WriteHeader(code)\<close> and then the body. A code that is no three-digit number panics; \<open>net/http\<close>
  recovers, and the connection is closed without an answer (\<open>None\<close>). An informational code is sent
  ahead and the body implies a 200; 101, 204 and 304 carry no body, and the write fails unnoticed.
\<close>

definition written :: "int \<Rightarrow> string \<Rightarrow> answer option" where
  "written code b =
     (if code < 100 \<or> 999 < code then None
      else if code < 200 \<and> code \<noteq> 101 then Some \<lparr>an_status = 200, an_body = b\<rparr>
      else Some \<lparr>an_status = code, an_body = (if code = 101 \<or> code = 204 \<or> code = 304 then [] else b)\<rparr>)"

definition body_keys :: "(string \<Rightarrow> json option) \<Rightarrow> string \<Rightarrow> string list" where
  "body_keys unmarshal raw = (case unmarshal raw of Some (JObj ms) \<Rightarrow> map fst ms | _ \<Rightarrow> [])"

definition key_present :: "string list \<Rightarrow> fixtureSpec \<Rightarrow> bool" where
  "key_present keys fs \<longleftrightarrow> fx_bodyKey fs = [] \<or> List.member keys (fx_bodyKey fs)"

definition resolve :: "(string \<Rightarrow> json option) \<Rightarrow> route list \<Rightarrow> incoming \<Rightarrow> route option" where
  "resolve unmarshal rts r =
     find (\<lambda>rt. rt_method rt = iq_method r \<and> MatchString (rt_pattern rt) (iq_path r) \<and>
       key_present (body_keys unmarshal (iq_body r)) (rt_spec rt)) rts"

definition error_envelope :: "string \<Rightarrow> string \<Rightarrow> json" where
  "error_envelope i name =
     JObj [(''error'', JObj [(''detail'', JStr ''injected by ynabtest.FailWith''), (''id'', JStr i), (''name'', JStr name)])]"

text \<open>The two envelopes the code writes as text.\<close>

definition envelope_text :: "string \<Rightarrow> string \<Rightarrow> string \<Rightarrow> string" where
  "envelope_text i name detail =
     ''{'' @ json_quote ''error'' @ '':{'' @ json_quote ''id'' @ '':'' @ json_quote i @ '','' @
     json_quote ''name'' @ '':'' @ json_quote name @ '','' @
     json_quote ''detail'' @ '':'' @ json_quote detail @ ''}}''"

definition chosen_fixture :: "fixtureSpec \<Rightarrow> incoming \<Rightarrow> string" where
  "chosen_fixture fs r =
     (if fx_deltaFixture fs \<noteq> [] \<and> Values_Get (iq_query r) ''last_knowledge_of_server'' \<noteq> []
      then fx_deltaFixture fs else fx_fixture fs)"

definition fixture_report :: "string \<Rightarrow> string \<Rightarrow> string" where
  "fixture_report fixture err = ''ynabtest: fixture '' @ fixture @ '': '' @ err"

text \<open>The answer from a fixture, and what is reported when it cannot be read.\<close>

definition serve_fixture ::
  "(string \<Rightarrow> string + string) \<Rightarrow> fixtureSpec \<Rightarrow> incoming \<Rightarrow> answer option \<times> string list"
where
  "serve_fixture readFile fs r =
     (let fixture = chosen_fixture fs r in
      case readFile fixture of
        Inl err \<Rightarrow> (written 500 (envelope_text ''500'' ''internal_server_error''
          (''ynabtest: fixture '' @ fixture @ '' unreadable'')), [fixture_report fixture err])
      | Inr raw \<Rightarrow> (written (if fx_status fs = 0 then 200 else fx_status fs) raw, []))"

definition report :: "string list \<Rightarrow> Server \<Rightarrow> Server" where
  "report errs s = s\<lparr>sv_tb := map_option (\<lambda>es. es @ errs) (sv_tb s)\<rparr>"

definition no_route :: string where
  "no_route = envelope_text ''404.1'' ''not_found'' ''ynabtest: no route''"

text \<open>A handler that panics, in \<open>WriteHeader\<close> or in deriving the routes, gives no answer.\<close>

definition handle ::
  "(string \<Rightarrow> json option) \<Rightarrow> (json \<Rightarrow> string) \<Rightarrow> (string \<Rightarrow> string + string) \<Rightarrow> incoming \<Rightarrow> Server \<Rightarrow>
   answer option \<times> Server"
where
  "handle unmarshal marshal readFile r s =
     (let s' = s\<lparr>sv_failStatus := 0, sv_failID := [], sv_failName := []\<rparr> in
      if sv_failStatus s \<noteq> 0
      then (written (sv_failStatus s) (marshal (error_envelope (sv_failID s) (sv_failName s)) @ [CHR 0x0A]), s')
      else (case routes of
        None \<Rightarrow> (None, s')
      | Some rts \<Rightarrow> (case resolve unmarshal rts r of
          None \<Rightarrow> (written 404 no_route, s')
        | Some rt \<Rightarrow> (case serve_fixture readFile (rt_spec rt) r of (a, errs) \<Rightarrow> (a, report errs s')))))"

text \<open>\<open>Fixture\<close>: the bytes, a failed test or a panic.\<close>

datatype fixture_read = FixtureBytes string | FixtureFatal string | FixturePanic string

definition Fixture :: "(string \<Rightarrow> string + string) \<Rightarrow> string list option \<Rightarrow> string \<Rightarrow> fixture_read" where
  "Fixture readFile tb name = (case readFile name of
     Inr raw \<Rightarrow> FixtureBytes raw
   | Inl err \<Rightarrow> (if tb = None then FixturePanic (fixture_report name err) else FixtureFatal (fixture_report name err)))"

definition add_name :: "string \<Rightarrow> string list \<Rightarrow> string list" where
  "add_name f names = (if f \<noteq> [] \<and> \<not> List.member names f then names @ [f] else names)"

definition FixtureNames :: "string list option" where
  "FixtureNames = map_option (\<lambda>rts.
     fold (\<lambda>rt names. add_name (fx_deltaFixture (rt_spec rt)) (add_name (fx_fixture (rt_spec rt)) names)) rts []) routes"

section \<open>The routes\<close>

lemma fixtures_cover: "list_all (\<lambda>r. map_of fixtures (op_ID r) \<noteq> None) Table"
  by code_simp

lemma fixtures_length: "length fixtures = length Table"
  by (simp add: fixtures_def Table_length)

lemma derive_routes_covered:
  "list_all (\<lambda>r. map_of fixtures (op_ID r) \<noteq> None) rs \<Longrightarrow>
     derive_routes rs = Some (concat (map (\<lambda>r. routes_of_op r (the (map_of fixtures (op_ID r)))) rs))"
  by (induction rs) auto

lemma routes_derived:
  "routes = Some (concat (map (\<lambda>r. routes_of_op r (the (map_of fixtures (op_ID r)))) Table))"
  by (simp add: routes_def fixtures_length derive_routes_covered [OF fixtures_cover])

definition matching :: "incoming \<Rightarrow> Operation \<Rightarrow> bool" where
  "matching r row \<longleftrightarrow> op_Method row = iq_method r \<and> MatchString (PathRegexp (op_Path row)) (iq_path r)"

lemma find_append: "find P (xs @ ys) = (case find P xs of None \<Rightarrow> find P ys | Some x \<Rightarrow> Some x)"
  by (induction xs) auto

lemma resolve_append:
  "resolve unmarshal (xs @ ys) r = (case resolve unmarshal xs r of None \<Rightarrow> resolve unmarshal ys r | Some x \<Rightarrow> Some x)"
  unfolding resolve_def by (rule find_append)

lemma resolve_op:
  "resolve unmarshal (routes_of_op row specs) r =
     (if matching r row
      then map_option (\<lambda>fs. \<lparr>rt_method = op_Method row, rt_pattern = PathRegexp (op_Path row), rt_spec = fs\<rparr>)
        (find (key_present (body_keys unmarshal (iq_body r))) specs)
      else None)"
  by (induction specs) (auto simp: resolve_def routes_of_op_def matching_def)

text \<open>When at most one row matches, the first route that fits belongs to the first row that matches.\<close>

lemma resolve_rows:
  "length (filter (matching r) rows) \<le> 1 \<Longrightarrow>
   resolve unmarshal (concat (map (\<lambda>row. routes_of_op row (specs row)) rows)) r =
     (case find (matching r) rows of
        None \<Rightarrow> None
      | Some row \<Rightarrow> resolve unmarshal (routes_of_op row (specs row)) r)"
proof (induction rows)
  case Nil
  then show ?case by (simp add: resolve_def)
next
  case (Cons row rows)
  show ?case
  proof (cases "matching r row")
    case True
    with Cons.prems have none: "filter (matching r) rows = []" by simp
    then have "find (matching r) rows = None" by (auto simp: find_None_iff filter_empty_conv)
    then show ?thesis using Cons.IH none True
      by (auto simp: resolve_append split: option.split)
  next
    case False
    then show ?thesis using Cons by (simp add: resolve_append resolve_op [of _ row])
  qed
qed

lemma one_row: "length (filter (matching r) Table) \<le> 1"
  using all_apart_filter [OF Table_apart, of "iq_method r" "iq_path r"]
  by (simp add: filter_map comp_def matching_def [abs_def])

lemma add_name_distinct: "distinct names \<Longrightarrow> distinct (add_name f names)"
  by (simp add: add_name_def)

lemma fold_names_distinct:
  "distinct names \<Longrightarrow> distinct (fold (\<lambda>rt names. add_name (fx_deltaFixture (rt_spec rt))
     (add_name (fx_fixture (rt_spec rt)) names)) rts names)"
  by (induction rts arbitrary: names) (simp_all add: add_name_distinct)

lemma FixtureNames_distinct: "FixtureNames = Some names \<Longrightarrow> distinct names"
  using fold_names_distinct [of "[]"] by (auto simp: FixtureNames_def)

section \<open>What the server promises\<close>

text \<open>
  The promise, in the terms of the contract: which operations create (and answer 201), which have a
  delta form, and which fixture a request of an operation is answered with.
\<close>

definition creating_ops :: "string list" where
  "creating_ops = [''createAccount'', ''createCategory'', ''createCategoryGroup'', ''createPayee'', ''createTransaction'',
     ''importTransactions'', ''createScheduledTransaction'']"

definition delta_ops :: "string list" where
  "delta_ops = [''getPlanById'', ''getAccounts'', ''getCategories'', ''getPayees'']"

text \<open>The fixture of an operation: the one whose key the body has, if its fixtures name keys.\<close>

definition op_fixture :: "string \<Rightarrow> json option \<Rightarrow> fixtureSpec option" where
  "op_fixture i content = find (\<lambda>fs. fx_bodyKey fs = [] \<or>
     (case content of Some (JObj ms) \<Rightarrow> fx_bodyKey fs \<in> fst ` set ms | _ \<Rightarrow> False)) (the (map_of fixtures i))"

lemma op_fixture_key:
  "op_fixture i content = find (\<lambda>fs. fx_bodyKey fs = [] \<or>
     (\<exists>ms. content = Some (JObj ms) \<and> fx_bodyKey fs \<in> fst ` set ms)) (the (map_of fixtures i))"
proof -
  have "(case content of Some (JObj ms) \<Rightarrow> k \<in> fst ` set ms | _ \<Rightarrow> False) \<longleftrightarrow>
      (\<exists>ms. content = Some (JObj ms) \<and> k \<in> fst ` set ms)" for k :: string
    by (auto split: option.split json.split)
  then show ?thesis by (simp add: op_fixture_def)
qed

text \<open>An error envelope: its pieces, with a quote between each two.\<close>

definition error_text :: "string \<Rightarrow> string \<Rightarrow> string \<Rightarrow> string" where
  "error_text i name detail = Join [CHR 0x22]
     [''{'', ''error'', '':{'', ''id'', '':'', i, '','', ''name'', '':'', name, '','', ''detail'', '':'', detail, ''}}'']"

definition served :: "(string \<Rightarrow> string + string) \<Rightarrow> string \<Rightarrow> fixtureSpec \<Rightarrow> string \<Rightarrow> answer \<times> string list" where
  "served readFile i fs cursor =
     (let file = (if cursor \<noteq> [] \<and> i \<in> set delta_ops then fx_deltaFixture fs else fx_fixture fs) in
      case readFile file of
        Inr raw \<Rightarrow> (\<lparr>an_status = (if i \<in> set creating_ops then 201 else 200), an_body = raw\<rparr>, [])
      | Inl err \<Rightarrow> (\<lparr>an_status = 500, an_body = error_text ''500'' ''internal_server_error''
          (''ynabtest: fixture '' @ file @ '' unreadable'')\<rparr>, [''ynabtest: fixture '' @ file @ '': '' @ err]))"

text \<open>What a request is answered with when no failure is pending: no state beyond that.\<close>

definition table_answer :: "(string \<Rightarrow> json option) \<Rightarrow> (string \<Rightarrow> string + string) \<Rightarrow> incoming \<Rightarrow> answer \<times> string list" where
  "table_answer unmarshal readFile r =
     (case find (matching r) Table of
        None \<Rightarrow> (\<lparr>an_status = 404, an_body = error_text ''404.1'' ''not_found'' ''ynabtest: no route''\<rparr>, [])
      | Some row \<Rightarrow> (case op_fixture (op_ID row) (unmarshal (iq_body r)) of
          None \<Rightarrow> (\<lparr>an_status = 404, an_body = error_text ''404.1'' ''not_found'' ''ynabtest: no route''\<rparr>, [])
        | Some fs \<Rightarrow> served readFile (op_ID row) fs (Values_Get (iq_query r) ''last_knowledge_of_server'')))"

text \<open>What an injected failure is answered with.\<close>

definition injected_answer :: "(json \<Rightarrow> string) \<Rightarrow> int \<Rightarrow> string \<Rightarrow> string \<Rightarrow> answer option" where
  "injected_answer marshal status i name =
     (let envelope = marshal (JObj [(''error'', JObj [(''detail'', JStr ''injected by ynabtest.FailWith''),
        (''id'', JStr i), (''name'', JStr name)])]) @ [CHR 0x0A] in
      if 200 \<le> status \<and> status \<le> 999
      then Some \<lparr>an_status = status, an_body = (if status = 204 \<or> status = 304 then [] else envelope)\<rparr>
      else if status = 101 then Some \<lparr>an_status = 101, an_body = []\<rparr>
      else if 100 \<le> status \<and> status < 200 then Some \<lparr>an_status = 200, an_body = envelope\<rparr>
      else None)"

section \<open>The session\<close>

datatype fake_step = Inject int string string | Serve incoming | Shut

text \<open>
  The steps in the order the mutex gives them, with the replies in the order of the requests: an answer,
  a connection closed without one, or the refusal of a server that no longer listens.
\<close>

datatype reply = Reply answer | Dropped | Refused

definition reply_of :: "answer option \<Rightarrow> reply" where
  "reply_of a = (case a of None \<Rightarrow> Dropped | Some b \<Rightarrow> Reply b)"

fun run_fake ::
  "(string \<Rightarrow> json option) \<Rightarrow> (json \<Rightarrow> string) \<Rightarrow> (string \<Rightarrow> string + string) \<Rightarrow> fake_step list \<Rightarrow> Server \<Rightarrow>
   reply list \<times> Server"
where
  "run_fake unmarshal marshal readFile [] s = ([], s)"
| "run_fake unmarshal marshal readFile (Inject status i name # steps) s =
     run_fake unmarshal marshal readFile steps (FailWith status i name s)"
| "run_fake unmarshal marshal readFile (Shut # steps) s = run_fake unmarshal marshal readFile steps (Close s)"
| "run_fake unmarshal marshal readFile (Serve r # steps) s =
     (if sv_open s
      then (case handle unmarshal marshal readFile r s of (a, s') \<Rightarrow>
          (case run_fake unmarshal marshal readFile steps s' of (as, t) \<Rightarrow> (reply_of a # as, t)))
      else (case run_fake unmarshal marshal readFile steps s of (as, t) \<Rightarrow> (Refused # as, t)))"

text \<open>The replies of a session and the failures it reports.\<close>

fun fake_answers ::
  "(string \<Rightarrow> json option) \<Rightarrow> (json \<Rightarrow> string) \<Rightarrow> (string \<Rightarrow> string + string) \<Rightarrow> bool \<Rightarrow> (int \<times> string \<times> string) option \<Rightarrow>
   fake_step list \<Rightarrow> reply list \<times> string list"
where
  "fake_answers unmarshal marshal readFile alive pending [] = ([], [])"
| "fake_answers unmarshal marshal readFile alive pending (Inject status i name # steps) =
     fake_answers unmarshal marshal readFile alive (if status = 0 then None else Some (status, i, name)) steps"
| "fake_answers unmarshal marshal readFile alive pending (Shut # steps) =
     fake_answers unmarshal marshal readFile False pending steps"
| "fake_answers unmarshal marshal readFile alive pending (Serve r # steps) =
     (if alive
      then (case (case pending of
               None \<Rightarrow> (case table_answer unmarshal readFile r of (a, errs) \<Rightarrow> (Reply a, errs))
             | Some (status, i, name) \<Rightarrow> (case injected_answer marshal status i name of
                 None \<Rightarrow> (Dropped, []) | Some a \<Rightarrow> (Reply a, []))) of
          (a, errs) \<Rightarrow> (case fake_answers unmarshal marshal readFile True None steps of
            (as, es) \<Rightarrow> (a # as, errs @ es)))
      else (case fake_answers unmarshal marshal readFile False pending steps of (as, es) \<Rightarrow> (Refused # as, es)))"

definition pending_of :: "Server \<Rightarrow> (int \<times> string \<times> string) option" where
  "pending_of s = (if sv_failStatus s = 0 then None else Some (sv_failStatus s, sv_failID s, sv_failName s))"

lemma pending_simps [simp]:
  "pending_of (FailWith status i name s) = (if status = 0 then None else Some (status, i, name))"
  "pending_of (NewServer url tb) = None" "pending_of (Close s) = pending_of s" "pending_of (report errs s) = pending_of s"
  by (simp_all add: pending_of_def FailWith_def NewServer_def Close_def report_def)

lemma server_simps [simp]:
  "sv_open (FailWith status i name s) = sv_open s" "sv_tb (FailWith status i name s) = sv_tb s"
  "sv_tb (Close s) = sv_tb s" "\<not> sv_open (Close s)"
  "sv_open (report errs s) = sv_open s" "sv_tb (report errs s) = map_option (\<lambda>es. es @ errs) (sv_tb s)"
  by (simp_all add: FailWith_def Close_def report_def)

lemma resolve_table:
  "resolve unmarshal (concat (map (\<lambda>row. routes_of_op row (the (map_of fixtures (op_ID row)))) Table)) r =
     (case find (matching r) Table of
        None \<Rightarrow> None
      | Some row \<Rightarrow> map_option (\<lambda>fs. \<lparr>rt_method = op_Method row, rt_pattern = PathRegexp (op_Path row), rt_spec = fs\<rparr>)
        (find (key_present (body_keys unmarshal (iq_body r))) (the (map_of fixtures (op_ID row)))))"
proof (cases "find (matching r) Table")
  case (Some row)
  then have "matching r row" by (auto simp: find_Some_iff)
  with Some show ?thesis by (simp add: resolve_rows [OF one_row] resolve_op)
qed (simp add: resolve_rows [OF one_row])

lemma report_Nil [simp]: "report [] s = s"
  by (cases s) (simp add: report_def option.map_ident)

lemma fixtures_described:
  "list_all (\<lambda>(i, fs). list_all (\<lambda>f. (fx_deltaFixture f \<noteq> []) = (i \<in> set delta_ops) \<and>
     fx_status f = (if i \<in> set creating_ops then 201 else 0)) fs) fixtures"
  by code_simp

lemma fixture_described:
  assumes "row \<in> set Table" and "f \<in> set (the (map_of fixtures (op_ID row)))"
  shows "fx_deltaFixture f \<noteq> [] \<longleftrightarrow> op_ID row \<in> set delta_ops"
    and "fx_status f = (if op_ID row \<in> set creating_ops then 201 else 0)"
proof -
  obtain fs where fs: "map_of fixtures (op_ID row) = Some fs" using fixtures_cover assms(1) by (auto simp: list_all_iff)
  with assms(2) have "f \<in> set fs" by simp
  with map_of_SomeD [OF fs] fixtures_described
  show "fx_deltaFixture f \<noteq> [] \<longleftrightarrow> op_ID row \<in> set delta_ops"
    and "fx_status f = (if op_ID row \<in> set creating_ops then 201 else 0)"
    by (auto simp: list_all_iff)
qed

lemma key_present_iff:
  "key_present (body_keys unmarshal raw) fs \<longleftrightarrow>
     fx_bodyKey fs = [] \<or> (\<exists>ms. unmarshal raw = Some (JObj ms) \<and> fx_bodyKey fs \<in> fst ` set ms)"
proof (cases "\<exists>ms. unmarshal raw = Some (JObj ms)")
  case True
  then show ?thesis by (auto simp: key_present_def body_keys_def)
next
  case False
  then have "body_keys unmarshal raw = []" by (auto simp: body_keys_def split: option.split json.split)
  with False show ?thesis by (simp add: key_present_def)
qed

lemma op_fixture_find:
  "op_fixture i (unmarshal raw) = find (key_present (body_keys unmarshal raw)) (the (map_of fixtures i))"
  unfolding op_fixture_key key_present_iff [abs_def] ..

lemma written_fixture: "written 200 b = Some \<lparr>an_status = 200, an_body = b\<rparr>" "written 201 b = Some \<lparr>an_status = 201, an_body = b\<rparr>"
  "written 404 b = Some \<lparr>an_status = 404, an_body = b\<rparr>" "written 500 b = Some \<lparr>an_status = 500, an_body = b\<rparr>"
  by (simp_all add: written_def)

lemma error_text_envelope: "envelope_text i name detail = error_text i name detail"
  by (simp add: envelope_text_def error_text_def json_quote_def)

lemma serve_fixture_served:
  assumes "row \<in> set Table" and "f \<in> set (the (map_of fixtures (op_ID row)))"
  shows "serve_fixture readFile f r =
    map_prod Some id (served readFile (op_ID row) f (Values_Get (iq_query r) ''last_knowledge_of_server''))"
  using fixture_described [OF assms]
  by (auto simp: serve_fixture_def served_def chosen_fixture_def written_fixture error_text_envelope fixture_report_def Let_def
      split: sum.split)

lemma written_injected: "status \<noteq> 0 \<Longrightarrow>
    written status (marshal (error_envelope i name) @ [CHR 0x0A]) = injected_answer marshal status i name"
  by (auto simp: written_def injected_answer_def error_envelope_def Let_def)

lemma handle_answer:
  "handle unmarshal marshal readFile r s =
     (case pending_of s of
        None \<Rightarrow> (case table_answer unmarshal readFile r of (a, errs) \<Rightarrow> (Some a, report errs (FailWith 0 [] [] s)))
      | Some (status, i, name) \<Rightarrow> (injected_answer marshal status i name, FailWith 0 [] [] s))"
proof (cases "sv_failStatus s = 0")
  case False
  then show ?thesis by (simp add: handle_def pending_of_def FailWith_def written_injected Let_def)
next
  case True
  show ?thesis
  proof (cases "find (matching r) Table")
    case None
    with True show ?thesis
      by (simp add: handle_def pending_of_def FailWith_def routes_derived resolve_table table_answer_def written_fixture no_route_def error_text_envelope Let_def)
  next
    case (Some row)
    then have row: "row \<in> set Table" by (auto simp: find_Some_iff)
    show ?thesis
    proof (cases "find (key_present (body_keys unmarshal (iq_body r))) (the (map_of fixtures (op_ID row)))")
      case None
      with Some True show ?thesis
        by (simp add: handle_def pending_of_def FailWith_def routes_derived resolve_table table_answer_def
            op_fixture_find written_fixture no_route_def error_text_envelope Let_def)
    next
      case (Some f)
      then have "f \<in> set (the (map_of fixtures (op_ID row)))" by (auto simp: find_Some_iff)
      from serve_fixture_served [OF row this, of readFile r] Some True \<open>find (matching r) Table = Some row\<close>
      show ?thesis
        by (simp add: handle_def pending_of_def FailWith_def routes_derived resolve_table table_answer_def
            op_fixture_find Let_def split: prod.split)
    qed
  qed
qed

section \<open>Properties\<close>

text \<open>
  C40: the fake API is the contract table served with the golden fixtures. Over any interleaving of
  injections, requests and shutdowns: while it listens, a request is answered from the one table row
  its method and path belong to, with the bytes of the fixture its body key selects (the delta one
  exactly under a cursor, for the operations that have one), 201 for the operations that create and
  200 for the others, 404 when there is no row or no fitting fixture, 500 when the file cannot be
  read; an injected failure answers exactly the next request, the latest injection winning, as far as
  \<open>net/http\<close> accepts its status, the connection being dropped otherwise, and leaves nothing behind; and
  what is reported to the test is exactly the fixtures that could not be read.
\<close>

theorem fake_server_exact:
  "case fake_answers unmarshal marshal readFile (sv_open s) (pending_of s) steps of (as, errs) \<Rightarrow>
     \<exists>t. run_fake unmarshal marshal readFile steps s = (as, t) \<and>
       sv_tb t = map_option (\<lambda>es. es @ errs) (sv_tb s)"
proof (induction steps arbitrary: s)
  case Nil
  then show ?case by (simp add: option.map_ident)
next
  case (Cons step steps)
  show ?case
  proof (cases step)
    case (Inject status i name)
    then show ?thesis using Cons [of "FailWith status i name s"] by simp
  next
    case Shut
    then show ?thesis using Cons [of "Close s"] by simp
  next
    case (Serve r)
    show ?thesis
    proof (cases "sv_open s")
      case False
      then show ?thesis using Cons [of s] by (auto simp: Serve split: prod.splits)
    next
      case open_server: True
      show ?thesis
      proof (cases "pending_of s")
        case None
        obtain a errs where o: "table_answer unmarshal readFile r = (a, errs)" by fastforce
        show ?thesis
          using Cons [of "report errs (FailWith 0 [] [] s)"] open_server None o
          by (cases "sv_tb s") (auto simp: Serve handle_answer reply_of_def split: prod.splits)
      next
        case (Some p)
        obtain status i name where p: "p = (status, i, name)" by (cases p)
        show ?thesis
          using Cons [of "FailWith 0 [] [] s"] open_server Some p
          by (auto simp: Serve handle_answer reply_of_def split: prod.splits option.split)
      qed
    qed
  qed
qed

end
