(* ===== verification/Fake_Client.thy ===== *)
theory Fake_Client
  imports Fake_Server "HOL-Library.Sublist"
begin

text \<open>
  The client against the fake API. \<open>arrives\<close> is what \<open>net/http\<close> and \<open>net/url\<close> make of a request on its
  way to the handler: the path percent-decoded as a whole, the query parsed, the body read. A fake
  listens at an origin without a path, which is the base URL of the client it is handed to.
\<close>

section \<open>Reading a query\<close>

fun split_on :: "char \<Rightarrow> string \<Rightarrow> string list" where
  "split_on a [] = [[]]"
| "split_on a (c # r) =
     (if c = a then [] # split_on a r
      else (case split_on a r of x # xs \<Rightarrow> (c # x) # xs | [] \<Rightarrow> [[c]]))"

text \<open>
  \<open>url.ParseQuery\<close> of a query whose escapes are well formed: the pieces between \<open>&\<close>, those with a
  semicolon and the empty ones left out, cut at the first \<open>=\<close>. A repeated key keeps its first entry first.
\<close>

definition ParseQuery :: "string \<Rightarrow> url_values" where
  "ParseQuery q = map (\<lambda>p. (query_decode (takeWhile (\<lambda>c. c \<noteq> CHR ''='') p),
       [query_decode (drop 1 (dropWhile (\<lambda>c. c \<noteq> CHR ''='') p))]))
     (filter (\<lambda>p. p \<noteq> [] \<and> CHR '';'' \<notin> set p) (split_on CHR ''&'' q))"

definition arrives :: "string \<Rightarrow> request \<Rightarrow> incoming" where
  "arrives origin req =
     (let target = drop (length origin) (rq_url req)
      in \<lparr>iq_method = rq_method req,
          iq_path = percent_decode (takeWhile (\<lambda>c. c \<noteq> CHR ''?'') target),
          iq_query = ParseQuery (drop 1 (dropWhile (\<lambda>c. c \<noteq> CHR ''?'') target)),
          iq_body = (case rq_payload req of None \<Rightarrow> [] | Some b \<Rightarrow> b)\<rparr>)"

lemma arrives_method [simp]: "iq_method (arrives origin req) = rq_method req"
  by (simp add: arrives_def Let_def)

lemma split_on_free: "a \<notin> set s \<Longrightarrow> split_on a s = [s]"
  by (induction s) auto

lemma split_on_append: "a \<notin> set s \<Longrightarrow> split_on a (s @ a # r) = s # split_on a r"
  by (induction s) auto

lemma split_on_Join:
  "xs \<noteq> [] \<Longrightarrow> list_all (\<lambda>x. a \<notin> set x) xs \<Longrightarrow> split_on a (Join [a] xs) = xs"
  by (induction "[a]" xs rule: Join.induct) (simp_all add: split_on_free split_on_append)

lemma QueryEscape_free: "CHR ''&'' \<notin> set (QueryEscape s)" "CHR ''='' \<notin> set (QueryEscape s)" "CHR '';'' \<notin> set (QueryEscape s)"
  using QueryEscape_set [of "CHR ''&''" s] QueryEscape_set [of "CHR ''=''" s] QueryEscape_set [of "CHR '';''" s]
  by (auto simp: is_alnum_def byte_in_def)

lemma cut_pair:
  "a \<notin> set k \<Longrightarrow> takeWhile (\<lambda>c. c \<noteq> a) (k @ a # v) = k \<and> drop 1 (dropWhile (\<lambda>c. c \<noteq> a) (k @ a # v)) = v"
  by (induction k) auto

lemma cut_none: "a \<notin> set k \<Longrightarrow> takeWhile (\<lambda>c. c \<noteq> a) k = k \<and> dropWhile (\<lambda>c. c \<noteq> a) k = []"
  by (induction k) auto

lemma ParseQuery_Encode: "ParseQuery (Values_Encode q) = map (\<lambda>(k, v). (k, [v])) (Values_pairs q)"
proof (cases "Values_pairs q = []")
  case True
  then show ?thesis by (simp add: ParseQuery_def Values_Encode_def)
next
  case False
  let ?piece = "\<lambda>(k, v). QueryEscape k @ ''='' @ QueryEscape v"
  have "split_on CHR ''&'' (Values_Encode q) = map ?piece (Values_pairs q)"
    unfolding Values_Encode_def using False
    by (intro split_on_Join) (auto simp: list_all_iff QueryEscape_free)
  moreover have "filter (\<lambda>p. p \<noteq> [] \<and> CHR '';'' \<notin> set p) (map ?piece ps) = map ?piece ps" for ps
    by (induction ps) (auto simp: QueryEscape_free)
  ultimately show ?thesis
    using cut_pair [OF QueryEscape_free(2)] by (auto simp: ParseQuery_def)
qed

lemma map_of_pairs:
  fixes vs :: "'a \<Rightarrow> 'b list"
  shows "map_of (map (\<lambda>(k, v). (k, [v])) (concat (map (\<lambda>k. map (Pair k) (vs k)) ks))) k =
     (if k \<in> set ks then (case vs k of [] \<Rightarrow> None | v # _ \<Rightarrow> Some [v]) else None)"
proof (induction ks)
  case (Cons k' ks)
  show ?case
  proof (cases "k = k'")
    case True
    then show ?thesis using Cons by (cases "vs k'") (simp_all add: comp_def)
  next
    case False
    then have "map_of (map (\<lambda>v. (k', [v])) us) k = None" for us :: "'b list" by (induction us) simp_all
    then show ?thesis using Cons False by (simp add: map_add_def comp_def)
  qed
qed simp

lemma Values_Get_read_back: "Values_Get (ParseQuery (Values_Encode q)) k = Values_Get q k"
proof -
  have "k \<in> set (map fst q) \<longleftrightarrow> map_of q k \<noteq> None" by (simp add: map_of_eq_None_iff)
  then show ?thesis
    unfolding ParseQuery_Encode Values_pairs_def
    by (auto simp: Values_Get_def map_of_pairs split: option.split list.split)
qed

section \<open>Reading a path\<close>

lemma percent_decode_PathEscape_append: "percent_decode (PathEscape s @ r) = s @ percent_decode r"
  by (induction s) (simp_all add: PathEscape_def)

lemma percent_decode_segment_append: "percent_decode (JoinPath_segment s @ r) = s @ percent_decode r"
proof -
  have "''%2E'' = percent CHR ''.''" by code_simp
  then have "percent_decode (''%2E'' @ r) = ''.'' @ percent_decode r" "percent_decode (''%2E%2E'' @ r) = ''..'' @ percent_decode r" for r
    using percent_decode_percent [of "CHR ''.''"] by (metis append_Cons append_Nil append_assoc)+
  then show ?thesis by (simp only: JoinPath_segment_def percent_decode_PathEscape_append split: if_split) blast
qed

lemma percent_decode_Join: "percent_decode (JoinPath segs) = Join ''/'' segs"
proof -
  have "percent_decode (Join ''/'' (map JoinPath_segment segs)) = Join ''/'' segs"
    by (induction "''/''" segs rule: Join.induct) (simp_all add: percent_decode_segment_append)
  then show ?thesis by (simp add: JoinPath_def)
qed

text \<open>A segment that holds a slash shows one escaped.\<close>

lemma escaped_slash:
  assumes "CHR ''/'' \<in> set s"
  shows "sublist ''%2F'' (JoinPath_segment s)"
proof -
  obtain a b where s: "s = a @ CHR ''/'' # b" using assms by (auto simp: in_set_conv_decomp)
  have e: "escape_segment_byte CHR ''/'' = ''%2F''" by code_simp
  have "PathEscape s = PathEscape a @ ''%2F'' @ PathEscape b" by (simp add: s PathEscape_def e)
  moreover have "s \<noteq> ''.''" "s \<noteq> ''..''" using assms by auto
  ultimately show ?thesis by (auto simp: JoinPath_segment_def sublist_def)
qed

lemma sublist_Join: "x \<in> set xs \<Longrightarrow> sublist x (Join sep xs)"
proof (induction sep xs rule: Join.induct)
  case (3 sep s t ss)
  then show ?case
    by (auto simp: sublist_append)
qed auto

lemma no_escaped_slash: "\<not> sublist ''%2F'' (JoinPath segs) \<Longrightarrow> list_all slash_free segs"
  unfolding list_all_iff
proof (intro ballI notI)
  fix s assume no: "\<not> sublist ''%2F'' (JoinPath segs)" and s: "s \<in> set segs" "CHR ''/'' \<in> set s"
  have "sublist (JoinPath_segment s) (JoinPath segs)" using s(1) unfolding JoinPath_def by (intro sublist_Join) simp
  with escaped_slash [OF s(2)] no show False using sublist_order.order.trans by blast
qed

lemma JoinPath_question_free: "CHR ''?'' \<notin> set (JoinPath segs)"
proof -
  have "CHR ''?'' \<notin> set (Join ''/'' (map JoinPath_segment segs))"
    by (induction "''/''" segs rule: Join.induct) (auto simp: JoinPath_segment_no_delims)
  then show ?thesis by (simp add: JoinPath_def)
qed

text \<open>The path of a request's URL as it is sent, escapes and all.\<close>

definition url_path :: "string \<Rightarrow> request \<Rightarrow> string" where
  "url_path origin req = takeWhile (\<lambda>c. c \<noteq> CHR ''?'') (drop (length origin) (rq_url req))"

text \<open>What arrives of a request to a joined path.\<close>

lemma arrives_at:
  assumes "TrimSuffix (c_BaseURL c) ''/'' = origin" and "rq_url req = requestURL c (JoinPath segs) query"
    and "segs \<noteq> []" and "hd segs \<noteq> []"
  shows "iq_path (arrives origin req) = CHR ''/'' # Join ''/'' segs"
    and "Values_Get (iq_query (arrives origin req)) k = Values_Get query k"
    and "url_path origin req = CHR ''/'' # JoinPath segs"
proof -
  have "hd (JoinPath segs) \<noteq> CHR ''/'' \<and> JoinPath segs \<noteq> []"
    using assms(3,4) hd_Join [of "map JoinPath_segment segs" "''/''"] JoinPath_segment_no_delims(1) [of "hd segs"]
    by (auto simp: JoinPath_def hd_map) (metis JoinPath_segment_Nil hd_in_set)
  then have "TrimPrefix (JoinPath segs) ''/'' = JoinPath segs"
    by (cases "JoinPath segs") (auto simp: TrimPrefix_def HasPrefix_def)
  then have u: "rq_url req = origin @ CHR ''/'' # JoinPath segs @ (if Values_Encode query \<noteq> [] then CHR ''?'' # Values_Encode query else [])"
    using assms(1,2) by (simp add: requestURL_def Let_def)
  have q: "CHR ''?'' \<notin> set (CHR ''/'' # JoinPath segs)" using JoinPath_question_free by simp
  have d: "percent_decode (CHR ''/'' # JoinPath segs) = CHR ''/'' # Join ''/'' segs" by (simp add: percent_decode_Join)
  have "url_path origin req = CHR ''/'' # JoinPath segs \<and> iq_path (arrives origin req) = CHR ''/'' # Join ''/'' segs \<and>
      iq_query (arrives origin req) = ParseQuery (Values_Encode query)"
  proof (cases "Values_Encode query = []")
    case True
    then have t: "drop (length origin) (rq_url req) = CHR ''/'' # JoinPath segs" by (simp add: u)
    show ?thesis unfolding arrives_def url_path_def Let_def t incoming.simps True
      unfolding conjunct1 [OF cut_none [OF q]] conjunct2 [OF cut_none [OF q]] d by simp
  next
    case False
    then have t: "drop (length origin) (rq_url req) = (CHR ''/'' # JoinPath segs) @ CHR ''?'' # Values_Encode query" by (simp add: u)
    show ?thesis unfolding arrives_def url_path_def Let_def t incoming.simps
      using cut_pair [OF q, of "Values_Encode query"] d
      by (simp del: percent_decode.simps takeWhile.simps dropWhile.simps append_Cons)
  qed
  then show "iq_path (arrives origin req) = CHR ''/'' # Join ''/'' segs"
    "Values_Get (iq_query (arrives origin req)) k = Values_Get query k"
    "url_path origin req = CHR ''/'' # JoinPath segs"
    by (simp_all add: Values_Get_read_back)
qed

section \<open>Routing what arrives\<close>

definition plain_pattern :: "segment_pattern list \<Rightarrow> bool" where
  "plain_pattern ps \<longleftrightarrow> 2 \<le> length ps \<and> hd (tl ps) \<noteq> Lit [] \<and>
     list_all (\<lambda>p. case p of Lit l \<Rightarrow> CHR ''%'' \<notin> set l | Wild \<Rightarrow> True) ps"

lemma Table_plain: "list_all (\<lambda>r. plain_pattern (PathRegexp (op_Path r))) Table"
  by code_simp

lemma percent_free: "CHR ''%'' \<notin> set s \<Longrightarrow> percent_decode s = s"
  by (induction s) auto

lemma segment_decoded:
  assumes "segment_matches p (JoinPath_segment s)" and "case p of Lit l \<Rightarrow> CHR ''%'' \<notin> set l | Wild \<Rightarrow> True"
  shows "segment_matches p s"
  using assms percent_free percent_decode_segment [of s]
  by (cases p) (auto simp: segment_matches_def)

lemma match_decoded:
  assumes "plain_pattern ps" and "segs \<noteq> []" and "MatchString ps (CHR ''/'' # JoinPath segs)"
  shows "hd segs \<noteq> []" and "list_all slash_free segs \<Longrightarrow> MatchString ps (CHR ''/'' # Join ''/'' segs)"
proof -
  have m: "list_all2 segment_matches ps ([] # map JoinPath_segment segs)"
    using assms(2,3) by (simp add: MatchString_def split_slash_JoinPath)
  obtain p q qs where ps: "ps = p # q # qs" "q \<noteq> Lit []"
    using assms(1) by (cases ps; cases "tl ps") (auto simp: plain_pattern_def)
  obtain x xs where segs: "segs = x # xs" using assms(2) by (cases segs) auto
  from m ps segs have "segment_matches q (JoinPath_segment x)" by simp
  with ps(2) segs show "hd segs \<noteq> []" by (cases q) (auto simp: segment_matches_def)
  have "list_all2 segment_matches ps ([] # segs)"
    using m assms(1) segment_decoded unfolding plain_pattern_def
    by (auto simp: list_all2_conv_all_nth list_all_length nth_Cons split: nat.splits)
  with assms(2) show "list_all slash_free segs \<Longrightarrow> MatchString ps (CHR ''/'' # Join ''/'' segs)"
    by (simp add: MatchString_def split_slash_Join)
qed

lemma find_unique: "length (filter P xs) \<le> 1 \<Longrightarrow> x \<in> set xs \<Longrightarrow> P x \<Longrightarrow> find P xs = Some x"
  by (induction xs) (auto simp: filter_empty_conv)

text \<open>A request that conforms to a row, and hides no slash, arrives as a request of that row.\<close>

lemma conforming_arrives:
  assumes "conforms c i req" and "TrimSuffix (c_BaseURL c) ''/'' = origin" and "\<not> sublist ''%2F'' (url_path origin req)"
  shows "\<exists>row. find (matching (arrives origin req)) Table = Some row \<and> op_ID row = i"
proof -
  from assms(1) obtain row segs query where r: "row \<in> set Table" "op_ID row = i" "rq_method req = op_Method row"
    "rq_url req = requestURL c (JoinPath segs) query" "segs \<noteq> []"
    "MatchString (PathRegexp (op_Path row)) (CHR ''/'' # JoinPath segs)"
    by (auto simp: conforms_def joined_def)
  have plain: "plain_pattern (PathRegexp (op_Path row))" using Table_plain r(1) by (simp add: list_all_iff)
  have hd: "hd segs \<noteq> []" by (rule match_decoded(1) [OF plain r(5,6)])
  note a = arrives_at [OF assms(2) r(4,5) hd]
  have "sublist (JoinPath segs) (url_path origin req)"
    unfolding a(3) sublist_def by (intro exI [of _ "''/''"] exI [of _ "[]"]) simp
  with assms(3) have "\<not> sublist ''%2F'' (JoinPath segs)" using sublist_order.order.trans by blast
  then have "list_all slash_free segs" by (rule no_escaped_slash)
  from match_decoded(2) [OF plain r(5,6) this] have "matching (arrives origin req) row"
    using a(1) r(3) by (simp add: matching_def)
  with find_unique [OF one_row r(1)] r(2) show ?thesis by blast
qed

text \<open>The body of a new transaction, and the fixture a call is to be answered with.\<close>

definition created_body :: "call \<Rightarrow> (string \<times> json) option" where
  "created_body call = (case call of
     TransactionsCall (TransactionsCreateCall spec) \<Rightarrow> Some (''transaction'', TransactionSpec_json spec)
   | TransactionsCall (TransactionsCreateBatchCall specs) \<Rightarrow>
       Some (''transactions'', case specs of None \<Rightarrow> JNull | Some ss \<Rightarrow> JArr (map TransactionSpec_json ss))
   | _ \<Rightarrow> None)"

definition call_fixture :: "call \<Rightarrow> fixtureSpec" where
  "call_fixture call = (case call of
     TransactionsCall (TransactionsCreateBatchCall specs) \<Rightarrow> fixture_spec ''transactions/batch.json'' [] 201 ''transactions''
   | _ \<Rightarrow> hd (the (map_of fixtures (call_op call))))"

lemma fixtures_single:
  "list_all (\<lambda>(i, fs). i = ''createTransaction'' \<or> (case fs of [f] \<Rightarrow> fx_bodyKey f = [] | _ \<Rightarrow> False)) fixtures"
  by code_simp

lemma fixtures_create: "map_of fixtures ''createTransaction'' =
    Some [fixture_spec ''transactions/create.json'' [] 201 ''transaction'', fixture_spec ''transactions/batch.json'' [] 201 ''transactions'']"
  by code_simp

lemma op_fixture_single:
  assumes "map_of fixtures i = Some fs" and "i \<noteq> ''createTransaction''"
  shows "op_fixture i content = Some (hd fs)"
proof -
  have "case fs of [f] \<Rightarrow> fx_bodyKey f = [] | _ \<Rightarrow> False"
    using fixtures_single map_of_SomeD [OF assms(1)] assms(2) unfolding list_all_iff by fast
  then obtain f where "fs = [f]" "fx_bodyKey f = []" by (auto split: list.splits)
  then show ?thesis by (simp add: op_fixture_key assms(1))
qed

lemma op_fixture_create:
  assumes "map_option plain content = Some (JObj [(k, v)])" and "k = ''transaction'' \<or> k = ''transactions''"
  shows "op_fixture ''createTransaction'' content = Some (fixture_spec
    (if k = ''transaction'' then ''transactions/create.json'' else ''transactions/batch.json'') [] 201 k)"
proof -
  obtain w where "content = Some (JObj [(k, w)])" using assms(1) by (auto simp: plain_JObj)
  with assms(2) show ?thesis by (auto simp: op_fixture_key fixtures_create fixture_spec_def)
qed

text \<open>Only two calls create transactions, and the body that leaves is the one they were given.\<close>

lemma creates: "call_op call = ''createTransaction'' \<Longrightarrow>
    (\<exists>spec. call = TransactionsCall (TransactionsCreateCall spec)) \<or> (\<exists>specs. call = TransactionsCall (TransactionsCreateBatchCall specs))"
proof (cases call)
  case (AccountsCall x) then show "call_op call = ''createTransaction'' \<Longrightarrow> ?thesis" by (cases x) simp_all
next
  case (PayeesCall x) then show "call_op call = ''createTransaction'' \<Longrightarrow> ?thesis" by (cases x) simp_all
next
  case (PayeeLocationsCall x) then show "call_op call = ''createTransaction'' \<Longrightarrow> ?thesis" by (cases x) simp_all
next
  case (MoneyMovementsCall x) then show "call_op call = ''createTransaction'' \<Longrightarrow> ?thesis" by (cases x) simp_all
next
  case (CategoriesCall x) then show "call_op call = ''createTransaction'' \<Longrightarrow> ?thesis" by (cases x) simp_all
next
  case (MonthsCall x) then show "call_op call = ''createTransaction'' \<Longrightarrow> ?thesis" by (cases x) simp_all
next
  case (TransactionsCall x) then show "call_op call = ''createTransaction'' \<Longrightarrow> ?thesis" by (cases x) simp_all
next
  case (ScheduledCall x) then show "call_op call = ''createTransaction'' \<Longrightarrow> ?thesis" by (cases x) simp_all
qed simp_all

lemma created_sent:
  assumes "created_body call = Some (k, v)"
    and "EvSend req out \<in> set (st_trace (run_call env c pid call \<lparr>st_world = w, st_trace = []\<rparr>))"
  shows "rq_payload req = Some (env_json_text env (JObj [(k, v)])) \<and> (k = ''transaction'' \<or> k = ''transactions'')"
proof -
  consider (one) spec where "call = TransactionsCall (TransactionsCreateCall spec)" "k = ''transaction''" "v = TransactionSpec_json spec"
    | (batch) specs where "call = TransactionsCall (TransactionsCreateBatchCall specs)" "k = ''transactions''"
        "v = (case specs of None \<Rightarrow> JNull | Some ss \<Rightarrow> JArr (map TransactionSpec_json ss))"
    using assms(1) by (auto simp: created_body_def split: call.splits transactions_call.splits)
  then show ?thesis
  proof cases
    case one
    have "EvSend req out \<in> set (st_trace (snd (Transactions_Create env (Client_Plan c pid) spec \<lparr>st_world = w, st_trace = []\<rparr>)))"
      using assms(2) unfolding one(1) by simp
    from transactions_create.requests_on_route [OF _ this] one(2,3) show ?thesis by (simp add: marshalBody_def body_def)
  next
    case batch
    have "EvSend req out \<in> set (st_trace (snd (Transactions_CreateBatch env (Client_Plan c pid) specs \<lparr>st_world = w, st_trace = []\<rparr>)))"
      using assms(2) unfolding batch(1) by simp
    from transactions_createbatch.requests_on_route [OF _ this] batch(2,3) show ?thesis
      by (simp add: marshalBody_def specs_body_def body_def)
  qed
qed

section \<open>Properties\<close>

text \<open>
  C38: the client and the fake API fit. Whatever call is made of a client pointed at a listening fake,
  every request that leaves with no slash hidden in an id is routed to the operation of that call and
  never to another or to none, and is answered with that operation's fixture, new transactions one by
  one and in batches told apart by the body. What the fake relies on is that a body it reads is the
  body that was written, escapes aside.
\<close>

theorem client_meets_fake:
  assumes "client_ok c" and "TrimSuffix (u_String (cl_baseURL c)) ''/'' = origin"
    and "EvSend req out \<in> set (st_trace (run_call env c pid call \<lparr>st_world = w, st_trace = []\<rparr>))"
    and "\<not> sublist ''%2F'' (url_path origin req)"
    and "\<And>k v. created_body call = Some (k, v) \<Longrightarrow>
      map_option plain (unmarshal (env_json_text env (JObj [(k, v)]))) = Some (plain (JObj [(k, v)]))"
  shows "handle unmarshal marshal readFile (arrives origin req) (NewServer origin tb) =
    (case served readFile (call_op call) (call_fixture call)
        (Values_Get (iq_query (arrives origin req)) ''last_knowledge_of_server'') of
      (a, errs) \<Rightarrow> (Some a, report errs (NewServer origin tb)))"
proof -
  have "upholds c \<lparr>st_world = w, st_trace = []\<rparr> (run_call env c pid call \<lparr>st_world = w, st_trace = []\<rparr>) (call_op call)"
    by (rule run_call_upholds [OF assms(1)]) simp
  with assms(3) have k: "conforms (core_of c) (call_op call) req" by (auto simp: upholds_def)
  have base: "c_BaseURL (core_of c) = u_String (cl_baseURL c)" by (simp add: core_of_def)
  from conforming_arrives [OF k _ assms(4), unfolded base, OF assms(2)] obtain row where
    row: "find (matching (arrives origin req)) Table = Some row" "op_ID row = call_op call" by blast
  have "row \<in> set Table" using row(1) by (auto simp: find_Some_iff)
  with fixtures_cover row(2) obtain fs where fs: "map_of fixtures (call_op call) = Some fs" by (auto simp: list_all_iff)
  have "op_fixture (call_op call) (unmarshal (iq_body (arrives origin req))) = Some (call_fixture call)"
  proof (cases "call_op call = ''createTransaction''")
    case False
    then have "call_fixture call = hd (the (map_of fixtures (call_op call)))"
      by (auto simp: call_fixture_def split: call.split transactions_call.split)
    then have "call_fixture call = hd fs" by (simp add: fs)
    with op_fixture_single [OF fs False] show ?thesis by simp
  next
    case True
    then obtain key v where b: "created_body call = Some (key, v)"
      using creates [OF True] by (auto simp: created_body_def)
    note sent = created_sent [OF b assms(3)]
    then have "iq_body (arrives origin req) = env_json_text env (JObj [(key, v)])"
      by (simp add: arrives_def Let_def)
    with assms(5) [OF b] have "map_option plain (unmarshal (iq_body (arrives origin req))) = Some (JObj [(key, plain v)])" by simp
    from op_fixture_create [OF this] sent
    have "op_fixture (call_op call) (unmarshal (iq_body (arrives origin req))) = Some (fixture_spec
        (if key = ''transaction'' then ''transactions/create.json'' else ''transactions/batch.json'') [] 201 key)"
      by (simp add: True)
    also have "\<dots> = Some (call_fixture call)"
      using creates [OF True] b by (auto simp: created_body_def call_fixture_def fixtures_create)
    finally show ?thesis .
  qed
  moreover have "FailWith 0 [] [] (NewServer origin tb) = NewServer origin tb"
    by (simp add: FailWith_def NewServer_def)
  ultimately show ?thesis
    by (simp add: handle_answer table_answer_def row)
qed

text \<open>The request of a call in the scripted world.\<close>

lemma scripted_sends:
  assumes "\<not> empty_segment path" and "marshalBody script_env load = Inr pl"
  shows "\<exists>out. EvSend (build_request (core_of example_client) verb (requestURL (core_of example_client) path query) ''t'' pl) out \<in>
    set (st_trace (snd (client_do script_env example_client zero dec verb path query load (scripted 200))))"
proof -
  have c: "cl_configErr example_client = None" "c_Retry (core_of example_client) =
    \<lparr>rc_MaxAttempts = 3, rc_MinBackoff = rp_MinBackoff defaultRetry, rc_MaxBackoff = rp_MaxBackoff defaultRetry,
     rc_RetryWrites = False, rc_Disabled = False\<rparr>" "c_MaxResponseBytes (core_of example_client) = 0"
    "wire_env script_env example_client = script_env\<lparr>env_wait := None, env_token := staticToken ''t''\<rparr>"
    by (simp_all add: example_client_def New_def newClient_def core_of_def example_url_def Let_def wire_env_def
        script_env_def defaultRetry_def)
  have l: "sint (defaultMaxResponseBytes + 1) = 134217729" "sint defaultMaxResponseBytes = 134217728" by code_simp+
  have m: "marshalBody e load = Inr pl" if "env_json_text e = (\<lambda>_. ''{}'')" for e :: "(gerr + response) list env"
    using assms(2) that by (cases load) (auto simp: marshalBody_def script_env_def split: sum.splits)
  show ?thesis
    using l assms(1) c
    by (auto simp: m client_do_def Do_def execute_def attempts_of_def backoff_def attempt_def run_wait_def
        scripted_def staticToken_def run_token_def run_send_def script_env_def script_answer_def read_response_def
        read_limit_def ReadAll_limited_def classify_def numeral_3_eq_3 Let_def record_event_def
        split: prod.split sum.split)
qed

text \<open>A batch of no transactions, whose text parses to what was written.\<close>

theorem client_meets_fake_witness:
  "\<exists>req out. EvSend req out \<in> set (st_trace (run_call script_env example_client ''p''
       (TransactionsCall (TransactionsCreateBatchCall (Some []))) (scripted 200))) \<and>
     handle (\<lambda>_. Some (JObj [(''transactions'', JArr [])])) (\<lambda>_. []) (\<lambda>f. Inr f)
         (arrives ''https://api.ynab.com/v1'' req) (NewServer ''https://api.ynab.com/v1'' None) =
       (Some \<lparr>an_status = 201, an_body = ''transactions/batch.json''\<rparr>, NewServer ''https://api.ynab.com/v1'' None)"
proof -
  let ?call = "TransactionsCall (TransactionsCreateBatchCall (Some []))"
  let ?url = "requestURL (core_of example_client) (Plan_path ''p'' [''transactions'']) []"
  let ?req = "build_request (core_of example_client) ''POST'' ?url ''t'' (Some ''{}'')"
  have c: "client_ok example_client" by (simp add: example_client_def New_def Let_def newClient_ok example_url_safe)
  have base: "TrimSuffix (u_String (cl_baseURL example_client)) ''/'' = ''https://api.ynab.com/v1''" by code_simp
  have url: "\<not> sublist ''%2F'' (url_path ''https://api.ynab.com/v1'' ?req)" by code_simp
  have path: "\<not> empty_segment (Plan_path ''p'' [''transactions''])" by code_simp
  have enc: "marshalBody script_env (specs_body (Some [])) = Inr (Some ''{}'')"
    by (simp add: specs_body_def body_def marshalBody_def script_env_def)
  obtain out where sent: "EvSend ?req out \<in> set (st_trace (run_call script_env example_client ''p'' ?call (scripted 200)))"
    using scripted_sends [OF path enc, where verb = "''POST''" and query = "[]"
        and zero = zero_BatchResult and dec = "decode_struct (BatchResult_fields script_env)"]
    by (auto simp: Transactions_CreateBatch_def Client_Plan_def elements_def)
  have parsed: "map_option plain (Some (JObj [(''transactions'', JArr [])])) = Some (plain (JObj [(k, v)]))"
    if "created_body ?call = Some (k, v)" for k v
    using that by (auto simp: created_body_def)
  note met = client_meets_fake [OF c base sent [unfolded scripted_def] url, where unmarshal = "\<lambda>_. Some (JObj [(''transactions'', JArr [])])",
    OF parsed, of "\<lambda>_. []" "\<lambda>f. Inr f" None]
  have "call_op ?call = ''createTransaction''"
    "call_fixture ?call = fixture_spec ''transactions/batch.json'' [] 201 ''transactions''"
    by (simp_all add: call_fixture_def)
  with met sent show ?thesis
    by (intro exI [of _ ?req] exI [of _ out])
      (simp add: served_def delta_ops_def creating_ops_def fixture_spec_def Let_def)
qed

lemma filter_Get:
  "Values_Get (TransactionFilter_encode f) ''since_date'' = Date_String (tf_SinceDate f)"
  "Values_Get (TransactionFilter_encode f) ''until_date'' = Date_String (tf_UntilDate f)"
  "Values_Get (TransactionFilter_encode f) ''type'' = tf_Type f"
  "Values_Get (TransactionFilter_encode f) ''last_knowledge_of_server'' = (if tf_Since f = 0 then [] else dec_int (sint (tf_Since f)))"
  by (auto simp: TransactionFilter_encode_def set_if_def Date_String_def Values_Get_def Values_Set_def update_conv')

text \<open>
  C30: a server reads the list of transactions as it was asked for. Of every request of the call, on any
  base URL, the decoded path is the plan's with its id unescaped, and the parsed query gives back the
  four fields of the filter: the dates and the type as set, the cursor in decimal, nothing for a zero.
\<close>

theorem filter_reads_back:
  assumes "TrimSuffix (u_String (cl_baseURL c)) ''/'' = origin"
    and "EvSend req out \<in> set (st_trace (snd (Transactions_List env (Client_Plan c pid) f \<lparr>st_world = w, st_trace = []\<rparr>)))"
  shows "iq_path (arrives origin req) = ''/plans/'' @ pid @ ''/transactions'' \<and>
    iq_method (arrives origin req) = ''GET'' \<and> iq_body (arrives origin req) = [] \<and>
    Values_Get (iq_query (arrives origin req)) ''since_date'' = Date_String (tf_SinceDate f) \<and>
    Values_Get (iq_query (arrives origin req)) ''until_date'' = Date_String (tf_UntilDate f) \<and>
    Values_Get (iq_query (arrives origin req)) ''type'' = tf_Type f \<and>
    Values_Get (iq_query (arrives origin req)) ''last_knowledge_of_server'' =
      (if tf_Since f = 0 then [] else dec_int (sint (tf_Since f)))"
proof -
  have r: "rq_method req = ''GET''" "rq_payload req = None"
    "rq_url req = requestURL (core_of c) (JoinPath [''plans'', pid, ''transactions'']) (TransactionFilter_encode f)"
    using transactions_list.requests_on_route [OF _ assms(2)] by (simp_all add: Plan_path_def marshalBody_def)
  have "TrimSuffix (c_BaseURL (core_of c)) ''/'' = origin" using assms(1) by (simp add: core_of_def)
  note a = arrives_at [OF this r(3)]
  show ?thesis
    using a(1,2) r(1,2) by (simp add: filter_Get) (simp add: arrives_def Let_def)
qed

theorem filter_reads_back_witness:
  "\<exists>req out. EvSend req out \<in> set (st_trace (snd (Transactions_List script_env (Client_Plan example_client ''p'')
       \<lparr>tf_SinceDate = \<lparr>d_year = 2026, d_month = 7, d_day = 20\<rparr>, tf_UntilDate = zero_Date, tf_Type = ''unapproved'', tf_Since = 7\<rparr>
       (scripted 200)))) \<and>
     Values_Get (iq_query (arrives ''https://api.ynab.com/v1'' req)) ''since_date'' = ''2026-07-20'' \<and>
     Values_Get (iq_query (arrives ''https://api.ynab.com/v1'' req)) ''until_date'' = [] \<and>
     iq_path (arrives ''https://api.ynab.com/v1'' req) = ''/plans/p/transactions''"
proof -
  let ?f = "\<lparr>tf_SinceDate = \<lparr>d_year = 2026, d_month = 7, d_day = 20\<rparr>, tf_UntilDate = zero_Date, tf_Type = ''unapproved'', tf_Since = 7\<rparr>"
  have base: "TrimSuffix (u_String (cl_baseURL example_client)) ''/'' = ''https://api.ynab.com/v1''" by code_simp
  have path: "\<not> empty_segment (Plan_path ''p'' [''transactions''])" by code_simp
  have none: "marshalBody script_env None = Inr None" by (simp add: marshalBody_def)
  have d: "Date_String \<lparr>d_year = 2026, d_month = 7, d_day = 20\<rparr> = ''2026-07-20''" "Date_String zero_Date = []" by code_simp+
  have "\<exists>req out. EvSend req out \<in> set (st_trace (snd (Transactions_List script_env (Client_Plan example_client ''p'') ?f (scripted 200))))"
    unfolding Transactions_List_def Client_Plan_def Plan.simps by (rule exI, rule scripted_sends [OF path none])
  then obtain req out where sent: "EvSend req out \<in> set (st_trace (snd (Transactions_List script_env (Client_Plan example_client ''p'') ?f (scripted 200))))"
    by blast
  from filter_reads_back [OF base, of req out script_env "''p''" ?f "[script_answer 200]"] sent d show ?thesis
    by (intro exI [of _ req] exI [of _ out]) (simp add: scripted_def)
qed

end
