(* ===== verification/Progress.thy ===== *)
theory Progress
  imports Pipeline
begin

text \<open>
  The other half of the retry contract: not only is a call bounded, it also gets through. When
  every attempt but one within the policy meets a transient failure and then the server answers,
  the call returns that answer, provided nothing cancels it.
\<close>

section \<open>A cooperative world\<close>

text \<open>
  In a quiet world hooks succeed, timers fire, no context is canceled and requests build, and only a
  send touches the world; delays, tokens and random bits are arbitrary.
\<close>

definition quiet :: "'w env \<Rightarrow> bool" where
  "quiet env \<longleftrightarrow>
     (case env_wait env of None \<Rightarrow> True | Some f \<Rightarrow> (\<forall>d w. f d w = (None, w))) \<and>
     (\<forall>d w. \<exists>t. env_token env d w = (Inr t, w)) \<and>
     (\<forall>verb u. env_new_request env verb u = None) \<and>
     (\<forall>w. env_ctx_err env w = None) \<and>
     (\<forall>d w. env_timer env d w = (False, w)) \<and>
     (\<forall>w. \<exists>u. env_uint64 env w = (u, w))"

text \<open>The cooperative one is the list of what the server will do.\<close>

definition cooperative :: "(gerr + response) list env \<Rightarrow> bool" where
  "cooperative env \<longleftrightarrow> quiet env \<and> (\<forall>d req r rs. env_do env d req (r # rs) = (r, rs))"

text \<open>A complete answer of a given status, within the size limit.\<close>

definition answers :: "Core \<Rightarrow> int \<Rightarrow> gerr + response \<Rightarrow> bool" where
  "answers c status r = (case r of Inl _ \<Rightarrow> False
     | Inr rp \<Rightarrow> rp_status rp = status \<and> rp_failure rp = None \<and> int (length (rp_body rp)) \<le> sint (read_limit c))"

definition result_of :: "response \<Rightarrow> result" where
  "result_of rp = \<lparr>r_status = rp_status rp, r_body = rp_body rp, r_header = rp_header rp\<rparr>"

text \<open>
  A failure the policy repeats for this method: a connection error, a 500 or 503, or a 429 whose
  \<open>Retry-After\<close> is absent.
\<close>

definition transient :: "Core \<Rightarrow> string \<Rightarrow> gerr + response \<Rightarrow> bool" where
  "transient c verb r \<longleftrightarrow>
     (case r of Inl e \<Rightarrow> retryVerb (c_Retry c) verb \<and> errors_As is_EHook e = None
      | Inr rp \<Rightarrow> False) \<or>
     answers c 429 r \<and> (case r of Inl _ \<Rightarrow> False | Inr rp \<Rightarrow> header_Get (rp_header rp) ''Retry-After'' = []) \<or>
     retryVerb (c_Retry c) verb \<and> (answers c 500 r \<or> answers c 503 r)"

lemma read_response_complete:
  assumes "rp_failure rp = None" and "int (length (rp_body rp)) \<le> sint (read_limit c)"
    and "sint (read_limit c) < 9223372036854775807"
  shows "read_response c pre rp = Inr (result_of rp)"
proof -
  have s: "sint (read_limit c + 1) = sint (read_limit c) + 1"
    using assms(3) i64_bounds(1) [of "read_limit c"] by (intro sint_add_i64 [of _ 1, simplified]) simp_all
  have "0 < sint (read_limit c)"
    by (simp add: read_limit_def defaultMaxResponseBytes_def)
  with assms s show ?thesis
    by (simp add: read_response_def ReadAll_limited_def result_of_def Let_def)
qed

section \<open>Step by step\<close>

definition outcome :: "Core \<Rightarrow> string \<Rightarrow> gerr + response \<Rightarrow> gerr + result" where
  "outcome c pre r = (case r of Inl e \<Rightarrow> Inl (EWrap pre e) | Inr rp \<Rightarrow> read_response c pre rp)"

lemma attempt_quiet:
  assumes "quiet env"
  shows "\<exists>t st'. attempt env c verb path query pl st = (outcome c (op_text verb path)
        (fst (env_do env (c_Timeout c) (build_request c verb (requestURL c path query) t pl) (st_world st))), st') \<and>
    st_world st' = snd (env_do env (c_Timeout c) (build_request c verb (requestURL c path query) t pl) (st_world st)) \<and>
    sends (st_trace st') = Suc (sends (st_trace st))"
proof -
  obtain st1 where w: "run_wait env c st = (None, st1)" "st_world st1 = st_world st"
    "sends (st_trace st1) = sends (st_trace st)"
    using assms by (cases "env_wait env") (auto simp: quiet_def run_wait_def record_event_def)
  obtain t where t: "env_token env (c_Timeout c) (st_world st) = (Inr t, st_world st)"
    using assms unfolding quiet_def by blast
  have "env_new_request env verb u = None" for u
    using assms unfolding quiet_def by blast
  then show ?thesis using w t
    by (intro exI [of _ t])
      (simp add: attempt_def run_token_def run_send_def record_event_def outcome_def Let_def split: sum.split prod.split)
qed

lemma backoff_quiet:
  assumes "quiet env"
  shows "\<exists>st'. backoff env c i out st = (None, st') \<and> st_world st' = st_world st \<and>
    sends (st_trace st') = sends (st_trace st)"
proof (cases "i = 0")
  case False
  have u: "\<exists>u. env_uint64 env w = (u, w)" "env_ctx_err env w = None" "env_timer env d w = (False, w)" for w d
    using assms unfolding quiet_def by blast+
  have "\<exists>d. retryDelay env (c_Retry c) i (last_result out) (st_world st) = (d, st_world st)"
    using u(1) [of "st_world st"] by (auto simp: retryDelay_def split: prod.split)
  then obtain d where "retryDelay env (c_Retry c) i (last_result out) (st_world st) = (d, st_world st)" ..
  with False u(2,3) show ?thesis
    by (simp add: backoff_def sleeper_sleep_def record_event_def)
qed (simp add: backoff_def)

lemma cooperative_quiet: "cooperative env \<Longrightarrow> quiet env"
  by (simp add: cooperative_def)

lemma attempt_cooperative:
  assumes "cooperative env" and "st_world st = r # rs"
  shows "\<exists>st'. attempt env c verb path query pl st = (outcome c (op_text verb path) r, st') \<and> st_world st' = rs \<and>
    sends (st_trace st') = Suc (sends (st_trace st))"
proof -
  have "env_do env (c_Timeout c) req (r # rs) = (r, rs)" for req
    using assms(1) unfolding cooperative_def by blast
  with attempt_quiet [OF cooperative_quiet [OF assms(1)], of c verb path query pl st] assms(2) show ?thesis by simp
qed

lemma outcome_answers:
  assumes "answers c n r" and "sint (read_limit c) < 9223372036854775807"
  obtains rp where "r = Inr rp" "rp_status rp = n" "outcome c pre r = Inr (result_of rp)"
  using assms read_response_complete [of _ c pre]
  by (cases r) (auto simp: answers_def outcome_def)

lemma classify_transient:
  assumes "cooperative env" and "transient c verb r"
    and "sint (read_limit c) < 9223372036854775807"
  shows "classify env (c_Retry c) w verb (outcome c pre r) = (True, None)"
proof -
  have ctx: "env_ctx_err env w = None" using assms(1) by (simp add: cooperative_def quiet_def)
  consider (conn) e where "r = Inl e" "retryVerb (c_Retry c) verb" "errors_As is_EHook e = None"
    | (limited) rp where "r = Inr rp" "answers c 429 r" "header_Get (rp_header rp) ''Retry-After'' = []"
    | (server) n where "n = 500 \<or> n = 503" "answers c n r" "retryVerb (c_Retry c) verb"
    using assms(2) by (cases r) (auto simp: transient_def)
  then show ?thesis
  proof cases
    case conn
    then have "errors_As is_EHook (EWrap pre e) = None" by (simp add: errors_As_def is_EHook_def)
    with conn ctx show ?thesis by (simp add: outcome_def classify_def)
  next
    case limited
    obtain rp' where o: "r = Inr rp'" "rp_status rp' = 429" "outcome c pre r = Inr (result_of rp')"
      by (rule outcome_answers [OF limited(2) assms(3)])
    have "header_delay env w (result_of rp') = 0"
      using limited(1,3) o(1) by (simp add: header_delay_def result_of_def RetryAfterDelay_def)
    moreover have "0 \<le> sint (retryAfterCap (c_Retry c))" using retryAfterCap_ge(2) [of "c_Retry c"] by simp
    ultimately show ?thesis using o by (simp add: classify_def result_of_def)
  next
    case server
    obtain rp where "rp_status rp = n" "outcome c pre r = Inr (result_of rp)"
      by (rule outcome_answers [OF server(2) assms(3)])
    with server(1,3) show ?thesis by (auto simp: classify_def result_of_def)
  qed
qed

lemma exec_loop_progress:
  assumes "cooperative env" and "sint (read_limit c) < 9223372036854775807"
    and "answers c k (Inr rp)" and "k \<notin> {429, 500, 503}"
  shows "list_all (transient c verb) fails \<Longrightarrow> length fails < n \<Longrightarrow> st_world st = fails @ Inr rp # rest \<Longrightarrow>
    \<exists>st'. exec_loop env c verb path query pl n i out st = (Inr (result_of rp), st') \<and> st_world st' = rest \<and>
      sends (st_trace st') = sends (st_trace st) + Suc (length fails)"
proof (induction fails arbitrary: n i out st)
  case Nil
  then obtain m where n: "n = Suc m" by (cases n) auto
  obtain st1 where b: "backoff env c i out st = (None, st1)" "st_world st1 = Inr rp # rest"
    "sends (st_trace st1) = sends (st_trace st)"
    using backoff_quiet [OF cooperative_quiet [OF assms(1)], of c i out st] Nil by auto
  obtain st2 where a: "attempt env c verb path query pl st1 = (outcome c (op_text verb path) (Inr rp), st2)"
    "st_world st2 = rest" "sends (st_trace st2) = Suc (sends (st_trace st))"
    using attempt_cooperative [OF assms(1) b(2), of c verb path query pl] b(3) by auto
  have o: "outcome c (op_text verb path) (Inr rp) = Inr (result_of rp)" "rp_status rp = k"
    using assms(3) by (auto intro: outcome_answers [OF assms(3,2), of "op_text verb path"])
  have "classify env (c_Retry c) (st_world st2) verb (Inr (result_of rp)) = (False, None)"
    using assms(4) o(2) by (simp add: classify_def result_of_def)
  then show ?case using n b a o by simp
next
  case (Cons r fails)
  then obtain m where n: "n = Suc m" by (cases n) auto
  obtain st1 where b: "backoff env c i out st = (None, st1)" "st_world st1 = r # fails @ Inr rp # rest"
    "sends (st_trace st1) = sends (st_trace st)"
    using backoff_quiet [OF cooperative_quiet [OF assms(1)], of c i out st] Cons.prems(3) by auto
  obtain st2 where a: "attempt env c verb path query pl st1 = (outcome c (op_text verb path) r, st2)"
    "st_world st2 = fails @ Inr rp # rest" "sends (st_trace st2) = Suc (sends (st_trace st))"
    using attempt_cooperative [OF assms(1) b(2), of c verb path query pl] b(3) by auto
  have t: "classify env (c_Retry c) (st_world st2) verb (outcome c (op_text verb path) r) = (True, None)"
    using Cons.prems(1) by (intro classify_transient assms) simp
  have "list_all (transient c verb) fails" "length fails < m" using Cons.prems(1,2) n by simp_all
  from Cons.IH [OF this a(2)] show ?case using n b(1) a(1,3) t by auto
qed

section \<open>Properties\<close>

text \<open>
  C4: a call gets through. In a world where nothing is canceled, if fewer attempts than the policy
  allows meet a transient failure and the next meets a complete answer of any status but 429, 500
  and 503, then the call returns that very answer, whatever the random bits and the clock, and has
  sent exactly one request per failure and one for the answer.
\<close>

theorem call_gets_through:
  assumes "cooperative env" and "sint (read_limit c) < 9223372036854775807"
    and "list_all (transient c verb) fails" and "length fails < attempts_of (c_Retry c)"
    and "answers c k (Inr rp)" and "k \<notin> {429, 500, 503}"
  shows "\<exists>st'. execute env c verb path query pl \<lparr>st_world = fails @ Inr rp # rest, st_trace = []\<rparr> =
      (Inr (result_of rp), st') \<and> st_world st' = rest \<and> sends (st_trace st') = Suc (length fails)"
  using exec_loop_progress [OF assms(1,2,5,6,3,4), of "\<lparr>st_world = fails @ Inr rp # rest, st_trace = []\<rparr>"]
  by (simp add: execute_def)

theorem call_gets_through_witness:
  "\<exists>st'. execute script_env script_core ''GET'' ''user'' [] None
      \<lparr>st_world = [script_answer 503, Inl (ENet ''reset'' False None), script_answer 200, script_answer 404], st_trace = []\<rparr> =
      (Inr \<lparr>r_status = 200, r_body = ''{}'', r_header = []\<rparr>, st') \<and>
    st_world st' = [script_answer 404] \<and> sends (st_trace st') = 3"
proof -
  have l: "sint (read_limit script_core) = 134217728" by code_simp
  have v: "retryVerb (c_Retry script_core) ''GET''" "attempts_of (c_Retry script_core) = 3" by code_simp+
  have c: "cooperative script_env" by (simp add: cooperative_def quiet_def script_env_def)
  have t: "list_all (transient script_core ''GET'') [script_answer 503, Inl (ENet ''reset'' False None)]"
    using l v by (simp add: transient_def answers_def script_answer_def errors_As_def is_EHook_def)
  have a: "answers script_core 200 (Inr \<lparr>rp_status = 200, rp_header = [], rp_body = ''{}'', rp_failure = None\<rparr>)"
    using l by (simp add: answers_def)
  from call_gets_through [OF c _ t _ a, of "''user''" "[]" None "[script_answer 404]"] l v
  show ?thesis by (simp add: script_answer_def result_of_def numeral_3_eq_3)
qed

end
