(* ===== verification/Fake_Session.thy ===== *)
theory Fake_Session
  imports Fake_Client Progress
begin

text \<open>
  The client, its retry pipeline and the fake API run together: the world of a call is the server
  itself. This is the setting of the repository's own tests, and what \<open>FailWith\<close> documents is proved
  in it: the injection meets the first attempt, an error the pipeline does not repeat reaches the
  caller, and one it repeats is eaten.
\<close>

section \<open>The server as the world\<close>

text \<open>
  One round trip to \<open>s.srv\<close>: \<open>hdr\<close> is the header \<open>net/http\<close> puts on every answer of the handler,
  \<open>refused\<close> the error of a connection that finds no listener, or is closed without an answer.
\<close>

definition fake_do ::
  "(string \<Rightarrow> json option) \<Rightarrow> (json \<Rightarrow> string) \<Rightarrow> (string \<Rightarrow> string + string) \<Rightarrow> header \<Rightarrow> gerr \<Rightarrow>
   i64 \<Rightarrow> request \<Rightarrow> Server \<Rightarrow> (gerr + response) \<times> Server"
where
  "fake_do unmarshal marshal readFile hdr refused d req s =
     (if \<not> sv_open s then (Inl refused, s)
      else (case handle unmarshal marshal readFile (arrives (sv_URL s) req) s of
          (None, s') \<Rightarrow> (Inl refused, s')
        | (Some a, s') \<Rightarrow>
            (Inr \<lparr>rp_status = an_status a, rp_header = hdr, rp_body = an_body a, rp_failure = None\<rparr>, s')))"

text \<open>What the handler sees of a request of this method, path, query and body, whatever its token.\<close>

definition asked :: "string \<Rightarrow> Core \<Rightarrow> string \<Rightarrow> string \<Rightarrow> url_values \<Rightarrow> string option \<Rightarrow> incoming" where
  "asked origin c verb path query pl =
     arrives origin \<lparr>rq_method = verb, rq_url = requestURL c path query, rq_header = [], rq_payload = pl\<rparr>"

lemma arrives_asked: "arrives origin (build_request c verb (requestURL c path query) t pl) = asked origin c verb path query pl"
  by (simp add: arrives_def asked_def build_request_def)

definition injected :: "(json \<Rightarrow> string) \<Rightarrow> int \<Rightarrow> string \<Rightarrow> string \<Rightarrow> answer" where
  "injected marshal status i name = \<lparr>an_status = status, an_body = marshal (error_envelope i name) @ [CHR 0x0A]\<rparr>"

definition heard :: "header \<Rightarrow> answer \<Rightarrow> result" where
  "heard hdr a = \<lparr>r_status = an_status a, r_body = an_body a, r_header = hdr\<rparr>"

text \<open>Which injections the policy repeats for a method, and so never shows to the caller.\<close>

definition eats :: "RetryConfig \<Rightarrow> string \<Rightarrow> int \<Rightarrow> bool" where
  "eats rc verb status \<longleftrightarrow>
     1 < attempts_of rc \<and> (status = 429 \<or> (status = 500 \<or> status = 503) \<and> retryVerb rc verb)"

text \<open>What an open fake answers a request with, when it does answer.\<close>

definition answered ::
  "(string \<Rightarrow> json option) \<Rightarrow> (json \<Rightarrow> string) \<Rightarrow> (string \<Rightarrow> string + string) \<Rightarrow> Server \<Rightarrow> incoming \<Rightarrow> answer option \<times> string list"
where
  "answered unmarshal marshal readFile s r = (case pending_of s of
     None \<Rightarrow> map_prod Some id (table_answer unmarshal readFile r)
   | Some (status, i, name) \<Rightarrow> (injected_answer marshal status i name, []))"

lemma answered_handle:
  "handle unmarshal marshal readFile r s = (case answered unmarshal marshal readFile s r of
     (a, errs) \<Rightarrow> (a, report errs (FailWith 0 [] [] s)))"
  by (auto simp: handle_answer answered_def split: option.split prod.split)

lemma answered_injected:
  "400 \<le> status \<Longrightarrow> status \<le> 999 \<Longrightarrow>
    answered unmarshal marshal readFile (FailWith status i name s) r = (Some (injected marshal status i name), [])"
  by (simp add: answered_def injected_answer_def injected_def error_envelope_def Let_def)

lemma answered_idle:
  "FailWith 0 [] [] s = s \<Longrightarrow>
    answered unmarshal marshal readFile s r = map_prod Some id (table_answer unmarshal readFile r)"
  using pending_simps(1) [of 0 "[]" "[]" s] by (simp add: answered_def)

lemma fake_do_open:
  assumes "sv_open s" and "sv_URL s = origin"
    and "answered unmarshal marshal readFile s (asked origin c verb path query pl) = (Some a, errs)"
  shows "fake_do unmarshal marshal readFile hdr refused d (build_request c verb (requestURL c path query) t pl) s =
    (Inr \<lparr>rp_status = an_status a, rp_header = hdr, rp_body = an_body a, rp_failure = None\<rparr>,
     report errs (FailWith 0 [] [] s))"
  using assms by (simp add: fake_do_def answered_handle arrives_asked)

text \<open>With readable fixtures the statuses are 200, 201 and 404.\<close>

lemma table_answer_status:
  assumes "table_answer unmarshal readFile r = (a, [])"
  shows "an_status a = 200 \<or> an_status a = 201 \<or> an_status a = 404"
  using assms by (auto simp: table_answer_def served_def Let_def split: option.splits sum.splits if_splits)

section \<open>One attempt\<close>

lemma attempt_fake:
  assumes "quiet env" and "env_do env = fake_do unmarshal marshal readFile hdr refused"
    and "sint (read_limit c) < 9223372036854775807"
    and "sv_open s" and "st_world st = s"
    and "answered unmarshal marshal readFile s (asked (sv_URL s) c verb path query pl) = (Some a, errs)"
    and "int (length (an_body a)) \<le> sint (read_limit c)"
  shows "\<exists>st'. attempt env c verb path query pl st = (Inr (heard hdr a), st') \<and>
    st_world st' = report errs (FailWith 0 [] [] s) \<and> sends (st_trace st') = Suc (sends (st_trace st))"
proof -
  let ?rp = "\<lparr>rp_status = an_status a, rp_header = hdr, rp_body = an_body a, rp_failure = None\<rparr>"
  have "outcome c pre (Inr ?rp) = Inr (heard hdr a)" for pre
    using read_response_complete [of ?rp c pre] assms(3,7) by (simp add: outcome_def result_of_def heard_def)
  then show ?thesis
    using attempt_quiet [OF assms(1), of c verb path query pl st]
    by (auto simp: assms(2,5) fake_do_open [OF assms(4) refl assms(6)])
qed

lemma classify_heard:
  assumes "header_Get hdr ''Retry-After'' = []"
  shows "classify env rc w verb (Inr (heard hdr a)) =
    (an_status a = 429 \<or> (an_status a = 500 \<or> an_status a = 503) \<and> retryVerb rc verb, None)"
proof -
  have "header_delay env w (heard hdr a) = 0"
    using assms by (simp add: header_delay_def heard_def RetryAfterDelay_def)
  moreover have "0 \<le> sint (retryAfterCap rc)" using retryAfterCap_ge(2) [of rc] by simp
  ultimately show ?thesis by (auto simp: classify_def heard_def)
qed

section \<open>One execution\<close>

lemma loop_idle:
  assumes "quiet env" and "env_do env = fake_do unmarshal marshal readFile hdr refused"
    and "sint (read_limit c) < 9223372036854775807" and "header_Get hdr ''Retry-After'' = []"
    and "sv_open s" and "FailWith 0 [] [] s = s" and "st_world st = s"
    and "table_answer unmarshal readFile (asked (sv_URL s) c verb path query pl) = (a, [])"
    and "int (length (an_body a)) \<le> sint (read_limit c)"
  shows "\<exists>st'. exec_loop env c verb path query pl (Suc n) k out st = (Inr (heard hdr a), st') \<and>
    st_world st' = s \<and> sends (st_trace st') = Suc (sends (st_trace st))"
proof -
  obtain st1 where b: "backoff env c k out st = (None, st1)" "st_world st1 = s"
    "sends (st_trace st1) = sends (st_trace st)"
    using backoff_quiet [OF assms(1), of c k out st] assms(7) by auto
  obtain st2 where a: "attempt env c verb path query pl st1 = (Inr (heard hdr a), st2)" "st_world st2 = s"
    "sends (st_trace st2) = Suc (sends (st_trace st))"
    using attempt_fake [OF assms(1-3,5) b(2), of verb path query pl a "[]"] assms(6,8,9) b(3) answered_idle [OF assms(6)] by auto
  have "classify env (c_Retry c) (st_world st2) verb (Inr (heard hdr a)) = (False, None)"
    using table_answer_status [OF assms(8)] by (auto simp: classify_heard [OF assms(4)])
  with a b show ?thesis by simp
qed

lemma execute_injected:
  assumes "quiet env" and "env_do env = fake_do unmarshal marshal readFile hdr refused"
    and "sint (read_limit c) < 9223372036854775807" and "header_Get hdr ''Retry-After'' = []"
    and "sv_open s" and "FailWith 0 [] [] s = s"
    and "table_answer unmarshal readFile (asked (sv_URL s) c verb path query pl) = (a, [])"
    and "int (length (an_body a)) \<le> sint (read_limit c)"
    and "400 \<le> status" and "status \<le> 999" and "int (length (an_body (injected marshal status i name))) \<le> sint (read_limit c)"
  shows "\<exists>st'. execute env c verb path query pl \<lparr>st_world = FailWith status i name s, st_trace = tr\<rparr> =
      (Inr (heard hdr (if eats (c_Retry c) verb status then a else injected marshal status i name)), st') \<and>
    st_world st' = s \<and>
    sends (st_trace st') = (if eats (c_Retry c) verb status then Suc (Suc (sends tr)) else Suc (sends tr))"
proof -
  let ?s = "FailWith status i name s" and ?b = "injected marshal status i name"
  let ?st = "\<lparr>st_world = ?s, st_trace = tr\<rparr>" and ?out = "Inr zero_result"
  have s: "FailWith 0 [] [] ?s = s" using assms(6) by (simp add: FailWith_def)
  obtain st1 where a: "attempt env c verb path query pl ?st = (Inr (heard hdr ?b), st1)" "st_world st1 = s"
    "sends (st_trace st1) = Suc (sends tr)"
    using attempt_fake [OF assms(1-3) _ refl [of "st_world ?st"], of verb path query pl ?b "[]"] assms(5,11) s
      answered_injected [OF assms(9,10)] by auto
  have "attempts_of (c_Retry c) \<noteq> 0" by (simp add: attempts_of_def)
  then obtain m where m: "attempts_of (c_Retry c) = Suc m" using not0_implies_Suc by blast
  let ?again = "status = 429 \<or> (status = 500 \<or> status = 503) \<and> retryVerb (c_Retry c) verb"
  have k: "classify env (c_Retry c) (st_world st1) verb (Inr (heard hdr ?b)) = (?again, None)"
    by (simp add: classify_heard [OF assms(4)] injected_def)
  have step: "execute env c verb path query pl ?st =
      (if ?again then exec_loop env c verb path query pl m 1 (Inr (heard hdr ?b)) st1 else (Inr (heard hdr ?b), st1))"
    by (simp add: execute_def m backoff_def a(1) k)
  show ?thesis
  proof (cases "eats (c_Retry c) verb status")
    case True
    then obtain n where n: "m = Suc n" using m by (cases m) (auto simp: eats_def)
    show ?thesis
      using loop_idle [OF assms(1-6) a(2) assms(7,8), of n 1 "Inr (heard hdr ?b)"] True
      unfolding step n by (auto simp: a(3) eats_def)
  next
    case False
    then have "?again \<Longrightarrow> m = 0" using m by (auto simp: eats_def)
    then show ?thesis unfolding step using False a(2,3) by auto
  qed
qed

section \<open>One call\<close>

lemma injected_envelope:
  "decode_error_envelope (Some (error_envelope i name)) =
     Some \<lparr>we_ID = i, we_Name = name, we_Detail = ''injected by ynabtest.FailWith''\<rparr>"
proof -
  have k: "fold_key ''error'' = ''error''" "fold_key ''id'' = ''id''" "fold_key ''name'' = ''name''"
    "fold_key ''detail'' = ''detail''" by code_simp+
  show ?thesis
    by (simp add: decode_error_envelope_def error_envelope_def decode_struct_single [OF k(1)] decode_pointer_def
        decode_struct_def decode_member_def wire_err_fields_def field_def k decode_string_def zero_wire_err_def)
qed

definition injected_error :: "int \<Rightarrow> string \<Rightarrow> string \<Rightarrow> Error" where
  "injected_error status i name =
     \<lparr>e_StatusCode = status, e_ID = i, e_Name = name, e_Detail = ''injected by ynabtest.FailWith'', e_RetryAfter = 0\<rparr>"

lemma decode_injected:
  assumes "header_Get hdr ''Retry-After'' = []"
    and "map_option plain (env_json_value env (an_body (injected marshal status i name))) = Some (error_envelope i name)"
  shows "decode_error env w (heard hdr (injected marshal status i name)) = EApi (injected_error status i name)"
proof -
  have "decode_error_envelope (env_json_value env (an_body (injected marshal status i name))) =
      Some \<lparr>we_ID = i, we_Name = name, we_Detail = ''injected by ynabtest.FailWith''\<rparr>"
    using decode_error_envelope_blind [of "env_json_value env (an_body (injected marshal status i name))"] assms(2)
    by (simp add: injected_envelope)
  then show ?thesis
    using assms(1)
    by (simp add: decode_error_def heard_def decodeWireError_def injected_error_def RetryAfterDelay_def Let_def)
      (simp add: injected_def)
qed

lemma core_limit: "sint (read_limit (core_of c)) = 134217728"
proof -
  have "read_limit (core_of c) = defaultMaxResponseBytes" by (simp add: read_limit_def core_of_def)
  moreover have "sint defaultMaxResponseBytes = 134217728" by code_simp
  ultimately show ?thesis by simp
qed

lemma wire_env_parts [simp]:
  "env_do (wire_env env c) = cl_httpClient c" "env_json_value (wire_env env c) = env_json_value env"
  by (simp_all add: wire_env_def)

section \<open>After the test\<close>

lemma classify_refused:
  assumes "quiet env" and "errors_As is_EHook refused = None"
  shows "classify env rc w verb (Inl (EWrap pre refused)) =
    (if retryVerb rc verb then (True, None) else (False, Some (EWrap pre refused)))"
proof -
  have "errors_As is_EHook (EWrap pre refused) = None" using assms(2) by (simp add: errors_As_def is_EHook_def)
  moreover have "env_ctx_err env w = None" using assms(1) by (simp add: quiet_def)
  ultimately show ?thesis by (simp add: classify_def)
qed

lemma loop_closed:
  assumes "quiet env" and "env_do env = fake_do unmarshal marshal readFile hdr refused"
    and "errors_As is_EHook refused = None" and "\<not> sv_open s"
  shows "st_world st = s \<Longrightarrow> 0 < n \<or> out = Inl (EWrap (op_text verb path) refused) \<Longrightarrow>
    \<exists>st'. exec_loop env c verb path query pl n k out st = (Inl (EWrap (op_text verb path) refused), st') \<and> st_world st' = s"
proof (induction n arbitrary: k out st)
  case (Suc n k out st)
  obtain st1 where b: "backoff env c k out st = (None, st1)" "st_world st1 = s"
    using backoff_quiet [OF assms(1), of c k out st] Suc.prems by auto
  obtain st2 where a: "attempt env c verb path query pl st1 = (Inl (EWrap (op_text verb path) refused), st2)" "st_world st2 = s"
    using attempt_quiet [OF assms(1), of c verb path query pl st1] b(2) assms(2,4)
    by (auto simp: fake_do_def outcome_def)
  from Suc.IH [OF a(2)] show ?case
    by (simp add: a b classify_refused [OF assms(1,3)])
qed simp

text \<open>
  A client that outlives its server gets the refusal, wrapped, from every call, under every policy,
  and the server notices nothing of it: an injection it had pending stays pending.
\<close>

theorem closed_fake_refuses:
  assumes "quiet (wire_env env c)"
    and "cl_httpClient c = fake_do (env_json_value env) (env_json_text env) readFile hdr refused"
    and "errors_As is_EHook refused = None"
    and "cl_configErr c = None" and "\<not> empty_segment path" and "marshalBody env load = Inr pl"
    and "sv_tb s \<noteq> None"
  shows "\<exists>st'. client_do env c zero dec verb path query load \<lparr>st_world = cleanup s, st_trace = []\<rparr> =
    (Inl (EWrap (op_text verb path) refused), st') \<and> st_world st' = cleanup s"
proof -
  let ?st = "\<lparr>st_world = cleanup s, st_trace = []\<rparr>"
  have closed: "\<not> sv_open (cleanup s)" using assms(7) by (simp add: cleanup_def)
  have d: "env_do (wire_env env c) = fake_do (env_json_value env) (env_json_text env) readFile hdr refused"
    using assms(2) by simp
  have some: "0 < attempts_of (c_Retry (core_of c)) \<or> Inr zero_result = Inl (EWrap (op_text verb path) refused)"
    by (simp add: attempts_of_def)
  obtain st' where "execute (wire_env env c) (core_of c) verb path query pl ?st =
      (Inl (EWrap (op_text verb path) refused), st')" "st_world st' = cleanup s"
    using loop_closed [OF assms(1) d assms(3) closed _ some, of ?st "core_of c" query pl 0] unfolding execute_def by auto
  moreover have "marshalBody (wire_env env c) load = Inr pl" using assms(6) by simp
  ultimately show ?thesis using assms(4,5) by (simp add: client_do_def Do_def)
qed

section \<open>A session\<close>

text \<open>
  A fake at the base URL of the example client, whose files hold their own names; the name of
  \<open>accounts/get.json\<close> parses to what is in that file of \<open>testdata\<close>, less the members that are null.
\<close>

definition golden_account :: json where
  "golden_account = JObj [(''data'', JObj [(''account'', JObj
     [(''id'', JStr ''ac111111-1111-1111-1111-111111111111''), (''name'', JStr ''Checking''), (''type'', JStr ''checking''),
      (''on_budget'', JBool True), (''closed'', JBool False), (''note'', JStr ''primary''),
      (''balance'', JNum ''123930''), (''cleared_balance'', JNum ''100000''), (''uncleared_balance'', JNum ''23930''),
      (''transfer_payee_id'', JStr ''pa111111-1111-1111-1111-111111111111''),
      (''direct_import_linked'', JBool True), (''direct_import_in_error'', JBool False),
      (''last_reconciled_at'', JStr ''2026-06-30T10:00:00.000Z''), (''deleted'', JBool False),
      (''balance_formatted'', JStr ''$123.93''), (''balance_currency'', JNum ''123.93''),
      (''cleared_balance_formatted'', JStr ''$123.93''), (''cleared_balance_currency'', JNum ''123.93''),
      (''uncleared_balance_formatted'', JStr ''$23.93''), (''uncleared_balance_currency'', JNum ''23.93'')])])]"

definition session_text :: "json \<Rightarrow> string" where
  "session_text v = (case v of JObj [(_, JObj [_, (_, JStr i), (_, JStr n)])] \<Rightarrow> i @ '' '' @ n | _ \<Rightarrow> [])"

definition session_value :: "string \<Rightarrow> json option" where
  "session_value t =
     (if t = ''accounts/get.json'' then Some golden_account
      else if t \<noteq> [] \<and> last t = CHR 0x0A
      then Some (error_envelope (takeWhile (\<lambda>c. c \<noteq> CHR '' '') t) (butlast (drop 1 (dropWhile (\<lambda>c. c \<noteq> CHR '' '') t))))
      else None)"

definition session_refused :: gerr where
  "session_refused = ENet ''connection refused'' False None"

definition session_env :: "Server env" where
  "session_env =
     \<lparr>env_wait = None, env_token = (\<lambda>_ w. (Inr ''t'', w)), env_new_request = (\<lambda>_ _. None),
      env_do = (\<lambda>_ _ w. (Inl session_refused, w)),
      env_ctx_err = (\<lambda>_. None), env_timer = (\<lambda>_ w. (False, w)), env_uint64 = (\<lambda>w. (0, w)),
      env_ParseTime = (\<lambda>_. None), env_now = (\<lambda>_. 0), env_json_text = session_text, env_json_value = session_value,
      env_rfc3339 = (\<lambda>_. Some 0), env_float64 = (\<lambda>_. True)\<rparr>"

definition session_client :: "Server Client" where
  "session_client = New (\<lambda>_. None) example_url (fake_do session_value session_text Inr [] session_refused) ''t'' []"

definition session_fake :: Server where
  "session_fake = NewServer ''https://api.ynab.com/v1'' None"

lemma session_client_parts:
  "cl_configErr session_client = None" "cl_httpClient session_client = fake_do session_value session_text Inr [] session_refused"
  "core_of session_client =
    \<lparr>c_BaseURL = defaultBaseURL, c_UserAgent = ''pkg.venceslau.dev/ynab/'' @ Version, c_Timeout = defaultTimeout,
     c_Retry = \<lparr>rc_MaxAttempts = 3, rc_MinBackoff = rp_MinBackoff defaultRetry, rc_MaxBackoff = rp_MaxBackoff defaultRetry,
       rc_RetryWrites = False, rc_Disabled = False\<rparr>, c_MaxResponseBytes = 0\<rparr>"
  by (simp_all add: session_client_def New_def newClient_def core_of_def example_url_def Let_def defaultRetry_def)

lemma session_quiet: "quiet (wire_env session_env session_client)"
  by (simp add: quiet_def wire_env_def session_env_def session_client_def New_def newClient_def example_url_def
      staticToken_def Let_def)

lemma session_answer:
  "table_answer session_value Inr (asked ''https://api.ynab.com/v1''
      \<lparr>c_BaseURL = defaultBaseURL, c_UserAgent = ''pkg.venceslau.dev/ynab/'' @ Version, c_Timeout = defaultTimeout,
       c_Retry = \<lparr>rc_MaxAttempts = 3, rc_MinBackoff = rp_MinBackoff defaultRetry, rc_MaxBackoff = rp_MaxBackoff defaultRetry,
         rc_RetryWrites = False, rc_Disabled = False\<rparr>, c_MaxResponseBytes = 0\<rparr>
      ''GET'' (Plan_path ''p'' [''accounts'', ''a'']) [] None) = (\<lparr>an_status = 200, an_body = ''accounts/get.json''\<rparr>, [])"
  by code_simp

lemma session_decodes:
  "case decodeData None (only ''account'' (decode_record zero_Account (Account_fields session_env))) (Some golden_account) of
     Inr (Some acc) \<Rightarrow> ab_Name acc = ''Checking'' \<and> ab_Balance acc = 123930 \<and> ab_Note acc = Some ''primary''
   | _ \<Rightarrow> False"
  by code_simp

section \<open>Properties\<close>

text \<open>
  C39: what \<open>FailWith\<close> promises a test. A call on a client pointed at an idle fake, made after one
  injection, leaves the fake idle again. If the policy repeats the injected status for the method
  and has an attempt left, the pipeline eats it: the caller gets what it would have got without, one
  request later. Otherwise it gets an API error with exactly the injected status, id and name, after
  one request. Without an injection a 2xx fixture is decoded.
\<close>

theorem injection_reaches_caller:
  assumes "quiet (wire_env env c)"
    and "cl_httpClient c = fake_do (env_json_value env) (env_json_text env) readFile hdr refused"
    and "header_Get hdr ''Retry-After'' = []"
    and "cl_configErr c = None" and "\<not> empty_segment path" and "marshalBody env load = Inr pl"
    and "sv_open s" and "FailWith 0 [] [] s = s"
    and "table_answer (env_json_value env) readFile (asked (sv_URL s) (core_of c) verb path query pl) = (a, [])"
    and "length (an_body a) \<le> 134217728"
    and "400 \<le> status" and "status \<le> 999"
    and "length (an_body (injected (env_json_text env) status i name)) \<le> 134217728"
    and "map_option plain (env_json_value env (an_body (injected (env_json_text env) status i name))) = Some (error_envelope i name)"
  shows "\<exists>failed calm.
    client_do env c zero dec verb path query load \<lparr>st_world = FailWith status i name s, st_trace = []\<rparr> =
      (if eats (c_Retry (core_of c)) verb status then fst calm else Inl (EApi (injected_error status i name)), failed) \<and>
    client_do env c zero dec verb path query load \<lparr>st_world = s, st_trace = []\<rparr> = calm \<and>
    st_world failed = s \<and> st_world (snd calm) = s \<and> sends (st_trace (snd calm)) = 1 \<and>
    sends (st_trace failed) = (if eats (c_Retry (core_of c)) verb status then 2 else 1) \<and>
    (an_status a < 300 \<longrightarrow> fst calm = (case decodeData zero dec (env_json_value env (an_body a)) of
       Inl e \<Rightarrow> Inl (EWrap (op_text verb path @ ''decode response: '') e) | Inr v \<Rightarrow> Inr v))"
proof -
  let ?e = "wire_env env c" and ?c = "core_of c" and ?b = "injected (env_json_text env) status i name"
  note l = core_limit [of c]
  have fit: "int (length (an_body a)) \<le> sint (read_limit ?c)" "int (length (an_body ?b)) \<le> sint (read_limit ?c)"
    and lim: "sint (read_limit ?c) < 9223372036854775807" using assms(10,13) l by simp_all
  have d: "env_do ?e = fake_do (env_json_value env) (env_json_text env) readFile hdr refused" using assms(2) by simp
  have m: "marshalBody ?e load = Inr pl" using assms(6) by simp
  obtain n where n: "attempts_of (c_Retry ?c) = Suc n"
    using not0_implies_Suc [of "attempts_of (c_Retry ?c)"] by (fastforce simp: attempts_of_def)
  obtain st1 where x1: "execute ?e ?c verb path query pl \<lparr>st_world = s, st_trace = []\<rparr> = (Inr (heard hdr a), st1)"
    "st_world st1 = s" "sends (st_trace st1) = 1"
    using loop_idle [OF assms(1) d lim assms(3,7,8) _ assms(9) fit(1), of "\<lparr>st_world = s, st_trace = []\<rparr>" n 0]
    by (auto simp: execute_def n)
  obtain st2 where x2: "execute ?e ?c verb path query pl \<lparr>st_world = FailWith status i name s, st_trace = []\<rparr> =
      (Inr (heard hdr (if eats (c_Retry ?c) verb status then a else ?b)), st2)" "st_world st2 = s"
    "sends (st_trace st2) = (if eats (c_Retry ?c) verb status then 2 else 1)"
    using execute_injected [OF assms(1) d lim assms(3,7,8,9) fit(1) assms(11,12) fit(2), of "[]"]
    by (auto simp: numeral_2_eq_2)
  note done1 = Do_executed [OF m x1(1), of zero dec, unfolded x1(2)]
  note done2 = Do_executed [OF m x2(1), of zero dec, unfolded x2(2)]
  have call: "client_do env c zero dec verb path query load st = Do ?e ?c zero dec verb path query load st" for st
    using assms(4,5) by (simp add: client_do_def)
  have err: "decode_error ?e s (heard hdr ?b) = EApi (injected_error status i name)"
    by (rule decode_injected [OF assms(3)]) (simp add: assms(14))
  have sb: "r_status (heard hdr ?b) = status" by (simp add: heard_def injected_def)
  have sa: "200 \<le> r_status (heard hdr a)" "r_status (heard hdr a) = an_status a" "r_body (heard hdr a) = an_body a"
    using table_answer_status [OF assms(9)] by (auto simp: heard_def)
  show ?thesis
  proof (intro exI [of _ st2] exI [of _ "client_do env c zero dec verb path query load \<lparr>st_world = s, st_trace = []\<rparr>"] conjI)
    show "client_do env c zero dec verb path query load \<lparr>st_world = FailWith status i name s, st_trace = []\<rparr> =
        (if eats (c_Retry ?c) verb status then fst (client_do env c zero dec verb path query load \<lparr>st_world = s, st_trace = []\<rparr>)
         else Inl (EApi (injected_error status i name)), st2)"
      using assms(11) sb err unfolding call done1 done2 by (cases "eats (c_Retry ?c) verb status") auto
  qed (use sa x1(2,3) x2(2,3) in \<open>auto simp: call done1\<close>)
qed

theorem injection_reaches_caller_witness:
  "\<exists>lost kept acc.
    Accounts_Get session_env (Client_Plan session_client ''p'') ''a''
        \<lparr>st_world = FailWith 404 ''404.2'' ''resource_not_found'' session_fake, st_trace = []\<rparr> =
      (Inl (EApi (injected_error 404 ''404.2'' ''resource_not_found'')), lost) \<and>
    Accounts_Get session_env (Client_Plan session_client ''p'') ''a''
        \<lparr>st_world = FailWith 503 ''503'' ''service_unavailable'' session_fake, st_trace = []\<rparr> = (Inr (Some acc), kept) \<and>
    ab_Name acc = ''Checking'' \<and> ab_Balance acc = 123930 \<and>
    sends (st_trace lost) = 1 \<and> sends (st_trace kept) = 2 \<and> st_world lost = session_fake \<and> st_world kept = session_fake"
proof -
  let ?dec = "only ''account'' (decode_record zero_Account (Account_fields session_env))"
  let ?path = "Plan_path ''p'' [''accounts'', ''a'']" and ?a = "\<lparr>an_status = 200, an_body = ''accounts/get.json''\<rparr>"
  have get: "Accounts_Get session_env (Client_Plan session_client ''p'') ''a'' =
      client_do session_env session_client None ?dec ''GET'' ?path [] None"
    by (simp add: Accounts_Get_def Client_Plan_def fun_eq_iff)
  have env: "env_json_value session_env = session_value" "env_json_text session_env = session_text"
    by (simp_all add: session_env_def)
  have path: "\<not> empty_segment ?path" by code_simp
  have http: "cl_httpClient session_client =
      fake_do (env_json_value session_env) (env_json_text session_env) Inr [] session_refused"
    by (simp add: session_client_parts env)
  have idle: "sv_open session_fake" "FailWith 0 [] [] session_fake = session_fake"
    by (simp_all add: session_fake_def NewServer_def FailWith_def)
  have a: "table_answer (env_json_value session_env) Inr
      (asked (sv_URL session_fake) (core_of session_client) ''GET'' ?path [] None) = (?a, [])"
    using session_answer by (simp add: env session_fake_def NewServer_def session_client_parts)
  have v: "length (an_body (injected session_text 404 ''404.2'' ''resource_not_found'')) \<le> 134217728"
    "map_option plain (session_value (an_body (injected session_text 404 ''404.2'' ''resource_not_found''))) = Some (error_envelope ''404.2'' ''resource_not_found'')"
    "length (an_body (injected session_text 503 ''503'' ''service_unavailable'')) \<le> 134217728"
    "map_option plain (session_value (an_body (injected session_text 503 ''503'' ''service_unavailable''))) = Some (error_envelope ''503'' ''service_unavailable'')"
    by code_simp+
  have eats: "\<not> eats (c_Retry (core_of session_client)) ''GET'' 404" "eats (c_Retry (core_of session_client)) ''GET'' 503"
    by (simp_all add: session_client_parts eats_def attempts_of_def retryVerb_def)
  have hdr: "header_Get [] ''Retry-After'' = []" by (simp add: header_Get_def)
  have none: "marshalBody session_env None = Inr None" by (simp add: marshalBody_def)
  note call = injection_reaches_caller [where zero = None and dec = ?dec and load = None,
      OF session_quiet http hdr session_client_parts(1) path none idle a, folded get]
  obtain acc where acc: "decodeData None ?dec (Some golden_account) = Inr (Some acc)"
    "ab_Name acc = ''Checking''" "ab_Balance acc = 123930"
    using session_decodes by (auto split: sum.splits option.splits)
  have body: "env_json_value session_env (an_body ?a) = Some golden_account" by (simp add: env session_value_def)
  from call [where status = 404 and i = "''404.2''" and name = "''resource_not_found''"] v eats(1) obtain lost where
    "Accounts_Get session_env (Client_Plan session_client ''p'') ''a''
        \<lparr>st_world = FailWith 404 ''404.2'' ''resource_not_found'' session_fake, st_trace = []\<rparr> =
      (Inl (EApi (injected_error 404 ''404.2'' ''resource_not_found'')), lost)"
    "sends (st_trace lost) = 1" "st_world lost = session_fake"
    by (auto simp: env)
  moreover from call [where status = 503 and i = "''503''" and name = "''service_unavailable''"] v eats(2) acc(1) obtain kept where
    "Accounts_Get session_env (Client_Plan session_client ''p'') ''a''
        \<lparr>st_world = FailWith 503 ''503'' ''service_unavailable'' session_fake, st_trace = []\<rparr> = (Inr (Some acc), kept)"
    "sends (st_trace kept) = 2" "st_world kept = session_fake"
    using body by (auto simp: env)
  ultimately show ?thesis using acc(2,3) by blast
qed

end
