(* ===== verification/Contract_Gates.thy ===== *)
theory Contract_Gates
  imports Contract_Table Json
begin

text \<open>
  The comparisons of \<open>internal/contract\<close>: the table against the scanned spec (\<open>diff.go\<close>), the doc
  lines against the table (\<open>doclines.go\<close>), the registered read and write cases against it
  (\<open>reads.go\<close>, \<open>writes.go\<close>) and two JSON documents (\<open>jsondiff.go\<close>). A discrepancy is a value of
  \<open>problem\<close> instead of its text. A Go map that is iterated is an association list, its order
  arbitrary.
\<close>

section \<open>Problems and maps\<close>

datatype problem =
    TableDuplicate string | SpecDuplicate string
  | PhantomOperation string | Unimplemented string
  | VerbDiffers string string string | PathDiffers string string string
  | BodyContradicts string bool bool
  | IllegalParam string string | MissingParam string string
  | UnknownDocLine string "string list" | DocLineElsewhere string string "string list"
  | NoTableRow string | NoDocLine string | MethodWithoutDocLine string string
  | NoReadCase string | NoWriteCase string
  | WrongBodyCases nat | BodyCaseOnBodiless string | NoBodyCase string

text \<open>\<open>for _, x := range xs { m[key(x)] = x }\<close>\<close>

definition index_by :: "('a \<Rightarrow> string) \<Rightarrow> 'a list \<Rightarrow> (string \<rightharpoonup> 'a)" where
  "index_by key xs = foldl (\<lambda>m x. m(key x \<mapsto> x)) Map.empty xs"

lemma index_by_snoc: "index_by key (xs @ [x]) = (index_by key xs)(key x \<mapsto> x)"
  by (simp add: index_by_def)

lemma index_by_None: "index_by key xs k = None \<longleftrightarrow> k \<notin> key ` set xs"
  by (induction xs rule: rev_induct) (auto simp: index_by_snoc, simp add: index_by_def)

lemma index_by_Some: "index_by key xs k = Some x \<Longrightarrow> x \<in> set xs \<and> key x = k"
  by (induction xs rule: rev_induct) (auto simp: index_by_snoc split: if_splits, simp_all add: index_by_def)

lemma index_by_distinct:
  assumes "distinct (map key xs)"
  shows "index_by key xs k = Some x \<longleftrightarrow> x \<in> set xs \<and> key x = k"
proof
  assume h: "x \<in> set xs \<and> key x = k"
  then obtain y where y: "index_by key xs k = Some y" using index_by_None [of key xs k] by fastforce
  from index_by_Some [OF y] h assms have "y = x" by (auto simp: distinct_map inj_on_def)
  with y show "index_by key xs k = Some x" by simp
qed (rule index_by_Some)

text \<open>The elements whose key was seen before.\<close>

fun duplicates :: "('a \<Rightarrow> string) \<Rightarrow> string list \<Rightarrow> 'a list \<Rightarrow> string list" where
  "duplicates key seen [] = []"
| "duplicates key seen (x # xs) =
     (if List.member seen (key x) then [key x] else []) @ duplicates key (key x # seen) xs"

lemma duplicates_Nil: "duplicates key seen xs = [] \<longleftrightarrow> distinct (map key xs) \<and> set (map key xs) \<inter> set seen = {}"
  by (induction xs arbitrary: seen) auto

section \<open>Table and spec\<close>

record SpecOp =
  so_ID :: string
  so_Method :: string
  so_Path :: string
  so_QueryParams :: "string list"
  so_HasBody :: bool

definition diffParams :: "string \<Rightarrow> string list \<Rightarrow> string list \<Rightarrow> problem list" where
  "diffParams opID table spec =
     map (IllegalParam opID) (filter (\<lambda>p. \<not> List.member spec p) table)
     @ map (MissingParam opID) (filter (\<lambda>p. \<not> List.member table p) spec)"

definition diff_row :: "(string \<rightharpoonup> SpecOp) \<Rightarrow> Operation \<Rightarrow> problem list" where
  "diff_row byIDSpec row = (case byIDSpec (op_ID row) of
     None \<Rightarrow> [PhantomOperation (op_ID row)]
   | Some s \<Rightarrow>
       (if op_Method row \<noteq> so_Method s then [VerbDiffers (op_ID row) (op_Method row) (so_Method s)] else [])
       @ (if op_Path row \<noteq> so_Path s then [PathDiffers (op_ID row) (op_Path row) (so_Path s)] else [])
       @ (if op_Method row \<noteq> ''GET'' \<and> so_HasBody s = isBodiless (op_ID row)
          then [BodyContradicts (op_ID row) (so_HasBody s) (isBodiless (op_ID row))] else [])
       @ diffParams (op_ID row) (op_QueryParams row) (so_QueryParams s))"

definition DiffSpec :: "Operation list \<Rightarrow> SpecOp list \<Rightarrow> problem list" where
  "DiffSpec table ops =
     map TableDuplicate (duplicates op_ID [] table)
     @ map SpecDuplicate (duplicates so_ID [] ops)
     @ concat (map (diff_row (index_by so_ID ops)) table)
     @ map (\<lambda>s. Unimplemented (so_ID s))
         (filter (\<lambda>s. index_by op_ID table (so_ID s) = None) ops)"

text \<open>What it is to agree, row by row.\<close>

definition row_agrees :: "Operation \<Rightarrow> SpecOp \<Rightarrow> bool" where
  "row_agrees row s \<longleftrightarrow> op_ID row = so_ID s \<and> op_Method row = so_Method s \<and> op_Path row = so_Path s \<and>
     set (op_QueryParams row) = set (so_QueryParams s) \<and>
     (op_Method row = ''GET'' \<or> so_HasBody s = (\<not> isBodiless (op_ID row)))"

lemma diffParams_Nil: "diffParams i table spec = [] \<longleftrightarrow> set table = set spec"
  by (auto simp: diffParams_def filter_empty_conv)

lemma diff_row_Nil:
  "diff_row (index_by so_ID ops) row = [] \<longleftrightarrow>
     (\<exists>s. index_by so_ID ops (op_ID row) = Some s \<and> row_agrees row s)"
proof (cases "index_by so_ID ops (op_ID row)")
  case (Some s)
  then have "so_ID s = op_ID row" using index_by_Some by metis
  with Some show ?thesis by (auto simp: diff_row_def diffParams_Nil row_agrees_def)
qed (simp add: diff_row_def)

section \<open>Doc lines\<close>

definition doc_line_problems :: "(string \<rightharpoonup> Operation) \<Rightarrow> string \<times> string list \<Rightarrow> problem list" where
  "doc_line_problems byID entry = (case entry of (i, methods) \<Rightarrow>
     (case byID i of
        None \<Rightarrow> [UnknownDocLine i methods]
      | Some row \<Rightarrow> map (\<lambda>m. DocLineElsewhere i m (op_GoMethods row))
          (filter (\<lambda>m. \<not> List.member (op_GoMethods row) m) methods)))"

definition found_methods :: "(string \<times> string list) list \<Rightarrow> string \<Rightarrow> string list" where
  "found_methods found i = (case map_of found i of None \<Rightarrow> [] | Some ms \<Rightarrow> ms)"

definition registered_problems :: "(string \<rightharpoonup> Operation) \<Rightarrow> (string \<times> string list) list \<Rightarrow> string \<Rightarrow> problem list" where
  "registered_problems byID found i = (case byID i of
     None \<Rightarrow> [NoTableRow i]
   | Some row \<Rightarrow>
       if found_methods found i = [] then [NoDocLine i]
       else map (MethodWithoutDocLine i) (filter (\<lambda>m. \<not> List.member (found_methods found i) m) (op_GoMethods row)))"

definition ValidateDocLines :: "Operation list \<Rightarrow> string list \<Rightarrow> (string \<times> string list) list \<Rightarrow> problem list" where
  "ValidateDocLines table ids found =
     concat (map (doc_line_problems (index_by op_ID table)) found)
     @ concat (map (registered_problems (index_by op_ID table) found) ids)"

section \<open>Registered cases\<close>

record ReadCaseInfo =
  rd_OpID :: string

definition DiffReadCoverage :: "Operation list \<Rightarrow> string list \<Rightarrow> ReadCaseInfo list \<Rightarrow> problem list" where
  "DiffReadCoverage table ids cases = concat (map (\<lambda>i.
     (case index_by op_ID table i of
        None \<Rightarrow> []
      | Some row \<Rightarrow> if op_Method row \<noteq> ''GET'' then []
          else if count_list (map rd_OpID cases) i = 0 then [NoReadCase i] else [])) ids)"

record WriteCaseInfo =
  wc_OpID :: string
  wc_HasBody :: bool

definition total_cases :: "WriteCaseInfo list \<Rightarrow> string \<Rightarrow> nat" where
  "total_cases cases i = count_list (map wc_OpID cases) i"

definition body_cases :: "WriteCaseInfo list \<Rightarrow> string \<Rightarrow> nat" where
  "body_cases cases i = count_list (map wc_OpID (filter wc_HasBody cases)) i"

definition write_problems :: "(string \<rightharpoonup> Operation) \<Rightarrow> WriteCaseInfo list \<Rightarrow> string \<Rightarrow> problem list" where
  "write_problems byID cases i = (case byID i of
     None \<Rightarrow> []
   | Some row \<Rightarrow>
       if op_Method row = ''GET'' then []
       else if total_cases cases i = 0 then [NoWriteCase i]
       else if i = ''createTransaction''
       then (if body_cases cases i \<noteq> 2 then [WrongBodyCases (body_cases cases i)] else [])
       else if isBodiless i then (if body_cases cases i \<noteq> 0 then [BodyCaseOnBodiless i] else [])
       else if body_cases cases i = 0 then [NoBodyCase i] else [])"

definition DiffWriteCoverage :: "Operation list \<Rightarrow> string list \<Rightarrow> WriteCaseInfo list \<Rightarrow> problem list" where
  "DiffWriteCoverage table ids cases = concat (map (write_problems (index_by op_ID table) cases) ids)"

section \<open>JSON documents\<close>

text \<open>
  What \<open>Decode\<close> with \<open>UseNumber\<close> makes of a value: a number is its literal, an object a map, of a
  repeated key the last value. \<open>canon\<close> is that map as the list of its members in key order, so two
  decoded values are deeply equal when their canonical forms are equal.
\<close>

fun canon :: "json \<Rightarrow> json" where
  "canon (JArr vs) = JArr (map canon vs)"
| "canon (JObj ms) = JObj (sort_key fst (AList.clearjunk (rev (map (map_prod id canon) ms))))"
| "canon (JEsc s) = JStr s"
| "canon v = v"

text \<open>The key paths of a decoded value, sorted at every level.\<close>

fun keyPaths :: "json \<Rightarrow> string \<Rightarrow> string list"
  and memberPaths :: "(string \<times> json) list \<Rightarrow> string \<Rightarrow> string list"
  and elementPaths :: "nat \<Rightarrow> json list \<Rightarrow> string \<Rightarrow> string list"
where
  "keyPaths (JObj ms) prefix = sort (memberPaths ms prefix)"
| "keyPaths (JArr vs) prefix = sort (elementPaths 0 vs prefix)"
| "keyPaths JNull prefix = []"
| "keyPaths (JBool b) prefix = []"
| "keyPaths (JNum n) prefix = []"
| "keyPaths (JStr t) prefix = []"
| "keyPaths (JEsc t) prefix = []"
| "memberPaths [] prefix = []"
| "memberPaths ((k, child) # ms) prefix =
     (prefix @ ''.'' @ k) # keyPaths child (prefix @ ''.'' @ k) @ memberPaths ms prefix"
| "elementPaths i [] prefix = []"
| "elementPaths i (child # vs) prefix =
     keyPaths child (prefix @ ''['' @ dec_nat i @ '']'') @ elementPaths (Suc i) vs prefix"

datatype json_problem =
    ExpectedInvalid | EmittedInvalid | MissingKey string | UnexpectedKey string | ValuesDiffer

definition DiffJSON :: "json option \<Rightarrow> json option \<Rightarrow> json_problem list" where
  "DiffJSON expected actual = (case expected of
     None \<Rightarrow> [ExpectedInvalid]
   | Some e \<Rightarrow> (case actual of
       None \<Rightarrow> [EmittedInvalid]
     | Some a \<Rightarrow>
         let expv = canon e; actv = canon a;
             expKeys = keyPaths expv ''$''; actKeys = keyPaths actv ''$'';
             problems = map MissingKey (filter (\<lambda>k. \<not> List.member actKeys k) expKeys)
               @ map UnexpectedKey (filter (\<lambda>k. \<not> List.member expKeys k) actKeys)
         in if problems = [] \<and> expv \<noteq> actv then [ValuesDiffer] else problems))"

text \<open>The comparison is silent exactly on documents that decode to the same value.\<close>

lemma DiffJSON_exact:
  "DiffJSON expected actual = [] \<longleftrightarrow> (\<exists>e a. expected = Some e \<and> actual = Some a \<and> canon e = canon a)"
  by (cases expected; cases actual) (auto simp: DiffJSON_def Let_def filter_empty_conv)

lemma DiffReadCoverage_Nil:
  "DiffReadCoverage table ids cases = [] \<longleftrightarrow>
     list_all (\<lambda>i. \<forall>row. index_by op_ID table i = Some row \<longrightarrow> op_Method row = ''GET'' \<longrightarrow> i \<in> rd_OpID ` set cases) ids"
  by (auto simp: DiffReadCoverage_def list_all_iff count_list_0_iff split: option.split)

text \<open>The doc lines of the table's own rows.\<close>

lemma row_at: "row \<in> set Table \<Longrightarrow> index_by op_ID Table (op_ID row) = Some row"
  using index_by_distinct [OF IDs_distinct] by blast

lemma row_unique:
  assumes "row \<in> set Table" and "row' \<in> set Table" and "op_ID row = op_ID row'"
  shows "row = row'"
proof -
  have "Some row = index_by op_ID Table (op_ID row)" by (rule row_at [OF assms(1), symmetric])
  also have "\<dots> = Some row'" unfolding assms(3) by (rule row_at [OF assms(2)])
  finally show ?thesis by (rule option.inject [THEN iffD1])
qed

lemma rows_have_methods: "row \<in> set Table \<Longrightarrow> op_GoMethods row \<noteq> []"
proof -
  have "list_all (\<lambda>r. op_GoMethods r \<noteq> []) Table" by code_simp
  then show "row \<in> set Table \<Longrightarrow> op_GoMethods row \<noteq> []" by (simp add: list_all_iff)
qed

lemma found_methods_entry:
  "distinct (map fst found) \<Longrightarrow> (i, ms) \<in> set found \<Longrightarrow> found_methods found i = ms"
  by (simp add: found_methods_def)

lemma found_methods_entry_ex:
  assumes "found_methods found i \<noteq> []"
  obtains ms where "(i, ms) \<in> set found" "found_methods found i = ms"
  using assms by (auto simp: found_methods_def dest: map_of_SomeD split: option.splits)

definition entry_fits :: "string \<times> string list \<Rightarrow> bool" where
  "entry_fits e \<longleftrightarrow> (\<exists>row\<in>set Table. op_ID row = fst e \<and> set (snd e) \<subseteq> set (op_GoMethods row))"

lemma doc_line_problems_Nil: "doc_line_problems (index_by op_ID Table) e = [] \<longleftrightarrow> entry_fits e"
proof (cases "index_by op_ID Table (fst e)")
  case None
  then have "fst e \<notin> op_ID ` set Table" by (simp add: index_by_None)
  with None show ?thesis by (cases e) (auto simp: doc_line_problems_def entry_fits_def)
next
  case (Some row)
  then have "row \<in> set Table" "op_ID row = fst e" using index_by_Some by metis+
  then have "entry_fits e \<longleftrightarrow> set (snd e) \<subseteq> set (op_GoMethods row)"
    using row_unique unfolding entry_fits_def by metis
  with Some show ?thesis by (cases e) (auto simp: doc_line_problems_def filter_empty_conv)
qed

definition row_covered :: "(string \<times> string list) list \<Rightarrow> Operation \<Rightarrow> bool" where
  "row_covered found row \<longleftrightarrow> found_methods found (op_ID row) \<noteq> [] \<and>
     set (op_GoMethods row) \<subseteq> set (found_methods found (op_ID row))"

lemma registered_problems_Nil:
  "row \<in> set Table \<Longrightarrow> registered_problems (index_by op_ID Table) found (op_ID row) = [] \<longleftrightarrow> row_covered found row"
  using row_at by (auto simp: registered_problems_def row_covered_def filter_empty_conv)

lemma ValidateDocLines_Nil:
  "ValidateDocLines Table TableIDs found = [] \<longleftrightarrow> list_all entry_fits found \<and> list_all (row_covered found) Table"
  by (auto simp: ValidateDocLines_def TableIDs_def list_all_iff doc_line_problems_Nil registered_problems_Nil)

section \<open>Properties\<close>

text \<open>
  C36: the spec gate is exact. It is silent precisely when neither side repeats an operation id, the
  two have the same ids, and every row agrees with the spec's operation: same method, same path,
  the same set of query parameters, and a body exactly when the operation is not bodiless.
\<close>

theorem DiffSpec_exact:
  "DiffSpec table ops = [] \<longleftrightarrow>
     distinct (map op_ID table) \<and> distinct (map so_ID ops) \<and>
     set (map op_ID table) = set (map so_ID ops) \<and>
     list_all (\<lambda>row. list_ex (row_agrees row) ops) table"
proof -
  have i: "filter (\<lambda>s. index_by op_ID table (so_ID s) = None) ops = [] \<longleftrightarrow> set (map so_ID ops) \<subseteq> set (map op_ID table)"
    by (auto simp: filter_empty_conv index_by_None)
  have rows: "(\<exists>s. index_by so_ID ops (op_ID row) = Some s \<and> row_agrees row s) \<longleftrightarrow> list_ex (row_agrees row) ops"
    if "distinct (map so_ID ops)" for row
    using index_by_distinct [OF that, of "op_ID row"] by (auto simp: list_ex_iff row_agrees_def)
  have sub: "set (map op_ID table) \<subseteq> set (map so_ID ops)" if "list_all (\<lambda>row. list_ex (row_agrees row) ops) table"
    using that by (fastforce simp: list_all_iff list_ex_iff row_agrees_def)
  show ?thesis
  proof (cases "distinct (map so_ID ops)")
    case True
    have "concat (map (diff_row (index_by so_ID ops)) table) = [] \<longleftrightarrow> list_all (\<lambda>row. list_ex (row_agrees row) ops) table"
      by (simp add: diff_row_Nil rows [OF True] list_all_iff)
    with sub i True show ?thesis unfolding DiffSpec_def by (auto simp: duplicates_Nil)
  next
    case False
    then show ?thesis by (simp add: DiffSpec_def duplicates_Nil)
  qed
qed

text \<open>
  C37: the doc-line gate is exact. With every id of the table registered, it is silent precisely when
  the doc lines found in the package are the table's relation: the operation ids that have methods
  are those of the table, and under each id stand the methods of its row, all of them and no other.
\<close>

theorem ValidateDocLines_exact:
  assumes "distinct (map fst found)"
  shows "ValidateDocLines Table TableIDs found = [] \<longleftrightarrow>
    set (map fst found) = set (map op_ID Table) \<and>
    list_all (\<lambda>row. set (found_methods found (op_ID row)) = set (op_GoMethods row)) Table"
proof
  assume "ValidateDocLines Table TableIDs found = []"
  then have "list_all entry_fits found" "list_all (row_covered found) Table" by (simp_all add: ValidateDocLines_Nil)
  then have fits: "\<And>e. e \<in> set found \<Longrightarrow> entry_fits e"
    and cov: "\<And>row. row \<in> set Table \<Longrightarrow> row_covered found row" by (simp_all add: list_all_iff)
  have "op_ID row \<in> set (map fst found) \<and> set (found_methods found (op_ID row)) = set (op_GoMethods row)"
    if r: "row \<in> set Table" for row
  proof -
    obtain ms where m: "(op_ID row, ms) \<in> set found" "found_methods found (op_ID row) = ms"
      using cov [OF r] by (auto simp: row_covered_def elim: found_methods_entry_ex)
    obtain row' where r': "row' \<in> set Table" "op_ID row' = op_ID row" "set ms \<subseteq> set (op_GoMethods row')"
      using fits [OF m(1)] by (auto simp: entry_fits_def)
    then have "set ms \<subseteq> set (op_GoMethods row)" using row_unique [OF r'(1) r] by blast
    moreover have "op_ID row \<in> fst ` set found" using m(1) by (rule image_eqI [rotated]) simp
    ultimately show ?thesis using cov [OF r] m(2) by (auto simp: row_covered_def)
  qed
  moreover have "fst e \<in> set (map op_ID Table)" if "e \<in> set found" for e
    using fits [OF that] by (auto simp: entry_fits_def intro: rev_image_eqI)
  ultimately show "set (map fst found) = set (map op_ID Table) \<and>
      list_all (\<lambda>row. set (found_methods found (op_ID row)) = set (op_GoMethods row)) Table"
    by (auto simp: list_all_iff)
next
  assume h: "set (map fst found) = set (map op_ID Table) \<and>
      list_all (\<lambda>row. set (found_methods found (op_ID row)) = set (op_GoMethods row)) Table"
  have agree: "set (found_methods found (op_ID row)) = set (op_GoMethods row)" if "row \<in> set Table" for row
    using h [THEN conjunct2] that unfolding list_all_iff by (rule bspec)
  have "entry_fits e" if e: "e \<in> set found" for e
  proof -
    have "fst e \<in> set (map fst found)" using e by simp
    then have "fst e \<in> set (map op_ID Table)" unfolding h [THEN conjunct1] .
    then obtain row where r: "row \<in> set Table" "fst e = op_ID row" by auto
    have "found_methods found (fst e) = snd e" using found_methods_entry [OF assms, of "fst e" "snd e"] e by simp
    with agree [OF r(1)] r have "set (snd e) \<subseteq> set (op_GoMethods row)" by simp
    with r show ?thesis unfolding entry_fits_def by (intro bexI [of _ row]) simp_all
  qed
  moreover have "row_covered found row" if r: "row \<in> set Table" for row
    using agree [OF r] rows_have_methods [OF r] by (simp add: row_covered_def) (metis set_empty)
  ultimately show "ValidateDocLines Table TableIDs found = []" by (simp add: ValidateDocLines_Nil list_all_iff)
qed

theorem ValidateDocLines_exact_witness:
  "distinct (map fst (map (\<lambda>r. (op_ID r, op_GoMethods r)) Table)) \<and>
   ValidateDocLines Table TableIDs (map (\<lambda>r. (op_ID r, op_GoMethods r)) Table) = []"
proof -
  let ?found = "map (\<lambda>r. (op_ID r, op_GoMethods r)) Table"
  have d: "distinct (map fst ?found)" using IDs_distinct by (simp add: comp_def)
  have "list_all (\<lambda>row. set (found_methods ?found (op_ID row)) = set (op_GoMethods row)) Table"
    unfolding list_all_iff
  proof
    fix row assume "row \<in> set Table"
    then have "(op_ID row, op_GoMethods row) \<in> set ?found" by auto
    with d have "map_of ?found (op_ID row) = Some (op_GoMethods row)" by (rule map_of_is_SomeI)
    then show "set (found_methods ?found (op_ID row)) = set (op_GoMethods row)" by (simp add: found_methods_def)
  qed
  with ValidateDocLines_exact [OF d] d show ?thesis by (simp add: comp_def)
qed

end
