(* ===== verification/Spec_Scan.thy ===== *)
theory Spec_Scan
  imports Contract_Gates
begin

text \<open>
  \<open>internal/contract/specscan.go\<close>: the line scanner of the vendored API description. Each regular
  expression of the source is the function that returns its submatch; what the scanner makes of a
  description in the layout of the vendored file, whatever its texts hold, is proved at the end.
\<close>

section \<open>Line shapes\<close>

text \<open>The class \<open>\s\<close>: tab, newline, form feed, carriage return and space.\<close>

definition is_ws :: "char \<Rightarrow> bool" where
  "is_ws c = List.member [CHR 0x09, CHR 0x0A, CHR 0x0C, CHR 0x0D, CHR '' ''] c"

definition blank :: "string \<Rightarrow> bool" where
  "blank s = list_all is_ws s"

text \<open>\<open>\s*(\S+)\<close> at the start of a text.\<close>

definition first_word :: "string \<Rightarrow> string option" where
  "first_word s = (let w = takeWhile (\<lambda>c. \<not> is_ws c) (dropWhile is_ws s) in if w = [] then None else Some w)"

definition after_prefix :: "string \<Rightarrow> string \<Rightarrow> string option" where
  "after_prefix pre line = (if HasPrefix line pre then Some (drop (length pre) line) else None)"

text \<open>\<open>key:\s*$\<close>, and the text before the first colon when only white space follows that colon.\<close>

definition before_final_colon :: "string \<Rightarrow> string option" where
  "before_final_colon s = (case dropWhile (\<lambda>c. c \<noteq> CHR '':'') s of
     [] \<Rightarrow> None
   | _ # r \<Rightarrow> if blank r then Some (takeWhile (\<lambda>c. c \<noteq> CHR '':'') s) else None)"

definition rePathLine :: "string \<Rightarrow> string option" where
  "rePathLine line = (case after_prefix ''  '' line of
     None \<Rightarrow> None
   | Some r \<Rightarrow> if HasPrefix r ''/'' then before_final_colon r else None)"

definition reVerbLine :: "string \<Rightarrow> string option" where
  "reVerbLine line = (case after_prefix ''    '' line of
     None \<Rightarrow> None
   | Some r \<Rightarrow> (case before_final_colon r of
       None \<Rightarrow> None
     | Some v \<Rightarrow> if List.member [''get'', ''post'', ''put'', ''patch'', ''delete''] v then Some v else None))"

definition word_after :: "string \<Rightarrow> string \<Rightarrow> string option" where
  "word_after pre line = (case after_prefix pre line of None \<Rightarrow> None | Some r \<Rightarrow> first_word r)"

definition reOperationID :: "string \<Rightarrow> string option" where
  "reOperationID line = word_after ''      operationId:'' line"

definition reVersion :: "string \<Rightarrow> string option" where
  "reVersion line = word_after ''  version:'' line"

text \<open>\<open>^\s+\<close> in front of a keyword that does not start with white space.\<close>

definition indented_word_after :: "string \<Rightarrow> string \<Rightarrow> string option" where
  "indented_word_after pre line =
     (case line of [] \<Rightarrow> None | c # _ \<Rightarrow> if is_ws c then word_after pre (dropWhile is_ws line) else None)"

definition reParamName :: "string \<Rightarrow> string option" where
  "reParamName line = indented_word_after ''- name:'' line"

definition reParamIn :: "string \<Rightarrow> string option" where
  "reParamIn line = indented_word_after ''in:'' line"

definition key_line :: "string \<Rightarrow> string \<Rightarrow> bool" where
  "key_line pre line = (case after_prefix pre line of None \<Rightarrow> False | Some r \<Rightarrow> blank r)"

definition reRequestBody :: "string \<Rightarrow> bool" where
  "reRequestBody line = key_line ''      requestBody:'' line"

definition reResponses :: "string \<Rightarrow> bool" where
  "reResponses line = key_line ''      responses:'' line"

section \<open>The scanner\<close>

text \<open>\<open>curOp\<close> is nil or points to the last operation, so it is a flag.\<close>

record scan =
  sn_curPath :: string
  sn_curVerb :: string
  sn_open :: bool
  sn_Version :: string
  sn_Ops :: "SpecOp list"

definition on_last :: "('a \<Rightarrow> 'a) \<Rightarrow> 'a list \<Rightarrow> 'a list" where
  "on_last f xs = (if xs = [] then [] else butlast xs @ [f (last xs)])"

fun paramIsQuery :: "nat \<Rightarrow> string list \<Rightarrow> bool" where
  "paramIsQuery (Suc n) (line # rest) =
     (if reParamName line \<noteq> None then False
      else case reParamIn line of Some loc \<Rightarrow> loc = ''query'' | None \<Rightarrow> paramIsQuery n rest)"
| "paramIsQuery _ _ = False"

definition scanOpLine :: "scan \<Rightarrow> string \<Rightarrow> string list \<Rightarrow> scan" where
  "scanOpLine s line rest =
     (if reResponses line then s\<lparr>sn_open := False\<rparr>
      else if \<not> sn_open s then s
      else if reRequestBody line then s\<lparr>sn_Ops := on_last (\<lambda>p. p \<lparr>so_HasBody := True\<rparr>) (sn_Ops s)\<rparr>
      else case reParamName line of
        Some name \<Rightarrow>
          if paramIsQuery 5 rest
          then s\<lparr>sn_Ops := on_last (\<lambda>p. p \<lparr>so_QueryParams := so_QueryParams p @ [name]\<rparr>) (sn_Ops s)\<rparr>
          else s
      | None \<Rightarrow> s)"

text \<open>\<open>strings.ToUpper\<close> on the five verbs.\<close>

definition upper_verb :: "string \<Rightarrow> string" where
  "upper_verb v = map (\<lambda>c. if CHR ''a'' \<le> c \<and> c \<le> CHR ''z'' then char_of (of_char c - 32 :: nat) else c) v"

definition scan_line :: "scan \<Rightarrow> string \<Rightarrow> string list \<Rightarrow> scan" where
  "scan_line s line rest =
     (case rePathLine line of
        Some p \<Rightarrow> s\<lparr>sn_curPath := p, sn_open := False\<rparr>
      | None \<Rightarrow>
     (case reVerbLine line of
        Some v \<Rightarrow> s\<lparr>sn_curVerb := upper_verb v, sn_open := False\<rparr>
      | None \<Rightarrow>
     (case reOperationID line of
        Some i \<Rightarrow> s\<lparr>sn_open := True, sn_Ops := sn_Ops s @
          [\<lparr>so_ID = i, so_Method = sn_curVerb s, so_Path = sn_curPath s, so_QueryParams = [], so_HasBody = False\<rparr>]\<rparr>
      | None \<Rightarrow>
     (case (if sn_Version s = [] then reVersion line else None) of
        Some v \<Rightarrow> s\<lparr>sn_Version := v\<rparr>
      | None \<Rightarrow> scanOpLine s line rest))))"

fun scan_lines :: "scan \<Rightarrow> string list \<Rightarrow> scan" where
  "scan_lines s [] = s"
| "scan_lines s (line # rest) = scan_lines (scan_line s line rest) rest"

definition start_scan :: scan where
  "start_scan = \<lparr>sn_curPath = [], sn_curVerb = [], sn_open = False, sn_Version = [], sn_Ops = []\<rparr>"

text \<open>\<open>strings.Split(raw, "\n")\<close>\<close>

fun split_lines :: "string \<Rightarrow> string list" where
  "split_lines [] = [[]]"
| "split_lines (c # r) =
     (if c = CHR 0x0A then [] # split_lines r
      else (case split_lines r of x # xs \<Rightarrow> (c # x) # xs | [] \<Rightarrow> [[c]]))"

datatype scan_error = ReadFailed | NoOperations

definition ScanSpec :: "string option \<Rightarrow> scan_error + string \<times> SpecOp list" where
  "ScanSpec raw = (case raw of
     None \<Rightarrow> Inl ReadFailed
   | Some text \<Rightarrow>
       let s = scan_lines start_scan (split_lines text)
       in if sn_Ops s = [] then Inl NoOperations else Inr (sn_Version s, sn_Ops s))"

section \<open>The layout of a description\<close>

text \<open>
  A description as its authors write it: structure, and between it lines the scanner is to ignore. An
  operation has lines before its id (tags, summary, description), then parameters, a request body and
  other lines in any order, then its responses with whatever lines they hold; a path has lines of its
  own and operations; a document has lines before the version, lines up to the first path, and lines
  after the last (the components).
\<close>

datatype piece = Note string | Param string "string list" "string option" | BodyKey

record api_op =
  ao_verb :: string
  ao_head :: "string list"
  ao_id :: string
  ao_pieces :: "piece list"
  ao_responses :: "string list option"

record path_item =
  pi_path :: string
  pi_head :: "string list"
  pi_ops :: "api_op list"

record api_doc =
  ad_head :: "string list"
  ad_version :: string
  ad_lines :: "string list"
  ad_items :: "path_item list"
  ad_tail :: "string list"

definition path_text :: "string \<Rightarrow> string" where "path_text p = ''  '' @ p @ '':''"
definition verb_text :: "string \<Rightarrow> string" where "verb_text v = ''    '' @ v @ '':''"
definition id_text :: "string \<Rightarrow> string" where "id_text i = ''      operationId: '' @ i"
definition name_text :: "string \<Rightarrow> string" where "name_text n = ''        - name: '' @ n"
definition in_text :: "string \<Rightarrow> string" where "in_text l = ''          in: '' @ l"

text \<open>The lines of a description, its fringe.\<close>

fun piece_lines :: "piece \<Rightarrow> string list" where
  "piece_lines (Note l) = [l]"
| "piece_lines (Param n gap loc) = name_text n # gap @ (case loc of None \<Rightarrow> [] | Some l \<Rightarrow> [in_text l])"
| "piece_lines BodyKey = [''      requestBody:'']"

definition op_lines :: "api_op \<Rightarrow> string list" where
  "op_lines a = verb_text (ao_verb a) # ao_head a @ id_text (ao_id a) # concat (map piece_lines (ao_pieces a)) @
     (case ao_responses a of None \<Rightarrow> [] | Some ls \<Rightarrow> ''      responses:'' # ls)"

definition item_lines :: "path_item \<Rightarrow> string list" where
  "item_lines it = path_text (pi_path it) # pi_head it @ concat (map op_lines (pi_ops it))"

definition doc_lines :: "api_doc \<Rightarrow> string list" where
  "doc_lines d = ad_head d @ (''  version: '' @ ad_version d) # ad_lines d @ concat (map item_lines (ad_items d)) @ ad_tail d"

definition doc_text :: "api_doc \<Rightarrow> string" where
  "doc_text d = Join [CHR 0x0A] (doc_lines d)"

text \<open>What the description declares.\<close>

fun query_param :: "piece \<Rightarrow> string list" where
  "query_param (Param n gap (Some l)) = (if l = ''query'' \<and> length gap < 5 then [n] else [])"
| "query_param _ = []"

definition verb_methods :: "(string \<times> string) list" where
  "verb_methods = [(''get'', ''GET''), (''post'', ''POST''), (''put'', ''PUT''), (''patch'', ''PATCH''), (''delete'', ''DELETE'')]"

definition declared :: "string \<Rightarrow> api_op \<Rightarrow> SpecOp" where
  "declared p a = \<lparr>so_ID = ao_id a, so_Method = the (map_of verb_methods (ao_verb a)), so_Path = p,
     so_QueryParams = concat (map query_param (ao_pieces a)), so_HasBody = List.member (ao_pieces a) BodyKey\<rparr>"

definition doc_ops :: "api_doc \<Rightarrow> SpecOp list" where
  "doc_ops d = concat (map (\<lambda>it. map (declared (pi_path it)) (pi_ops it)) (ad_items d))"

section \<open>Which descriptions are in the layout\<close>

text \<open>
  A line is inert if it does not open a path, an operation or an id. Inside an operation, up to its
  responses, a line is quiet if it is none of the keys either; between the name of a parameter and its
  location it is no location.
\<close>

definition is_word :: "string \<Rightarrow> bool" where
  "is_word s \<longleftrightarrow> s \<noteq> [] \<and> list_all (\<lambda>c. \<not> is_ws c) s"

definition one_line :: "string \<Rightarrow> bool" where
  "one_line s \<longleftrightarrow> list_all (\<lambda>c. c \<noteq> CHR 0x0A) s"

definition inert :: "string \<Rightarrow> bool" where
  "inert l \<longleftrightarrow> one_line l \<and> list_all (\<lambda>p. \<not> HasPrefix l p)
     [''  /'', ''    get:'', ''    post:'', ''    put:'', ''    patch:'', ''    delete:'', ''      operationId:'']"

definition quiet_line :: "string \<Rightarrow> bool" where
  "quiet_line l \<longleftrightarrow> inert l \<and> \<not> HasPrefix l ''      responses:'' \<and> \<not> HasPrefix l ''      requestBody:'' \<and>
     \<not> HasPrefix (dropWhile is_ws l) ''- name:''"

definition gap_line :: "string \<Rightarrow> bool" where
  "gap_line l \<longleftrightarrow> quiet_line l \<and> \<not> HasPrefix (dropWhile is_ws l) ''in:''"

text \<open>A parameter without a location is followed by five lines that name none or by a parameter.\<close>

fun pieces_ok :: "piece list \<Rightarrow> bool" where
  "pieces_ok [] \<longleftrightarrow> True"
| "pieces_ok (Note l # ps) \<longleftrightarrow> quiet_line l \<and> pieces_ok ps"
| "pieces_ok (BodyKey # ps) \<longleftrightarrow> pieces_ok ps"
| "pieces_ok (Param n gap loc # ps) \<longleftrightarrow> is_word n \<and> list_all gap_line gap \<and>
     (case loc of Some l \<Rightarrow> is_word l
      | None \<Rightarrow> 5 \<le> length gap \<or> (case ps of Param _ _ _ # _ \<Rightarrow> True | _ \<Rightarrow> False)) \<and> pieces_ok ps"

definition op_ok :: "api_op \<Rightarrow> bool" where
  "op_ok a \<longleftrightarrow> map_of verb_methods (ao_verb a) \<noteq> None \<and> list_all inert (ao_head a) \<and> is_word (ao_id a) \<and>
     pieces_ok (ao_pieces a) \<and> (case ao_responses a of None \<Rightarrow> True | Some ls \<Rightarrow> list_all inert ls)"

definition item_ok :: "path_item \<Rightarrow> bool" where
  "item_ok it \<longleftrightarrow> HasPrefix (pi_path it) ''/'' \<and> list_all (\<lambda>c. c \<noteq> CHR '':'' \<and> c \<noteq> CHR 0x0A) (pi_path it) \<and>
     list_all inert (pi_head it) \<and> list_all op_ok (pi_ops it)"

text \<open>The last operation of a description closes with its responses.\<close>

definition closed_item :: "path_item \<Rightarrow> bool" where
  "closed_item it \<longleftrightarrow> pi_ops it = [] \<or> ao_responses (last (pi_ops it)) \<noteq> None"

definition doc_ok :: "api_doc \<Rightarrow> bool" where
  "doc_ok d \<longleftrightarrow> list_all (\<lambda>l. inert l \<and> \<not> HasPrefix l ''  version:'') (ad_head d) \<and> is_word (ad_version d) \<and>
     list_all inert (ad_lines d) \<and> list_all item_ok (ad_items d) \<and> (ad_items d = [] \<or> closed_item (last (ad_items d))) \<and>
     list_all inert (ad_tail d)"

section \<open>What the scanner sees on each line\<close>

lemma is_ws_space [simp]: "is_ws (CHR '' '')"
  by (simp add: is_ws_def)

lemma word_not_ws: "is_word w \<Longrightarrow> takeWhile (\<lambda>c. \<not> is_ws c) w = w \<and> dropWhile is_ws w = w"
  by (auto simp: is_word_def takeWhile_eq_all_conv list_all_iff dropWhile_eq_self_iff)

lemma first_word_space: "is_word w \<Longrightarrow> first_word (CHR '' '' # w) = Some w"
proof -
  assume w: "is_word w"
  note t = word_not_ws [OF w]
  have "first_word (CHR '' '' # w) = (if w = [] then None else Some w)"
    using t by (simp only: first_word_def dropWhile.simps is_ws_space if_True Let_def)
  with w show ?thesis by (simp add: is_word_def)
qed

lemma not_blank_space: "is_word w \<Longrightarrow> \<not> blank (CHR '' '' # w)"
  by (cases w) (auto simp: is_word_def blank_def)

lemma before_final_colon_simple:
  "list_all (\<lambda>c. c \<noteq> CHR '':'') s \<Longrightarrow> before_final_colon (s @ '':'') = Some s"
proof -
  assume a: "list_all (\<lambda>c. c \<noteq> CHR '':'') s"
  then have "dropWhile (\<lambda>c. c \<noteq> CHR '':'') (s @ '':'') = '':''" "takeWhile (\<lambda>c. c \<noteq> CHR '':'') (s @ '':'') = s"
    by (induction s) simp_all
  then show ?thesis by (simp add: before_final_colon_def blank_def)
qed

lemmas shape_defs = rePathLine_def reVerbLine_def reOperationID_def reVersion_def reResponses_def reRequestBody_def
  reParamName_def reParamIn_def word_after_def key_line_def after_prefix_def HasPrefix_def indented_word_after_def

lemma HasPrefix_iff: "HasPrefix s p \<longleftrightarrow> (\<exists>r. s = p @ r)"
  by (metis HasPrefix_def append_eq_conv_conj)

lemma HasPrefix_trans: "HasPrefix s (p @ q) \<longleftrightarrow> HasPrefix s p \<and> HasPrefix (drop (length p) s) q"
  by (auto simp: HasPrefix_iff)

lemma no_prefix:
  "\<not> HasPrefix l pre \<Longrightarrow> word_after pre l = None" "\<not> HasPrefix l pre \<Longrightarrow> \<not> key_line pre l"
  "\<not> HasPrefix (dropWhile is_ws l) pre \<Longrightarrow> indented_word_after pre l = None"
  by (simp_all add: word_after_def key_line_def after_prefix_def indented_word_after_def split: list.split)

lemma before_final_colon_prefix: "before_final_colon s = Some v \<Longrightarrow> HasPrefix s (v @ '':'')"
proof -
  assume a: "before_final_colon s = Some v"
  obtain c r where d: "dropWhile (\<lambda>c. c \<noteq> CHR '':'') s = c # r" and v: "v = takeWhile (\<lambda>c. c \<noteq> CHR '':'') s"
    using a by (auto simp: before_final_colon_def split: list.splits if_splits)
  moreover have "c = CHR '':''" using hd_dropWhile [of "\<lambda>c. c \<noteq> CHR '':''" s] d by simp
  ultimately have "s = (v @ '':'') @ r" using takeWhile_dropWhile_id [of "\<lambda>c. c \<noteq> CHR '':''" s] by simp
  then show ?thesis unfolding HasPrefix_iff by blast
qed

lemma inert_shapes:
  assumes "inert l"
  shows "rePathLine l = None" "reVerbLine l = None" "reOperationID l = None"
proof -
  show "reOperationID l = None" using assms by (simp add: inert_def reOperationID_def no_prefix)
  show "rePathLine l = None"
    using assms HasPrefix_trans [of l "''  ''" "''/''"]
    by (auto simp: inert_def rePathLine_def after_prefix_def)
  have v: "\<not> HasPrefix l (''    '' @ v @ '':'')" if "List.member [''get'', ''post'', ''put'', ''patch'', ''delete''] v" for v
    using assms that by (auto simp: inert_def)
  show "reVerbLine l = None"
  proof (cases "HasPrefix l ''    '' \<and> before_final_colon (drop 4 l) \<noteq> None")
    case True
    then obtain w where w: "before_final_colon (drop 4 l) = Some w" "HasPrefix l ''    ''" by blast
    have "HasPrefix l (''    '' @ w @ '':'')"
      unfolding HasPrefix_trans [of l "''    ''"] using before_final_colon_prefix [OF w(1)] w(2) by (simp add: numeral_eq_Suc)
    with v have "\<not> List.member [''get'', ''post'', ''put'', ''patch'', ''delete''] w" by blast
    with w show ?thesis by (simp add: reVerbLine_def after_prefix_def numeral_eq_Suc)
  next
    case False
    then show ?thesis by (auto simp: reVerbLine_def after_prefix_def numeral_eq_Suc)
  qed
qed

lemma inert_version: "\<not> HasPrefix l ''  version:'' \<Longrightarrow> reVersion l = None"
  by (simp add: reVersion_def no_prefix)

lemma quiet_shapes:
  assumes "quiet_line l"
  shows "\<not> reResponses l" "\<not> reRequestBody l" "reParamName l = None" "inert l"
  using assms by (simp_all add: quiet_line_def reResponses_def reRequestBody_def reParamName_def no_prefix)

lemma gap_shapes: "gap_line l \<Longrightarrow> quiet_line l" "gap_line l \<Longrightarrow> reParamIn l = None"
  by (simp_all add: gap_line_def reParamIn_def no_prefix)

lemma path_line: "item_ok it \<Longrightarrow> rePathLine (path_text (pi_path it)) = Some (pi_path it)"
  using before_final_colon_simple [of "pi_path it"]
  by (cases "pi_path it") (auto simp: shape_defs path_text_def item_ok_def list_all_iff)

lemma verb_line:
  assumes "map_of verb_methods v \<noteq> None"
  shows "rePathLine (verb_text v) = None" "reVerbLine (verb_text v) = Some v" "upper_verb v = the (map_of verb_methods v)"
proof -
  have v: "v \<in> {''get'', ''post'', ''put'', ''patch'', ''delete''}" using assms by (auto simp: verb_methods_def split: if_splits)
  then have "list_all (\<lambda>c. c \<noteq> CHR '':'') v" by auto
  with v before_final_colon_simple [of v] show "reVerbLine (verb_text v) = Some v"
    by (simp add: shape_defs verb_text_def)
  show "rePathLine (verb_text v) = None" by (simp add: shape_defs verb_text_def)
  have "list_all (\<lambda>v. upper_verb v = the (map_of verb_methods v)) [''get'', ''post'', ''put'', ''patch'', ''delete'']"
    by code_simp
  with v show "upper_verb v = the (map_of verb_methods v)" by auto
qed

lemma id_line:
  assumes "is_word i"
  shows "rePathLine (id_text i) = None" "reVerbLine (id_text i) = None" "reOperationID (id_text i) = Some i"
  using not_blank_space [OF assms] first_word_space [OF assms]
  by (simp_all add: shape_defs before_final_colon_def id_text_def)

lemma version_line:
  assumes "is_word v"
  shows "rePathLine (''  version: '' @ v) = None" "reVerbLine (''  version: '' @ v) = None"
    "reOperationID (''  version: '' @ v) = None" "reVersion (''  version: '' @ v) = Some v"
  using first_word_space [OF assms] by (simp_all add: shape_defs)

lemma name_line:
  assumes "is_word n"
  shows "rePathLine (name_text n) = None" "reVerbLine (name_text n) = None"
    "reOperationID (name_text n) = None" "reVersion (name_text n) = None"
    "\<not> reResponses (name_text n)" "\<not> reRequestBody (name_text n)"
    "reParamName (name_text n) = Some n"
proof -
  have d: "\<not> is_ws (CHR ''-'')" by (simp add: is_ws_def)
  show "rePathLine (name_text n) = None" "reVerbLine (name_text n) = None"
    "reOperationID (name_text n) = None" "reVersion (name_text n) = None"
    "\<not> reResponses (name_text n)" "\<not> reRequestBody (name_text n)"
    "reParamName (name_text n) = Some n"
    using not_blank_space [OF assms] first_word_space [OF assms] d
    by (simp_all add: shape_defs before_final_colon_def id_text_def name_text_def in_text_def)
qed

lemma in_line:
  assumes "is_word l"
  shows "rePathLine (in_text l) = None" "reVerbLine (in_text l) = None"
    "reOperationID (in_text l) = None" "reVersion (in_text l) = None"
    "\<not> reResponses (in_text l)" "\<not> reRequestBody (in_text l)"
    "reParamName (in_text l) = None" "reParamIn (in_text l) = Some l"
proof -
  have d: "\<not> is_ws (CHR ''i'')" by (simp add: is_ws_def)
  show "rePathLine (in_text l) = None" "reVerbLine (in_text l) = None"
    "reOperationID (in_text l) = None" "reVersion (in_text l) = None"
    "\<not> reResponses (in_text l)" "\<not> reRequestBody (in_text l)"
    "reParamName (in_text l) = None" "reParamIn (in_text l) = Some l"
    using not_blank_space [OF assms] first_word_space [OF assms] d
    by (simp_all add: shape_defs before_final_colon_def id_text_def name_text_def in_text_def)
qed

lemma key_lines:
  "rePathLine ''      requestBody:'' = None" "reVerbLine ''      requestBody:'' = None"
  "reOperationID ''      requestBody:'' = None" "\<not> reResponses ''      requestBody:''" "reRequestBody ''      requestBody:''"
  "rePathLine ''      responses:'' = None" "reVerbLine ''      responses:'' = None"
  "reOperationID ''      responses:'' = None" "reResponses ''      responses:''"
  by code_simp+

section \<open>Scanning a description\<close>

lemma on_last_snoc [simp]: "on_last f (xs @ [x]) = xs @ [f x]"
  by (simp add: on_last_def)

text \<open>Lines that change nothing: inert ones while no operation is open, quiet ones in any case.\<close>

lemma scan_inert:
  "\<not> sn_open s \<Longrightarrow> list_all (\<lambda>l. inert l \<and> (sn_Version s = [] \<longrightarrow> \<not> HasPrefix l ''  version:'')) ls \<Longrightarrow>
    scan_lines s (ls @ rest) = scan_lines s rest"
proof (induction ls)
  case (Cons l ls)
  then have "scan_line s l (ls @ rest) = s"
    by (cases "sn_Version s = []") (simp_all add: scan_line_def scanOpLine_def inert_shapes inert_version)
  with Cons show ?case by simp
qed simp

lemma scan_quiet: "quiet_line l \<Longrightarrow> sn_Version s \<noteq> [] \<Longrightarrow> scan_line s l rest = s"
  by (simp add: scan_line_def scanOpLine_def quiet_shapes inert_shapes)

lemma scan_quiets: "list_all quiet_line ls \<Longrightarrow> sn_Version s \<noteq> [] \<Longrightarrow> scan_lines s (ls @ rest) = scan_lines s rest"
  by (induction ls) (simp_all add: scan_quiet)

lemma paramIsQuery_gap:
  "list_all gap_line gap \<Longrightarrow> paramIsQuery n (gap @ r) = (if n \<le> length gap then False else paramIsQuery (n - length gap) r)"
proof (induction gap arbitrary: n)
  case (Cons l gap)
  then show ?case by (cases n) (simp_all add: gap_shapes quiet_shapes)
qed (cases n; simp)

lemma paramIsQuery_lines:
  assumes "pieces_ok (Param n gap loc # ps)"
  shows "paramIsQuery 5 (gap @ (case loc of None \<Rightarrow> [] | Some l \<Rightarrow> [in_text l]) @ concat (map piece_lines ps) @ rest) \<longleftrightarrow>
    query_param (Param n gap loc) \<noteq> []"
proof (cases "5 \<le> length gap")
  case True
  with assms show ?thesis by (cases loc) (simp_all add: paramIsQuery_gap)
next
  case False
  then obtain k where k: "5 - length gap = Suc k" by (cases "5 - length gap") auto
  show ?thesis
  proof (cases loc)
    case (Some l)
    with assms False show ?thesis by (auto simp: paramIsQuery_gap k in_line)
  next
    case None
    with assms False obtain n' gap' loc' r where "ps = Param n' gap' loc' # r" "is_word n'"
      by (auto split: list.splits piece.splits)
    with assms False None show ?thesis by (auto simp: paramIsQuery_gap k name_line)
  qed
qed

text \<open>The pieces of an operation fill the last entry.\<close>

definition taken :: "piece list \<Rightarrow> SpecOp \<Rightarrow> SpecOp" where
  "taken ps p = p\<lparr>so_QueryParams := so_QueryParams p @ concat (map query_param ps),
     so_HasBody := (so_HasBody p \<or> BodyKey \<in> set ps)\<rparr>"

lemma query_param_names: "query_param (Param n gap loc) \<noteq> [] \<Longrightarrow> query_param (Param n gap loc) = [n]"
  by (cases loc) (auto split: if_splits)

lemma scan_pieces:
  assumes "pieces_ok ps" and "sn_open s" and "sn_Ops s = ops @ [p]" and "sn_Version s \<noteq> []"
  shows "scan_lines s (concat (map piece_lines ps) @ rest) = scan_lines (s\<lparr>sn_Ops := ops @ [taken ps p]\<rparr>) rest"
  using assms
proof (induction ps arbitrary: s p)
  case Nil
  then have "s\<lparr>sn_Ops := ops @ [p]\<rparr> = s" by (cases s) simp
  then show ?case by (simp add: taken_def)
next
  case (Cons x ps)
  have self: "s\<lparr>sn_Ops := ops @ [p]\<rparr> = s" using Cons.prems(3) by (cases s) simp
  have step: "scan_lines s (piece_lines x @ concat (map piece_lines ps) @ rest) =
      scan_lines (s\<lparr>sn_Ops := ops @ [taken [x] p]\<rparr>) (concat (map piece_lines ps) @ rest)"
  proof (cases x)
    case (Note l)
    with Cons.prems show ?thesis by (simp add: scan_quiet taken_def self)
  next
    case BodyKey
    with Cons.prems show ?thesis by (simp add: scan_line_def scanOpLine_def key_lines taken_def)
  next
    case (Param n gap loc)
    let ?in = "case loc of None \<Rightarrow> [] | Some l \<Rightarrow> [in_text l]" and ?r = "concat (map piece_lines ps) @ rest"
    let ?s = "s\<lparr>sn_Ops := ops @ [taken [x] p]\<rparr>"
    note ok = Cons.prems(1) [unfolded Param]
    have "scan_line s (name_text n) (gap @ ?in @ ?r) = ?s"
      using ok Cons.prems(2-4) paramIsQuery_lines [OF ok, of rest] query_param_names [of n gap loc] self
      by (auto simp: scan_line_def scanOpLine_def name_line taken_def Param)
    moreover have "scan_lines ?s (gap @ ?in @ ?r) = scan_lines ?s (?in @ ?r)"
      using ok Cons.prems(4) by (intro scan_quiets) (auto simp: list_all_iff gap_shapes)
    moreover have "scan_lines ?s (?in @ ?r) = scan_lines ?s ?r"
    proof (cases loc)
      case (Some l)
      with ok Cons.prems(4) show ?thesis by (simp add: scan_line_def scanOpLine_def in_line)
    qed simp
    ultimately show ?thesis by (simp add: Param)
  qed
  have "pieces_ok ps" using Cons.prems(1) by (cases x) simp_all
  from Cons.IH [OF this, of "s\<lparr>sn_Ops := ops @ [taken [x] p]\<rparr>" "taken [x] p"] Cons.prems step
  show ?case by (auto simp: taken_def)
qed

lemma scan_op:
  assumes "op_ok a" and "sn_Version s \<noteq> []"
  shows "scan_lines s (op_lines a @ rest) =
    scan_lines (s\<lparr>sn_curVerb := the (map_of verb_methods (ao_verb a)), sn_open := (ao_responses a = None),
      sn_Ops := sn_Ops s @ [declared (sn_curPath s) a]\<rparr>) rest"
proof -
  note ok = assms(1) [unfolded op_ok_def]
  let ?m = "the (map_of verb_methods (ao_verb a))"
  let ?s1 = "s\<lparr>sn_curVerb := ?m, sn_open := False\<rparr>"
  let ?p = "\<lparr>so_ID = ao_id a, so_Method = ?m, so_Path = sn_curPath s, so_QueryParams = [], so_HasBody = False\<rparr>"
  let ?s2 = "?s1\<lparr>sn_open := True, sn_Ops := sn_Ops s @ [?p]\<rparr>" and ?s3 = "?s1\<lparr>sn_open := True, sn_Ops := sn_Ops s @ [declared (sn_curPath s) a]\<rparr>"
  let ?resp = "case ao_responses a of None \<Rightarrow> [] | Some ls \<Rightarrow> ''      responses:'' # ls"
  have d: "taken (ao_pieces a) ?p = declared (sn_curPath s) a" by (simp add: taken_def declared_def)
  have verb: "scan_line s (verb_text (ao_verb a)) r = ?s1" for r
    using ok verb_line [of "ao_verb a"] by (simp add: scan_line_def)
  have lines: "scan_lines ?s1 (ao_head a @ r) = scan_lines ?s1 r" for r
    using ok assms(2) by (intro scan_inert) (auto simp: list_all_iff)
  have i: "scan_line ?s1 (id_text (ao_id a)) r = ?s2" for r
    using ok id_line [of "ao_id a"] by (simp add: scan_line_def)
  have pieces: "scan_lines ?s2 (concat (map piece_lines (ao_pieces a)) @ r) = scan_lines ?s3 r" for r
    using scan_pieces [of "ao_pieces a" ?s2 "sn_Ops s" ?p r] ok assms(2) by (simp add: d)
  have resp: "scan_lines ?s3 (?resp @ rest) = scan_lines (?s3\<lparr>sn_open := (ao_responses a = None)\<rparr>) rest"
  proof (cases "ao_responses a")
    case (Some ls)
    have "scan_lines (?s3\<lparr>sn_open := False\<rparr>) (ls @ rest) = scan_lines (?s3\<lparr>sn_open := False\<rparr>) rest"
      using ok assms(2) Some by (intro scan_inert) (auto simp: list_all_iff)
    then show ?thesis using assms(2) by (simp add: Some scan_line_def scanOpLine_def key_lines)
  qed (cases s, simp)
  have "?s3\<lparr>sn_open := (ao_responses a = None)\<rparr> = s\<lparr>sn_curVerb := ?m, sn_open := (ao_responses a = None),
      sn_Ops := sn_Ops s @ [declared (sn_curPath s) a]\<rparr>" by (cases s) simp
  with verb lines i pieces resp show ?thesis by (simp only: op_lines_def scan_lines.simps append_Cons append_assoc)
qed

lemma scan_ops:
  assumes "list_all op_ok ops" and "sn_Version s \<noteq> []"
  shows "\<exists>v. scan_lines s (concat (map op_lines ops) @ rest) =
    scan_lines (s\<lparr>sn_curVerb := v, sn_open := (ops = [] \<and> sn_open s \<or> ops \<noteq> [] \<and> ao_responses (last ops) = None),
      sn_Ops := sn_Ops s @ map (declared (sn_curPath s)) ops\<rparr>) rest"
  using assms
proof (induction ops arbitrary: s)
  case Nil
  have "s\<lparr>sn_curVerb := sn_curVerb s, sn_open := sn_open s, sn_Ops := sn_Ops s\<rparr> = s" by simp
  then show ?case by (metis append.left_neutral append_Nil2 concat.simps(1) list.simps(8))
next
  case (Cons a ops)
  let ?s = "s\<lparr>sn_curVerb := the (map_of verb_methods (ao_verb a)), sn_open := (ao_responses a = None),
      sn_Ops := sn_Ops s @ [declared (sn_curPath s) a]\<rparr>"
  have "scan_lines s (concat (map op_lines (a # ops)) @ rest) = scan_lines ?s (concat (map op_lines ops) @ rest)"
    using scan_op [of a s "concat (map op_lines ops) @ rest"] Cons.prems by simp
  with Cons.IH [of ?s] Cons.prems show ?case by auto
qed

lemma scan_item:
  assumes "item_ok it" and "sn_Version s \<noteq> []"
  shows "\<exists>v. scan_lines s (item_lines it @ rest) =
    scan_lines (s\<lparr>sn_curPath := pi_path it, sn_curVerb := v, sn_open := (\<not> closed_item it),
      sn_Ops := sn_Ops s @ map (declared (pi_path it)) (pi_ops it)\<rparr>) rest"
proof -
  let ?s = "s\<lparr>sn_curPath := pi_path it, sn_open := False\<rparr>"
  have "scan_line s (path_text (pi_path it)) r = ?s" for r
    using path_line [OF assms(1)] by (simp add: scan_line_def)
  moreover have "scan_lines ?s (pi_head it @ r) = scan_lines ?s r" for r
    using assms by (intro scan_inert) (auto simp: item_ok_def list_all_iff)
  moreover have "list_all op_ok (pi_ops it)" using assms(1) by (simp add: item_ok_def)
  from scan_ops [OF this, of ?s rest] assms(2) obtain v where
    "scan_lines ?s (concat (map op_lines (pi_ops it)) @ rest) =
      scan_lines (?s\<lparr>sn_curVerb := v, sn_open := (\<not> closed_item it),
        sn_Ops := sn_Ops s @ map (declared (pi_path it)) (pi_ops it)\<rparr>) rest"
    by (auto simp: closed_item_def)
  ultimately show ?thesis by (auto simp: item_lines_def)
qed

lemma scan_items:
  assumes "list_all item_ok its" and "sn_Version s \<noteq> []"
  shows "\<exists>s'. scan_lines s (concat (map item_lines its) @ rest) = scan_lines s' rest \<and> sn_Version s' = sn_Version s \<and>
    sn_Ops s' = sn_Ops s @ concat (map (\<lambda>it. map (declared (pi_path it)) (pi_ops it)) its) \<and>
    sn_open s' = (if its = [] then sn_open s else \<not> closed_item (last its))"
  using assms
proof (induction its arbitrary: s)
  case (Cons it its)
  obtain v where v: "scan_lines s (item_lines it @ concat (map item_lines its) @ rest) =
      scan_lines (s\<lparr>sn_curPath := pi_path it, sn_curVerb := v, sn_open := (\<not> closed_item it),
        sn_Ops := sn_Ops s @ map (declared (pi_path it)) (pi_ops it)\<rparr>) (concat (map item_lines its) @ rest)" (is "_ = scan_lines ?s _")
    using scan_item [of it s] Cons.prems by auto
  from Cons.IH [of ?s] Cons.prems v show ?case by auto
qed auto

lemma scan_doc:
  assumes "doc_ok d"
  shows "\<exists>s. scan_lines start_scan (doc_lines d) = s \<and> sn_Version s = ad_version d \<and> sn_Ops s = doc_ops d"
proof -
  note ok = assms [unfolded doc_ok_def]
  let ?s = "start_scan\<lparr>sn_Version := ad_version d\<rparr>" and ?its = "concat (map item_lines (ad_items d)) @ ad_tail d"
  have ne: "sn_Version ?s \<noteq> []" "\<not> sn_open ?s" using ok by (simp_all add: is_word_def start_scan_def)
  have v: "scan_line start_scan (''  version: '' @ ad_version d) r = ?s" for r
    using version_line [of "ad_version d"] ok by (simp only: scan_line_def) (simp add: start_scan_def)
  have "scan_lines start_scan (doc_lines d) = scan_lines start_scan ((''  version: '' @ ad_version d) # ad_lines d @ ?its)"
    unfolding doc_lines_def using ok by (intro scan_inert) (auto simp: start_scan_def list_all_iff)
  also have "\<dots> = scan_lines ?s (ad_lines d @ ?its)" unfolding scan_lines.simps v ..
  also have "\<dots> = scan_lines ?s ?its" using ok ne by (intro scan_inert) (auto simp: list_all_iff)
  finally have h: "scan_lines start_scan (doc_lines d) = scan_lines ?s ?its" .
  obtain s' where s': "scan_lines ?s ?its = scan_lines s' (ad_tail d)" "sn_Version s' = ad_version d" "sn_Ops s' = doc_ops d"
    "\<not> sn_open s'"
    using scan_items [of "ad_items d" ?s "ad_tail d"] ok ne by (auto simp: start_scan_def doc_ops_def cong: if_cong)
  have "scan_lines s' (ad_tail d @ []) = scan_lines s' []"
    using ok ne s'(2,4) by (intro scan_inert) (auto simp: list_all_iff is_word_def)
  with h s' show ?thesis by simp
qed

text \<open>The text of a description has its lines.\<close>

lemma split_lines_one: "one_line s \<Longrightarrow> split_lines s = [s]"
  by (induction s) (simp_all add: one_line_def)

lemma split_lines_append: "one_line s \<Longrightarrow> split_lines (s @ CHR 0x0A # r) = s # split_lines r"
  by (induction s) (simp_all add: one_line_def)

lemma split_lines_Join: "xs \<noteq> [] \<Longrightarrow> list_all one_line xs \<Longrightarrow> split_lines (Join [CHR 0x0A] xs) = xs"
proof (induction xs rule: induct_list012)
  case (3 x y zs)
  then show ?case by (simp add: split_lines_append)
qed (simp_all add: split_lines_one)

lemma word_one_line: "is_word w \<Longrightarrow> one_line w"
  by (auto simp: is_word_def one_line_def list_all_iff is_ws_def)

lemma one_line_append [simp]: "one_line (a @ b) \<longleftrightarrow> one_line a \<and> one_line b" "one_line (c # b) \<longleftrightarrow> c \<noteq> CHR 0x0A \<and> one_line b"
  "one_line []"
  by (simp_all add: one_line_def)

lemma quiet_one_line: "quiet_line l \<Longrightarrow> one_line l" "inert l \<Longrightarrow> one_line l" "gap_line l \<Longrightarrow> one_line l"
  by (simp_all add: quiet_line_def inert_def gap_line_def)

lemma pieces_one_line: "pieces_ok ps \<Longrightarrow> list_all one_line (concat (map piece_lines ps))"
proof (induction ps rule: pieces_ok.induct)
  case (4 n gap loc ps)
  then show ?case
    by (cases loc) (auto simp: list_all_iff name_text_def in_text_def word_one_line quiet_one_line)
qed (simp_all add: quiet_one_line)

lemma op_one_line: "op_ok a \<Longrightarrow> list_all one_line (op_lines a)"
  using pieces_one_line [of "ao_pieces a"]
  by (cases "ao_responses a")
    (auto simp: op_ok_def op_lines_def verb_text_def id_text_def word_one_line list_all_iff quiet_one_line verb_methods_def
      split: if_splits)

lemma item_one_line: "item_ok it \<Longrightarrow> list_all one_line (item_lines it)"
proof -
  assume ok: "item_ok it"
  have "list_all one_line (concat (map op_lines (pi_ops it)))"
    using ok op_one_line by (auto simp: item_ok_def list_all_iff)
  moreover have "one_line (path_text (pi_path it))"
    using ok by (simp add: item_ok_def path_text_def) (auto simp: one_line_def list_all_iff)
  ultimately show ?thesis using ok by (auto simp: item_ok_def item_lines_def list_all_iff quiet_one_line)
qed

lemma doc_one_line: "doc_ok d \<Longrightarrow> split_lines (doc_text d) = doc_lines d"
proof -
  assume ok: "doc_ok d"
  have "list_all one_line (concat (map item_lines (ad_items d)))"
    using ok item_one_line by (auto simp: doc_ok_def list_all_iff)
  then have "list_all one_line (doc_lines d)"
    using ok word_one_line [of "ad_version d"] by (auto simp: doc_ok_def doc_lines_def list_all_iff quiet_one_line)
  then show ?thesis unfolding doc_text_def by (intro split_lines_Join) (simp_all add: doc_lines_def)
qed

text \<open>An excerpt of \<open>openapi.yaml\<close>, which has this layout throughout.\<close>

definition vendored_excerpt :: api_doc where
  "vendored_excerpt = \<lparr>ad_head = [''openapi: 3.1.1'',
    ''info:'',
    ''  title: YNAB API Endpoints'',
    ''  description: |-'',
    ''    Our API uses a REST based design, leverages the JSON data format, and relies upon HTTPS for transport. We respond with meaningful HTTP response codes and if an error occurs, we include error details in the response body.'',
    '''',
    ''    Read the [API Documentation](https://api.ynab.com) for more information about the API, including how to obtain an access token and how to use it to make requests.''],
   ad_version = ''1.86.0'',
   ad_lines = [''servers:'',
    ''  - url: https://api.ynab.com/v1'',
    ''security:'',
    ''  - bearer: []'',
    ''tags:'',
    ''  - name: User'',
    ''    description: The currently authenticated user'',
    ''paths:''],
   ad_items = [\<lparr>pi_path = ''/plans'', pi_head = [],
    pi_ops = [\<lparr>ao_verb = ''get'',
      ao_head = [''      tags:'',
        ''        - Plans'',
        ''      summary: Get all plans'',
        ''      description: Returns plans list with summary information''],
      ao_id = ''getPlans'',
      ao_pieces = [Note ''      parameters:'',
        Param ''include_accounts'' [] (Some ''query''),
        Note ''          description: Whether to include the list of plan accounts'',
        Note ''          schema:'',
        Note ''            type: boolean''],
      ao_responses = Some [''        \"200\":'',
        ''          description: The list of plans'',
        ''          content:'',
        ''            application/json:'',
        ''              schema:'',
        ''                $ref: \"#/components/schemas/PlanSummaryResponse\"'',
        ''        \"404\":'',
        ''          description: No plans were found'',
        ''          content:'',
        ''            application/json:'',
        ''              schema:'',
        ''                $ref: \"#/components/schemas/ErrorResponse\"'']\<rparr>]\<rparr>,
   \<lparr>pi_path = ''/plans/{plan_id}/accounts'', pi_head = [],
    pi_ops = [\<lparr>ao_verb = ''get'',
      ao_head = [''      tags:'',
        ''        - Accounts'',
        ''      summary: Get all accounts'',
        ''      description: Returns all accounts''],
      ao_id = ''getAccounts'',
      ao_pieces = [Note ''      parameters:'',
        Param ''plan_id'' [] (Some ''path''),
        Note ''          description: 'The id of the plan. \"last-used\" can be used to specify the last'',
        Note ''            used plan and \"default\" can be used if default plan selection is'',
        Note (''            enabled (see: https://api.ynab.com/#oauth-default-plan).'' @ [CHR 0x27]),
        Note ''          required: true'',
        Note ''          schema:'',
        Note ''            type: string'',
        Param ''last_knowledge_of_server'' [] (Some ''query''),
        Note ''          description: The starting server knowledge.  If provided, only entities that'',
        Note ''            have changed since `last_knowledge_of_server` will be included.'',
        Note ''          schema:'',
        Note ''            type: integer'',
        Note ''            format: int64''],
      ao_responses = Some [''        \"200\":'',
        ''          description: The list of requested accounts'',
        ''          content:'',
        ''            application/json:'',
        ''              schema:'',
        ''                $ref: \"#/components/schemas/AccountsResponse\"'',
        ''        \"404\":'',
        ''          description: No accounts were found'',
        ''          content:'',
        ''            application/json:'',
        ''              schema:'',
        ''                $ref: \"#/components/schemas/ErrorResponse\"'']\<rparr>,
     \<lparr>ao_verb = ''post'',
      ao_head = [''      tags:'',
        ''        - Accounts'',
        ''      summary: Create an account'',
        ''      description: Creates a new account''],
      ao_id = ''createAccount'',
      ao_pieces = [Note ''      parameters:'',
        Param ''plan_id'' [] (Some ''path''),
        Note ''          description: 'The id of the plan (\"last-used\" can be used to specify the last'',
        Note ''            used plan and \"default\" can be used if default plan selection is'',
        Note (''            enabled (see: https://api.ynab.com/#oauth-default-plan)'' @ [CHR 0x27]),
        Note ''          required: true'',
        Note ''          schema:'',
        Note ''            type: string'',
        BodyKey,
        Note ''        description: The account to create.'',
        Note ''        content:'',
        Note ''          application/json:'',
        Note ''            schema:'',
        Note ''              $ref: \"#/components/schemas/PostAccountWrapper\"'',
        Note ''        required: true''],
      ao_responses = Some [''        \"201\":'',
        ''          description: The account was successfully created'',
        ''          content:'',
        ''            application/json:'',
        ''              schema:'',
        ''                $ref: \"#/components/schemas/AccountResponse\"'',
        ''        \"400\":'',
        ''          description: The request could not be understood due to malformed syntax or'',
        ''            validation error(s).'',
        ''          content:'',
        ''            application/json:'',
        ''              schema:'',
        ''                $ref: \"#/components/schemas/ErrorResponse\"'',
        ''      x-codegen-request-body-name: data'']\<rparr>]\<rparr>],
   ad_tail = [''components:'',
    ''  schemas:'',
    ''    ErrorResponse:'',
    ''      required:'',
    ''        - error'',
    ''      type: object'',
    ''      properties:'',
    ''        error:'',
    ''          $ref: \"#/components/schemas/ErrorDetail\"'',
    ''    ErrorDetail:'',
    ''      required:'',
    ''        - detail'',
    '''']\<rparr>"

section \<open>Properties\<close>

text \<open>
  C35: the line scanner reads what a description declares, whatever lines surround it. The version is
  the first one; every operation is found in order under its own path, with its upper-case method, its
  body flag and exactly the parameters whose location is \<open>query\<close> and within five lines of the name;
  lines shaped like parameters, bodies, responses or versions elsewhere (before the paths, under a
  path, before an id, among the responses, after the last path) count for nothing; and a description
  without operations is refused.
\<close>

theorem ScanSpec_roundtrip:
  assumes "doc_ok d"
  shows "ScanSpec (Some (doc_text d)) = (if doc_ops d = [] then Inl NoOperations else Inr (ad_version d, doc_ops d))"
  using scan_doc [OF assms] by (auto simp: ScanSpec_def doc_one_line [OF assms])

theorem ScanSpec_roundtrip_witness:
  "ScanSpec (Some (doc_text vendored_excerpt)) = Inr (''1.86.0'',
    [\<lparr>so_ID = ''getPlans'', so_Method = ''GET'', so_Path = ''/plans'', so_QueryParams = [''include_accounts''], so_HasBody = False\<rparr>,
     \<lparr>so_ID = ''getAccounts'', so_Method = ''GET'', so_Path = ''/plans/{plan_id}/accounts'',
       so_QueryParams = [''last_knowledge_of_server''], so_HasBody = False\<rparr>,
     \<lparr>so_ID = ''createAccount'', so_Method = ''POST'', so_Path = ''/plans/{plan_id}/accounts'',
       so_QueryParams = [], so_HasBody = True\<rparr>])"
proof -
  have "doc_ok vendored_excerpt" by code_simp
  moreover have "doc_ops vendored_excerpt =
    [\<lparr>so_ID = ''getPlans'', so_Method = ''GET'', so_Path = ''/plans'', so_QueryParams = [''include_accounts''], so_HasBody = False\<rparr>,
     \<lparr>so_ID = ''getAccounts'', so_Method = ''GET'', so_Path = ''/plans/{plan_id}/accounts'',
       so_QueryParams = [''last_knowledge_of_server''], so_HasBody = False\<rparr>,
     \<lparr>so_ID = ''createAccount'', so_Method = ''POST'', so_Path = ''/plans/{plan_id}/accounts'',
       so_QueryParams = [], so_HasBody = True\<rparr>]" by code_simp
  moreover have "ad_version vendored_excerpt = ''1.86.0''" by (simp add: vendored_excerpt_def)
  ultimately show ?thesis using ScanSpec_roundtrip [of vendored_excerpt] by simp
qed

end
