(* ===== verification/Schemas.thy ===== *)
theory Schemas
  imports Prelude "HOL-Library.Product_Lexorder"
begin

text \<open>
  \<open>internal/contract/schema.go\<close>: the bounds and enums of the description's component schemas. The
  parsed document is what the parser's package returns; of it the code reads, and the model holds,
  the named schemas, their properties, enums, lengths and \<open>allOf\<close> branches. Schemas are shared and
  may be cyclic, so they live in a heap and a pointer is an address, nil is \<open>None\<close>. A Go map is an
  association list, its iteration order arbitrary. The walk takes fuel, one unit per level of
  nesting; that the number of schemas plus one is always enough is proved below.
\<close>

section \<open>The document\<close>

datatype enum_member = MNull | MString string | MOther

record prop_value =
  pv_MaxLength :: "nat option"
  pv_Enum :: "enum_member list"

record prop_ref =
  pr_Ref :: string
  pr_Value :: "prop_value option"

record schema =
  sc_Properties :: "(string \<times> prop_ref) list"
  sc_Enum :: "enum_member list"
  sc_AllOf :: "nat option list"

type_synonym schema_heap = "nat \<rightharpoonup> schema"

section \<open>What is collected\<close>

record Bound =
  bd_Schema :: string
  bd_Property :: string
  bd_MaxLength :: nat

record Enum =
  en_Schema :: string
  en_Values :: "string list"
  en_HasNull :: bool

record PropEnum =
  pe_Schema :: string
  pe_Property :: string
  pe_Values :: "string list"
  pe_HasNull :: bool

record Schemas =
  sm_Bounds :: "Bound list"
  sm_Enums :: "Enum list"
  sm_PropEnums :: "PropEnum list"

datatype schema_error =
    NotLoaded | NoSchemas | BadMember | BadPropertyEnum string string schema_error | BadEnum string schema_error

fun split_members :: "string list \<Rightarrow> bool \<Rightarrow> enum_member list \<Rightarrow> schema_error + string list \<times> bool" where
  "split_members values hasNull [] = Inr (values, hasNull)"
| "split_members values hasNull (v # vs) = (case v of
     MNull \<Rightarrow> split_members values True vs
   | MString s \<Rightarrow> split_members (values @ [s]) hasNull vs
   | MOther \<Rightarrow> Inl BadMember)"

definition splitEnum :: "enum_member list \<Rightarrow> schema_error + string list \<times> bool" where
  "splitEnum members = split_members [] False members"

definition MaxInt :: nat where "MaxInt = 9223372036854775807"

definition add_bound :: "string \<Rightarrow> string \<Rightarrow> prop_value \<Rightarrow> Schemas \<Rightarrow> Schemas" where
  "add_bound name prop v out = (case pv_MaxLength v of
     None \<Rightarrow> out
   | Some n \<Rightarrow>
       if n \<le> MaxInt
       then out\<lparr>sm_Bounds := sm_Bounds out @ [\<lparr>bd_Schema = name, bd_Property = prop, bd_MaxLength = n\<rparr>]\<rparr>
       else out)"

definition add_property :: "string \<Rightarrow> string \<times> prop_ref \<Rightarrow> Schemas \<Rightarrow> schema_error + Schemas" where
  "add_property name p out = (case pr_Value (snd p) of
     None \<Rightarrow> Inr out
   | Some v \<Rightarrow>
       let out' = add_bound name (fst p) v out in
       if pr_Ref (snd p) = [] \<and> pv_Enum v \<noteq> []
       then (case splitEnum (pv_Enum v) of
          Inl e \<Rightarrow> Inl (BadPropertyEnum name (fst p) e)
        | Inr (values, hasNull) \<Rightarrow> Inr (out'\<lparr>sm_PropEnums := sm_PropEnums out' @
            [\<lparr>pe_Schema = name, pe_Property = fst p, pe_Values = values, pe_HasNull = hasNull\<rparr>]\<rparr>))
       else Inr out')"

fun add_properties :: "string \<Rightarrow> (string \<times> prop_ref) list \<Rightarrow> Schemas \<Rightarrow> schema_error + Schemas" where
  "add_properties name [] out = Inr out"
| "add_properties name (p # ps) out = (case add_property name p out of
     Inl e \<Rightarrow> Inl e | Inr out' \<Rightarrow> add_properties name ps out')"

section \<open>The walk\<close>

type_synonym walk = "Schemas \<times> nat list"

text \<open>The loop over the branches: it stops at the first error, or when a call ran out of fuel.\<close>

fun each_branch :: "(nat option \<Rightarrow> walk \<Rightarrow> (schema_error + walk) option) \<Rightarrow> nat option list \<Rightarrow> walk \<Rightarrow>
    (schema_error + walk) option" where
  "each_branch f [] w = Some (Inr w)"
| "each_branch f (b # bs) w = (case f b w of
     None \<Rightarrow> None
   | Some (Inl e) \<Rightarrow> Some (Inl e)
   | Some (Inr w') \<Rightarrow> each_branch f bs w')"

fun collectProps :: "nat \<Rightarrow> schema_heap \<Rightarrow> string \<Rightarrow> nat option \<Rightarrow> walk \<Rightarrow> (schema_error + walk) option" where
  "collectProps 0 heap name s w = None"
| "collectProps (Suc fuel) heap name s (out, seen) =
     (case s of
        None \<Rightarrow> Some (Inr (out, seen))
      | Some a \<Rightarrow>
          (case heap a of
             None \<Rightarrow> Some (Inr (out, seen))
           | Some sc \<Rightarrow>
               if List.member seen a then Some (Inr (out, seen))
               else (case add_properties name (sc_Properties sc) out of
                  Inl e \<Rightarrow> Some (Inl e)
                | Inr out' \<Rightarrow> each_branch (\<lambda>b w. collectProps fuel heap name b w) (sc_AllOf sc) (out', a # seen))))"

definition enumOf :: "string \<Rightarrow> schema \<Rightarrow> schema_error + Enum option" where
  "enumOf name sc =
     (if sc_Enum sc = [] then Inr None
      else case splitEnum (sc_Enum sc) of
        Inl e \<Rightarrow> Inl (BadEnum name e)
      | Inr (values, hasNull) \<Rightarrow> Inr (Some \<lparr>en_Schema = name, en_Values = values, en_HasNull = hasNull\<rparr>))"

definition scan_schema :: "nat \<Rightarrow> schema_heap \<Rightarrow> Schemas \<Rightarrow> string \<times> nat option \<Rightarrow> (schema_error + Schemas) option" where
  "scan_schema fuel heap out entry = (case entry of (name, ref) \<Rightarrow>
     (case Option.bind ref heap of
        None \<Rightarrow> Some (Inr out)
      | Some sc \<Rightarrow>
          (case collectProps fuel heap name ref (out, []) of
             None \<Rightarrow> None
           | Some (Inl e) \<Rightarrow> Some (Inl e)
           | Some (Inr (out', _)) \<Rightarrow>
               (case enumOf name sc of
                  Inl e \<Rightarrow> Some (Inl e)
                | Inr None \<Rightarrow> Some (Inr out')
                | Inr (Some e) \<Rightarrow> Some (Inr (out'\<lparr>sm_Enums := sm_Enums out' @ [e]\<rparr>))))))"

fun scan_all :: "nat \<Rightarrow> schema_heap \<Rightarrow> Schemas \<Rightarrow> (string \<times> nat option) list \<Rightarrow> (schema_error + Schemas) option" where
  "scan_all fuel heap out [] = Some (Inr out)"
| "scan_all fuel heap out (e # es) = (case scan_schema fuel heap out e of
     None \<Rightarrow> None
   | Some (Inl x) \<Rightarrow> Some (Inl x)
   | Some (Inr out') \<Rightarrow> scan_all fuel heap out' es)"

text \<open>The final sorts; \<open>sort.Slice\<close> leaves the order of equal keys open, the stable order is one of them.\<close>

definition sort_schemas :: "Schemas \<Rightarrow> Schemas" where
  "sort_schemas s =
     \<lparr>sm_Bounds = sort_key (\<lambda>b. (bd_Schema b, bd_Property b)) (sm_Bounds s),
      sm_Enums = sort_key en_Schema (sm_Enums s),
      sm_PropEnums = sort_key (\<lambda>e. (pe_Schema e, pe_Property e)) (sm_PropEnums s)\<rparr>"

definition empty_schemas :: Schemas where
  "empty_schemas = \<lparr>sm_Bounds = [], sm_Enums = [], sm_PropEnums = []\<rparr>"

text \<open>The document: the heap, as a list of its cells, and the named schemas.\<close>

definition ScanSchemas ::
  "((nat \<times> schema) list \<times> (string \<times> nat option) list) option \<Rightarrow> (schema_error + Schemas) option"
where
  "ScanSchemas doc = (case doc of
     None \<Rightarrow> Some (Inl NotLoaded)
   | Some (cells, named) \<Rightarrow>
       if named = [] then Some (Inl NoSchemas)
       else (case scan_all (Suc (length cells)) (map_of cells) empty_schemas named of
          None \<Rightarrow> None
        | Some (Inl e) \<Rightarrow> Some (Inl e)
        | Some (Inr out) \<Rightarrow> Some (Inr (sort_schemas out))))"

section \<open>Lookups\<close>

definition BoundFor :: "Schemas \<Rightarrow> string \<Rightarrow> string \<Rightarrow> nat option" where
  "BoundFor s schema property =
     map_option bd_MaxLength (find (\<lambda>b. bd_Schema b = schema \<and> bd_Property b = property) (sm_Bounds s))"

definition EnumFor :: "Schemas \<Rightarrow> string \<Rightarrow> string list option" where
  "EnumFor s schema = map_option en_Values (find (\<lambda>e. en_Schema e = schema) (sm_Enums s))"

definition NullableEnum :: "Schemas \<Rightarrow> string \<Rightarrow> bool option" where
  "NullableEnum s schema = map_option en_HasNull (find (\<lambda>e. en_Schema e = schema) (sm_Enums s))"

definition PropEnumFor :: "Schemas \<Rightarrow> string \<Rightarrow> string \<Rightarrow> string list option" where
  "PropEnumFor s schema property =
     map_option pe_Values (find (\<lambda>e. pe_Schema e = schema \<and> pe_Property e = property) (sm_PropEnums s))"

definition NullablePropEnum :: "Schemas \<Rightarrow> string \<Rightarrow> string \<Rightarrow> bool option" where
  "NullablePropEnum s schema property =
     map_option pe_HasNull (find (\<lambda>e. pe_Schema e = schema \<and> pe_Property e = property) (sm_PropEnums s))"

section \<open>The walk ends\<close>

text \<open>The schemas not seen yet bound the depth of the walk.\<close>

definition unseen :: "schema_heap \<Rightarrow> nat list \<Rightarrow> nat" where
  "unseen heap seen = card (dom heap - set seen)"

lemma unseen_mono: "finite (dom heap) \<Longrightarrow> set seen \<subseteq> set seen' \<Longrightarrow> unseen heap seen' \<le> unseen heap seen"
  unfolding unseen_def by (rule card_mono) auto

lemma unseen_visit:
  assumes "finite (dom heap)" and "heap a = Some sc" and "a \<notin> set seen"
  shows "unseen heap (a # seen) < unseen heap seen"
  unfolding unseen_def using assms by (intro psubset_card_mono) auto

lemma each_branch_total:
  assumes "\<And>b w. unseen heap (snd w) < n \<Longrightarrow> f b w \<noteq> None \<and> (\<forall>w'. f b w = Some (Inr w') \<longrightarrow> set (snd w) \<subseteq> set (snd w'))"
    and "finite (dom heap)"
  shows "unseen heap (snd w) < n \<Longrightarrow>
    each_branch f bs w \<noteq> None \<and> (\<forall>w'. each_branch f bs w = Some (Inr w') \<longrightarrow> set (snd w) \<subseteq> set (snd w'))"
proof (induction bs arbitrary: w)
  case (Cons b bs)
  from assms(1) [OF Cons.prems, of b] obtain r where r: "f b w = Some r"
    "\<And>w'. r = Inr w' \<Longrightarrow> set (snd w) \<subseteq> set (snd w')" by auto
  show ?case
  proof (cases r)
    case (Inl e)
    with r show ?thesis by simp
  next
    case (Inr w1)
    note sub = r(2) [OF Inr]
    have "unseen heap (snd w1) < n" using unseen_mono [OF assms(2) sub] Cons.prems by simp
    from Cons.IH [OF this] sub r(1) Inr show ?thesis by auto
  qed
qed simp

lemma collectProps_total:
  assumes "finite (dom heap)"
  shows "unseen heap (snd w) < fuel \<Longrightarrow> collectProps fuel heap name s w \<noteq> None \<and>
    (\<forall>w'. collectProps fuel heap name s w = Some (Inr w') \<longrightarrow> set (snd w) \<subseteq> set (snd w'))"
proof (induction fuel arbitrary: s w)
  case (Suc fuel)
  obtain out seen where w: "w = (out, seen)" by fastforce
  show ?case
  proof (cases "Option.bind s heap")
    case None
    then show ?thesis by (auto simp: w split: option.split bind_splits)
  next
    case (Some sc)
    then obtain a where a: "s = Some a" "heap a = Some sc" by (cases s) auto
    show ?thesis
    proof (cases "a \<in> set seen")
      case False
      have u: "unseen heap (a # seen) < fuel" using unseen_visit [OF assms a(2) False] Suc.prems w by simp
      show ?thesis
      proof (cases "add_properties name (sc_Properties sc) out")
        case (Inr out')
        have "each_branch (collectProps fuel heap name) (sc_AllOf sc) (out', a # seen) \<noteq> None \<and>
            (\<forall>w'. each_branch (collectProps fuel heap name) (sc_AllOf sc) (out', a # seen) = Some (Inr w') \<longrightarrow>
              set (a # seen) \<subseteq> set (snd w'))"
          using each_branch_total [OF Suc.IH assms, where w = "(out', a # seen)" and bs = "sc_AllOf sc"] u by simp
        then show ?thesis using False a w Inr by auto
      qed (use False a w in simp)
    qed (use a w in simp)
  qed
qed simp

section \<open>What is visited\<close>

definition own_bounds :: "string \<Rightarrow> schema \<Rightarrow> Bound list" where
  "own_bounds name sc = concat (map (\<lambda>(prop, ref). case pr_Value ref of
       None \<Rightarrow> []
     | Some v \<Rightarrow> (case pv_MaxLength v of
         None \<Rightarrow> []
       | Some n \<Rightarrow> if n \<le> MaxInt then [\<lparr>bd_Schema = name, bd_Property = prop, bd_MaxLength = n\<rparr>] else []))
     (sc_Properties sc))"

lemma add_properties_bounds:
  "add_properties name ps out = Inr out' \<Longrightarrow>
     sm_Bounds out' = sm_Bounds out @ own_bounds name \<lparr>sc_Properties = ps, sc_Enum = es, sc_AllOf = bs\<rparr>"
proof (induction ps arbitrary: out)
  case (Cons p ps)
  then obtain out1 where o: "add_property name p out = Inr out1" "add_properties name ps out1 = Inr out'"
    by (auto split: sum.splits)
  have "sm_Bounds out1 = sm_Bounds out @ own_bounds name \<lparr>sc_Properties = [p], sc_Enum = es, sc_AllOf = bs\<rparr>"
    using o(1) by (auto simp: add_property_def add_bound_def own_bounds_def Let_def
        split: option.splits if_splits sum.splits prod.splits)
  with Cons.IH [OF o(2)] show ?case by (simp add: own_bounds_def)
qed (simp add: own_bounds_def)

definition allOf_edges :: "schema_heap \<Rightarrow> (nat \<times> nat) set" where
  "allOf_edges heap = {(a, b). \<exists>sc. heap a = Some sc \<and> Some b \<in> set (sc_AllOf sc) \<and> b \<in> dom heap}"

definition bounds_at :: "schema_heap \<Rightarrow> string \<Rightarrow> nat \<Rightarrow> Bound list" where
  "bounds_at heap name a = (case heap a of None \<Rightarrow> [] | Some sc \<Rightarrow> own_bounds name sc)"

text \<open>
  From walk \<open>w\<close> to \<open>w'\<close> exactly the schemas \<open>vis\<close> were visited, in this order: new ones, none twice,
  each with its bounds; every branch of theirs is seen at the end, and all are reached from \<open>from\<close>.
\<close>

definition visits :: "schema_heap \<Rightarrow> string \<Rightarrow> nat set \<Rightarrow> walk \<Rightarrow> nat list \<Rightarrow> walk \<Rightarrow> bool" where
  "visits heap name from w vis w' \<longleftrightarrow>
     snd w' = rev vis @ snd w \<and> distinct vis \<and> set vis \<inter> set (snd w) = {} \<and> set vis \<subseteq> dom heap \<and>
     sm_Bounds (fst w') = sm_Bounds (fst w) @ concat (map (bounds_at heap name) vis) \<and>
     allOf_edges heap `` set vis \<subseteq> set (snd w') \<and> set vis \<subseteq> (allOf_edges heap)\<^sup>* `` from"

lemma visits_Nil: "visits heap name from w [] w"
  by (simp add: visits_def)

lemma visits_append:
  assumes "visits heap name from w vis w1" and "visits heap name from' w1 vis' w2"
  shows "visits heap name (from \<union> from') w (vis @ vis') w2"
  using assms unfolding visits_def by (auto simp: Image_Un)

definition heads :: "schema_heap \<Rightarrow> nat option list \<Rightarrow> nat set" where
  "heads heap bs = {b. Some b \<in> set bs \<and> b \<in> dom heap}"

lemma heads_simps [simp]:
  "heads heap [] = {}" "heads heap (None # bs) = heads heap bs"
  "heads heap (Some a # bs) = (if a \<in> dom heap then insert a (heads heap bs) else heads heap bs)"
  by (auto simp: heads_def)

lemma each_branch_visits:
  assumes call: "\<And>b w w'. f b w = Some (Inr w') \<Longrightarrow>
      \<exists>vis. visits heap name (heads heap [b]) w vis w' \<and> heads heap [b] \<subseteq> set (snd w')"
  shows "each_branch f bs w = Some (Inr w') \<Longrightarrow>
      \<exists>vis. visits heap name (heads heap bs) w vis w' \<and> heads heap bs \<subseteq> set (snd w')"
proof (induction bs arbitrary: w)
  case Nil
  then have "w' = w" by simp
  then show ?case using visits_Nil [of heap name "{}" w] by (intro exI [of _ "[]"]) simp
next
  case (Cons b bs)
  then obtain w1 where w1: "f b w = Some (Inr w1)" "each_branch f bs w1 = Some (Inr w')"
    by (auto split: option.splits sum.splits)
  from call [OF w1(1)] obtain v1 where v1: "visits heap name (heads heap [b]) w v1 w1" "heads heap [b] \<subseteq> set (snd w1)" by blast
  from Cons.IH [OF w1(2)] obtain v2 where v2: "visits heap name (heads heap bs) w1 v2 w'" "heads heap bs \<subseteq> set (snd w')" by blast
  have "heads heap (b # bs) = heads heap [b] \<union> heads heap bs" by (auto simp: heads_def)
  moreover have "set (snd w1) \<subseteq> set (snd w')" using v2(1) by (simp add: visits_def)
  ultimately show ?case using visits_append [OF v1(1) v2(1)] v1(2) v2(2)
    by (intro exI [of _ "v1 @ v2"]) auto
qed

lemma collectProps_visits:
  "collectProps fuel heap name s w = Some (Inr w') \<Longrightarrow>
     \<exists>vis. visits heap name (heads heap [s]) w vis w' \<and> heads heap [s] \<subseteq> set (snd w')"
proof (induction fuel arbitrary: s w w')
  case (Suc fuel)
  obtain out seen where w: "w = (out, seen)" by fastforce
  show ?case
  proof (cases "Option.bind s heap")
    case None
    then have "heads heap [s] = {}" by (cases s) (auto simp: heads_def)
    moreover have "w' = w" using Suc.prems None by (auto simp: w split: option.splits bind_splits)
    ultimately show ?thesis using visits_Nil [of heap name "{}" w] by (intro exI [of _ "[]"]) simp
  next
    case (Some sc)
    then obtain a where a: "s = Some a" "heap a = Some sc" by (cases s) auto
    have h: "heads heap [s] = {a}" using a by (auto simp: heads_def)
    show ?thesis
    proof (cases "a \<in> set seen")
      case True
      then have "w' = w" using Suc.prems a by (simp add: w)
      then show ?thesis using h True visits_Nil [of heap name "{a}" w] by (intro exI [of _ "[]"]) (simp add: w)
    next
      case False
      with Suc.prems a obtain out' where o: "add_properties name (sc_Properties sc) out = Inr out'"
        "each_branch (collectProps fuel heap name) (sc_AllOf sc) (out', a # seen) = Some (Inr w')"
        by (auto simp: w split: sum.splits)
      from each_branch_visits [OF Suc.IH o(2)] obtain vis where v:
        "visits heap name (heads heap (sc_AllOf sc)) (out', a # seen) vis w'" "heads heap (sc_AllOf sc) \<subseteq> set (snd w')"
        by blast
      have e: "allOf_edges heap `` {a} = heads heap (sc_AllOf sc)"
        using a(2) by (auto simp: allOf_edges_def heads_def)
      have "sm_Bounds out' = sm_Bounds out @ bounds_at heap name a"
        using add_properties_bounds [OF o(1), of "sc_Enum sc" "sc_AllOf sc"] a(2)
        by (cases sc) (simp add: bounds_at_def)
      moreover have "set vis \<subseteq> (allOf_edges heap)\<^sup>* `` {a}"
      proof -
        have "(allOf_edges heap)\<^sup>* `` heads heap (sc_AllOf sc) \<subseteq> (allOf_edges heap)\<^sup>* `` {a}"
          unfolding e [symmetric] by (auto intro: converse_rtrancl_into_rtrancl)
        with v(1) show ?thesis unfolding visits_def by blast
      qed
      ultimately have "visits heap name {a} w (a # vis) w'"
        using v False a(2) e unfolding visits_def w by (auto simp: Image_def)
      moreover have "a \<in> set (snd w')" using v(1) by (simp add: visits_def)
      ultimately show ?thesis unfolding h by blast
    qed
  qed
qed simp

text \<open>From an unseen start, the walk visits what is reachable.\<close>

lemma visits_reachable:
  assumes "visits heap name {a} (out, []) vis w'" and "a \<in> set (snd w')"
  shows "set vis = (allOf_edges heap)\<^sup>* `` {a}"
proof
  show "set vis \<subseteq> (allOf_edges heap)\<^sup>* `` {a}" using assms(1) by (simp add: visits_def)
  have v: "set (snd w') = set vis" "allOf_edges heap `` set vis \<subseteq> set vis"
    using assms(1) by (auto simp: visits_def)
  show "(allOf_edges heap)\<^sup>* `` {a} \<subseteq> set vis"
  proof
    fix b assume "b \<in> (allOf_edges heap)\<^sup>* `` {a}"
    then have "(a, b) \<in> (allOf_edges heap)\<^sup>*" by simp
    then show "b \<in> set vis" by (induction rule: rtrancl_induct) (use assms(2) v in auto)
  qed
qed

text \<open>More fuel changes nothing.\<close>

lemma each_branch_mono:
  assumes "\<And>b w r. f b w = Some r \<Longrightarrow> g b w = Some r"
  shows "each_branch f bs w = Some r \<Longrightarrow> each_branch g bs w = Some r"
  by (induction bs arbitrary: w) (auto split: option.splits sum.splits dest: assms)

lemma collectProps_mono: "collectProps fuel heap name s w = Some r \<Longrightarrow> collectProps (Suc fuel) heap name s w = Some r"
proof (induction fuel arbitrary: s w r)
  case (Suc fuel)
  obtain out seen where w: "w = (out, seen)" by fastforce
  show ?case
  proof (cases "Option.bind s heap")
    case None
    with Suc.prems show ?thesis by (cases s) (auto simp: w)
  next
    case (Some sc)
    then obtain a where a: "s = Some a" "heap a = Some sc" by (cases s) auto
    show ?thesis
    proof (cases "a \<in> set seen \<or> isl (add_properties name (sc_Properties sc) out)")
      case True
      with Suc.prems a show ?thesis by (auto simp: w split: sum.splits)
    next
      case False
      then obtain out' where o: "add_properties name (sc_Properties sc) out = Inr out'"
        by (cases "add_properties name (sc_Properties sc) out") auto
      have "each_branch (collectProps fuel heap name) (sc_AllOf sc) (out', a # seen) = Some r"
        using Suc.prems a False o by (simp add: w)
      from each_branch_mono [OF Suc.IH this] show ?thesis using a False o by (simp add: w)
    qed
  qed
qed simp

lemma scan_all_total:
  assumes "finite (dom heap)" and "card (dom heap) < fuel"
  shows "scan_all fuel heap out es \<noteq> None"
proof (induction es arbitrary: out)
  case (Cons e es)
  obtain name ref where e: "e = (name, ref)" by fastforce
  obtain r where r: "collectProps fuel heap name ref (out, []) = Some r"
    using collectProps_total [OF assms(1), of "(out, [])" fuel name ref] assms(2) by (auto simp: unseen_def)
  have "scan_schema fuel heap out e \<noteq> None"
    by (cases r) (simp_all add: scan_schema_def e r split: option.split sum.split prod.split)
  then show ?case using Cons.IH by (auto split: option.split sum.split)
qed simp

section \<open>Properties\<close>

text \<open>
  C34: the schema scan ends on every document, cyclic and shared \<open>allOf\<close> branches included: the
  number of schemas plus one is always enough depth for the walk.
\<close>

theorem ScanSchemas_terminates: "\<exists>r. ScanSchemas doc = Some r"
proof (cases doc)
  case (Some d)
  obtain cells named where d: "d = (cells, named)" by fastforce
  have "card (dom (map_of cells)) < Suc (length cells)"
    using card_length [of "map fst cells"] by (simp add: dom_map_of_conv_image_fst)
  then have "scan_all (Suc (length cells)) (map_of cells) empty_schemas named \<noteq> None"
    by (intro scan_all_total finite_dom_map_of)
  then show ?thesis by (auto simp: ScanSchemas_def Some d split: sum.split)
qed (simp add: ScanSchemas_def)

text \<open>
  C33: the walk from a schema covers exactly what it composes. When it succeeds, the schemas it has
  visited are those reachable through \<open>allOf\<close> from the named one, each once however many branches
  share it, and the bounds recorded are theirs, schema by schema in the order of the visits, under
  the name the walk started from.
\<close>

theorem collectProps_exact:
  assumes "collectProps fuel heap name (Some a) (out, []) = Some (Inr (out', seen))" and "a \<in> dom heap"
  shows "set seen = (allOf_edges heap)\<^sup>* `` {a} \<and> distinct seen \<and>
    sm_Bounds out' = sm_Bounds out @ concat (map (bounds_at heap name) (rev seen))"
proof -
  have h: "heads heap [Some a] = {a}" using assms(2) by (auto simp: heads_def)
  from collectProps_visits [OF assms(1)] obtain vis where
    v: "visits heap name {a} (out, []) vis (out', seen)" and a: "a \<in> set seen"
    unfolding h by auto
  have "seen = rev vis" "distinct vis" using v by (simp_all add: visits_def)
  with visits_reachable [OF v] a v show ?thesis by (simp add: visits_def)
qed

definition example_heap :: "(nat \<times> schema) list" where
  "example_heap =
     [(0, \<lparr>sc_Properties = [(''import_id'', \<lparr>pr_Ref = [], pr_Value = Some \<lparr>pv_MaxLength = Some 36, pv_Enum = []\<rparr>\<rparr>)],
           sc_Enum = [], sc_AllOf = [Some 1, None, Some 1]\<rparr>),
      (1, \<lparr>sc_Properties = [(''memo'', \<lparr>pr_Ref = [], pr_Value = Some \<lparr>pv_MaxLength = Some 500, pv_Enum = []\<rparr>\<rparr>)],
           sc_Enum = [], sc_AllOf = [Some 0]\<rparr>)]"

theorem collectProps_exact_witness:
  "\<exists>out seen. collectProps 3 (map_of example_heap) ''NewTransaction'' (Some 0) (empty_schemas, []) = Some (Inr (out, seen)) \<and>
     distinct seen \<and> set seen = {0, 1} \<and> set seen = (allOf_edges (map_of example_heap))\<^sup>* `` {0} \<and>
     BoundFor out ''NewTransaction'' ''memo'' = Some 500"
proof -
  let ?out = "\<lparr>sm_Bounds = [\<lparr>bd_Schema = ''NewTransaction'', bd_Property = ''import_id'', bd_MaxLength = 36\<rparr>,
       \<lparr>bd_Schema = ''NewTransaction'', bd_Property = ''memo'', bd_MaxLength = 500\<rparr>], sm_Enums = [], sm_PropEnums = []\<rparr>"
  have e: "collectProps 3 (map_of example_heap) ''NewTransaction'' (Some 0) (empty_schemas, []) = Some (Inr (?out, [1, 0]))"
    by (simp add: numeral_3_eq_3 example_heap_def empty_schemas_def add_property_def add_bound_def MaxInt_def)
  have b: "BoundFor ?out ''NewTransaction'' ''memo'' = Some 500" by (simp add: BoundFor_def)
  have "0 \<in> dom (map_of example_heap)" by (simp add: example_heap_def)
  from collectProps_exact [OF e this]
  have "set [1, 0] = (allOf_edges (map_of example_heap))\<^sup>* `` {0}" "distinct [1, 0 :: nat]" by blast+
  moreover have "set [1, 0] = {0, 1 :: nat}" by auto
  ultimately show ?thesis using e b by metis
qed

end
