(* ===== verification/Write_Fields.thy ===== *)
theory Write_Fields
  imports Json "HOL-Library.Sublist"
begin

text \<open>
  Reading a write payload off the wire: how the members of an object built from the field encoders
  are looked up, which keys such an object has, and the reading of a tri-state field wherever it
  stands.
\<close>

section \<open>Lookup\<close>

named_theorems member_lookup \<open>lookup of a key in an object built field by field\<close>

lemma map_of_opt_field [member_lookup]:
  "map_of (opt_field k enc x @ ms) k' =
     (if k' = k \<and> \<not> Optional_IsZero x then Some (Optional_MarshalJSON enc x) else map_of ms k')"
  "map_of (opt_field k enc x) k' =
     (if k' = k \<and> \<not> Optional_IsZero x then Some (Optional_MarshalJSON enc x) else None)"
  by (auto simp: opt_field_def)

lemma map_of_str_field [member_lookup]:
  "map_of (str_field k s @ ms) k' = (if k' = k \<and> s \<noteq> [] then Some (JStr s) else map_of ms k')"
  "map_of (str_field k s) k' = (if k' = k \<and> s \<noteq> [] then Some (JStr s) else None)"
  by (auto simp: str_field_def)

lemma map_of_plain_field [member_lookup]:
  "map_of (plain_field k v @ ms) k' = (if k' = k then Some v else map_of ms k')"
  "map_of (plain_field k v) k' = (if k' = k then Some v else None)"
  by (auto simp: plain_field_def)

section \<open>Keys\<close>

text \<open>The keys of such an object are a subsequence of the keys of its struct.\<close>

lemma keys_subseq:
  "subseq (map fst (opt_field k enc x)) [k]"
  "subseq (map fst (str_field k s)) [k]"
  "subseq (map fst (plain_field k v)) [k]"
  "subseq (map fst a) [k] \<Longrightarrow> subseq (map fst b) ks \<Longrightarrow> subseq (map fst (a @ b)) (k # ks)"
proof -
  show "subseq (map fst (opt_field k enc x)) [k]" by (simp add: opt_field_def)
  show "subseq (map fst (str_field k s)) [k]" by (simp add: str_field_def)
  show "subseq (map fst (plain_field k v)) [k]" by (simp add: plain_field_def)
  assume "subseq (map fst a) [k]" "subseq (map fst b) ks"
  then show "subseq (map fst (a @ b)) (k # ks)"
    using list_emb_append_mono [of "(=)" "map fst a" "[k]" "map fst b" ks] by simp
qed

lemma subseq_set: "subseq xs ys \<Longrightarrow> x \<in> set xs \<Longrightarrow> x \<in> set ys"
  by (erule list_emb_set) auto

lemma distinct_subseq: "subseq xs ys \<Longrightarrow> distinct ys \<Longrightarrow> distinct xs"
  by (induction rule: list_emb.induct) (auto dest: subseq_set)

lemma keys_distinct: "subseq (map fst ms) ks \<Longrightarrow> distinct ks \<Longrightarrow> distinct (map fst ms)"
  by (rule distinct_subseq)

lemma keys_subset: "subseq (map fst ms) ks \<Longrightarrow> fst ` set ms \<subseteq> set ks"
  using subseq_set [of "map fst ms" ks] by auto

section \<open>Tri-state fields\<close>

context field_codec begin

lemma read_by_lookup:
  assumes "field_ok ok x"
    and "map_of ms k = (if Optional_IsZero x then None else Some (Optional_MarshalJSON enc x))"
  shows "read_change dec k (JObj ms) = Some (change_of x)"
proof -
  have "read_change dec k (JObj ([] @ opt_field k enc x @ [])) = Some (change_of x)"
    by (rule read_opt_field [OF assms(1)]) simp_all
  moreover have "map_of (opt_field k enc x) k = map_of ms k"
    by (simp add: member_lookup assms(2))
  ultimately show ?thesis by (simp add: read_change_def)
qed

end

text \<open>A field of a type whose every value encodes.\<close>

lemma field_ok_True [simp]: "field_ok (\<lambda>_. True) x"
  by (simp add: field_ok_def)

lemmas read_str = json_str_codec.read_by_lookup [OF field_ok_True]
lemmas read_bool = json_bool_codec.read_by_lookup [OF field_ok_True]
lemmas read_amount = json_amount_codec.read_by_lookup [OF field_ok_True]
lemmas read_date = json_date_codec.read_by_lookup

lemma not_zero_lookup: "(if \<not> z then Some v else None) = (if z then None else Some v)"
  by simp

end
