(* ===== verification/Service_Laws.thy ===== *)
theory Service_Laws
  imports Plans Write_Fields
begin

text \<open>
  What the other services guarantee: the window of scheduled dates, the folded 404 of the scheduled
  list, the tri-state writes of categories and scheduled transactions, and the cursor discipline of
  the full-plan delta.
\<close>

section \<open>The scheduled window\<close>

lemma AddMonths_60:
  assumes "real_date today"
  shows "real_date (Date_AddMonths today 60)"
    and "Date_Time (Date_AddMonths today 60) = day_number (d_year today + 5) (d_month today) (d_day today)"
proof -
  have c: "civil_of (Date_Time today) = (d_year today, d_month today, d_day today)"
    using assms by (simp add: Date_Time_real real_date_def civil_of_day_number)
  have m: "1 \<le> d_month today" "d_month today \<le> 12" using assms by (simp_all add: real_date_def valid_ymd_def)
  have z: "\<not> Date_IsZero today" using assms by (rule real_date_not_zero)
  have "(d_month today + 60 - 1) div 12 = 5 \<and> (d_month today + 60 - 1) mod 12 = d_month today - 1"
    using m by presburger
  with c z m show "Date_Time (Date_AddMonths today 60) = day_number (d_year today + 5) (d_month today) (d_day today)"
    by (simp add: Date_AddMonths_def time_AddDate_def time_Date_def)
  show "real_date (Date_AddMonths today 60)" using z by (simp add: Date_AddMonths_def)
qed

lemma Date_order:
  assumes "real_date d" and "real_date e"
  shows "Date_Before d e \<longleftrightarrow> Date_Time d < Date_Time e" and "Date_After d e \<longleftrightarrow> Date_Time e < Date_Time d"
  using Date_Compare_Date_Time [OF assms]
  by (simp_all add: Date_Before_def Date_After_def cmp_Compare_def)

lemma scheduled_window:
  assumes "real_date today" and "real_date d"
  shows "checkScheduledDate today op d = None \<longleftrightarrow> Date_Time today \<le> Date_Time d \<and>
    Date_Time d \<le> day_number (d_year today + 5) (d_month today) (d_day today)"
  using real_date_not_zero [OF assms(2)] Date_order [OF assms(2,1)]
    Date_order [OF assms(2) AddMonths_60(1) [OF assms(1)]] AddMonths_60(2) [OF assms(1)]
  by (auto simp: checkScheduledDate_def)

text \<open>
  C29: a scheduled date is accepted exactly in the window from today to the same day five years on,
  both ends included, where five years from a February 29 without a counterpart is March 1; the
  zero date is refused as missing; and an update without a date is judged by its text bounds alone.
\<close>

theorem scheduled_window_exact:
  assumes "real_date today" and "real_date d"
  shows "(checkScheduledDate today op d = None \<longleftrightarrow> Date_Time today \<le> Date_Time d \<and>
      Date_Time d \<le> day_number (d_year today + 5) (d_month today) (d_day today)) \<and>
    checkScheduledDate today op zero_Date = Some \<lparr>ae_Op = op, ae_Field = ''date'', ae_Reason = ''date is required''\<rparr> \<and>
    (ScheduledTransactionUpdate_validate today op (u\<lparr>stu_Date := unset z\<rparr>) = None \<longleftrightarrow>
      opt_max 200 (stu_PayeeName u) \<and> opt_max 500 (stu_Memo u)) \<and>
    (ScheduledTransactionSpec_validate today op (s\<lparr>sts_Date := d\<rparr>) = None \<longleftrightarrow>
      checkScheduledDate today op d = None \<and> opt_max 200 (sts_PayeeName s) \<and> opt_max 500 (sts_Memo s))"
  using scheduled_window [OF assms, of op]
  by (simp add: checkScheduledDate_def [of today op zero_Date] Date_IsZero_def
      ScheduledTransactionUpdate_validate_def ScheduledTransactionSpec_validate_def unset_def Optional_Get_def
      errFirst_None checkOptRuneMax_None transactionPayeeNameMax_def memoMax_def del: errFirst.simps)

theorem scheduled_window_exact_witness:
  "checkScheduledDate \<lparr>d_year = 2028, d_month = 2, d_day = 29\<rparr> ''op'' \<lparr>d_year = 2033, d_month = 3, d_day = 1\<rparr> = None \<and>
   checkScheduledDate \<lparr>d_year = 2028, d_month = 2, d_day = 29\<rparr> ''op'' \<lparr>d_year = 2033, d_month = 3, d_day = 2\<rparr> \<noteq> None"
proof -
  have r: "real_date \<lparr>d_year = 2028, d_month = 2, d_day = 29\<rparr>" "real_date \<lparr>d_year = 2033, d_month = 3, d_day = 1\<rparr>"
    "real_date \<lparr>d_year = 2033, d_month = 3, d_day = 2\<rparr>" by code_simp+
  have "Date_Time \<lparr>d_year = 2028, d_month = 2, d_day = 29\<rparr> \<le> day_number 2033 2 29 \<and>
    Date_Time \<lparr>d_year = 2033, d_month = 3, d_day = 1\<rparr> = day_number 2033 2 29 \<and>
    Date_Time \<lparr>d_year = 2033, d_month = 3, d_day = 2\<rparr> = day_number 2033 2 29 + 1"
    by code_simp
  with scheduled_window_exact [OF r(1,2), of "''op''"] scheduled_window_exact [OF r(1,3), of "''op''"]
  show ?thesis by simp
qed

section \<open>The folded 404\<close>

text \<open>
  The scheduled list folds exactly the errors that match \<open>ErrNotFound\<close> into an empty, non-nil
  list with a zero cursor; every other outcome, and the trace, is that of the plain call. An API
  answer is folded exactly when its status is 404, whatever its id.
\<close>

theorem scheduled_list_folds_404:
  "(let plain = client_do env (p_client p) (None, 0)
       (with_knowledge ''scheduled_transactions'' (decode_records zero_ScheduledTransaction (ScheduledTransaction_fields env)))
       ''GET'' (Plan_path (p_id p) [''scheduled_transactions'']) (applyListOptions [] opts) None st in
    snd (Scheduled_List env p opts st) = snd plain \<and>
    fst (Scheduled_List env p opts st) =
      (case fst plain of
         Inr x \<Rightarrow> Inr x
       | Inl e \<Rightarrow> if errors_Is e (TSentinel ErrNotFound) then Inr (Some [], 0) else Inl e)) \<and>
   (errors_Is (EApi a) (TSentinel ErrNotFound) \<longleftrightarrow> e_StatusCode a = 404)"
proof -
  have "sentinelByID i \<noteq> Some ErrNotFound" for i by (auto simp: sentinelByID_def split: if_splits)
  then have "errors_Is (EApi a) (TSentinel ErrNotFound) \<longleftrightarrow> e_StatusCode a = 404"
    by (auto simp: errors_Is_EApi sentinelByStatus_def split: if_splits)
  then show ?thesis by (simp add: Scheduled_List_def Let_def fold_not_found_def)
qed

section \<open>Tri-state writes of the other services\<close>

text \<open>
  Category and scheduled updates keep the three states of their fields on the wire, the goal
  target's included, for which absence and \<open>null\<close> mean different things: unset keeps a target,
  \<open>SetNull\<close> clears it.
\<close>

theorem service_updates_read_back:
  assumes "field_ok wire_date (cu_GoalTargetDate c)" and "field_ok wire_date (stu_Date u)"
  shows "read_change dec_i64 ''goal_target'' (CategoryUpdate_json c) = Some (change_of (cu_GoalTarget c)) \<and>
    read_change dec_str ''name'' (CategoryUpdate_json c) = Some (change_of (cu_Name c)) \<and>
    read_change dec_str ''category_group_id'' (CategoryUpdate_json c) = Some (change_of (cu_GroupID c)) \<and>
    read_change dec_str ''note'' (CategoryUpdate_json c) = Some (change_of (cu_Note c)) \<and>
    read_change dec_date ''goal_target_date'' (CategoryUpdate_json c) = Some (change_of (cu_GoalTargetDate c)) \<and>
    read_change dec_bool ''goal_needs_whole_amount'' (CategoryUpdate_json c) = Some (change_of (cu_GoalNeedsWholeAmount c)) \<and>
    read_change dec_str ''account_id'' (ScheduledTransactionUpdate_json u) = Some (change_of (stu_AccountID u)) \<and>
    read_change dec_date ''date'' (ScheduledTransactionUpdate_json u) = Some (change_of (stu_Date u)) \<and>
    read_change dec_i64 ''amount'' (ScheduledTransactionUpdate_json u) = Some (change_of (stu_Amount u)) \<and>
    read_change dec_str ''payee_id'' (ScheduledTransactionUpdate_json u) = Some (change_of (stu_PayeeID u)) \<and>
    read_change dec_str ''payee_name'' (ScheduledTransactionUpdate_json u) = Some (change_of (stu_PayeeName u)) \<and>
    read_change dec_str ''category_id'' (ScheduledTransactionUpdate_json u) = Some (change_of (stu_CategoryID u)) \<and>
    read_change dec_str ''memo'' (ScheduledTransactionUpdate_json u) = Some (change_of (stu_Memo u)) \<and>
    read_change dec_str ''flag_color'' (ScheduledTransactionUpdate_json u) = Some (change_of (stu_FlagColor u))"
  unfolding CategoryUpdate_json_def ScheduledTransactionUpdate_json_def
  by (intro conjI read_str read_bool read_amount read_date assms)
    (simp_all add: CategoryUpdate_members_def ScheduledTransactionUpdate_members_def member_lookup del: map_of_append)

definition blank_category_update :: CategoryUpdate where
  "blank_category_update = \<lparr>cu_Name = unset [], cu_GroupID = unset [], cu_Note = unset [], cu_GoalTarget = unset 0,
     cu_GoalTargetDate = unset zero_Date, cu_GoalNeedsWholeAmount = unset False, cu_GoalFrequency = []\<rparr>"

definition blank_scheduled_update :: ScheduledTransactionUpdate where
  "blank_scheduled_update = \<lparr>stu_AccountID = unset [], stu_Date = unset zero_Date, stu_Amount = unset 0, stu_Frequency = [],
     stu_PayeeID = unset [], stu_PayeeName = unset [], stu_CategoryID = unset [], stu_Memo = unset [], stu_FlagColor = unset []\<rparr>"

theorem service_updates_read_back_witness:
  "read_change dec_i64 ''goal_target'' (CategoryUpdate_json (blank_category_update\<lparr>cu_GoalTarget := SetNull 0\<rparr>)) = Some Clear \<and>
   read_change dec_i64 ''goal_target'' (CategoryUpdate_json blank_category_update) = Some Keep"
proof -
  have k: "field_ok wire_date (cu_GoalTargetDate blank_category_update)"
    "field_ok wire_date (cu_GoalTargetDate (blank_category_update\<lparr>cu_GoalTarget := SetNull 0\<rparr>))"
    "field_ok wire_date (stu_Date blank_scheduled_update)"
    by (simp_all add: blank_category_update_def blank_scheduled_update_def field_ok_def unset_def)
  show ?thesis
    using service_updates_read_back [OF k(1,3)] service_updates_read_back [OF k(2,3)]
    by (simp add: blank_category_update_def)
qed

section \<open>The delta\<close>

lemma delta_guard_None:
  "delta_guard pid ss = None \<longleftrightarrow> (\<exists>s. ss = Some s \<and> (sy_PlanID s = pid \<or> sy_PlanID s = [] \<and> sy_Plan s = 0) \<and>
     (sy_PlanID s \<noteq> [] \<or> sy_Plan s = 0))"
  by (auto simp: delta_guard_def split: option.split)

text \<open>The fate of one call.\<close>

lemma Plan_Delta_cases:
  assumes "Plan_Delta env p ss st = ((out, ss'), st')"
  obtains (refused) e where "delta_guard (p_id p) ss = Some e" "out = Inl (EArg e)" "ss' = ss" "st' = st"
    | (failed) s e where "ss = Some s" "delta_guard (p_id p) ss = None"
      "Plan_Export env p (delta_options s) st = (Inl e, st')" "out = Inl e" "ss' = ss"
    | (advanced) s d sk where "ss = Some s" "delta_guard (p_id p) ss = None"
      "Plan_Export env p (delta_options s) st = (Inr (d, sk), st')" "out = Inr d"
      "ss' = Some (s\<lparr>sy_PlanID := p_id p, sy_Plan := sk\<rparr>)"
proof (cases "delta_guard (p_id p) ss")
  case None
  then obtain s where s: "ss = Some s" by (auto simp: delta_guard_None)
  obtain r st1 where x: "Plan_Export env p (delta_options s) st = (r, st1)" by fastforce
  have call: "Plan_Delta env p ss st = (case r of Inl e \<Rightarrow> ((Inl e, ss), st1)
      | Inr (d, sk) \<Rightarrow> ((Inr d, Some (s\<lparr>sy_PlanID := p_id p, sy_Plan := sk\<rparr>)), st1))"
    unfolding Plan_Delta_def None by (simp add: s x split: sum.split)
  show ?thesis
  proof (cases r)
    case (Inl e)
    have "out = Inl e" "ss' = ss" "st1 = st'" using assms unfolding call Inl by simp_all
    then show ?thesis using failed [OF s None] x Inl by blast
  next
    case (Inr y)
    obtain d sk where y: "y = (d, sk)" by fastforce
    have "out = Inr d" "ss' = Some (s\<lparr>sy_PlanID := p_id p, sy_Plan := sk\<rparr>)" "st1 = st'"
      using assms unfolding call Inr y by simp_all
    then show ?thesis using advanced [OF s None] x Inr y by blast
  qed
next
  case (Some e)
  have "out = Inl (EArg e)" "ss' = ss" "st' = st" using assms unfolding Plan_Delta_def Some by simp_all
  then show ?thesis by (rule refused [OF Some])
qed

lemma Plan_Export_empty: "isl (fst (Plan_Export env (Client_Plan c []) opts st))"
proof -
  have "empty_segment (JoinPath [''plans'', []])"
    using empty_segment_JoinPath [of "[''plans'', []]"] by simp
  then show ?thesis by (rule plan_export.empty_id_silent [THEN conjunct2])
qed

lemma Plan_Export_id: "Plan_Export env p opts st = (Inr x, st') \<Longrightarrow> p_id p \<noteq> []"
proof
  assume h: "Plan_Export env p opts st = (Inr x, st')" "p_id p = []"
  then have "p = Client_Plan (p_client p) []" by (cases p) (simp add: Client_Plan_def)
  then have "isl (fst (Plan_Export env p opts st))" by (metis Plan_Export_empty)
  with h(1) show False by simp
qed

text \<open>
  The life of a bundle: it starts empty, and calls of \<open>Delta\<close> on any plans, of any clients, in any
  worlds, are made with it. The log records the plan of each call that succeeded and the cursor the
  server gave.
\<close>

inductive delta_life :: "'w env \<Rightarrow> SyncState \<Rightarrow> (string \<times> ServerKnowledge) list \<Rightarrow> bool" for env :: "'w env" where
  fresh: "delta_life env zero_SyncState []"
| failure: "delta_life env s log \<Longrightarrow> Plan_Delta env p (Some s) st = ((Inl e, Some s'), st') \<Longrightarrow> delta_life env s' log"
| success: "delta_life env s log \<Longrightarrow> Plan_Delta env p (Some s) st = ((Inr d, Some s'), st') \<Longrightarrow>
    delta_life env s' (log @ [(p_id p, sy_Plan s')])"

definition service_cursors :: "SyncState \<Rightarrow> ServerKnowledge list" where
  "service_cursors s = [sy_Accounts s, sy_Categories s, sy_Months s, sy_Payees s, sy_Transactions s, sy_Scheduled s]"

definition attributed :: "SyncState \<Rightarrow> (string \<times> ServerKnowledge) list \<Rightarrow> bool" where
  "attributed s log \<longleftrightarrow>
     (if log = [] then s = zero_SyncState else sy_PlanID s \<noteq> [] \<and> sy_Plan s = snd (last log)) \<and>
     fst ` set log \<subseteq> {sy_PlanID s} \<and> service_cursors s = replicate 6 0"

lemma delta_life_attributed: "delta_life env s log \<Longrightarrow> attributed s log"
proof (induction rule: delta_life.induct)
  case fresh
  then show ?case by (simp add: attributed_def zero_SyncState_def service_cursors_def numeral_eq_Suc)
next
  case (failure s log p st e s' st')
  from failure.hyps(2) failure.IH show ?case by (cases rule: Plan_Delta_cases) auto
next
  case (success s log p st d s' st')
  from success.hyps(2) show ?case
  proof (cases rule: Plan_Delta_cases)
    case (advanced s1 d1 sk)
    have ne: "p_id p \<noteq> []" using advanced(3) by (rule Plan_Export_id)
    have s: "s1 = s" "s' = s\<lparr>sy_PlanID := p_id p, sy_Plan := sk\<rparr>" using advanced(1,5) by simp_all
    have g: "sy_PlanID s = p_id p \<or> sy_PlanID s = []" using advanced(1,2) by (auto simp: delta_guard_None)
    have a: "attributed s log" by (rule success.IH)
    then have "log = [] \<or> sy_PlanID s = p_id p" using g by (auto simp: attributed_def split: if_splits)
    with a have "fst ` set log \<subseteq> {p_id p}" by (auto simp: attributed_def)
    with a s ne show ?thesis by (simp add: attributed_def service_cursors_def)
  qed simp_all
qed

text \<open>
  C13: one call of \<open>Delta\<close> never moves the bundle but on success: an error, of the guard or of the
  export, leaves it untouched, and a guard error leaves the world untouched too; on success it
  carries this plan's id and the server's new knowledge, the per-service cursors stay, the bundle
  was this plan's or fresh, and the export was asked with exactly its cursor.
\<close>

theorem Delta_advances_on_success:
  "case Plan_Delta env p ss st of ((out, ss'), st') \<Rightarrow>
     (case out of
        Inl e \<Rightarrow> ss' = ss \<and> (st' = st \<or> delta_guard (p_id p) ss = None)
      | Inr d \<Rightarrow> (\<exists>s sk. ss = Some s \<and> ss' = Some (s\<lparr>sy_PlanID := p_id p, sy_Plan := sk\<rparr>) \<and>
          (sy_PlanID s = p_id p \<or> sy_PlanID s = [] \<and> sy_Plan s = 0) \<and>
          Plan_Export env p (if sy_Plan s = 0 then [] else [Since (sy_Plan s)]) st = (Inr (d, sk), st')))"
proof -
  obtain out ss' st' where x: "Plan_Delta env p ss st = ((out, ss'), st')" by (metis prod.collapse)
  then show ?thesis
  proof (cases rule: Plan_Delta_cases)
    case (advanced s d sk)
    have "sy_PlanID s = p_id p \<or> sy_PlanID s = [] \<and> sy_Plan s = 0"
      using advanced(1,2) by (auto simp: delta_guard_None)
    moreover have "delta_options s = (if sy_Plan s = 0 then [] else [Since (sy_Plan s)])"
      by (simp add: delta_options_def)
    ultimately show ?thesis unfolding x prod.case advanced(4) sum.case using advanced(1,3,5)
      by (intro exI [of _ s] exI [of _ sk]) simp
  next
    case (failed s e)
    show ?thesis unfolding x prod.case failed(4) sum.case using failed(2,5) by simp
  next
    case (refused e)
    show ?thesis unfolding x prod.case refused(2) sum.case using refused(3,4) by simp
  qed
qed

text \<open>A life with one successful call: a fresh bundle, a plan \<open>p\<close>, a server that answers knowledge 7.\<close>

definition delta_answer :: json where
  "delta_answer = JObj [(''data'', JObj [(''plan'', JObj []), (''server_knowledge'', json_int 7)])]"

text \<open>Any world that is scripted and parses that answer so.\<close>

lemma delta_example:
  fixes f g defines "e \<equiv> script_env\<lparr>env_json_value := f, env_json_text := g\<rparr>"
  assumes "f ''{}'' = Some delta_answer"
  shows "\<exists>st'. Plan_Delta e (Client_Plan example_client ''p'') (Some zero_SyncState) (scripted 200) =
    ((Inr (Some zero_PlanDetail), Some (zero_SyncState\<lparr>sy_PlanID := ''p'', sy_Plan := 7\<rparr>)), st')"
proof -
  let ?p = "Client_Plan example_client ''p''"
  have d: "decode_record zero_PlanDetail (PlanDetail_fields e) (JObj []) None = Some (Some zero_PlanDetail)"
    by (simp add: decode_pointer_def decode_struct_def)
  have k: "fold_key ''plan'' = ''plan''" "\<not> empty_segment (JoinPath [''plans'', ''p''])" by code_simp+
  have "decodeData (None, 0) (with_knowledge ''plan'' (decode_record zero_PlanDetail (PlanDetail_fields e))) (Some delta_answer) =
      Inr (Some zero_PlanDetail, 7)"
    unfolding delta_answer_def by (rule decodeData_with_knowledge [OF k(1)]) (simp, rule d)
  then have "fst (Plan_Export e ?p [] (scripted 200)) = Inr (Some zero_PlanDetail, 7)"
    unfolding Plan_Export_def export_path_def applyListOptions_def Client_Plan_def Plan.simps foldl_Nil e_def
    by (intro scripted_call_at [where v = delta_answer]) (use k(2) assms(2) in simp_all)
  then obtain st' where x: "Plan_Export e ?p [] (scripted 200) = (Inr (Some zero_PlanDetail, 7), st')"
    by (metis prod.collapse)
  then show ?thesis
    by (simp add: Plan_Delta_def delta_guard_def delta_options_def zero_SyncState_def Client_Plan_def Let_def)
qed

lemma delta_life_example:
  "delta_life (answering delta_answer) (zero_SyncState\<lparr>sy_PlanID := ''p'', sy_Plan := 7\<rparr>) [(''p'', 7)]"
proof -
  have "answering delta_answer =
      script_env\<lparr>env_json_value := \<lambda>_. Some delta_answer, env_json_text := env_json_text script_env\<rparr>"
    by (simp add: answering_def)
  with delta_example [of "\<lambda>_. Some delta_answer" "env_json_text script_env"]
  obtain st' where "Plan_Delta (answering delta_answer) (Client_Plan example_client ''p'') (Some zero_SyncState) (scripted 200) =
      ((Inr (Some zero_PlanDetail), Some (zero_SyncState\<lparr>sy_PlanID := ''p'', sy_Plan := 7\<rparr>)), st')"
    by (metis (no_types))
  from delta_life.success [OF delta_life.fresh this] show ?thesis by (simp add: Client_Plan_def)
qed

text \<open>
  C12: along every life of a bundle all the answers merged through it come from one plan, the plan
  the bundle is labelled with; its cursor is the last one that plan gave; the other cursors are
  never touched; and until the first success it is still the empty bundle.
\<close>

theorem Delta_one_plan_per_bundle:
  assumes "delta_life env s log"
  shows "fst ` set log \<subseteq> {sy_PlanID s} \<and>
    (if log = [] then s = zero_SyncState else sy_PlanID s \<noteq> [] \<and> sy_Plan s = snd (last log)) \<and>
    service_cursors s = replicate 6 0"
  using delta_life_attributed [OF assms] by (simp add: attributed_def)

theorem Delta_one_plan_per_bundle_witness:
  "delta_life (answering delta_answer) (zero_SyncState\<lparr>sy_PlanID := ''p'', sy_Plan := 7\<rparr>) [(''p'', 7)] \<and>
   service_cursors (zero_SyncState\<lparr>sy_PlanID := ''p'', sy_Plan := 7\<rparr>) = replicate 6 0"
  using Delta_one_plan_per_bundle [OF delta_life_example] delta_life_example by blast

end
