(* ===== verification/Delta_Sync.thy ===== *)
theory Delta_Sync
  imports Service_Laws
begin

text \<open>
  \<open>examples/delta-sync/main.go\<close>: the program that keeps a local store in step with a plan. It composes
  the client, the full-plan delta, the merge and the saved bundle, and adds the file the bundle lives
  in. The endless loop is cut off after a number of passes; a panic is an outcome. The disk is
  explicit, and every disk the program goes through is kept in a history, so a crash at any moment
  leaves one of them; like the trace, nothing reads it, nor the log of the passes. What is printed is
  not modelled.
\<close>

section \<open>Files\<close>

type_synonym disk = "string \<rightharpoonup> string"

definition statePath :: string where "statePath = ''synced-state.json''"

definition tmpPath :: string where "tmpPath = statePath @ ''.tmp''"

text \<open>
  What the operating system decides: whether a file can be read, how many bytes a failing write gets
  out (\<open>None\<close> when the file cannot even be opened), whether a rename fails, and, after a pass,
  whether the interrupt or the timer comes first.
\<close>

record 'w os =
  os_readable :: "'w \<Rightarrow> bool"
  os_write :: "'w \<Rightarrow> (gerr \<times> nat option) option \<times> 'w"
  os_rename :: "'w \<Rightarrow> gerr option \<times> 'w"
  os_select :: "'w \<Rightarrow> bool \<times> 'w"

record pass =
  pa_since :: ServerKnowledge
  pa_batch :: "TransactionBase list"
  pa_knowledge :: ServerKnowledge

record 'w proc =
  pr_st :: "'w state"
  pr_disk :: disk
  pr_history :: "disk list"
  pr_log :: "pass list"

definition set_world :: "'w \<Rightarrow> 'w proc \<Rightarrow> 'w proc" where
  "set_world w pr = pr\<lparr>pr_st := (pr_st pr)\<lparr>st_world := w\<rparr>\<rparr>"

text \<open>The disk becomes one after another of \<open>ds\<close>.\<close>

definition go_through :: "disk list \<Rightarrow> 'w proc \<Rightarrow> 'w proc" where
  "go_through ds pr = (if ds = [] then pr else pr\<lparr>pr_disk := last ds, pr_history := pr_history pr @ ds\<rparr>)"

text \<open>A write truncates the file and then appends byte after byte, \<open>n\<close> of them in all.\<close>

definition partial_writes :: "disk \<Rightarrow> string \<Rightarrow> string \<Rightarrow> nat \<Rightarrow> disk list" where
  "partial_writes d path raw n = map (\<lambda>i. d(path \<mapsto> take i raw)) [0..<Suc n]"

definition WriteFile :: "'w os \<Rightarrow> string \<Rightarrow> string \<Rightarrow> 'w proc \<Rightarrow> gerr option \<times> 'w proc" where
  "WriteFile os path raw pr = (case os_write os (st_world (pr_st pr)) of
     (None, w) \<Rightarrow> (None, go_through (partial_writes (pr_disk pr) path raw (length raw)) (set_world w pr))
   | (Some (e, None), w) \<Rightarrow> (Some e, set_world w pr)
   | (Some (e, Some n), w) \<Rightarrow> (Some e, go_through (partial_writes (pr_disk pr) path raw n) (set_world w pr)))"

definition Rename :: "'w os \<Rightarrow> string \<Rightarrow> string \<Rightarrow> 'w proc \<Rightarrow> gerr option \<times> 'w proc" where
  "Rename os from to pr = (case os_rename os (st_world (pr_st pr)) of
     (Some e, w) \<Rightarrow> (Some e, set_world w pr)
   | (None, w) \<Rightarrow> (None, go_through [(pr_disk pr)(to := pr_disk pr from, from := None)] (set_world w pr)))"

section \<open>The saved bundle\<close>

text \<open>
  \<open>json.Unmarshal\<close> with its error ignored: bytes that are no JSON change nothing, and a member that
  does not fit its field leaves that field alone.
\<close>

definition lenient_member :: "(string \<times> 's decoder) list \<Rightarrow> 's \<Rightarrow> string \<times> json \<Rightarrow> 's" where
  "lenient_member fs x m = (case decode_member fs (Some x) m of None \<Rightarrow> x | Some y \<Rightarrow> y)"

definition decode_lenient :: "(string \<times> 's decoder) list \<Rightarrow> json option \<Rightarrow> 's \<Rightarrow> 's" where
  "decode_lenient fs parsed x = (case parsed of
     Some (JObj ms) \<Rightarrow> foldl (lenient_member fs) x ms
   | _ \<Rightarrow> x)"

definition load_bundle :: "'w env \<Rightarrow> string option \<Rightarrow> SyncState" where
  "load_bundle env content = (case content of
     None \<Rightarrow> zero_SyncState
   | Some raw \<Rightarrow> decode_lenient SyncState_fields (env_json_value env raw) zero_SyncState)"

definition loadState :: "'w env \<Rightarrow> 'w os \<Rightarrow> 'w proc \<Rightarrow> SyncState" where
  "loadState env os pr =
     load_bundle env (if os_readable os (st_world (pr_st pr)) then pr_disk pr statePath else None)"

definition saveState :: "'w env \<Rightarrow> 'w os \<Rightarrow> SyncState \<Rightarrow> 'w proc \<Rightarrow> gerr option \<times> 'w proc" where
  "saveState env os s pr =
     (let raw = env_json_text env (SyncState_json s) in
      case WriteFile os tmpPath raw pr of
        (Some e, pr') \<Rightarrow> (Some e, pr')
      | (None, pr') \<Rightarrow> Rename os tmpPath statePath pr')"

section \<open>The loop\<close>

datatype outcome = Returned "gerr option" | Panicked | Running

type_synonym store = "(string \<rightharpoonup> TransactionBase) option"

text \<open>One pass; \<open>Running\<close> asks for the next.\<close>

definition sync_pass ::
  "'w env \<Rightarrow> 'w os \<Rightarrow> 'w Plan \<Rightarrow> store \<Rightarrow> SyncState \<Rightarrow> 'w proc \<Rightarrow> outcome \<times> store \<times> SyncState \<times> 'w proc"
where
  "sync_pass env os p store s pr =
     (case Plan_Delta env p (Some s) (pr_st pr) of
        ((Inl e, _), st) \<Rightarrow> (Returned (Some e), store, s, pr\<lparr>pr_st := st\<rparr>)
      | ((Inr None, ss), st) \<Rightarrow> (Panicked, store, the ss, pr\<lparr>pr_st := st\<rparr>)
      | ((Inr (Some detail), ss), st) \<Rightarrow>
          let s' = the ss;
              batch = elements (pd_Transactions detail);
              store' = MergeByID TransactionBase_SyncID TransactionBase_IsDeleted store batch;
              pr1 = pr\<lparr>pr_st := st,
                pr_log := pr_log pr @ [\<lparr>pa_since = sy_Plan s, pa_batch = batch, pa_knowledge = sy_Plan s'\<rparr>]\<rparr>
          in case saveState env os s' pr1 of
               (Some e, pr2) \<Rightarrow> (Returned (Some e), store', s', pr2)
             | (None, pr2) \<Rightarrow>
                 (case os_select os (st_world (pr_st pr2)) of
                    (True, w) \<Rightarrow> (Returned None, store', s', set_world w pr2)
                  | (False, w) \<Rightarrow> (Running, store', s', set_world w pr2)))"

fun sync_passes ::
  "nat \<Rightarrow> 'w env \<Rightarrow> 'w os \<Rightarrow> 'w Plan \<Rightarrow> store \<Rightarrow> SyncState \<Rightarrow> 'w proc \<Rightarrow> outcome \<times> store \<times> SyncState \<times> 'w proc"
where
  "sync_passes 0 env os p store s pr = (Running, store, s, pr)"
| "sync_passes (Suc n) env os p store s pr = (case sync_pass env os p store s pr of
     (Running, store', s', pr') \<Rightarrow> sync_passes n env os p store' s' pr'
   | (out, x) \<Rightarrow> (out, x))"

text \<open>\<open>run\<close>, given the environment variables, \<open>url.Parse\<close> and the default base URL.\<close>

definition sync_run ::
  "nat \<Rightarrow> 'w env \<Rightarrow> 'w os \<Rightarrow> (string \<Rightarrow> string) \<Rightarrow> (string \<Rightarrow> URL option) \<Rightarrow> URL \<Rightarrow> 'w proc \<Rightarrow>
   outcome \<times> store \<times> SyncState \<times> 'w proc"
where
  "sync_run n env os getenv parse base pr =
     (let client = New parse base (env_do env) (getenv ''YNAB_TOKEN'') [] in
      case Client_Plans env client [] (pr_st pr) of
        (Inl e, st) \<Rightarrow> (Returned (Some e), None, zero_SyncState, pr\<lparr>pr_st := st\<rparr>)
      | (Inr plans, st) \<Rightarrow>
          (case elements (pls_Plans plans) of
             [] \<Rightarrow> (Returned (Some (EPlain ''no plans reachable by this token'')), None, zero_SyncState, pr\<lparr>pr_st := st\<rparr>)
           | plan # _ \<Rightarrow>
               let pr' = pr\<lparr>pr_st := st\<rparr> in
               sync_passes n env os (Client_Plan client (ps_ID plan)) (Some Map.empty) (loadState env os pr') pr'))"

section \<open>What the disk goes through\<close>

lemma tmp_not_state [simp]: "tmpPath \<noteq> statePath" "statePath \<noteq> tmpPath"
  by (simp_all add: tmpPath_def)

lemma set_world_simps [simp]:
  "pr_disk (set_world w pr) = pr_disk pr" "pr_history (set_world w pr) = pr_history pr"
  "pr_log (set_world w pr) = pr_log pr"
  by (simp_all add: set_world_def)

lemma go_through_simps [simp]:
  "pr_history (go_through ds pr) = pr_history pr @ ds" "pr_log (go_through ds pr) = pr_log pr"
  "pr_disk (go_through ds pr) = (if ds = [] then pr_disk pr else last ds)"
  by (simp_all add: go_through_def)

text \<open>
  From \<open>pr\<close> to \<open>pr'\<close> every disk on the way, the last one included, holds under \<open>statePath\<close> a content
  that satisfies \<open>P\<close>.
\<close>

definition disks_keep :: "(string option \<Rightarrow> bool) \<Rightarrow> 'w proc \<Rightarrow> 'w proc \<Rightarrow> bool" where
  "disks_keep P pr pr' \<longleftrightarrow> P (pr_disk pr' statePath) \<and>
     (\<exists>ds. pr_history pr' = pr_history pr @ ds \<and> list_all (\<lambda>d. P (d statePath)) ds)"

lemma disks_keep_trans: "disks_keep P pr pr1 \<Longrightarrow> disks_keep P pr1 pr2 \<Longrightarrow> disks_keep P pr pr2"
  by (auto simp: disks_keep_def)

lemma disks_keep_go_through:
  "P (pr_disk pr statePath) \<Longrightarrow> list_all (\<lambda>d. P (d statePath)) ds \<Longrightarrow>
     disks_keep P pr (go_through ds (set_world w pr))"
  by (auto simp: disks_keep_def list_all_iff)

lemma disks_keep_set_world: "P (pr_disk pr statePath) \<Longrightarrow> disks_keep P pr (set_world w pr)"
  by (simp add: disks_keep_def)

lemma WriteFile_elsewhere:
  assumes "WriteFile os path raw pr = (r, pr')" and "path \<noteq> statePath" and "P (pr_disk pr statePath)"
  shows "disks_keep P pr pr' \<and> pr_log pr' = pr_log pr \<and> pr_disk pr' statePath = pr_disk pr statePath \<and>
    (r = None \<longrightarrow> pr_disk pr' path = Some raw)"
proof -
  have "list_all (\<lambda>d. d statePath = pr_disk pr statePath) (partial_writes (pr_disk pr) path raw n)" for n
    using assms(2) by (auto simp: partial_writes_def list_all_iff)
  moreover from this have "list_all (\<lambda>d. P (d statePath)) (partial_writes (pr_disk pr) path raw n)" for n
    using assms(3) by (auto simp: list_all_iff)
  moreover have "last (partial_writes (pr_disk pr) path raw n) = (pr_disk pr)(path \<mapsto> take n raw)"
    "partial_writes (pr_disk pr) path raw n \<noteq> []" for n
    by (simp_all add: partial_writes_def)
  ultimately show ?thesis using assms
    by (auto simp: WriteFile_def split: prod.splits option.splits intro!: disks_keep_go_through disks_keep_set_world)
qed

lemma saveState_disks:
  assumes "saveState env os s pr = (r, pr')" and "P (pr_disk pr statePath)"
    and "P (Some (env_json_text env (SyncState_json s)))"
  shows "disks_keep P pr pr' \<and> pr_log pr' = pr_log pr \<and>
    (r = None \<longrightarrow> pr_disk pr' statePath = Some (env_json_text env (SyncState_json s)))"
proof -
  let ?raw = "env_json_text env (SyncState_json s)"
  obtain r1 pr1 where w: "WriteFile os tmpPath ?raw pr = (r1, pr1)" by fastforce
  note k = WriteFile_elsewhere [OF w tmp_not_state(1), of P, OF assms(2)]
  show ?thesis
  proof (cases r1)
    case (Some e)
    then show ?thesis using assms(1) w k by (auto simp: saveState_def)
  next
    case None
    then have x: "Rename os tmpPath statePath pr1 = (r, pr')" using assms(1) w by (simp add: saveState_def)
    have raw: "pr_disk pr1 tmpPath = Some ?raw" "P (pr_disk pr1 statePath)" using k None assms(2) by simp_all
    then have "disks_keep P pr1 pr' \<and> pr_log pr' = pr_log pr1 \<and> (r = None \<longrightarrow> pr_disk pr' statePath = Some ?raw)"
      using x assms(3)
      by (auto simp: Rename_def split: prod.splits option.splits intro!: disks_keep_go_through disks_keep_set_world)
    with k show ?thesis using disks_keep_trans by (metis (no_types))
  qed
qed

section \<open>What the passes do\<close>

text \<open>The bundle a pass saves: the plan's label and the cursor the server gave.\<close>

definition bundle_at :: "SyncState \<Rightarrow> string \<Rightarrow> ServerKnowledge \<Rightarrow> SyncState" where
  "bundle_at s pid k = s\<lparr>sy_PlanID := pid, sy_Plan := k\<rparr>"

lemma bundle_at_again [simp]: "bundle_at (bundle_at s pid k) pid k' = bundle_at s pid k'"
  by (simp add: bundle_at_def)

text \<open>The fate of a pass.\<close>

lemma sync_pass_cases:
  assumes "sync_pass env os p store s pr = (out, store', s', pr')"
  obtains (failed) e where "out = Returned (Some e)" "store' = store" "s' = s"
      "pr_disk pr' = pr_disk pr" "pr_history pr' = pr_history pr" "pr_log pr' = pr_log pr"
    | (panicked) k where "out = Panicked" "store' = store" "s' = bundle_at s (p_id p) k"
      "pr_disk pr' = pr_disk pr" "pr_history pr' = pr_history pr" "pr_log pr' = pr_log pr"
    | (merged) k batch pr1 r pr2 where
      "store' = MergeByID TransactionBase_SyncID TransactionBase_IsDeleted store batch"
      "s' = bundle_at s (p_id p) k"
      "pr_disk pr1 = pr_disk pr" "pr_history pr1 = pr_history pr"
      "pr_log pr1 = pr_log pr @ [\<lparr>pa_since = sy_Plan s, pa_batch = batch, pa_knowledge = k\<rparr>]"
      "saveState env os s' pr1 = (r, pr2)"
      "pr_disk pr' = pr_disk pr2" "pr_history pr' = pr_history pr2" "pr_log pr' = pr_log pr2"
      "r = None \<or> (\<exists>e. out = Returned (Some e))" "out \<noteq> Panicked"
proof -
  obtain res ss st where x: "Plan_Delta env p (Some s) (pr_st pr) = ((res, ss), st)" by (metis prod.collapse)
  show ?thesis
  proof (cases res)
    case (Inl e)
    with assms x failed show ?thesis by (auto simp: sync_pass_def)
  next
    case (Inr detail)
    from x obtain k where ss: "ss = Some (bundle_at s (p_id p) k)"
      by (cases rule: Plan_Delta_cases) (use Inr in \<open>auto simp: bundle_at_def\<close>)
    show ?thesis
    proof (cases detail)
      case None
      with assms x Inr ss panicked [of k] show ?thesis by (auto simp: sync_pass_def)
    next
      case (Some d)
      let ?s' = "bundle_at s (p_id p) k" and ?batch = "elements (pd_Transactions d)"
      let ?pr1 = "pr\<lparr>pr_st := st, pr_log := pr_log pr @ [\<lparr>pa_since = sy_Plan s, pa_batch = ?batch, pa_knowledge = k\<rparr>]\<rparr>"
      obtain r pr2 where v: "saveState env os ?s' ?pr1 = (r, pr2)" by fastforce
      obtain stop w where sel: "os_select os (st_world (pr_st pr2)) = (stop, w)" by fastforce
      have "sy_Plan ?s' = k" by (simp add: bundle_at_def)
      then have run: "sync_pass env os p store s pr = (case r of
            Some e \<Rightarrow> (Returned (Some e), MergeByID TransactionBase_SyncID TransactionBase_IsDeleted store ?batch, ?s', pr2)
          | None \<Rightarrow> (if stop then Returned None else Running,
              MergeByID TransactionBase_SyncID TransactionBase_IsDeleted store ?batch, ?s', set_world w pr2))"
        using x Inr Some ss v sel by (simp add: sync_pass_def Let_def split: option.split bool.split)
      then have s': "s' = ?s'" using assms by (simp split: option.splits)
      show ?thesis
        by (rule merged [of ?batch k ?pr1 r pr2])
          (use assms run v s' in \<open>simp_all split: option.splits if_splits\<close>, auto)
    qed
  qed
qed

text \<open>What is merged, and which cursor each pass asks from.\<close>

definition merged :: "store \<Rightarrow> pass list \<Rightarrow> store" where
  "merged store log = MergeByID TransactionBase_SyncID TransactionBase_IsDeleted store (concat (map pa_batch log))"

lemma merged_simps:
  "merged (Some m) [] = Some m" "merged (merged store log) log' = merged store (log @ log')"
  by (simp_all add: merged_def MergeByID_def)

text \<open>Each pass asks from where the one before it arrived: the chain of the cursors.\<close>

definition chained :: "ServerKnowledge \<Rightarrow> pass list \<Rightarrow> ServerKnowledge \<Rightarrow> bool" where
  "chained k log k' \<longleftrightarrow> map pa_since log @ [k'] = k # map pa_knowledge log"

lemma chained_Nil [simp]: "chained k [] k' \<longleftrightarrow> k' = k"
  by (simp add: chained_def)

lemma chained_Cons [simp]: "chained k (a # log) k' \<longleftrightarrow> pa_since a = k \<and> chained (pa_knowledge a) log k'"
  by (auto simp: chained_def)

lemma sync_pass_step:
  assumes "sync_pass env os p (Some m) s pr = (out, store', s', pr')"
  shows "\<exists>log. pr_log pr' = pr_log pr @ log \<and> store' = merged (Some m) log \<and>
    (out = Panicked \<or> chained (sy_Plan s) log (sy_Plan s')) \<and> length log \<le> 1 \<and>
    (s' = s \<or> (\<exists>k. s' = bundle_at s (p_id p) k))"
  using assms
proof (cases rule: sync_pass_cases)
  case (merged k batch pr1 r pr2)
  have "pr_log pr2 = pr_log pr1" using saveState_disks [OF merged(6), of "\<lambda>_. True"] by simp
  then have "pr_log pr' = pr_log pr @ [\<lparr>pa_since = sy_Plan s, pa_batch = batch, pa_knowledge = k\<rparr>]"
    using merged(5,9) by simp
  moreover have "sy_Plan s' = k" using merged(2) by (simp add: bundle_at_def)
  ultimately show ?thesis using merged(1,2)
    by (intro exI [of _ "[\<lparr>pa_since = sy_Plan s, pa_batch = batch, pa_knowledge = k\<rparr>]"]) (auto simp: merged_def)
qed (auto simp: merged_simps intro!: exI [of _ "[]"])

lemma sync_passes_run:
  "sync_passes n env os p (Some m) s pr = (out, store', s', pr') \<Longrightarrow>
    \<exists>log. pr_log pr' = pr_log pr @ log \<and> store' = merged (Some m) log \<and> length log \<le> n \<and>
      (out = Panicked \<or> chained (sy_Plan s) log (sy_Plan s'))"
proof (induction n arbitrary: m s pr)
  case 0
  then show ?case by (auto simp: merged_simps)
next
  case (Suc n)
  obtain o1 store1 s1 pr1 where x: "sync_pass env os p (Some m) s pr = (o1, store1, s1, pr1)" by (metis prod_cases4)
  from sync_pass_step [OF x] obtain log where l: "pr_log pr1 = pr_log pr @ log" "store1 = merged (Some m) log"
    "o1 = Panicked \<or> chained (sy_Plan s) log (sy_Plan s1)" "length log \<le> 1" by blast
  show ?case
  proof (cases "o1 = Running")
    case False
    then have "out = o1 \<and> store' = store1 \<and> s' = s1 \<and> pr' = pr1"
      using Suc.prems x by (cases o1) auto
    with l show ?thesis by (intro exI [of _ log]) auto
  next
    case True
    obtain m1 where m1: "store1 = Some m1" using l(2) by (simp add: merged_def MergeByID_def)
    have "sync_passes n env os p (Some m1) s1 pr1 = (out, store', s', pr')" using Suc.prems x True m1 by simp
    from Suc.IH [OF this] obtain log' where l': "pr_log pr' = pr_log pr1 @ log'" "store' = merged (Some m1) log'"
      "length log' \<le> n" "out = Panicked \<or> chained (sy_Plan s1) log' (sy_Plan s')" by blast
    have "store' = merged (Some m) (log @ log')" using l'(2) l(2) m1 merged_simps(2) by metis
    moreover have "chained (sy_Plan s) (log @ log') (sy_Plan s')" if "chained (sy_Plan s1) log' (sy_Plan s')"
      using that l(3,4) True by (cases log) (auto simp: Suc_le_eq)
    ultimately show ?thesis using l l' by (intro exI [of _ "log @ log'"]) auto
  qed
qed

lemma sync_pass_disks:
  assumes "sync_pass env os p store s pr = (out, store', s', pr')" and "P (pr_disk pr statePath)"
    and "\<And>a. a \<in> set (pr_log pr') \<Longrightarrow> P (Some (env_json_text env (SyncState_json (bundle_at s (p_id p) (pa_knowledge a)))))"
  shows "disks_keep P pr pr' \<and> set (pr_log pr) \<subseteq> set (pr_log pr') \<and>
    (out = Running \<or> out = Returned None \<longrightarrow>
       pr_disk pr' statePath = Some (env_json_text env (SyncState_json s')) \<and> (\<exists>k. s' = bundle_at s (p_id p) k))"
  using assms(1)
proof (cases rule: sync_pass_cases)
  case (merged k batch pr1 r pr2)
  have log: "pr_log pr2 = pr_log pr1" using saveState_disks [OF merged(6), of "\<lambda>_. True"] by simp
  then have "P (Some (env_json_text env (SyncState_json s')))"
    using assms(3) [of "\<lparr>pa_since = sy_Plan s, pa_batch = batch, pa_knowledge = k\<rparr>"] merged(2,5,9) by simp
  with saveState_disks [OF merged(6), of P] assms(2) merged(3) have
    "disks_keep P pr1 pr2" "r = None \<longrightarrow> pr_disk pr2 statePath = Some (env_json_text env (SyncState_json s'))" by auto
  with merged log show ?thesis by (auto simp: disks_keep_def)
qed (use assms(2) in \<open>auto simp: disks_keep_def\<close>)

lemma sync_passes_disks:
  "sync_passes n env os p store s pr = (out, store', s', pr') \<Longrightarrow> P (pr_disk pr statePath) \<Longrightarrow>
    (\<And>a. a \<in> set (pr_log pr') \<Longrightarrow> P (Some (env_json_text env (SyncState_json (bundle_at s (p_id p) (pa_knowledge a)))))) \<Longrightarrow>
    disks_keep P pr pr' \<and> set (pr_log pr) \<subseteq> set (pr_log pr') \<and>
    (out = Returned None \<longrightarrow>
       pr_disk pr' statePath = Some (env_json_text env (SyncState_json s')) \<and> (\<exists>k. s' = bundle_at s (p_id p) k))"
proof (induction n arbitrary: store s pr P)
  case 0
  then show ?case by (auto simp: disks_keep_def)
next
  case (Suc n)
  obtain o1 store1 s1 pr1 where x: "sync_pass env os p store s pr = (o1, store1, s1, pr1)" by (metis prod_cases4)
  show ?case
  proof (cases "o1 = Running")
    case False
    then have "out = o1" "store' = store1" "s' = s1" "pr' = pr1" using Suc.prems(1) x by (cases o1; simp)+
    with sync_pass_disks [OF x, of P] Suc.prems(2,3) show ?thesis by auto
  next
    case True
    have run: "sync_passes n env os p store1 s1 pr1 = (out, store', s', pr')" using Suc.prems(1) x True by simp
    have sub: "set (pr_log pr1) \<subseteq> set (pr_log pr')"
      using Suc.IH [OF run, of "\<lambda>_. True"] by blast
    with sync_pass_disks [OF x, of P] Suc.prems(2,3) True have one: "disks_keep P pr pr1"
      "set (pr_log pr) \<subseteq> set (pr_log pr1)" "\<exists>k. s1 = bundle_at s (p_id p) k" by auto
    have "P (pr_disk pr1 statePath)" using one(1) by (simp add: disks_keep_def)
    from Suc.IH [OF run, of P, OF this] Suc.prems(3) one(3) have
      "disks_keep P pr1 pr'" "out = Returned None \<longrightarrow>
         pr_disk pr' statePath = Some (env_json_text env (SyncState_json s')) \<and> (\<exists>k. s' = bundle_at s (p_id p) k)"
      by auto
    with one sub disks_keep_trans show ?thesis by blast
  qed
qed

section \<open>Loading\<close>

lemma lenient_agrees: "foldl (decode_member fs) (Some x) ms = Some y \<Longrightarrow> foldl (lenient_member fs) x ms = y"
proof (induction ms arbitrary: x)
  case (Cons m ms)
  have none: "foldl (decode_member fs) None ms = None" by (induction ms) (simp_all add: decode_member_def)
  with Cons show ?case by (cases "decode_member fs (Some x) m") (simp_all add: lenient_member_def)
qed simp

lemma load_bundle_saved:
  assumes "map_option plain (env_json_value env raw) = Some (SyncState_json s)"
  shows "load_bundle env (Some raw) = s"
proof -
  obtain v where v: "env_json_value env raw = Some v" "plain v = SyncState_json s" using assms by auto
  then obtain ms where ms: "v = JObj ms" by (auto simp: SyncState_json_def plain_JObj)
  have "blind (decode_struct SyncState_fields)" by (rule blind_struct) (simp add: SyncState_fields_def)
  with SyncState_json_decode [of s] v(2) have "decode_struct SyncState_fields v zero_SyncState = Some s"
    by (metis blind_def)
  with ms have "foldl (decode_member SyncState_fields) (Some zero_SyncState) ms = Some s"
    by (simp add: decode_struct_def)
  then show ?thesis using v(1) ms lenient_agrees by (simp add: load_bundle_def decode_lenient_def)
qed

lemma plain_SyncState [simp]: "plain (SyncState_json s) = SyncState_json s"
  by (simp add: SyncState_json_def plain_field_def cursor_field_def json_int_def)

section \<open>Properties\<close>

text \<open>
  C15: what a process of the example holds. However many passes it makes and however it ends, its store
  is the merge, into the empty store it starts with, of exactly the batches its own passes fetched, and
  each pass asks from the cursor the one before it saved, the first from the loaded one. So an id no
  batch of this process carries is not in the store: after a restart from a saved cursor the store
  holds what changed since, and not the plan.
\<close>

theorem sync_store_exact:
  "case sync_passes n env os p (Some Map.empty) s pr of (out, store, s', pr') \<Rightarrow>
     \<exists>log. pr_log pr' = pr_log pr @ log \<and> length log \<le> n \<and>
       (out = Panicked \<or> map pa_since log @ [sy_Plan s'] = sy_Plan s # map pa_knowledge log) \<and>
       store = MergeByID TransactionBase_SyncID TransactionBase_IsDeleted (Some Map.empty) (concat (map pa_batch log)) \<and>
       store_of store k = (case find (\<lambda>t. tb_ID t = k) (rev (concat (map pa_batch log))) of
          None \<Rightarrow> None | Some t \<Rightarrow> if tb_Deleted t then None else Some t)"
proof -
  obtain out store s' pr' where x: "sync_passes n env os p (Some Map.empty) s pr = (out, store, s', pr')"
    by (metis prod_cases4)
  from sync_passes_run [OF x, unfolded merged_def chained_def] obtain log where
    "pr_log pr' = pr_log pr @ log" "length log \<le> n"
    "out = Panicked \<or> map pa_since log @ [sy_Plan s'] = sy_Plan s # map pa_knowledge log"
    and store: "store = MergeByID TransactionBase_SyncID TransactionBase_IsDeleted (Some Map.empty)
      (concat (map pa_batch log))" by blast
  moreover have "store_of store k = (case find (\<lambda>t. tb_ID t = k) (rev (concat (map pa_batch log))) of
      None \<Rightarrow> None | Some t \<Rightarrow> if tb_Deleted t then None else Some t)"
    unfolding store MergeByID_lookup
    by (simp add: TransactionBase_SyncID_def [abs_def] TransactionBase_IsDeleted_def store_of_def cong: option.case_cong)
  ultimately show ?thesis unfolding x prod.case by blast
qed

text \<open>
  C14: a crash never costs the cursor. On every disk a process goes through, half-written files
  included, the saved file is the one it started with or loads as this plan's bundle with a cursor the
  server gave in one of its passes; and a process that returns without an error has left the bundle it
  ends with. What the code relies on is that the text of a bundle parses back to it, escapes aside.
\<close>

theorem crash_keeps_a_cursor:
  assumes "\<And>k. map_option plain (env_json_value env (env_json_text env (SyncState_json (bundle_at s (p_id p) k)))) =
      Some (SyncState_json (bundle_at s (p_id p) k))"
    and "sync_passes n env os p store s pr = (out, store', s', pr')"
    and "pr_history pr = []"
  shows "list_all (\<lambda>d. d statePath = pr_disk pr statePath \<or>
        load_bundle env (d statePath) \<in> (\<lambda>a. bundle_at s (p_id p) (pa_knowledge a)) ` set (pr_log pr')) (pr_history pr') \<and>
    (out = Returned None \<longrightarrow> load_bundle env (pr_disk pr' statePath) = s')"
proof -
  let ?text = "\<lambda>k. env_json_text env (SyncState_json (bundle_at s (p_id p) k))"
  have load: "load_bundle env (Some (?text k)) = bundle_at s (p_id p) k" for k
    by (rule load_bundle_saved) (rule assms(1))
  let ?P = "\<lambda>c. c = pr_disk pr statePath \<or> load_bundle env c \<in> (\<lambda>a. bundle_at s (p_id p) (pa_knowledge a)) ` set (pr_log pr')"
  have "disks_keep ?P pr pr' \<and> set (pr_log pr) \<subseteq> set (pr_log pr') \<and> (out = Returned None \<longrightarrow>
      pr_disk pr' statePath = Some (env_json_text env (SyncState_json s')) \<and> (\<exists>k. s' = bundle_at s (p_id p) k))"
    by (rule sync_passes_disks [OF assms(2)]) (simp_all add: load)
  with assms(3) load show ?thesis by (auto simp: disks_keep_def)
qed

text \<open>A world that answers one export, in which the file system never fails and the interrupt comes after a pass.\<close>

definition calm_os :: "'w os" where
  "calm_os = \<lparr>os_readable = \<lambda>_. True, os_write = \<lambda>w. (None, w), os_rename = \<lambda>w. (None, w), os_select = \<lambda>w. (True, w)\<rparr>"

definition cursor_text :: "json \<Rightarrow> string" where
  "cursor_text v = (case member_of ''plan'' v of Some (JNum t) \<Rightarrow> t | _ \<Rightarrow> ''0'')"

definition cursor_value :: "string \<Rightarrow> json option" where
  "cursor_value raw = (if raw = ''{}'' then Some delta_answer else case ParseInt raw of
     Inr k \<Rightarrow> Some (SyncState_json (bundle_at zero_SyncState ''p'' k)) | Inl _ \<Rightarrow> None)"

definition disk_env :: "(gerr + response) list env" where
  "disk_env = script_env\<lparr>env_json_value := cursor_value, env_json_text := cursor_text\<rparr>"

definition fresh_proc :: "(gerr + response) list proc" where
  "fresh_proc = \<lparr>pr_st = scripted 200, pr_disk = Map.empty, pr_history = [], pr_log = []\<rparr>"

lemma cursor_parses:
  "env_json_value disk_env (env_json_text disk_env (SyncState_json (bundle_at zero_SyncState ''p'' k))) =
     Some (SyncState_json (bundle_at zero_SyncState ''p'' k))"
proof (cases "k = 0")
  case True
  have "ParseInt ''0'' = Inr 0" by code_simp
  with True show ?thesis
    by (simp add: disk_env_def cursor_text_def cursor_value_def SyncState_json_def bundle_at_def zero_SyncState_def
        plain_field_def cursor_field_def)
next
  case False
  have "ParseInt ''{}'' = Inl ErrSyntax" by code_simp
  then have "dec_int (sint k) \<noteq> ''{}''" using ParseInt_dec_int [of k] by (metis sum.distinct(1))
  with False show ?thesis
    by (simp add: disk_env_def cursor_text_def cursor_value_def SyncState_json_def bundle_at_def zero_SyncState_def
        plain_field_def cursor_field_def json_int_def ParseInt_dec_int)
qed

theorem crash_keeps_a_cursor_witness:
  "\<exists>out store' s' pr'. sync_passes 1 disk_env calm_os (Client_Plan example_client ''p'') (Some Map.empty) zero_SyncState
      fresh_proc = (out, store', s', pr') \<and> out = Returned None \<and> sy_Plan s' = 7 \<and> length (pr_history pr') = 3 \<and>
    load_bundle disk_env (pr_disk pr' statePath) = s'"
proof -
  let ?p = "Client_Plan example_client ''p''" and ?s' = "bundle_at zero_SyncState ''p'' 7"
  have pid: "p_id ?p = ''p''" by (simp add: Client_Plan_def)
  obtain st' where d: "Plan_Delta disk_env ?p (Some zero_SyncState) (scripted 200) =
      ((Inr (Some zero_PlanDetail), Some ?s'), st')"
    using delta_example [of cursor_value cursor_text] by (auto simp: disk_env_def cursor_value_def bundle_at_def)
  have seven: "dec_int (sint (7 :: 64 word)) = ''7''" by code_simp
  have t: "env_json_text disk_env (SyncState_json ?s') = ''7''"
    using seven by (simp add: disk_env_def cursor_text_def SyncState_json_def bundle_at_def zero_SyncState_def
        plain_field_def cursor_field_def json_int_def)
  obtain pr' where run: "sync_passes 1 disk_env calm_os ?p (Some Map.empty) zero_SyncState fresh_proc =
      (Returned None, Some Map.empty, ?s', pr')" and "length (pr_history pr') = 3"
    using d t by (simp add: fresh_proc_def sync_pass_def Let_def MergeByID_def elements_def zero_PlanDetail_def
        saveState_def WriteFile_def Rename_def calm_os_def partial_writes_def go_through_def set_world_def)
  from crash_keeps_a_cursor [OF _ run] have "load_bundle disk_env (pr_disk pr' statePath) = ?s'"
    using cursor_parses by (simp add: pid fresh_proc_def)
  with run \<open>length (pr_history pr') = 3\<close> show ?thesis by (auto simp: bundle_at_def)
qed

end
