(* ===== verification/Transaction_Laws.thy ===== *)
theory Transaction_Laws
  imports Transactions Write_Fields
begin

text \<open>
  What the transaction writes guarantee: which specs and updates pass the pre-flight checks, which
  complaint a batch raises, what a patch and an update look like on the wire, and what a filter
  encodes to.
\<close>

section \<open>The checks\<close>

definition leg_ok :: "SubtransactionSpec \<Rightarrow> bool" where
  "leg_ok leg \<longleftrightarrow> opt_max 200 (ss_PayeeName leg) \<and> opt_max 500 (ss_Memo leg)"

lemma leg_check_None: "leg_check op leg = None \<longleftrightarrow> leg_ok leg"
  by (simp add: leg_check_def errFirst_None checkOptRuneMax_None leg_ok_def transactionPayeeNameMax_def memoMax_def
      del: errFirst.simps)

lemma check_legs_ok:
  "list_all leg_ok legs \<Longrightarrow> check_legs op i acc legs = Inr (acc + sum_list (map ss_Amount legs))"
  by (induction legs arbitrary: i acc) (auto simp: leg_check_None [THEN iffD2] Add_def add.assoc)

lemma check_legs_bad:
  "\<not> list_all leg_ok legs \<Longrightarrow> \<exists>e. check_legs op i acc legs = Inl e"
proof (induction legs arbitrary: i acc)
  case (Cons leg legs)
  then show ?case
    using leg_check_None [of op leg] by (cases "leg_check op leg") auto
qed simp

definition spec_bounds :: "TransactionSpec \<Rightarrow> bool" where
  "spec_bounds s \<longleftrightarrow> opt_max 36 (ts_ImportID s) \<and> opt_max 200 (ts_PayeeName s) \<and> opt_max 500 (ts_Memo s)"

lemma validate_iff:
  "TransactionSpec_validate op s = None \<longleftrightarrow> spec_bounds s \<and>
     (elements (ts_Splits s) = [] \<or>
      list_all leg_ok (elements (ts_Splits s)) \<and>
      sum_list (map ss_Amount (elements (ts_Splits s))) = ts_Amount s)"
proof -
  have b: "errFirst
        [checkOptRuneMax op ''import_id'' (ts_ImportID s) importIDMax,
         checkOptRuneMax op ''payee_name'' (ts_PayeeName s) transactionPayeeNameMax,
         checkOptRuneMax op ''memo'' (ts_Memo s) memoMax] = None \<longleftrightarrow> spec_bounds s"
    by (simp add: errFirst_None checkOptRuneMax_None spec_bounds_def importIDMax_def
        transactionPayeeNameMax_def memoMax_def del: errFirst.simps)
  have l: "(case check_legs op 0 0 legs of Inl e \<Rightarrow> Some e
      | Inr acc \<Rightarrow> if acc \<noteq> a then Some e' else None) = None \<longleftrightarrow>
      list_all leg_ok legs \<and> sum_list (map ss_Amount legs) = a" for legs a e'
    using check_legs_ok [of legs op 0 0] check_legs_bad [of legs op 0 0]
    by (cases "list_all leg_ok legs") auto
  show ?thesis
    using l b by (cases "ts_Splits s")
      (auto simp del: errFirst.simps simp: TransactionSpec_validate_def elements_def split: option.split)
qed

lemma sum_words_zero: "(sum_list (map ss_Amount legs) = (a :: i64)) \<longleftrightarrow>
    (18446744073709551616 :: int) dvd sum_list (map (\<lambda>l. sint (ss_Amount l)) legs) - sint a"
proof -
  let ?n = "sum_list (map (\<lambda>l. sint (ss_Amount l)) legs)"
  have w: "sum_list (map ss_Amount legs) = word_of_int ?n"
    by (simp add: word_of_int_sum_list comp_def)
  have "(word_of_int ?n :: i64) = word_of_int (sint a) \<longleftrightarrow>
      take_bit 64 ?n = take_bit 64 (sint a)"
    by (subst word_of_int_eq_iff) simp
  then have "sum_list (map ss_Amount legs) = a \<longleftrightarrow> take_bit 64 ?n = take_bit 64 (sint a)"
    by (simp only: w word_of_int_sint_i64)
  then show ?thesis by (simp add: take_bit_eq_mod mod_eq_dvd_iff)
qed

text \<open>The first complaint of a loop.\<close>

lemma first_complaint_None: "first_complaint chk i xs = None \<longleftrightarrow> (\<forall>j<length xs. chk (i + j) (xs ! j) = None)"
  by (induction xs arbitrary: i) (auto simp: less_Suc_eq_0_disj split: option.split)

lemma first_complaint_Some:
  assumes "j < length xs" and "chk (i + j) (xs ! j) = Some e"
    and "\<And>k. k < j \<Longrightarrow> chk (i + k) (xs ! k) = None"
  shows "first_complaint chk i xs = Some e"
  using assms
proof (induction xs arbitrary: i j)
  case (Cons x xs)
  show ?case
  proof (cases j)
    case 0
    with Cons.prems show ?thesis by simp
  next
    case (Suc k)
    have "chk i x = None" using Cons.prems(3) [of 0] Suc by simp
    moreover have "first_complaint chk (Suc i) xs = Some e"
      using Cons.prems(1,2) Cons.prems(3) [of "Suc _"] Suc
      by (intro Cons.IH [of k]) simp_all
    ultimately show ?thesis by simp
  qed
qed simp

lemma SplitEven_sum:
  assumes "0 < sint n" and "SplitEven m n = Inr ps"
  shows "sum_list (map sint ps) = sint m"
proof -
  obtain qs where "SplitEven m n = Inr qs"
    and "map sint qs = map (even_part (sint m) (sint n)) [0..<nat (sint n)]"
    using SplitEven_parts [OF assms(1)] by blast
  with assms even_part_sum [OF assms(1)] show ?thesis by simp
qed

section \<open>Members\<close>

definition update_keys :: "string list" where
  "update_keys = [''account_id'', ''date'', ''amount'', ''payee_id'', ''payee_name'', ''category_id'',
     ''memo'', ''cleared'', ''approved'', ''flag_color'']"

lemma update_members_subseq: "subseq (map fst (TransactionUpdate_members u)) update_keys"
  unfolding TransactionUpdate_members_def update_keys_def by (intro keys_subseq)

lemma update_keys_distinct: "distinct (''id'' # ''import_id'' # update_keys)"
  by (simp add: update_keys_def)

lemma update_members_keys:
  "distinct (map fst (TransactionUpdate_members u))"
  "''id'' \<notin> fst ` set (TransactionUpdate_members u)" "''import_id'' \<notin> fst ` set (TransactionUpdate_members u)"
  using keys_distinct [OF update_members_subseq, of u] keys_subset [OF update_members_subseq, of u]
    update_keys_distinct by auto

text \<open>Writing out a map: the members sorted by key, every one of them once.\<close>

lemma marshal_map_update:
  assumes "distinct (map fst ms)" and "k \<notin> fst ` set ms"
  shows "\<exists>out. marshal_map (AList.update k v ms) = JObj out \<and> sorted (map fst out) \<and>
    distinct (map fst out) \<and> set out = insert (k, v) (set ms)"
proof (intro exI conjI)
  have u: "AList.update k v ms = ms @ [(k, v)]"
    using assms(2) by (induction ms) auto
  let ?out = "sort_key fst (AList.update k v ms)"
  show "marshal_map (AList.update k v ms) = JObj ?out" by (simp add: marshal_map_def)
  show "sorted (map fst ?out)" by simp
  have "mset (map fst ?out) = mset (map fst (AList.update k v ms))" by simp
  moreover have "distinct (map fst (AList.update k v ms))" using assms u by (auto simp: image_iff)
  ultimately show "distinct (map fst ?out)" using mset_eq_imp_distinct_iff by blast
  show "set ?out = insert (k, v) (set ms)" using u by auto
qed

section \<open>Properties\<close>

text \<open>
  C18: the pre-flight check of a transaction accepts exactly the specs within the documented bounds
  whose legs, when there are any, are within theirs and sum to the amount; the sum is taken in
  \<open>int64\<close>, so what is compared is the sum of the leg amounts modulo \<open>2^64\<close>.
\<close>

theorem TransactionSpec_validate_exact:
  "TransactionSpec_validate op s = None \<longleftrightarrow>
     opt_max 36 (ts_ImportID s) \<and> opt_max 200 (ts_PayeeName s) \<and> opt_max 500 (ts_Memo s) \<and>
     (elements (ts_Splits s) = [] \<or>
      list_all (\<lambda>l. opt_max 200 (ss_PayeeName l) \<and> opt_max 500 (ss_Memo l)) (elements (ts_Splits s)) \<and>
      (18446744073709551616 :: int) dvd
        sum_list (map (\<lambda>l. sint (ss_Amount l)) (elements (ts_Splits s))) - sint (ts_Amount s))"
  by (simp only: validate_iff spec_bounds_def sum_words_zero leg_ok_def [abs_def] conj_assoc)

text \<open>
  C20: the documented recipe works: legs that carry the parts of \<open>SplitEven\<close> of the amount, and stay
  within the bounds, always pass the check, for every amount and every number of legs.
\<close>

theorem SplitEven_legs_pass:
  assumes "SplitEven (ts_Amount s) n = Inr (map ss_Amount legs)" and "ts_Splits s = Some legs"
    and "spec_bounds s" and "list_all leg_ok legs"
  shows "TransactionSpec_validate op s = None"
proof -
  have n: "0 < sint n"
    using assms(1) by (cases "n \<le>s 0") (auto simp: SplitEven_def word_sle_eq)
  from SplitEven_sum [OF n assms(1)]
  have "sum_list (map ss_Amount legs) = ts_Amount s"
    by (simp only: sum_words_zero) (simp add: comp_def)
  with assms show ?thesis by (simp add: validate_iff elements_def)
qed

definition example_leg :: "i64 \<Rightarrow> SubtransactionSpec" where
  "example_leg a = \<lparr>ss_Amount = a, ss_PayeeID = unset [], ss_PayeeName = unset [], ss_CategoryID = Set_Optional ''c'',
     ss_Memo = unset []\<rparr>"

definition example_spec :: "i64 \<Rightarrow> SubtransactionSpec list option \<Rightarrow> string Optional \<Rightarrow> TransactionSpec" where
  "example_spec a legs import =
     \<lparr>ts_AccountID = ''a'', ts_Date = \<lparr>d_year = 2026, d_month = 7, d_day = 20\<rparr>, ts_Amount = a, ts_PayeeID = unset [],
      ts_PayeeName = unset [], ts_CategoryID = SetNull [], ts_Memo = unset [], ts_Cleared = [],
      ts_Approved = unset False, ts_FlagColor = unset [], ts_ImportID = import, ts_Splits = legs\<rparr>"

lemma example_ok: "leg_ok (example_leg a)" "spec_bounds (example_spec a legs (unset []))"
  by (simp_all add: leg_ok_def spec_bounds_def example_leg_def example_spec_def opt_max_def unset_def)

theorem SplitEven_legs_pass_witness:
  "TransactionSpec_validate ''op'' (example_spec (- 100) (Some (map example_leg [- 34, - 33, - 33])) (unset [])) = None"
proof (rule SplitEven_legs_pass [where n = 3 and legs = "map example_leg [- 34, - 33, - 33]"])
  show "SplitEven (ts_Amount (example_spec (- 100) (Some (map example_leg [- 34, - 33, - 33])) (unset []))) 3 =
      Inr (map ss_Amount (map example_leg [- 34, - 33, - 33]))"
    by code_simp
qed (simp_all add: example_ok, simp add: example_spec_def)

text \<open>
  A batch is refused by its first bad spec, named by position: when every spec before it passes
  and it does not, the call answers that spec's complaint with \<open>(spec i)\<close> appended to the reason,
  before the client is consulted, and nothing is sent.
\<close>

theorem CreateBatch_first_bad_spec:
  assumes "i < length specs" and "TransactionSpec_validate ''Transactions.CreateBatch'' (specs ! i) = Some e"
    and "list_all (\<lambda>s. TransactionSpec_validate ''Transactions.CreateBatch'' s = None) (take i specs)"
  shows "Transactions_CreateBatch env p (Some specs) st =
    (Inl (EArg (e\<lparr>ae_Reason := ae_Reason e @ '' (spec '' @ dec_nat i @ '')''\<rparr>)), st)"
proof -
  have "TransactionSpec_validate ''Transactions.CreateBatch'' (specs ! k) = None" if "k < i" for k
    using assms(1,3) that by (auto simp: list_all_length)
  then have "first_complaint spec_complaint 0 specs = Some (at_index ''spec'' i e)"
    using assms(1,2) by (intro first_complaint_Some [of i]) (simp_all add: spec_complaint_def)
  then show ?thesis by (simp add: Transactions_CreateBatch_def elements_def at_index_def)
qed

theorem CreateBatch_first_bad_spec_witness:
  "Transactions_CreateBatch script_env (Client_Plan example_client ''p'') (Some [example_spec 5 None (unset []), example_spec 5 (Some [example_leg 4]) (unset [])]) \<lparr>st_world = [], st_trace = []\<rparr> =
    (Inl (EArg \<lparr>ae_Op = ''Transactions.CreateBatch'', ae_Field = [],
       ae_Reason = ''split amounts must sum exactly to Amount (spec 1)''\<rparr>), \<lparr>st_world = [], st_trace = []\<rparr>)"
proof -
  let ?specs = "[example_spec 5 None (unset []), example_spec 5 (Some [example_leg 4]) (unset [])]"
  have e: "TransactionSpec_validate ''Transactions.CreateBatch'' (?specs ! 1) =
      Some \<lparr>ae_Op = ''Transactions.CreateBatch'', ae_Field = [], ae_Reason = ''split amounts must sum exactly to Amount''\<rparr>"
    by code_simp
  have ok: "list_all (\<lambda>s. TransactionSpec_validate ''Transactions.CreateBatch'' s = None) (take 1 ?specs)"
    by code_simp
  have n: "dec_nat 1 = ''1''" by code_simp
  show ?thesis using CreateBatch_first_bad_spec [OF _ e ok] n by simp
qed

text \<open>
  C21: a patch carries exactly one identity. Its object holds every member of the update and one key
  more, \<open>id\<close> when the patch has an id and \<open>import_id\<close> otherwise, never both, the keys in order and
  none twice; a patch without identity does not encode.
\<close>

theorem patch_one_identity:
  "case TransactionPatch_MarshalJSON p of
     Inl _ \<Rightarrow> tp_id p = [] \<and> tp_importID p = []
   | Inr v \<Rightarrow> (\<exists>ms. v = JObj ms \<and> sorted (map fst ms) \<and> distinct (map fst ms) \<and>
       (tp_id p \<noteq> [] \<and> set ms = insert (''id'', JStr (tp_id p)) (set (TransactionUpdate_members (tp_update p))) \<and>
          ''import_id'' \<notin> fst ` set ms \<or>
        tp_id p = [] \<and> tp_importID p \<noteq> [] \<and>
          set ms = insert (''import_id'', JStr (tp_importID p)) (set (TransactionUpdate_members (tp_update p))) \<and>
          ''id'' \<notin> fst ` set ms))"
proof -
  let ?m = "TransactionUpdate_members (tp_update p)"
  note k = update_members_keys [of "tp_update p"]
  obtain o1 where o1: "marshal_map (AList.update ''id'' (JStr (tp_id p)) ?m) = JObj o1" "sorted (map fst o1)"
    "distinct (map fst o1)" "set o1 = insert (''id'', JStr (tp_id p)) (set ?m)"
    using marshal_map_update [OF k(1,2)] by blast
  obtain o2 where o2: "marshal_map (AList.update ''import_id'' (JStr (tp_importID p)) ?m) = JObj o2" "sorted (map fst o2)"
    "distinct (map fst o2)" "set o2 = insert (''import_id'', JStr (tp_importID p)) (set ?m)"
    using marshal_map_update [OF k(1,3)] by blast
  have "''import_id'' \<notin> fst ` set o1" "''id'' \<notin> fst ` set o2" using k o1(4) o2(4) by auto
  with o1 o2 show ?thesis
    by (cases "tp_id p = []"; cases "tp_importID p = []") (simp_all add: TransactionPatch_MarshalJSON_def Let_def)
qed


text \<open>
  A filter encodes to exactly the parameters of its set fields: each of the four keys is there
  once, with the field's value, when the field is not zero, and absent otherwise; there is no other
  key, and the zero filter encodes to no query at all.
\<close>

theorem filter_encode_exact:
  "map_of (TransactionFilter_encode f) k =
     (if k = ''since_date'' \<and> \<not> Date_IsZero (tf_SinceDate f) then Some [Date_String (tf_SinceDate f)]
      else if k = ''until_date'' \<and> \<not> Date_IsZero (tf_UntilDate f) then Some [Date_String (tf_UntilDate f)]
      else if k = ''type'' \<and> tf_Type f \<noteq> [] then Some [tf_Type f]
      else if k = ''last_knowledge_of_server'' \<and> tf_Since f \<noteq> 0 then Some [dec_int (sint (tf_Since f))]
      else None) \<and>
   distinct (map fst (TransactionFilter_encode f)) \<and>
   (TransactionFilter_encode f = [] \<longleftrightarrow>
      tf_SinceDate f = zero_Date \<and> tf_UntilDate f = zero_Date \<and> tf_Type f = [] \<and> tf_Since f = 0)"
proof -
  have m: "map_of (set_if c k v q) k' = (if c \<and> k' = k then Some [v] else map_of q k')" for c k v q k'
    by (simp add: set_if_def Values_Set_def update_conv')
  have d: "distinct (map fst (set_if c k v q))" if "distinct (map fst q)" for c k v q
    using that by (simp add: set_if_def Values_Set_def distinct_update)
  have n: "set_if c k v q = [] \<longleftrightarrow> \<not> c \<and> q = []" for c k v q
    by (cases q) (auto simp: set_if_def Values_Set_def)
  show ?thesis
    unfolding TransactionFilter_encode_def
    by (intro conjI d) (auto simp: m n Date_IsZero_def)
qed

text \<open>
  C22: the ten fields of an update keep their three states on the wire: reading its object back, an
  unset field is absent, a nulled one is \<open>null\<close>, a set one reads as its value; a cleared status
  appears exactly when it is not empty. The date, when set, is one the wire can carry.
\<close>

theorem update_reads_back:
  assumes "field_ok wire_date (tu_Date u)"
  shows "read_change dec_str ''account_id'' (TransactionUpdate_json u) = Some (change_of (tu_AccountID u)) \<and>
    read_change dec_date ''date'' (TransactionUpdate_json u) = Some (change_of (tu_Date u)) \<and>
    read_change dec_i64 ''amount'' (TransactionUpdate_json u) = Some (change_of (tu_Amount u)) \<and>
    read_change dec_str ''payee_id'' (TransactionUpdate_json u) = Some (change_of (tu_PayeeID u)) \<and>
    read_change dec_str ''payee_name'' (TransactionUpdate_json u) = Some (change_of (tu_PayeeName u)) \<and>
    read_change dec_str ''category_id'' (TransactionUpdate_json u) = Some (change_of (tu_CategoryID u)) \<and>
    read_change dec_str ''memo'' (TransactionUpdate_json u) = Some (change_of (tu_Memo u)) \<and>
    read_change dec_bool ''approved'' (TransactionUpdate_json u) = Some (change_of (tu_Approved u)) \<and>
    read_change dec_str ''flag_color'' (TransactionUpdate_json u) = Some (change_of (tu_FlagColor u)) \<and>
    member_of ''cleared'' (TransactionUpdate_json u) =
      (if tu_Cleared u = [] then None else Some (JStr (tu_Cleared u)))"
  unfolding TransactionUpdate_json_def
  by (intro conjI read_str read_bool read_amount read_date assms)
    (simp_all add: TransactionUpdate_members_def member_lookup del: map_of_append)

theorem update_reads_back_witness:
  "read_change dec_str ''memo'' (TransactionUpdate_json
     \<lparr>tu_AccountID = unset [], tu_Date = Set_Optional \<lparr>d_year = 2026, d_month = 7, d_day = 20\<rparr>, tu_Amount = unset 0,
      tu_PayeeID = unset [], tu_PayeeName = unset [], tu_CategoryID = SetNull [], tu_Memo = Set_Optional ''x'',
      tu_Cleared = [], tu_Approved = unset False, tu_FlagColor = Set_Optional []\<rparr>) = Some (Put ''x'')"
proof -
  let ?u = "\<lparr>tu_AccountID = unset [], tu_Date = Set_Optional \<lparr>d_year = 2026, d_month = 7, d_day = 20\<rparr>, tu_Amount = unset 0,
      tu_PayeeID = unset [], tu_PayeeName = unset [], tu_CategoryID = SetNull [], tu_Memo = Set_Optional ''x'',
      tu_Cleared = [], tu_Approved = unset False, tu_FlagColor = Set_Optional []\<rparr>"
  have "wire_date \<lparr>d_year = 2026, d_month = 7, d_day = 20\<rparr>" by code_simp
  then have "field_ok wire_date (tu_Date ?u)" by (simp add: field_ok_def Set_Optional_def)
  from update_reads_back [OF this] show ?thesis by simp
qed

end
