(* ===== verification/Examples.thy ===== *)
theory Examples
  imports Delta_Sync Transaction_Laws
begin

text \<open>
  The programs under \<open>examples/\<close>: \<open>quickstart\<close>, \<open>split-transaction\<close>, \<open>testing-with-mock\<close> and the end
  of \<open>delta-sync\<close>, whose loop is in \<open>Delta_Sync\<close>. A program is a function of its environment and its world to how it ends and what
  it has printed on standard output; the log lines on standard error are not modelled.
\<close>

section \<open>Programs\<close>

datatype ending = Ended | Exit1 | Panic

text \<open>\<open>%-ns\<close> and \<open>%ns\<close>: padding counts code points and never cuts.\<close>

definition pad_right :: "nat \<Rightarrow> string \<Rightarrow> string" where
  "pad_right n s = s @ replicate (n - RuneCount s) CHR 0x20"

definition pad_left :: "nat \<Rightarrow> string \<Rightarrow> string" where
  "pad_left n s = replicate (n - RuneCount s) CHR 0x20 @ s"

definition newline :: string where "newline = [CHR 0x0A]"

section \<open>delta-sync\<close>

text \<open>\<open>main\<close> of the program of \<open>Delta_Sync\<close>, cut off after \<open>n\<close> passes: how it ends, if it has by then.\<close>

definition sync_main ::
  "nat \<Rightarrow> 'w env \<Rightarrow> 'w os \<Rightarrow> (string \<Rightarrow> string) \<Rightarrow> (string \<Rightarrow> URL option) \<Rightarrow> URL \<Rightarrow> 'w proc \<Rightarrow> ending option"
where
  "sync_main n env os getenv parse base pr = (case fst (sync_run n env os getenv parse base pr) of
     Returned None \<Rightarrow> Some Ended | Returned (Some e) \<Rightarrow> Some Exit1 | Panicked \<Rightarrow> Some Panic | Running \<Rightarrow> None)"

section \<open>quickstart\<close>

definition quickstart_line :: "Account \<Rightarrow> string" where
  "quickstart_line a = pad_right 28 (ab_Name a) @ '' '' @ pad_left 14 (ac_BalanceFormatted a) @ newline"

definition quickstart_main ::
  "(string \<Rightarrow> string) \<Rightarrow> (string \<Rightarrow> URL option) \<Rightarrow> URL \<Rightarrow> 'w env \<Rightarrow> 'w state \<Rightarrow> (ending \<times> string) \<times> 'w state"
where
  "quickstart_main getenv parse base env st =
     (let client = New parse base (env_do env) (getenv ''YNAB_TOKEN'') [];
          plan = Client_Plan client PlanIDLastUsed
      in case Accounts_List env plan [] st of
           (Inl e, st') \<Rightarrow> ((Exit1, []), st')
         | (Inr (accounts, _), st') \<Rightarrow> ((Ended, concat (map quickstart_line (elements accounts))), st'))"

section \<open>split-transaction\<close>

definition split_leg :: "nat \<Rightarrow> Milliunits \<Rightarrow> SubtransactionSpec" where
  "split_leg i leg = \<lparr>ss_Amount = leg, ss_PayeeID = unset [], ss_PayeeName = unset [], ss_CategoryID = unset [],
     ss_Memo = Set_Optional (''leg '' @ dec_nat (Suc i))\<rparr>"

text \<open>The legs are appended to a nil slice, which stays nil without a leg.\<close>

definition split_spec :: "string \<Rightarrow> Date \<Rightarrow> Milliunits \<Rightarrow> Milliunits list \<Rightarrow> TransactionSpec" where
  "split_spec accountID today amount legs =
     \<lparr>ts_AccountID = accountID, ts_Date = today, ts_Amount = amount, ts_PayeeID = unset [],
      ts_PayeeName = Set_Optional ''Example Store'', ts_CategoryID = SetNull [], ts_Memo = unset [], ts_Cleared = [],
      ts_Approved = unset False, ts_FlagColor = unset [], ts_ImportID = unset [],
      ts_Splits = (if legs = [] then None else Some (map (\<lambda>(i, leg). split_leg i leg) (enumerate 0 legs)))\<rparr>"

definition split_report :: "Transaction \<Rightarrow> string" where
  "split_report tx =
     ''created split '' @ tb_ID tx @ '' ('' @ tr_AmountFormatted tx @ '') with ''
       @ dec_nat (length (elements (tr_Subtransactions tx))) @ '' legs:'' @ newline
     @ concat (map (\<lambda>leg. ''  '' @ su_AmountFormatted leg @ newline) (elements (tr_Subtransactions tx)))"

definition split_main ::
  "(string \<Rightarrow> string) \<Rightarrow> Date \<Rightarrow> (string \<Rightarrow> URL option) \<Rightarrow> URL \<Rightarrow> 'w env \<Rightarrow> 'w state \<Rightarrow> (ending \<times> string) \<times> 'w state"
where
  "split_main getenv today parse base env st =
     (let planID = getenv ''YNAB_PLAN_ID''; accountID = getenv ''YNAB_ACCOUNT_ID'' in
      if planID = [] \<or> accountID = [] then ((Exit1, []), st)
      else
        let plan = Client_Plan (New parse base (env_do env) (getenv ''YNAB_TOKEN'') []) planID;
            amount = UnitsToMilliunits (- 100)
        in case SplitEven amount 3 of
             Inl _ \<Rightarrow> ((Panic, []), st)
           | Inr legs \<Rightarrow>
               (case Transactions_Create env plan (split_spec accountID today amount legs) st of
                  (Inl e, st') \<Rightarrow> ((Exit1, []), st')
                | (Inr (None, _), st') \<Rightarrow> ((Panic, []), st')
                | (Inr (Some tx, _), st') \<Rightarrow> ((Ended, split_report tx), st')))"

section \<open>testing-with-mock\<close>

text \<open>
  The handler answers every request with the same bytes and the default status 200. The listener is
  the parameter \<open>serve\<close>: the HTTP client that reaches the handler it is given, at \<open>url\<close>.
\<close>

definition tabs :: string where "tabs = [CHR 0x0A, CHR 0x09, CHR 0x09, CHR 0x09]"

definition mock_body :: string where
  "mock_body = ''{\"data\":{\"accounts\":['' @ tabs
     @ ''{\"name\":\"Checking\",\"balance\":128422,\"balance_formatted\":\"$128.42\"},'' @ tabs
     @ ''{\"name\":\"Savings\",\"balance\":900000,\"balance_formatted\":\"$900.00\"}'' @ butlast tabs
     @ ''],\"server_knowledge\":42}}''"

definition mock_handler :: "request \<Rightarrow> response" where
  "mock_handler _ = \<lparr>rp_status = 200, rp_header = [], rp_body = mock_body, rp_failure = None\<rparr>"

definition mock_line :: "Account \<Rightarrow> string" where
  "mock_line a = pad_right 10 (ab_Name a) @ '' '' @ ac_BalanceFormatted a @ '' ('' @ dec_int (sint (ab_Balance a))
     @ '' milliunits)'' @ newline"

definition mock_run ::
  "((request \<Rightarrow> response) \<Rightarrow> 'w http_client) \<Rightarrow> string \<Rightarrow> (string \<Rightarrow> URL option) \<Rightarrow> URL \<Rightarrow> 'w env \<Rightarrow> 'w state \<Rightarrow>
   (gerr option \<times> string) \<times> 'w state"
where
  "mock_run serve url parse base env st =
     (let client = New parse base (serve mock_handler) ''test-token'' [WithBaseURL url] in
      case Accounts_List env (Client_Plan client ''plan-id'') [] st of
        (Inl e, st') \<Rightarrow> ((Some e, []), st')
      | (Inr (accounts, sk), st') \<Rightarrow>
          ((None, ''server_knowledge='' @ dec_int (sint sk) @ newline
              @ concat (map mock_line (elements accounts))), st'))"

definition mock_main ::
  "((request \<Rightarrow> response) \<Rightarrow> 'w http_client) \<Rightarrow> string \<Rightarrow> (string \<Rightarrow> URL option) \<Rightarrow> URL \<Rightarrow> 'w env \<Rightarrow> 'w state \<Rightarrow>
   (ending \<times> string) \<times> 'w state"
where
  "mock_main serve url parse base env st = (case mock_run serve url parse base env st of
     ((None, out), st') \<Rightarrow> ((Ended, out), st')
   | ((Some e, out), st') \<Rightarrow> ((Exit1, out), st'))"


section \<open>Properties\<close>

definition mock_json :: json where
  "mock_json = JObj [(''data'', JObj [(''accounts'', JArr
     [JObj [(''name'', JStr ''Checking''), (''balance'', JNum ''128422''), (''balance_formatted'', JStr ''$128.42'')],
      JObj [(''name'', JStr ''Savings''), (''balance'', JNum ''900000''), (''balance_formatted'', JStr ''$900.00'')]]),
     (''server_knowledge'', JNum ''42'')])]"

definition mock_accounts :: "Account list" where
  "mock_accounts =
     [zero_Account\<lparr>ab_Name := ''Checking'', ab_Balance := 128422, ac_BalanceFormatted := ''$128.42''\<rparr>,
      zero_Account\<lparr>ab_Name := ''Savings'', ab_Balance := 900000, ac_BalanceFormatted := ''$900.00''\<rparr>]"

lemma mock_decodes:
  "decodeData (None, 0) (with_knowledge ''accounts'' (decode_records zero_Account (Account_fields env))) (Some mock_json) =
     Inr (Some mock_accounts, 42)"
proof -
  have k: "fold_key ''accounts'' = ''accounts''" "json_int 42 = JNum ''42''" by code_simp+
  have key: "fold_key ''name'' = ''name''" "fold_key ''balance'' = ''balance''" "fold_key ''balance_formatted'' = ''balance_formatted''"
    by code_simp+
  have n: "ParseInt ''128422'' = Inr 128422" "ParseInt ''900000'' = Inr 900000" by code_simp+
  show ?thesis unfolding mock_json_def k(2) [symmetric]
    by (rule decodeData_with_knowledge [OF k(1)])
      (simp_all add: decode_slice_def decode_struct_def decode_member_def Account_fields_def AccountBase_fields_def field_def
        key decode_string_def decode_int64_def n mock_accounts_def)
qed

text \<open>
  the output the mock example is pinned to. Behind a listener that hands every request to the
  handler, the program prints the server knowledge and the two accounts, aligned, with their
  formatted and exact balances, and ends without an error.
\<close>

theorem mock_example_output:
  assumes "\<And>h d req w. serve h d req w = (Inr (h req), w)"
    and "parse url = Some u" and "u_Scheme u = ''http''" "u_Host u \<noteq> []" "\<not> u_has_User u" "u_RawQuery u = []" "u_Fragment u = []"
    and "\<And>verb u. env_new_request env verb u = None"
    and "env_json_value env mock_body = Some mock_json"
  shows "fst (mock_main serve url parse base env st) =
    (Ended, ''server_knowledge=42'' @ newline @ ''Checking   $128.42 (128422 milliunits)'' @ newline
       @ ''Savings    $900.00 (900000 milliunits)'' @ newline)"
proof -
  let ?c = "New parse base (serve mock_handler) ''test-token'' [WithBaseURL url]"
  have c: "cl_configErr ?c = None" "cl_limiter ?c = None" "cl_tokenSource ?c = staticToken ''test-token''"
    "cl_httpClient ?c = serve mock_handler"
    using assms(2-7) by (simp_all add: New_def newClient_def apply_option_def apply_BaseURL_def Let_def)
  have len: "length mock_body < 134217728" by (simp add: mock_body_def tabs_def)
  have path: "\<not> empty_segment (JoinPath [''plans'', ''plan-id'', ''accounts''])" by code_simp
  have "fst (Accounts_List env (Client_Plan ?c ''plan-id'') [] st) = Inr (Some mock_accounts, 42)"
    unfolding Accounts_List_def Client_Plan_def Plan.simps
    by (rule answered_at_once [where rp = "mock_handler undefined" and v = mock_json and t = "''test-token''"])
      (use c len path assms(1,8,9) mock_decodes in \<open>simp_all add: mock_handler_def applyListOptions_def Plan_path_def\<close>)
  then obtain st' where x: "Accounts_List env (Client_Plan ?c ''plan-id'') [] st = (Inr (Some mock_accounts, 42), st')"
    by (metis prod.collapse)
  have out: "''server_knowledge='' @ dec_int (sint (42 :: 64 word)) @ newline @ concat (map mock_line mock_accounts) =
      ''server_knowledge=42'' @ newline @ ''Checking   $128.42 (128422 milliunits)'' @ newline
        @ ''Savings    $900.00 (900000 milliunits)'' @ newline"
    by code_simp
  show ?thesis
    using out by (simp add: mock_main_def mock_run_def Let_def x elements_def)
qed

theorem mock_example_output_witness:
  "fst (mock_main (\<lambda>h _ req w. (Inr (h req), w)) ''http://127.0.0.1:8080''
      (\<lambda>raw. Some (example_url\<lparr>u_String := raw, u_Scheme := ''http''\<rparr>)) example_url (answering mock_json) (scripted 200)) =
    (Ended, ''server_knowledge=42'' @ newline @ ''Checking   $128.42 (128422 milliunits)'' @ newline
       @ ''Savings    $900.00 (900000 milliunits)'' @ newline)"
  by (rule mock_example_output [where u = "example_url\<lparr>u_String := ''http://127.0.0.1:8080'', u_Scheme := ''http''\<rparr>"])
    (simp_all add: example_url_def answering_def script_env_def)

text \<open>
  the split example sends what it promises. Its three legs are -33.334, -33.333 and -33.333 (its
  comment says -33.34, -33.33 and -33.33), they sum to the amount, the check accepts the transaction
  for every account and day, and the program crashes only on a success without a transaction.
\<close>

theorem split_example_exact:
  "SplitEven (UnitsToMilliunits (- 100)) 3 = Inr [- 33334, - 33333, - 33333] \<and>
   map Milliunits_String [- 33334, - 33333, - 33333] = [''-33.334'', ''-33.333'', ''-33.333''] \<and>
   sum_list [- 33334, - 33333, - 33333] = UnitsToMilliunits (- 100) \<and>
   TransactionSpec_validate op (split_spec acct today (UnitsToMilliunits (- 100)) [- 33334, - 33333, - 33333]) = None \<and>
   (fst (fst (split_main getenv today parse base env st)) = Panic \<longleftrightarrow>
      getenv ''YNAB_PLAN_ID'' \<noteq> [] \<and> getenv ''YNAB_ACCOUNT_ID'' \<noteq> [] \<and>
      (\<exists>k. fst (Transactions_Create env
         (Client_Plan (New parse base (env_do env) (getenv ''YNAB_TOKEN'') []) (getenv ''YNAB_PLAN_ID''))
         (split_spec (getenv ''YNAB_ACCOUNT_ID'') today (UnitsToMilliunits (- 100)) [- 33334, - 33333, - 33333]) st) =
         Inr (None, k)))"
proof (intro conjI)
  show s: "SplitEven (UnitsToMilliunits (- 100)) 3 = Inr [- 33334, - 33333, - 33333]" by code_simp
  show "map Milliunits_String [- 33334, - 33333, - 33333] = [''-33.334'', ''-33.333'', ''-33.333'']" by code_simp
  show "sum_list [- 33334, - 33333, - 33333] = UnitsToMilliunits (- 100)" by code_simp
  have r: "RuneCount ''Example Store'' \<le> 200" "RuneCount (''leg '' @ dec_nat (Suc 0)) \<le> 500"
    "RuneCount (''leg '' @ dec_nat (Suc (Suc 0))) \<le> 500" "RuneCount (''leg '' @ dec_nat (Suc (Suc (Suc 0)))) \<le> 500"
    by code_simp+
  have total: "sum_list [- 33334, - 33333, - 33333] = UnitsToMilliunits (- 100)" by code_simp
  show "TransactionSpec_validate op (split_spec acct today (UnitsToMilliunits (- 100)) [- 33334, - 33333, - 33333]) = None"
    using r total by (simp add: validate_iff elements_def split_spec_def split_leg_def spec_bounds_def leg_ok_def opt_max_def
        unset_def Set_Optional_def)
  show "fst (fst (split_main getenv today parse base env st)) = Panic \<longleftrightarrow>
      getenv ''YNAB_PLAN_ID'' \<noteq> [] \<and> getenv ''YNAB_ACCOUNT_ID'' \<noteq> [] \<and>
      (\<exists>k. fst (Transactions_Create env
         (Client_Plan (New parse base (env_do env) (getenv ''YNAB_TOKEN'') []) (getenv ''YNAB_PLAN_ID''))
         (split_spec (getenv ''YNAB_ACCOUNT_ID'') today (UnitsToMilliunits (- 100)) [- 33334, - 33333, - 33333]) st) =
         Inr (None, k))"
    by (simp add: split_main_def s Let_def split: sum.split prod.split option.split)
qed

end
