(* ===== verification/Float_Units.thy ===== *)
theory Float_Units
  imports Milliunits Backoff
begin

text \<open>
  \<open>Milliunits.Units\<close>: an amount as a \<open>float64\<close> in currency units. Every value it returns is a multiple
  of \<open>2^(-62)\<close>, so the float is modelled exactly as that integer multiple; the conversion of the
  \<open>int64\<close> and the division by 1000 each round to 53 significant bits, to the nearest, ties to even.
\<close>

section \<open>Rounding\<close>

definition round_div :: "nat \<Rightarrow> nat \<Rightarrow> nat" where
  "round_div a d = (let q = a div d; r = a mod d in if d < 2 * r \<or> 2 * r = d \<and> odd q then q + 1 else q)"

text \<open>The quotient of two naturals to 53 significant bits, for a quotient of at least 53 bits before the point.\<close>

definition fquot :: "nat \<Rightarrow> nat \<Rightarrow> nat" where
  "fquot a b = (let e = bit_len (a div b) - 53 in round_div a (b * 2 ^ e) * 2 ^ e)"

definition Milliunits_Units :: "Milliunits \<Rightarrow> int" where
  "Milliunits_Units m =
     (let f = round53 (nat \<bar>sint m\<bar>); u = (if f = 0 then 0 else fquot (f * 2 ^ 62) 1000)
      in if sint m < 0 then - int u else int u)"

lemma round_div_near:
  assumes "0 < d"
  shows "2 * (round_div a d * d) \<le> 2 * a + d" and "2 * a \<le> 2 * (round_div a d * d) + d"
proof -
  define q r p where "q = a div d" and "r = a mod d" and "p = q * d"
  have "a = p + r" "r < d" using assms by (simp_all add: q_def r_def p_def)
  moreover have "round_div a d * d = (if d < 2 * r \<or> 2 * r = d \<and> odd q then p + d else p)"
    by (simp add: round_div_def Let_def q_def r_def p_def)
  ultimately show "2 * (round_div a d * d) \<le> 2 * a + d" "2 * a \<le> 2 * (round_div a d * d) + d"
    by (simp_all split: if_splits)
qed

lemma round_div_lower: "0 < d \<Longrightarrow> k * d \<le> a \<Longrightarrow> k \<le> round_div a d"
  using div_le_mono [of "k * d" a d] by (auto simp: round_div_def Let_def)

lemma round_div_upper:
  assumes "0 < d" and "a \<le> k * d"
  shows "round_div a d \<le> k"
proof (cases "a div d < k")
  case True
  then show ?thesis by (auto simp: round_div_def Let_def)
next
  case False
  then have "k * d \<le> a div d * d" by simp
  then have "a = k * d" using assms(2) div_times_less_eq_dividend [of a d] by linarith
  then show ?thesis using assms(1) by (simp add: round_div_def)
qed

lemma round_div_mono:
  assumes "0 < d" and "a \<le> b"
  shows "round_div a d \<le> round_div b d"
proof (cases "a div d = b div d")
  case True
  then have "a mod d \<le> b mod d" using assms by (metis add_le_cancel_left div_mult_mod_eq)
  with True show ?thesis by (auto simp: round_div_def Let_def)
next
  case False
  then have "a div d + 1 \<le> b div d" using div_le_mono [OF assms(2), of d] by simp
  then show ?thesis by (auto simp: round_div_def Let_def)
qed

lemma bit_len_0 [simp]: "bit_len 0 = 0"
  by (simp add: bit_len.simps)

lemma bit_len_mono: "a \<le> b \<Longrightarrow> bit_len a \<le> bit_len b"
proof (induction b arbitrary: a rule: bit_len.induct)
  case (1 b)
  then show ?case
    using div_le_mono [of a b 2] by (cases "a = 0") (simp_all add: bit_len.simps [of a] bit_len.simps [of b])
qed

text \<open>The quotient lies in its binade, whose upper end it may reach.\<close>

lemma fquot_binade:
  assumes "0 < b" and "2 ^ 53 \<le> a div b"
  shows "2 ^ (bit_len (a div b) - 1) \<le> fquot a b" and "fquot a b \<le> 2 ^ bit_len (a div b)"
    and "53 < bit_len (a div b)"
proof -
  let ?L = "bit_len (a div b)"
  have n: "a div b \<noteq> 0" using assms(2) by auto
  note l = bit_len_bounds [OF n]
  show L: "53 < ?L"
  proof (rule ccontr)
    assume "\<not> 53 < ?L"
    then have "(2::nat) ^ ?L \<le> 2 ^ 53" by (intro power_increasing) simp_all
    with l assms(2) show False by linarith
  qed
  let ?e = "?L - 53"
  have p: "(2::nat) ^ (?L - 1) = 2 ^ 52 * 2 ^ ?e" "(2::nat) ^ ?L = 2 ^ 53 * 2 ^ ?e"
    unfolding power_add [symmetric] using L by (intro arg_cong [where f = "power 2"]; simp)+
  have "2 ^ (?L - 1) * b \<le> a div b * b" using l by (intro mult_right_mono) simp_all
  also have "\<dots> \<le> a" by simp
  finally have "2 ^ 52 * (b * 2 ^ ?e) \<le> a" by (simp only: p ac_simps)
  from round_div_lower [OF _ this] assms(1) show "2 ^ (?L - 1) \<le> fquot a b"
    unfolding fquot_def Let_def p by simp
  have "a < (a div b + 1) * b" using assms(1) by (simp add: dividend_less_div_times)
  also have "\<dots> \<le> 2 ^ ?L * b" using l by (intro mult_right_mono) simp_all
  finally have "a \<le> 2 ^ 53 * (b * 2 ^ ?e)" by (simp only: p ac_simps)
  from round_div_upper [OF _ this] assms(1) show "fquot a b \<le> 2 ^ ?L"
    unfolding fquot_def Let_def p by simp
qed

lemma fquot_mono:
  assumes "0 < d" and "a \<le> b"
  shows "fquot a d \<le> fquot b d"
proof -
  let ?l = "\<lambda>x. bit_len (x div d)"
  have "?l a \<le> ?l b" using assms by (intro bit_len_mono div_le_mono)
  then consider "?l a - 53 = ?l b - 53" | "53 < ?l b" "?l a < ?l b" by linarith
  then show ?thesis
  proof cases
    case 1
    then show ?thesis using assms round_div_mono [of "d * 2 ^ (?l b - 53)" a b] by (simp add: fquot_def Let_def)
  next
    case 2
    have nz: "b div d \<noteq> 0" using 2(1) by (cases "b div d = 0") simp_all
    have "2 ^ 53 \<le> b div d"
      using bit_len_bounds [OF nz] 2(1) power_increasing [of 53 "?l b - 1" "2 :: nat"] by linarith
    from fquot_binade(1) [OF assms(1) this] have hi: "2 ^ (?l b - 1) \<le> fquot b d" .
    have "fquot a d \<le> 2 ^ max 53 (?l a)"
    proof (cases "2 ^ 53 \<le> a div d")
      case True
      from fquot_binade(2) [OF assms(1) this] fquot_binade(3) [OF assms(1) this] show ?thesis by simp
    next
      case False
      have "?l a - 53 = 0"
      proof (rule ccontr)
        assume l: "?l a - 53 \<noteq> 0"
        then have "a div d \<noteq> 0" by (cases "a div d = 0") simp_all
        from bit_len_bounds [OF this] False l power_increasing [of 53 "?l a - 1" "2 :: nat"] show False by linarith
      qed
      moreover have "a \<le> 2 ^ 53 * d" using False assms(1) by (metis less_imp_le_nat not_le div_less_iff_less_mult)
      ultimately show ?thesis using round_div_upper [of d a "2 ^ 53"] assms(1)
        by (simp add: fquot_def)
    qed
    also have "\<dots> \<le> 2 ^ (?l b - 1)" using 2 by (intro power_increasing) auto
    finally show ?thesis using hi by linarith
  qed
qed

text \<open>Off by at most one part in \<open>2^53\<close>.\<close>

lemma fquot_near:
  assumes "0 < b" and "2 ^ 52 \<le> a div b"
  shows "2 ^ 53 * (fquot a b * b) \<le> 2 ^ 53 * a + a" and "2 ^ 53 * a \<le> 2 ^ 53 * (fquot a b * b) + a"
proof -
  let ?L = "bit_len (a div b)"
  define d where "d = b * 2 ^ (?L - 53)"
  have n: "a div b \<noteq> 0" using assms(2) by auto
  note l = bit_len_bounds [OF n]
  have L: "53 \<le> ?L"
  proof (rule ccontr)
    assume "\<not> 53 \<le> ?L"
    then have "(2::nat) ^ ?L \<le> 2 ^ 52" by (intro power_increasing) simp_all
    with l assms(2) show False by linarith
  qed
  have p: "(2::nat) ^ (?L - 1) = 2 ^ 52 * 2 ^ (?L - 53)"
    unfolding power_add [symmetric] using L by (intro arg_cong [where f = "power 2"]) simp
  have "2 ^ (?L - 1) * b \<le> a div b * b" using l by (intro mult_right_mono) simp_all
  also have "\<dots> \<le> a" by simp
  finally have d: "2 ^ 52 * d \<le> a" unfolding d_def by (simp only: p ac_simps)
  have "fquot a b * b = round_div a d * d" by (simp add: fquot_def Let_def d_def)
  moreover have "0 < d" using assms(1) by (simp add: d_def)
  ultimately show "2 ^ 53 * (fquot a b * b) \<le> 2 ^ 53 * a + a" "2 ^ 53 * a \<le> 2 ^ 53 * (fquot a b * b) + a"
    using round_div_near [of d a] d by simp_all
qed

lemma round53_fquot: "round53 x = fquot x 1"
proof (cases "x < 2 ^ 53")
  case True
  then have "bit_len x - 53 = 0"
    using bit_len_bounds [of x] power_increasing [of 53 "bit_len x - 1" "2 :: nat"]
    by (cases "x = 0") (simp, rule ccontr, linarith)
  with True show ?thesis by (simp add: round53_small fquot_def round_div_def)
next
  case False
  define h where "h = (2::nat) ^ (bit_len x - 53 - 1)"
  have "2 ^ (bit_len x - 53) = 2 * h"
    using round53_near(1) [OF False] unfolding h_def by (cases "bit_len x - 53") simp_all
  with False show ?thesis by (simp add: round53_def fquot_def round_div_def Let_def h_def)
qed

section \<open>Properties\<close>

text \<open>The magnitude of the float: rounded twice, monotone, and off by two parts in \<open>2^53\<close>.\<close>

definition units_mag :: "nat \<Rightarrow> nat" where
  "units_mag n = (let f = round53 n in if f = 0 then 0 else fquot (f * 2 ^ 62) 1000)"

lemma Milliunits_Units_mag:
  "Milliunits_Units m = (if sint m < 0 then - int (units_mag (nat \<bar>sint m\<bar>)) else int (units_mag (nat \<bar>sint m\<bar>)))"
  by (simp add: Milliunits_Units_def units_mag_def Let_def)

lemma units_mag_mono: "a \<le> b \<Longrightarrow> units_mag a \<le> units_mag b"
proof -
  assume "a \<le> b"
  then have "round53 a \<le> round53 b" unfolding round53_fquot by (intro fquot_mono) simp_all
  then show ?thesis by (auto simp: units_mag_def Let_def intro!: fquot_mono)
qed

lemma units_mag_near:
  assumes "n < 2 ^ 53"
  shows "2 ^ 53 * (units_mag n * 1000) \<le> (2 ^ 53 + 1) * (n * 2 ^ 62)"
    and "(2 ^ 53 - 1) * (n * 2 ^ 62) \<le> 2 ^ 53 * (units_mag n * 1000)"
proof -
  have f: "round53 n = n" using assms by (rule round53_small)
  have "2 ^ 52 \<le> n * 2 ^ 62 div 1000" if "n \<noteq> 0"
  proof -
    have "2 ^ 62 \<le> n * 2 ^ 62" using that by (cases n) simp_all
    from div_le_mono [OF this, of 1000] show ?thesis by simp
  qed
  from fquot_near [OF _ this] show "2 ^ 53 * (units_mag n * 1000) \<le> (2 ^ 53 + 1) * (n * 2 ^ 62)"
    "(2 ^ 53 - 1) * (n * 2 ^ 62) \<le> 2 ^ 53 * (units_mag n * 1000)"
    unfolding units_mag_def f Let_def by (cases "n = 0"; simp)+
qed

lemma nearest: "k * 2 ^ 63 \<le> x \<Longrightarrow> x < k * 2 ^ 63 + 2 ^ 63 \<Longrightarrow> x div 2 ^ 63 = (k :: int)"
  by (rule int_div_pos_eq [where r = "x - k * 2 ^ 63"]) simp_all

text \<open>
  What the float of an amount is good for. It orders amounts as they are, it is off by at most one
  part in \<open>2^53\<close> while the amount is below \<open>2^53\<close> milliunits, and below \<open>2^52\<close> the nearest milliunit
  gives the amount back; from \<open>2^53\<close> on different amounts share a float.
\<close>

theorem Units_display_only:
  assumes "sint m \<le> sint n" and "\<bar>sint n\<bar> < 2 ^ 52"
  shows "Milliunits_Units m \<le> Milliunits_Units n \<and>
    2 ^ 53 * \<bar>Milliunits_Units n * 1000 - sint n * 2 ^ 62\<bar> \<le> \<bar>sint n\<bar> * 2 ^ 62 \<and>
    (2 * (Milliunits_Units n * 1000) + 2 ^ 62) div 2 ^ 63 = sint n \<and>
    Milliunits_Units (push_bit 53 1) = Milliunits_Units (push_bit 53 1 + 1)"
proof (intro conjI)
  let ?n = "nat \<bar>sint n\<bar>"
  show "Milliunits_Units m \<le> Milliunits_Units n"
    using assms(1) units_mag_mono [of "nat \<bar>sint m\<bar>" ?n] units_mag_mono [of ?n "nat \<bar>sint m\<bar>"]
    by (auto simp: Milliunits_Units_mag)
  have "2 ^ 53 * (int (units_mag ?n) * 1000) \<le> (2 ^ 53 + 1) * (\<bar>sint n\<bar> * 2 ^ 62)"
    "(2 ^ 53 - 1) * (\<bar>sint n\<bar> * 2 ^ 62) \<le> 2 ^ 53 * (int (units_mag ?n) * 1000)"
  proof -
    have "?n < 2 ^ 53" using assms(2) by simp
    note near = units_mag_near [OF this]
    show "2 ^ 53 * (int (units_mag ?n) * 1000) \<le> (2 ^ 53 + 1) * (\<bar>sint n\<bar> * 2 ^ 62)"
      "(2 ^ 53 - 1) * (\<bar>sint n\<bar> * 2 ^ 62) \<le> 2 ^ 53 * (int (units_mag ?n) * 1000)"
      using zle_int [THEN iffD2, OF near(1)] zle_int [THEN iffD2, OF near(2)] by simp_all
  qed
  then show e: "2 ^ 53 * \<bar>Milliunits_Units n * 1000 - sint n * 2 ^ 62\<bar> \<le> \<bar>sint n\<bar> * 2 ^ 62"
    by (cases "sint n < 0") (simp_all add: Milliunits_Units_mag abs_if)
  have "2 * \<bar>Milliunits_Units n * 1000 - sint n * 2 ^ 62\<bar> < 2 ^ 62" using e assms(2) by simp
  then have x: "sint n * 2 ^ 63 \<le> 2 * (Milliunits_Units n * 1000) + 2 ^ 62"
    "2 * (Milliunits_Units n * 1000) + 2 ^ 62 < sint n * 2 ^ 63 + 2 ^ 63"
    by (simp_all add: abs_less_iff)
  show "(2 * (Milliunits_Units n * 1000) + 2 ^ 62) div 2 ^ 63 = sint n" by (rule nearest) (rule x)+
  show "Milliunits_Units (push_bit 53 1) = Milliunits_Units (push_bit 53 1 + 1)"
  proof -
    have "sint (push_bit 53 1 :: i64) = 9007199254740992" "sint (push_bit 53 1 + 1 :: i64) = 9007199254740993"
      by (simp_all add: push_bit_eq_mult)
    moreover have "round53 9007199254740993 = round53 9007199254740992"
      by (simp add: round53_def bit_len.simps [of "numeral _"] bit_len.simps [of "Suc 0"] Let_def)
    ultimately show ?thesis by (simp add: Milliunits_Units_mag units_mag_def)
  qed
qed

theorem Units_display_only_witness:
  "Milliunits_Units (- 220) \<le> Milliunits_Units 123930 \<and>
   (2 * (Milliunits_Units 123930 * 1000) + 2 ^ 62) div 2 ^ 63 = 123930"
proof -
  have "sint (- 220 :: i64) = - 220" "sint (123930 :: i64) = 123930" by code_simp+
  with Units_display_only [of "- 220" 123930] show ?thesis by simp
qed

end
