(* ===== verification/Clock.thy ===== *)
theory Clock
  imports Plan_Months
begin

text \<open>
  What \<open>date.go\<close> and \<open>month.go\<close> do with an instant in a time zone: \<open>Today\<close>, \<open>DateOf\<close> and \<open>MonthOf\<close> of a
  local time, and \<open>Date.In\<close>. An instant is its number of seconds since 0001-01-01 00:00 UTC. A location
  is what \<open>Location.lookup\<close> answers for an instant: the offset in force in seconds east of UTC and the
  period it is in force in, from its start (nothing for the beginning of time) to its end.
\<close>

section \<open>Time zones\<close>

record period =
  pe_offset :: int
  pe_start :: "int option"
  pe_end :: "int option"

type_synonym location = "int \<Rightarrow> period"

definition UTC :: location where
  "UTC _ = \<lparr>pe_offset = 0, pe_start = None, pe_end = None\<rparr>"

definition in_period :: "period \<Rightarrow> int \<Rightarrow> bool" where
  "in_period p t \<longleftrightarrow> (case pe_start p of None \<Rightarrow> True | Some a \<Rightarrow> a \<le> t) \<and> (case pe_end p of None \<Rightarrow> True | Some b \<Rightarrow> t < b)"

text \<open>A zone file: the offset before the first transition, and each transition with the offset it brings.\<close>

fun zone_from :: "int option \<Rightarrow> int \<Rightarrow> (int \<times> int) list \<Rightarrow> location" where
  "zone_from start offset [] t = \<lparr>pe_offset = offset, pe_start = start, pe_end = None\<rparr>"
| "zone_from start offset ((w, offset') # ts) t =
     (if t < w then \<lparr>pe_offset = offset, pe_start = start, pe_end = Some w\<rparr>
      else zone_from (Some w) offset' ts t)"

text \<open>
  \<open>time.Date\<close> at midnight of day \<open>n\<close> in a location: the instant is first read as UTC to find an offset,
  and when the instant this offset gives is not in its period, the offset there is taken instead.
\<close>

definition time_Date_in :: "location \<Rightarrow> int \<Rightarrow> int" where
  "time_Date_in loc n =
     (let unix = 86400 * n; p = loc unix in
      if pe_offset p = 0 then unix
      else let utc = unix - pe_offset p in
        if in_period p utc then utc else unix - pe_offset (loc utc))"

text \<open>\<open>Time.Date\<close> of a local time: the day its wall clock shows.\<close>

definition local_seconds :: "location \<Rightarrow> int \<Rightarrow> int" where
  "local_seconds loc t = t + pe_offset (loc t)"

definition local_day :: "location \<Rightarrow> int \<Rightarrow> int" where
  "local_day loc t = local_seconds loc t div 86400"

section \<open>The operations\<close>

definition DateOf_in :: "location \<Rightarrow> int \<Rightarrow> Date" where
  "DateOf_in loc t = DateOf (local_day loc t)"

definition MonthOf_in :: "location \<Rightarrow> int \<Rightarrow> Month" where
  "MonthOf_in loc t = MonthOf (local_day loc t)"

definition Today :: "location \<Rightarrow> int \<Rightarrow> Date" where
  "Today local now = DateOf_in local now"

definition Date_In :: "Date \<Rightarrow> location \<Rightarrow> int" where
  "Date_In d loc = time_Date_in loc (Date_Time d)"

section \<open>Properties\<close>

lemma time_Date_UTC [simp]: "time_Date_in UTC n = 86400 * n" "local_day UTC t = t div 86400"
  by (simp_all add: time_Date_in_def UTC_def local_day_def local_seconds_def)

text \<open>Where the offset is settled, \<open>time.Date\<close> finds it at the first or the second look.\<close>

lemma time_Date_settled:
  assumes "\<And>t. \<bar>t - 86400 * n\<bar> \<le> 86400 \<Longrightarrow> pe_offset (loc t) = k" and "\<bar>k\<bar> \<le> 86400"
  shows "time_Date_in loc n = 86400 * n - k"
  using assms(1) [of "86400 * n"] assms(1) [of "86400 * n - k"] assms(2)
  by (simp add: time_Date_in_def Let_def)

lemma day_window: "(t + k) div 86400 = n \<longleftrightarrow> 86400 * n - k \<le> t \<and> t < 86400 * n - k + (86400 :: int)"
  using div_mult_mod_eq [of "t + k" 86400] pos_mod_bound [of 86400 "t + k"] pos_mod_sign [of 86400 "t + k"]
    int_div_pos_eq [of "t + k" 86400 n "t + k - 86400 * n"] by (simp, linarith)

lemma day_near:
  assumes "\<bar>k\<bar> \<le> (86400 :: int)"
  shows "\<bar>(t + k) div 86400 - t div 86400\<bar> \<le> 1"
proof -
  have "(t - 86400) div 86400 \<le> (t + k) div 86400" "(t + k) div 86400 \<le> (t + 86400) div 86400"
    using assms by (intro zdiv_mono1; simp)+
  moreover have "(t + 86400) div 86400 = t div 86400 + 1" "(t - 86400) div 86400 = t div 86400 - 1" by simp_all
  ultimately show ?thesis by linarith
qed

definition sao_paulo :: location where
  "sao_paulo = zone_from None (- 10800) [(86400 * day_number 2018 11 4 + 10800, - 7200),
     (86400 * day_number 2019 2 17 + 7200, - 10800)]"

text \<open>
  C32: the clock and a date. Around a day through which its zone keeps one offset, \<open>In\<close> is midnight and
  the local day is that date exactly for the 24 hours from there; an offset of at most a day puts
  \<open>Today\<close> at most one day from the UTC calendar; in UTC \<open>In\<close> is \<open>Time\<close>. Where the clocks go forward at
  midnight, as in Sao Paulo on 2018-11-04, \<open>In\<close> is 23:00 of the day before.
\<close>

theorem In_midnight:
  assumes "real_date d"
    and "\<And>t. \<bar>t - 86400 * Date_Time d\<bar> \<le> 172800 \<Longrightarrow> pe_offset (loc t) = k" and "\<bar>k\<bar> \<le> 86400"
    and "\<bar>now - 86400 * Date_Time d\<bar> \<le> 172800"
  shows "local_seconds loc (Date_In d loc) = 86400 * Date_Time d \<and>
    (Today loc now = d \<longleftrightarrow> Date_In d loc \<le> now \<and> now < Date_In d loc + 86400) \<and>
    MonthOf_in loc (Date_In d loc) = MonthOf (Date_Time d) \<and>
    \<bar>Date_Time (Today loc now) - Date_Time (Today UTC now)\<bar> \<le> 1 \<and>
    Date_In d UTC = 86400 * Date_Time d \<and>
    DateOf_in sao_paulo (Date_In \<lparr>d_year = 2018, d_month = 11, d_day = 4\<rparr> sao_paulo) = \<lparr>d_year = 2018, d_month = 11, d_day = 3\<rparr>"
proof (intro conjI)
  have i: "Date_In d loc = 86400 * Date_Time d - k"
    unfolding Date_In_def by (rule time_Date_settled) (use assms(2,3) in simp_all)
  have o: "pe_offset (loc (Date_In d loc)) = k" "pe_offset (loc now) = k"
    using assms(2) [of "Date_In d loc"] assms(2) [of now] assms(3,4) i by simp_all
  show l: "local_seconds loc (Date_In d loc) = 86400 * Date_Time d"
    using i o by (simp add: local_seconds_def)
  have "Today loc now = d \<longleftrightarrow> (now + k) div 86400 = Date_Time d"
    using o DateOf_inj [of "(now + k) div 86400" "Date_Time d"] assms(1)
    by (simp add: Today_def DateOf_in_def local_day_def local_seconds_def)
  then show "Today loc now = d \<longleftrightarrow> Date_In d loc \<le> now \<and> now < Date_In d loc + 86400"
    by (simp add: day_window i)
  show "MonthOf_in loc (Date_In d loc) = MonthOf (Date_Time d)" by (simp add: MonthOf_in_def local_day_def l)
  show "\<bar>Date_Time (Today loc now) - Date_Time (Today UTC now)\<bar> \<le> 1"
    using o day_near [OF assms(3)] by (simp add: Today_def DateOf_in_def local_day_def [of loc] local_seconds_def)
  show "Date_In d UTC = 86400 * Date_Time d" by (simp add: Date_In_def)
  show "DateOf_in sao_paulo (Date_In \<lparr>d_year = 2018, d_month = 11, d_day = 4\<rparr> sao_paulo) = \<lparr>d_year = 2018, d_month = 11, d_day = 3\<rparr>"
    by code_simp
qed

theorem In_midnight_witness:
  "Date_In \<lparr>d_year = 2018, d_month = 10, d_day = 9\<rparr> sao_paulo = 86400 * day_number 2018 10 9 + 10800 \<and>
   Today sao_paulo (86400 * day_number 2018 10 9 + 10799) \<noteq> \<lparr>d_year = 2018, d_month = 10, d_day = 9\<rparr>"
proof -
  let ?d = "\<lparr>d_year = 2018, d_month = 10, d_day = 9\<rparr>"
  have r: "real_date ?d" by code_simp
  have n: "Date_Time ?d = day_number 2018 10 9" "day_number 2018 11 4 = day_number 2018 10 9 + 26" by code_simp+
  have i: "Date_In ?d sao_paulo = 86400 * day_number 2018 10 9 + 10800" by code_simp
  have o: "pe_offset (sao_paulo t) = - 10800" if "\<bar>t - 86400 * Date_Time ?d\<bar> \<le> 172800" for t
    using that by (auto simp: sao_paulo_def n abs_le_iff)
  from In_midnight [where loc = sao_paulo and k = "- 10800" and now = "86400 * day_number 2018 10 9 + 10799", OF r o] i show ?thesis by (simp add: n(1))
qed

end
