(* ===== verification/Spec2Isabelle.thy ===== *)
theory Spec2Isabelle
  imports Well_Typed Config_Errors Fake_Session Spec_Scan Schemas Examples Float_Units Clock
begin

text \<open>
  \<^bold>\<open>The YNAB API client for Go, as Isabelle definitions.\<close>

  The repository is a client library: a program configures a \<open>Client\<close>, takes a \<open>Plan\<close> handle and
  calls the operations of its services; each call becomes one HTTP exchange, retried under a policy,
  whose answer is decoded into a read model or an error. Around the library stand the gates that
  compare it with the vendored API description (\<open>internal/contract\<close>), a fake server
  (\<open>internal/ynabtest\<close>) and example programs (\<open>examples\<close>). This development models all of it, from the
  money arithmetic to the programs, and proves what makes each part correct.

  \<^bold>\<open>The parts, bottom up\<close>

  \<^item> The base. \<open>Prelude\<close>: Go's machine integers as words. \<open>Go_Strings\<close>, \<open>Go_Url\<close>: the standard
    library functions the code calls, on byte strings. \<open>Interfaces\<close>: contracts several components
    share (text codecs, JSON codecs, orders).
  \<^item> Values. \<open>Milliunits\<close> (\<open>milliunits.go\<close>): money in \<open>int64\<close> thousandths, parsing, rendering,
    splitting, formatting; \<open>Float_Units\<close>: its float. \<open>Calendar\<close>: the part of package \<open>time\<close> used by
    \<open>Dates\<close> (\<open>date.go\<close>) and \<open>Plan_Months\<close> (\<open>month.go\<close>); \<open>Clock\<close>: the operations of both that meet an
    instant in a time zone. \<open>Json\<close> (\<open>optional.go\<close>): JSON values, the literals that
    are written with escapes kept apart (dates and months are read from the raw bytes), and the tri-state
    write field.
  \<^item> Errors. \<open>Errors\<close> (\<open>errors.go\<close>): the taxonomy, matching through wrapping, \<open>IsRetryable\<close>.
  \<^item> The exchange. \<open>Backoff\<close> and \<open>Transport\<close> (\<open>internal/transport\<close>): waits, requests, one
    attempt, the retry loop. \<open>Pipeline\<close>: the state machine the loop refines. \<open>Progress\<close>: that a call
    gets through. \<open>Wire\<close>: the envelope, \<open>Do\<close>, \<open>DoRaw\<close>, the decoding of errors. \<open>Paths\<close>: escaped
    paths. \<open>Client\<close> (\<open>client.go\<close>): options, constructors, the configuration-error contract, \<open>RawDo\<close>
    and the funnel \<open>do\<close> of \<open>plan.go\<close>. \<open>Sync\<close> (\<open>sync.go\<close>): cursors and the merge of delta batches.
  \<^item> The services. \<open>Decoders\<close>: how the read models are filled. \<open>Endpoint\<close>: the contract every
    operation keeps. \<open>Accounts\<close>, \<open>Payees\<close> (with \<open>payee_locations.go\<close>), \<open>Categories\<close>, \<open>Months\<close>,
    \<open>Money_Movements\<close>, \<open>Transactions\<close>, \<open>Scheduled\<close>, \<open>Plans\<close>: the file of the same name each, its
    models, write payloads, checks and endpoints. \<open>Write_Fields\<close>, \<open>Transaction_Laws\<close>,
    \<open>Service_Laws\<close>, \<open>Well_Typed\<close> and \<open>Config_Errors\<close>: what the payloads, the checks, the full-plan
    delta, the delivered models and a misconfigured client guarantee, the last two over the datatype
    \<open>call\<close> of \<open>Conformance\<close>, which has a constructor for each method of the API.
  \<^item> The contract. \<open>Contract_Table\<close> (\<open>table.go\<close>), \<open>Conformance\<close> (the client against the table),
    \<open>Contract_Gates\<close> (\<open>diff.go\<close>, \<open>doclines.go\<close>, \<open>reads.go\<close>, \<open>writes.go\<close>, \<open>jsondiff.go\<close>),
    \<open>Spec_Scan\<close> (\<open>specscan.go\<close>), \<open>Schemas\<close> (\<open>schema.go\<close>), \<open>Fake_Server\<close> (\<open>ynabtest/server.go\<close>),
    \<open>Fake_Client\<close> (the client against the fake: what arrives of a request and who answers it),
    \<open>Fake_Session\<close> (calls whose world is the fake, retries and injected failures included).
  \<^item> The programs. \<open>Delta_Sync\<close> (\<open>examples/delta-sync\<close>): the endless loop over the full-plan delta, with
    its store and the file of its cursor. \<open>Examples\<close>: \<open>quickstart\<close>, \<open>split-transaction\<close> and
    \<open>testing-with-mock\<close>, with what they print.

  \<^bold>\<open>How state and effects are modelled\<close>

  An \<open>int64\<close> is a 64-bit word read with \<open>sint\<close>; arithmetic wraps as in Go. A struct is a record, an
  embedded struct the record it extends, a nil pointer, slice or map is \<open>None\<close>. An error is a value
  of \<open>gerr\<close>, and a Go function that returns a value and an error returns a sum. Everything the
  exchange meets outside the library (limiter, token source, HTTP client, timer, clock, random
  source, caller's context) is a function of the record \<open>env\<close> over an arbitrary world type, so a
  theorem holds for every behaviour of it; a call takes and returns a \<open>state\<close>, which holds the world
  and, for the specification only, the trace of hooks, sends and sleeps. The only other state is the
  caller's: the cursor bundle of \<open>Delta\<close>, the store of \<open>MergeByID\<close>, the pending failure of the fake
  server, the disk of the delta-sync program; it is passed and returned.
\<close>

text \<open>
  \<^bold>\<open>What is shown\<close>

  \<^item> The exchange. \<open>execute\<close> produces only runs of a small machine; along its runs the attempts are
    bounded, hooks precede sends, and a write is sent again only after a 429. Conversely a call
    outlasts any fewer transient failures than its budget. Waits lie in the documented interval. A
    non-2xx answer is an API error with its status, a 2xx answer a result only with a payload; every
    date and month in what any call delivers is one the wire form can carry.
  \<^item> The client. Every constructed client is well formed, or holds the first option failure; every
    call on it then sends nothing and returns its own argument complaint or else that failure. Every request of every endpoint, with any arguments, under any server, has
    the method, path, query parameters and body its row of the contract table allows. An id cannot
    change the route it is put in.
  \<^item> Values. Text and JSON forms of money, dates, months and cursors are strict bijections;
    date and month arithmetic is translation on a line; splitting is exact; formatting rounds half
    away from zero. A local day is 24 hours from \<open>In\<close> where its zone is settled.
  \<^item> Payloads. The checks accept exactly the documented bounds; unset, null and set fields stay
    apart on the wire; a patch has one identity; a filter encodes exactly its set fields.
  \<^item> Delta. A cursor bundle moves only on success, and all that is merged through it comes from one
    plan; merging is last writer wins, whatever the batches. The delta-sync program holds exactly what
    its own passes fetched, and no crash costs it the cursor.
  \<^item> The gates. Silence of the spec gate and of the doc-line gate is agreement; the line scanner
    reads what a description declares, given as a tree of paths, operations and parameters with
    arbitrary inert lines between them, of which \<open>openapi.yaml\<close> is one; the schema walk ends and visits
    what is reachable; the fake server answers as the table and the fixtures say, and a client pointed
    at it is answered by the operation it called; a server reads back the path and the filter a list was asked for. An error
    injected into the fake reaches the caller as it is, unless the policy repeats it.

  \<^bold>\<open>Bounds and fuel\<close>

  The retry loop recurses on the attempts left, \<open>attempts_of\<close> the policy, so it needs no fuel. The
  walk \<open>collectProps\<close> takes one unit of fuel per level of nesting and is given the number of
  schemas plus one: each level marks a new schema as seen, so the fuel never runs out
  (\<open>ScanSchemas_terminates\<close>), and more of it changes nothing (\<open>collectProps_mono\<close>). The delta-sync
  program never ends by itself: its model makes a given number of passes, and its theorems hold for
  every number. The five lines
  \<open>paramIsQuery\<close> looks ahead are the code's own bound. Every other function is structural.

  \<^bold>\<open>Parameters\<close>

  Not written in this repository, hence functions the definitions take: the text form of JSON and its
  parsing (\<open>env_json_text\<close>, \<open>env_json_value\<close>), HTTP dates and RFC 3339 times, whether a literal fits a
  \<open>float64\<close>, \<open>url.Parse\<close>, \<open>http.NewRequest\<close>'s verdict on a URL, files, a time zone's \<open>lookup\<close>, and the
  document the OpenAPI parser returns, a heap of schemas. The theorems hold for all of them, except
  where one names what it relies on: that the text of a cursor bundle parses back to it
  (\<open>crash_keeps_a_cursor\<close>), that a zone keeps one offset around a day (\<open>In_midnight\<close>), that the text of
  new transactions parses back to them (\<open>client_meets_fake\<close>), that the text of the injected envelope
  parses back to it and no answer of the fake has a \<open>Retry-After\<close> (\<open>injection_reaches_caller\<close>). To parse
  back means up to how the strings are escaped.

  \<^bold>\<open>Not modelled\<close>

  \<^item> The float companions of amounts are kept as literals. The date window of scheduled transactions
    takes the local day as an argument; it is \<open>Today\<close> of \<open>Clock\<close>.
  \<^item> \<open>Core.Rand\<close>, the jitter source tests inject; debug lines written to a logger; the texts of the gates' problems, which are constructors here.
  \<^item> Limits of memory and of the calendar: a slice of any length can be made (\<open>SplitEven\<close> with a huge
    count), and years are unbounded integers (\<open>time.Date\<close> wraps for astronomical ones).
  \<^item> Scheduling: a call is modelled as it runs, the fake server's requests as the mutex orders them.
  \<^item> A repeated array member of a JSON object is decoded afresh instead of over the old elements.
  \<^item> The order \<open>sort.Slice\<close> leaves between equal keys is the stable one.
  \<^item> The fake server's listener (it is the sequence of its requests) and the directory of the fixtures;
    of \<open>net/http\<close> the model has which statuses a handler can write and which of them carry a body
    (a \<open>HEAD\<close> request, which the client never makes, would get none);
    what \<open>delta-sync\<close> prints; log lines of the programs; \<open>doc.go\<close>, a comment.
\<close>

end
